(* ===== verification/Prelude.thy ===== *)
theory Prelude
  imports Main "HOL-Library.Monad_Syntax" "HOL-Library.Char_ord" "HOL-Library.List_Lexorder"
begin

text \<open>
  Shared vocabulary of the development: the named theorem collections the component
  theories fill, and generic facts about lists, options and sums that the component
  proofs use through \<open>simp add:\<close> and \<open>auto simp:\<close>.
\<close>

named_theorems handler_defs
  "definitions of the request handlers, unfolded when a handler is evaluated"
named_theorems py_simps
  "evaluation rules of the Python runtime model"

section \<open>Lists\<close>

text \<open>
  \<open>random.choice(seq)\<close> returns \<open>seq[k]\<close> for the draw \<open>k = _randbelow(len(seq))\<close>;
  the model takes the draw as an arbitrary natural number reduced modulo the length.
\<close>

lemma nth_mod_length_in_set [intro]:
  "xs \<noteq> [] \<Longrightarrow> xs ! (k mod length xs) \<in> set xs"
  by simp

lemma nth_mod_length_surj:
  assumes "x \<in> set xs"
  shows "\<exists>k. xs ! (k mod length xs) = x"
proof -
  from assms obtain i where i: "i < length xs" "xs ! i = x"
    by (auto simp: in_set_conv_nth)
  then have "xs ! (i mod length xs) = x" by simp
  then show ?thesis by blast
qed

lemma mod_length_draws_exact:
  "xs \<noteq> [] \<Longrightarrow> i < length xs \<Longrightarrow> card {k. k < length xs \<and> k mod length xs = i} = 1"
proof -
  assume "i < length xs"
  then have "{k. k < length xs \<and> k mod length xs = i} = {i}" by auto
  then show ?thesis by simp
qed

lemma filter_nonempty_iff: "filter P xs \<noteq> [] \<longleftrightarrow> (\<exists>x\<in>set xs. P x)"
  by (induction xs) auto

lemma mem_dropWhile: "x \<in> set xs \<Longrightarrow> \<not> P x \<Longrightarrow> x \<in> set (dropWhile P xs)"
  by (induction xs) auto

section \<open>Options\<close>

text \<open>A monadic step whose continuation always returns is a map over the first step.\<close>

lemma map_option_fst_pair: "map_option fst (map_option (\<lambda>(a, b). (a, g b)) x) = map_option fst x"
  by (cases x) auto

lemma map_option_pair_SomeD: "map_option (\<lambda>(a, b). (a, g b)) x = Some (a', c) \<Longrightarrow> \<exists>b. x = Some (a', b)"
  by (cases x) auto

lemma bind_Some_pair: "Option.bind x (\<lambda>(a, b). Some (f a b)) = map_option (\<lambda>(a, b). f a b) x"
  by (cases x) auto

end
