(* ===== verification/PyRuntime.thy ===== *)
theory PyRuntime
  imports Prelude
begin

text \<open>
  The part of the Python runtime, of Flask and of the \<open>requests\<close> library that the five
  services of \<^verbatim>\<open>src/mysql\<close> rely on: JSON values as Python sees them after
  \<open>json.load\<close> or \<open>request.json\<close>, the exceptions the services raise or catch, the
  builtins they call (truthiness, \<open>dict.get\<close>, subscripting, \<open>in\<close>, iteration,
  comprehensions, \<open>next\<close>, \<open>str.strip\<close>, \<open>str.upper\<close>, \<open>str()\<close> in f-strings), the
  HTTP responses Flask produces and \<open>requests\<close> reads, and the transport interface
  through which one service calls the next.
  Strings are \<open>char list\<close>; a \<open>char\<close> is read as a Latin-1 code point (0 to 255).
\<close>

section \<open>JSON values\<close>

text \<open>
  A decoded JSON document. Objects keep their keys in insertion order and, as Python
  dicts, have distinct keys. JSON floats do not occur in the services' messages and are
  not modelled.
\<close>

datatype json =
    JNull
  | JBool bool
  | JInt int
  | JStr string
  | JArr "json list"
  | JObj "(string \<times> json) list"

section \<open>Exceptions\<close>

text \<open>
  The exception classes that occur in the services. \<open>JSONDecodeError\<close> is
  \<open>requests.exceptions.JSONDecodeError\<close> (requests 2.27 and later), which is at once a
  \<open>ValueError\<close> and a \<open>RequestException\<close>; \<open>ConnectionError\<close> is the builtin one
  raised by \<open>get_db_connection\<close>; \<open>StopIteration\<close> and \<open>IndexError\<close> occur
  in the parsing of ping's output.
\<close>

datatype py_exc =
    KeyError string
  | TypeError string
  | AttributeError string
  | ValueError string
  | FileNotFoundError string
  | JSONDecodeError string
  | RequestException string
  | ConnectionError string
  | StopIteration
  | IndexError string

definition quoted :: "string \<Rightarrow> string" where
  "quoted s = CHR 0x27 # s @ [CHR 0x27]"

fun exc_str :: "py_exc \<Rightarrow> string" where
  "exc_str (KeyError k) = quoted k"
| "exc_str (TypeError m) = m"
| "exc_str (AttributeError m) = m"
| "exc_str (ValueError m) = m"
| "exc_str (FileNotFoundError m) = m"
| "exc_str (JSONDecodeError m) = m"
| "exc_str (RequestException m) = m"
| "exc_str (ConnectionError m) = m"
| "exc_str StopIteration = []"
| "exc_str (IndexError m) = m"

fun is_value_error :: "py_exc \<Rightarrow> bool" where
  "is_value_error (ValueError _) = True"
| "is_value_error (JSONDecodeError _) = True"
| "is_value_error _ = False"

fun is_request_exc :: "py_exc \<Rightarrow> bool" where
  "is_request_exc (RequestException _) = True"
| "is_request_exc (JSONDecodeError _) = True"
| "is_request_exc _ = False"

section \<open>Builtins on values\<close>

fun py_type_name :: "json \<Rightarrow> string" where
  "py_type_name JNull = ''NoneType''"
| "py_type_name (JBool _) = ''bool''"
| "py_type_name (JInt _) = ''int''"
| "py_type_name (JStr _) = ''str''"
| "py_type_name (JArr _) = ''list''"
| "py_type_name (JObj _) = ''dict''"

text \<open>\<open>bool(v)\<close>, used by \<open>if not v\<close>.\<close>

fun py_truthy :: "json \<Rightarrow> bool" where
  "py_truthy JNull = False"
| "py_truthy (JBool b) = b"
| "py_truthy (JInt i) = (i \<noteq> 0)"
| "py_truthy (JStr s) = (s \<noteq> [])"
| "py_truthy (JArr xs) = (xs \<noteq> [])"
| "py_truthy (JObj kvs) = (kvs \<noteq> [])"

text \<open>\<open>v.get(k, d)\<close> and \<open>v.get(k)\<close>: only dicts have \<open>get\<close>; \<open>None\<close> is \<open>JNull\<close>.\<close>

fun py_get_default :: "json \<Rightarrow> string \<Rightarrow> json \<Rightarrow> py_exc + json" where
  "py_get_default (JObj kvs) k d = Inr (case map_of kvs k of Some v \<Rightarrow> v | None \<Rightarrow> d)"
| "py_get_default v k d =
     Inl (AttributeError (quoted (py_type_name v) @ '' object has no attribute '' @ quoted ''get''))"

definition py_get :: "json \<Rightarrow> string \<Rightarrow> py_exc + json" where
  "py_get v k = py_get_default v k JNull"

text \<open>The value \<open>d.get(k)\<close> returns on a dict \<open>d\<close>.\<close>

definition dict_get :: "(string \<times> json) list \<Rightarrow> string \<Rightarrow> json" where
  "dict_get kvs k = (case map_of kvs k of Some v \<Rightarrow> v | None \<Rightarrow> JNull)"

text \<open>\<open>v[k]\<close> with a string key.\<close>

fun py_subscript :: "json \<Rightarrow> string \<Rightarrow> py_exc + json" where
  "py_subscript (JObj kvs) k = (case map_of kvs k of Some v \<Rightarrow> Inr v | None \<Rightarrow> Inl (KeyError k))"
| "py_subscript (JArr _) k = Inl (TypeError ''list indices must be integers or slices, not str'')"
| "py_subscript (JStr _) k = Inl (TypeError (''string indices must be integers, not '' @ quoted ''str''))"
| "py_subscript v k = Inl (TypeError (quoted (py_type_name v) @ '' object is not subscriptable''))"

fun is_substring :: "string \<Rightarrow> string \<Rightarrow> bool" where
  "is_substring p [] = (p = [])"
| "is_substring p (c # s) = (take (length p) (c # s) = p \<or> is_substring p s)"

text \<open>\<open>k in v\<close> with a string \<open>k\<close>: key of a dict, element of a list, substring of a str.\<close>

fun py_contains :: "json \<Rightarrow> string \<Rightarrow> py_exc + bool" where
  "py_contains (JObj kvs) k = Inr (k \<in> set (map fst kvs))"
| "py_contains (JArr xs) k = Inr (JStr k \<in> set xs)"
| "py_contains (JStr s) k = Inr (is_substring k s)"
| "py_contains v k =
     Inl (TypeError (''argument of type '' @ quoted (py_type_name v) @ '' is not iterable''))"

text \<open>\<open>for x in v\<close>: the elements a loop over \<open>v\<close> visits.\<close>

fun py_iter :: "json \<Rightarrow> py_exc + json list" where
  "py_iter (JArr xs) = Inr xs"
| "py_iter (JObj kvs) = Inr (map (JStr \<circ> fst) kvs)"
| "py_iter (JStr s) = Inr (map (\<lambda>c. JStr [c]) s)"
| "py_iter v = Inl (TypeError (quoted (py_type_name v) @ '' object is not iterable''))"

text \<open>
  \<open>[f(x) for x in xs if p(x)]\<close>, evaluated left to right: the first exception raised by
  \<open>p\<close> or \<open>f\<close> propagates.
\<close>

fun py_comp :: "('a \<Rightarrow> py_exc + bool) \<Rightarrow> ('a \<Rightarrow> py_exc + 'b) \<Rightarrow> 'a list \<Rightarrow> py_exc + 'b list" where
  "py_comp p f [] = Inr []"
| "py_comp p f (x # xs) =
     (case p x of
        Inl e \<Rightarrow> Inl e
      | Inr False \<Rightarrow> py_comp p f xs
      | Inr True \<Rightarrow>
          (case f x of
             Inl e \<Rightarrow> Inl e
           | Inr y \<Rightarrow> (case py_comp p f xs of Inl e \<Rightarrow> Inl e | Inr ys \<Rightarrow> Inr (y # ys))))"

text \<open>\<open>next((x for x in xs if p(x)), None)\<close>: the generator stops at the first match.\<close>

fun py_find :: "('a \<Rightarrow> py_exc + bool) \<Rightarrow> 'a list \<Rightarrow> py_exc + 'a option" where
  "py_find p [] = Inr None"
| "py_find p (x # xs) =
     (case p x of Inl e \<Rightarrow> Inl e | Inr True \<Rightarrow> Inr (Some x) | Inr False \<Rightarrow> py_find p xs)"

text \<open>\<open>next((f(x) for x in xs), None)\<close>: only the first element is evaluated.\<close>

definition py_next_map :: "('a \<Rightarrow> py_exc + 'b) \<Rightarrow> 'a list \<Rightarrow> py_exc + 'b option" where
  "py_next_map f xs = (case xs of [] \<Rightarrow> Inr None | x # _ \<Rightarrow> (case f x of Inl e \<Rightarrow> Inl e | Inr y \<Rightarrow> Inr (Some y)))"

section \<open>Strings\<close>

text \<open>
  \<open>str.isspace\<close> on Latin-1: tab to carriage return, the four separators 0x1C to 0x1F,
  space, NEL (0x85) and the no-break space (0xA0). \<open>str.strip()\<close> and the regular
  expression class \<open>\s\<close> of a \<open>str\<close> pattern use this same set.
\<close>

definition py_isspace :: "char \<Rightarrow> bool" where
  "py_isspace c =
     (let n = of_char c :: nat in (9 \<le> n \<and> n \<le> 13) \<or> (28 \<le> n \<and> n \<le> 32) \<or> n = 133 \<or> n = 160)"

definition py_strip :: "string \<Rightarrow> string" where
  "py_strip s = rev (dropWhile py_isspace (rev (dropWhile py_isspace s)))"

text \<open>
  \<open>str.upper()\<close> on Latin-1: ASCII and Latin-1 lower-case letters move down by 32,
  the sharp s (0xDF) becomes \<open>SS\<close>. The upper cases of the micro sign (0xB5) and of
  y with diaeresis (0xFF) lie outside Latin-1 and are kept unchanged here; both are non-ASCII either way,
  which is all the one use of \<open>upper\<close> (comparison with ASCII mode names) observes.
\<close>

text \<open>\<open>v.strip()\<close>: only strings have \<open>strip\<close>.\<close>

definition py_strip_val :: "json \<Rightarrow> py_exc + string" where
  "py_strip_val v =
     (case v of
        JStr s \<Rightarrow> Inr (py_strip s)
      | _ \<Rightarrow> Inl (AttributeError (quoted (py_type_name v) @ '' object has no attribute '' @ quoted ''strip'')))"

definition py_upper_char :: "char \<Rightarrow> string" where
  "py_upper_char c =
     (let n = of_char c :: nat in
      if (97 \<le> n \<and> n \<le> 122) \<or> (224 \<le> n \<and> n \<le> 254 \<and> n \<noteq> 247) then [char_of (n - 32)]
      else if n = 223 then ''SS'' else [c])"

definition py_upper :: "string \<Rightarrow> string" where
  "py_upper s = concat (map py_upper_char s)"

text \<open>\<open>v.upper()\<close>: only strings have \<open>upper\<close>.\<close>

definition py_upper_val :: "json \<Rightarrow> py_exc + string" where
  "py_upper_val v =
     (case v of
        JStr s \<Rightarrow> Inr (py_upper s)
      | _ \<Rightarrow> Inl (AttributeError (quoted (py_type_name v) @ '' object has no attribute '' @ quoted ''upper'')))"

fun nat_text :: "nat \<Rightarrow> string" where
  "nat_text n = (if n < 10 then [char_of (48 + n)] else nat_text (n div 10) @ [char_of (48 + n mod 10)])"

declare nat_text.simps [simp del]

definition int_text :: "int \<Rightarrow> string" where
  "int_text i = (if i < 0 then CHR ''-'' # nat_text (nat (- i)) else nat_text (nat i))"

fun join_with :: "string \<Rightarrow> string list \<Rightarrow> string" where
  "join_with sep [] = []"
| "join_with sep [x] = x"
| "join_with sep (x # y # xs) = x @ sep @ join_with sep (y # xs)"

section \<open>JSON text\<close>

text \<open>
  The text Flask's \<open>jsonify\<close> produces (the body \<open>response.text\<close> reads): compact
  separators, keys sorted, \<open>ensure_ascii\<close> escapes.
\<close>

definition hex_char :: "nat \<Rightarrow> char" where
  "hex_char d = (if d < 10 then char_of (48 + d) else char_of (87 + d))"

definition json_escape_char :: "char \<Rightarrow> string" where
  "json_escape_char c =
     (let n = of_char c :: nat in
      if n = 0x22 then [CHR 0x5C, CHR 0x22]
      else if n = 0x5C then [CHR 0x5C, CHR 0x5C]
      else if n = 0x0A then [CHR 0x5C, CHR ''n'']
      else if n = 0x0D then [CHR 0x5C, CHR ''r'']
      else if n = 0x09 then [CHR 0x5C, CHR ''t'']
      else if n = 0x08 then [CHR 0x5C, CHR ''b'']
      else if n = 0x0C then [CHR 0x5C, CHR ''f'']
      else if n < 0x20 \<or> 0x7F \<le> n then [CHR 0x5C, CHR ''u'', CHR ''0'', CHR ''0'', hex_char (n div 16), hex_char (n mod 16)]
      else [c])"

definition quote_json :: "string \<Rightarrow> string" where
  "quote_json s = CHR 0x22 # concat (map json_escape_char s) @ [CHR 0x22]"

fun json_text :: "json \<Rightarrow> string" where
  "json_text JNull = ''null''"
| "json_text (JBool b) = (if b then ''true'' else ''false'')"
| "json_text (JInt i) = int_text i"
| "json_text (JStr s) = quote_json s"
| "json_text (JArr xs) = ''['' @ join_with '','' (map json_text xs) @ '']''"
| "json_text (JObj kvs) =
     ''{'' @ join_with '',''
       (map snd (sort_key fst (map (\<lambda>(k, v). (k, quote_json k @ '':'' @ json_text v)) kvs))) @ ''}''"

text \<open>
  \<open>str(v)\<close>, as an f-string formats a value. For lists and dicts Python prints their
  \<open>repr\<close>; the model prints their JSON text, which like the \<open>repr\<close> starts with
  \<open>[\<close> or \<open>{\<close>: the only use (the host part of a URL) sees no other difference.
\<close>

fun py_str :: "json \<Rightarrow> string" where
  "py_str JNull = ''None''"
| "py_str (JBool b) = (if b then ''True'' else ''False'')"
| "py_str (JInt i) = int_text i"
| "py_str (JStr s) = s"
| "py_str (JArr xs) = json_text (JArr xs)"
| "py_str (JObj kvs) = json_text (JObj kvs)"

section \<open>HTTP responses and the transport between services\<close>

text \<open>
  A response body is JSON (from \<open>jsonify\<close>, or a dict or list a view returns) or other
  text: the HTML page Flask sends with status 500 when a view raises an exception it
  does not catch.
\<close>

datatype body = BJson json | BText string

record http_resp =
  status :: nat
  rbody :: body

definition jsonify :: "json \<Rightarrow> nat \<Rightarrow> http_resp" where
  "jsonify j code = \<lparr>status = code, rbody = BJson j\<rparr>"

definition flask_error_page :: string where
  "flask_error_page = ''<!doctype html><title>500 Internal Server Error</title><h1>Internal Server Error</h1>''"

definition flask_500 :: http_resp where
  "flask_500 = \<lparr>status = 500, rbody = BText flask_error_page\<rparr>"

text \<open>
  A view that returns a pair \<open>(v, code)\<close> with a decoded JSON value \<open>v\<close>: Flask
  serialises a dict or a list as JSON, sends a string as the body text, and refuses any
  other value with a \<open>TypeError\<close>, which it answers with its 500 page.
\<close>

fun flask_return :: "json \<Rightarrow> nat \<Rightarrow> http_resp" where
  "flask_return (JObj kvs) code = jsonify (JObj kvs) code"
| "flask_return (JArr xs) code = jsonify (JArr xs) code"
| "flask_return (JStr s) code = \<lparr>status = code, rbody = BText s\<rparr>"
| "flask_return _ code = flask_500"

text \<open>\<open>response.json()\<close> and \<open>response.text\<close> of \<open>requests\<close>.\<close>

fun body_json :: "body \<Rightarrow> py_exc + json" where
  "body_json (BJson j) = Inr j"
| "body_json (BText t) = Inl (JSONDecodeError ''Expecting value: line 1 column 1 (char 0)'')"

definition resp_json :: "http_resp \<Rightarrow> py_exc + json" where
  "resp_json r = body_json (rbody r)"

fun body_text :: "body \<Rightarrow> string" where
  "body_text (BJson j) = json_text j @ ''\<newline>''"
| "body_text (BText t) = t"

definition resp_text :: "http_resp \<Rightarrow> string" where
  "resp_text r = body_text (rbody r)"

text \<open>The two JSON bodies the services build again and again.\<close>

definition error_obj :: "string \<Rightarrow> json" where
  "error_obj msg = JObj [(''error'', JStr msg)]"

definition fail_env :: "string \<Rightarrow> json \<Rightarrow> json" where
  "fail_env msg err = JObj [(''message'', JStr msg), (''error'', err), (''affected_rows'', JInt 0)]"

text \<open>
  Request headers, looked up case-insensitively as Werkzeug's \<open>request.headers.get\<close>
  does.
\<close>

type_synonym headers = "(string \<times> string) list"

definition ascii_lower :: "char \<Rightarrow> char" where
  "ascii_lower c = (let n = of_char c :: nat in if 65 \<le> n \<and> n \<le> 90 then char_of (n + 32) else c)"

fun hdr_get :: "headers \<Rightarrow> string \<Rightarrow> string option" where
  "hdr_get [] k = None"
| "hdr_get ((k', v) # hs) k = (if map ascii_lower k' = map ascii_lower k then Some v else hdr_get hs k)"

text \<open>
  The transport: \<open>requests.post(url, json=payload, headers=h)\<close> issued in a world
  \<open>'w\<close>. It returns the world after the call and either a \<open>RequestException\<close>
  (\<open>Inl\<close>) or the response; \<open>None\<close> is a call that never returns (\<open>requests.post\<close>
  is called without a timeout).
\<close>

type_synonym 'w post = "'w \<Rightarrow> string \<Rightarrow> json \<Rightarrow> headers \<Rightarrow> ('w \<times> (py_exc + http_resp)) option"

text \<open>
  A JSON configuration file as \<open>open\<close> and \<open>json.load\<close> find it: missing, not valid
  JSON, or a decoded document.
\<close>

datatype cfg_file = NoFile | BadJson | JsonFile json

text \<open>The URL \<open>f"http://{ip}:80{path}"\<close> every service builds.\<close>

definition node_url :: "json \<Rightarrow> string \<Rightarrow> string" where
  "node_url ip path = ''http://'' @ py_str ip @ '':80'' @ path"

section \<open>Evaluation rules\<close>

text \<open>
  Where every test and every mapped expression returns, a comprehension and a
  generator with \<open>next\<close> compute the list functions \<open>filter\<close>, \<open>map\<close> and \<open>find\<close>.
\<close>

lemma nat_text_digit: "n < 10 \<Longrightarrow> nat_text n = [char_of (48 + n)]"
  by (simp add: nat_text.simps)

lemma py_comp_total:
  assumes "\<forall>x\<in>set xs. p x = Inr (P x) \<and> f x = Inr (g x)"
  shows "py_comp p f xs = Inr (map g (filter P xs))"
  using assms by (induction xs) auto

lemma py_find_total:
  assumes "\<forall>x\<in>set xs. p x = Inr (P x)"
  shows "py_find p xs = Inr (find P xs)"
  using assms by (induction xs) auto

lemma find_conv_filter: "find P xs = (case filter P xs of [] \<Rightarrow> None | x # _ \<Rightarrow> Some x)"
  by (induction xs) auto

lemma py_get_JObj [simp]: "py_get (JObj kvs) k = Inr (dict_get kvs k)"
  by (simp add: py_get_def dict_get_def)

lemma dict_get_Nil [simp]: "dict_get [] k = JNull"
  by (simp add: dict_get_def)

lemma dict_get_Cons [simp]: "dict_get ((k', v) # kvs) k = (if k' = k then v else dict_get kvs k)"
  by (simp add: dict_get_def)

lemma py_truthy_JStr_Cons [simp]: "py_truthy (JStr (c # s))"
  by simp

text \<open>\<open>strip\<close> removes white space only: every other character of a string stays.\<close>

lemma mem_py_strip: "c \<in> set s \<Longrightarrow> \<not> py_isspace c \<Longrightarrow> c \<in> set (py_strip s)"
  by (simp add: py_strip_def mem_dropWhile)

lemma dict_get_key: "dict_get kvs k \<noteq> JNull \<Longrightarrow> k \<in> fst ` set kvs"
  by (cases "map_of kvs k") (auto simp: dict_get_def dest: map_of_SomeD intro: rev_image_eqI)

text \<open>Evaluation of the character arithmetic of \<open>upper\<close> and of header lookup.\<close>

lemma char_of_eq_char: "n < 256 \<Longrightarrow> char_of n = c \<longleftrightarrow> n = (of_char c :: nat)"
  by (metis char_of_char of_char_of mod_less)

lemma char_eq_char_of: "n < 256 \<Longrightarrow> c = char_of n \<longleftrightarrow> (of_char c :: nat) = n"
  by (metis char_of_eq_char)

lemmas char_of_eval = char_of_eq_char char_eq_char_of

end
