(* ===== verification/Membership.thy ===== *)
theory Membership
  imports PyRuntime
begin

text \<open>
  Cluster membership: the node descriptors the provisioning script
  (\<^verbatim>\<open>src/infrastructure/aws_infrastructure_utilities.py\<close>, \<open>collect_instance_data\<close>
  and \<open>save_instance_details\<close>) writes to the JSON files every service loads on each
  request, the role tags, and the predicates on descriptor lists that the routing and
  replication theorems assume.
\<close>

section \<open>Role tags and descriptors\<close>

definition MASTER_NAME :: string where
  "MASTER_NAME = ''mysql_master_node''"

definition SLAVE_NAME :: string where
  "SLAVE_NAME = ''mysql_slave_node''"

text \<open>The attributes of a running EC2 instance the script reads.\<close>

record ec2_instance =
  ec2_id :: string
  ec2_dns :: string
  ec2_ip :: "string option"

text \<open>The dict \<open>instance_info\<close> of \<open>collect_instance_data\<close>, as \<open>json.dump\<close> writes it.\<close>

definition instance_info :: "string \<Rightarrow> ec2_instance \<Rightarrow> json" where
  "instance_info name i =
     JObj [(''Name'', JStr name), (''InstanceID'', JStr (ec2_id i)), (''PublicDNS'', JStr (ec2_dns i)),
           (''PublicIP'', case ec2_ip i of None \<Rightarrow> JNull | Some ip \<Rightarrow> JStr ip)]"

text \<open>
  The loop of \<open>collect_instance_data\<close>, with \<open>enumerate(instances, start=1)\<close>: the first
  instance is named \<open>master_name\<close>, the others \<open>slave_name or master_name\<close>. Waiting for
  the instance and tagging it in EC2 are calls to AWS and are not modelled.
\<close>

fun collect_loop :: "nat \<Rightarrow> string \<Rightarrow> string option \<Rightarrow> ec2_instance list \<Rightarrow> json list" where
  "collect_loop i m s [] = []"
| "collect_loop i m s (x # xs) =
     instance_info (if i = 1 then m else (case s of Some n \<Rightarrow> if n \<noteq> [] then n else m | None \<Rightarrow> m)) x
     # collect_loop (Suc i) m s xs"

definition collect_instance_data :: "ec2_instance list \<Rightarrow> string \<Rightarrow> string option \<Rightarrow> json list" where
  "collect_instance_data insts m s = collect_loop 1 m s insts"

section \<open>Predicates on membership lists\<close>

text \<open>
  The role test the services apply to a descriptor,
  \<open>instance["Name"] != "mysql_master_node"\<close>, and its negation.
\<close>

definition not_master :: "json \<Rightarrow> py_exc + bool" where
  "not_master i = (case py_subscript i ''Name'' of Inl e \<Rightarrow> Inl e | Inr n \<Rightarrow> Inr (n \<noteq> JStr MASTER_NAME))"

definition is_master :: "json \<Rightarrow> py_exc + bool" where
  "is_master i = (case py_subscript i ''Name'' of Inl e \<Rightarrow> Inl e | Inr n \<Rightarrow> Inr (n = JStr MASTER_NAME))"

text \<open>A descriptor is a dict with the three keys the services subscript.\<close>

fun wf_desc :: "json \<Rightarrow> bool" where
  "wf_desc (JObj kvs) =
     (distinct (map fst kvs) \<and> ''Name'' \<in> set (map fst kvs) \<and> ''InstanceID'' \<in> set (map fst kvs)
      \<and> ''PublicIP'' \<in> set (map fst kvs))"
| "wf_desc _ = False"

definition desc_field :: "json \<Rightarrow> string \<Rightarrow> json" where
  "desc_field d k = (case py_subscript d k of Inr v \<Rightarrow> v | Inl _ \<Rightarrow> JNull)"

definition is_master_desc :: "json \<Rightarrow> bool" where
  "is_master_desc d \<longleftrightarrow> desc_field d ''Name'' = JStr MASTER_NAME"

definition desc_fields :: "json \<Rightarrow> json \<times> json" where
  "desc_fields d = (desc_field d ''InstanceID'', desc_field d ''PublicIP'')"

text \<open>
  The invariant the spec states for the database membership list: every descriptor is
  well formed and exactly one carries the primary tag.
\<close>

definition one_master :: "json list \<Rightarrow> bool" where
  "one_master ds \<longleftrightarrow> list_all wf_desc ds \<and> length (filter is_master_desc ds) = 1"

text \<open>
  The three-node cluster of the spec's example: a primary at address A and replicas at B
  and C, as provisioning names them.
\<close>

definition example_instances :: "ec2_instance list" where
  "example_instances =
     [\<lparr>ec2_id = ''i-a'', ec2_dns = ''a.compute'', ec2_ip = Some ''A''\<rparr>,
      \<lparr>ec2_id = ''i-b'', ec2_dns = ''b.compute'', ec2_ip = Some ''B''\<rparr>,
      \<lparr>ec2_id = ''i-c'', ec2_dns = ''c.compute'', ec2_ip = Some ''C''\<rparr>]"

definition example_members :: "json list" where
  "example_members = collect_instance_data example_instances MASTER_NAME (Some SLAVE_NAME)"

lemma wf_desc_subscript:
  assumes "wf_desc d" and "k \<in> {''Name'', ''InstanceID'', ''PublicIP''}"
  shows "py_subscript d k = Inr (desc_field d k)"
  using assms by (cases d) (auto simp: desc_field_def split: option.splits dest: map_of_eq_None_iff [THEN iffD1])

lemma not_master_wf: "wf_desc d \<Longrightarrow> not_master d = Inr (\<not> is_master_desc d)"
  by (simp add: not_master_def is_master_desc_def wf_desc_subscript)

lemma is_master_wf: "wf_desc d \<Longrightarrow> is_master d = Inr (is_master_desc d)"
  by (simp add: is_master_def is_master_desc_def wf_desc_subscript)

lemma wf_desc_truthy: "wf_desc d \<Longrightarrow> py_truthy d"
  by (cases d) auto

lemmas desc_eval = not_master_wf is_master_wf wf_desc_truthy wf_desc_subscript

lemma example_members_eval:
  "example_members =
     [JObj [(''Name'', JStr MASTER_NAME), (''InstanceID'', JStr ''i-a''), (''PublicDNS'', JStr ''a.compute''), (''PublicIP'', JStr ''A'')],
      JObj [(''Name'', JStr SLAVE_NAME), (''InstanceID'', JStr ''i-b''), (''PublicDNS'', JStr ''b.compute''), (''PublicIP'', JStr ''B'')],
      JObj [(''Name'', JStr SLAVE_NAME), (''InstanceID'', JStr ''i-c''), (''PublicDNS'', JStr ''c.compute''), (''PublicIP'', JStr ''C'')]]"
  by (simp add: example_members_def collect_instance_data_def example_instances_def instance_info_def SLAVE_NAME_def)

lemma example_members_wf: "list_all wf_desc example_members"
  by (simp add: example_members_eval)

lemma example_members_one_master: "one_master example_members"
  by (simp add: one_master_def example_members_eval is_master_desc_def desc_field_def SLAVE_NAME_def MASTER_NAME_def)

end
