(* ===== verification/ProxyManager.thy ===== *)
theory ProxyManager
  imports Membership
begin

text \<open>
  The Proxy Manager, \<^verbatim>\<open>src/mysql/proxy_manager/proxy_manager_app.py\<close>: it loads the
  membership file on every request, chooses a database node by the request's mode
  (DIRECT: the primary's write endpoint; RANDOM: a random replica's read endpoint;
  anything else: the read endpoint of the replica with the lowest ping) and relays the
  statement there. The ping probe is the parameter \<open>ping\<close> (\<open>ping_address\<close>: the
  round-trip time of one ICMP echo, \<open>None\<close> on failure or timeout), over any linear order
  of times; the random draw of \<open>random.choice\<close> is the parameter \<open>r\<close>.
\<close>

section \<open>Loading the membership\<close>

definition load_instance_details :: "cfg_file \<Rightarrow> py_exc + json" where
  "load_instance_details f =
     (case f of
        NoFile \<Rightarrow> Inl (FileNotFoundError ''instance_info.json not found'')
      | BadJson \<Rightarrow> Inl (ValueError ''Error decoding JSON from instance_info.json'')
      | JsonFile j \<Rightarrow> Inr j)"

section \<open>Node selection\<close>

text \<open>\<open>return instance["InstanceID"], instance["PublicIP"]\<close>.\<close>

definition id_and_ip :: "json \<Rightarrow> py_exc + (json \<times> json)" where
  "id_and_ip i =
     (case py_subscript i ''InstanceID'' of
        Inl e \<Rightarrow> Inl e
      | Inr iid \<Rightarrow> (case py_subscript i ''PublicIP'' of Inl e \<Rightarrow> Inl e | Inr ip \<Rightarrow> Inr (iid, ip)))"

text \<open>
  The loop of \<open>find_lowest_latency_instance\<close>. Its state is the pair
  \<open>(lowest_ping, best_instance)\<close>, written \<open>None\<close> while \<open>lowest_ping\<close> is still
  \<open>float("inf")\<close> and \<open>best_instance\<close> is \<open>None\<close>, and \<open>Some (t, i)\<close> afterwards.
\<close>

fun lowest_loop :: "(json \<Rightarrow> 'l::linorder option) \<Rightarrow> json list \<Rightarrow> ('l \<times> json) option
    \<Rightarrow> py_exc + ('l \<times> json) option" where
  "lowest_loop ping [] best = Inr best"
| "lowest_loop ping (i # is) best =
     (case not_master i of
        Inl e \<Rightarrow> Inl e
      | Inr False \<Rightarrow> lowest_loop ping is best
      | Inr True \<Rightarrow>
          (case py_subscript i ''PublicIP'' of
             Inl e \<Rightarrow> Inl e
           | Inr ip \<Rightarrow>
               (case ping ip of
                  None \<Rightarrow> lowest_loop ping is best
                | Some t \<Rightarrow>
                    if (case best of None \<Rightarrow> True | Some (l, _) \<Rightarrow> t < l)
                    then lowest_loop ping is (Some (t, i))
                    else lowest_loop ping is best)))"

definition find_lowest_latency_instance ::
    "(json \<Rightarrow> 'l::linorder option) \<Rightarrow> json \<Rightarrow> py_exc + (json \<times> json)" where
  "find_lowest_latency_instance ping insts =
     (case py_iter insts of
        Inl e \<Rightarrow> Inl e
      | Inr xs \<Rightarrow>
          (case lowest_loop ping xs None of
             Inl e \<Rightarrow> Inl e
           | Inr best \<Rightarrow>
               (case best of
                  Some (_, b) \<Rightarrow> if py_truthy b then id_and_ip b
                                 else Inl (ValueError ''No instance with a valid ping found'')
                | None \<Rightarrow> Inl (ValueError ''No instance with a valid ping found''))))"

definition select_random_read_node :: "nat \<Rightarrow> json \<Rightarrow> py_exc + (json \<times> json)" where
  "select_random_read_node r insts =
     (case py_iter insts of
        Inl e \<Rightarrow> Inl e
      | Inr xs \<Rightarrow>
          (case py_comp not_master Inr xs of
             Inl e \<Rightarrow> Inl e
           | Inr read_nodes \<Rightarrow>
               if read_nodes = [] then Inl (ValueError ''No read nodes found'')
               else id_and_ip (read_nodes ! (r mod length read_nodes))))"

definition fetch_master_node :: "json \<Rightarrow> py_exc + (json \<times> json)" where
  "fetch_master_node insts =
     (case py_iter insts of
        Inl e \<Rightarrow> Inl e
      | Inr xs \<Rightarrow>
          (case py_find is_master xs of
             Inl e \<Rightarrow> Inl e
           | Inr None \<Rightarrow> Inl (ValueError ''No master node found'')
           | Inr (Some m) \<Rightarrow>
               if \<not> py_truthy m then Inl (ValueError ''No master node found'') else id_and_ip m))"

section \<open>Reference specification of the CUSTOMIZED policy\<close>

text \<open>
  On a list of well-formed descriptors: the replicas that answered the probe, with their
  round-trip times, in membership order; the first of them whose time is the minimum;
  and how the loop's accumulator combines with the best of the remaining list.
\<close>

fun respondents :: "(json \<Rightarrow> 'l option) \<Rightarrow> json list \<Rightarrow> ('l \<times> json) list" where
  "respondents ping [] = []"
| "respondents ping (d # ds) =
     (if is_master_desc d then respondents ping ds
      else case ping (desc_field d ''PublicIP'') of
             None \<Rightarrow> respondents ping ds
           | Some t \<Rightarrow> (t, d) # respondents ping ds)"

definition first_min :: "('l::linorder \<times> 'a) list \<Rightarrow> ('l \<times> 'a) option" where
  "first_min rs = (if rs = [] then None else find (\<lambda>p. fst p = Min (fst ` set rs)) rs)"

fun keep_lower :: "('l::linorder \<times> 'a) option \<Rightarrow> ('l \<times> 'a) option \<Rightarrow> ('l \<times> 'a) option" where
  "keep_lower None y = y"
| "keep_lower x None = x"
| "keep_lower (Some (l, b)) (Some (t, d)) = (if t < l then Some (t, d) else Some (l, b))"

text \<open>Round-trip times for the example cluster: B answers in 12 ms, C in 7 ms.\<close>

definition example_ping :: "json \<Rightarrow> nat option" where
  "example_ping ip = (if ip = JStr ''B'' then Some 12 else if ip = JStr ''C'' then Some 7 else None)"

section \<open>Forwarding and the request handler\<close>

text \<open>
  \<open>forward_query_request\<close>: a transport failure and a non-200 status become a failure
  envelope; it never raises. A 200 body that is not JSON raises
  \<open>JSONDecodeError\<close>, a \<open>RequestException\<close>, caught by the same clause.
\<close>

definition forward_query_request :: "'w post \<Rightarrow> 'w \<Rightarrow> string \<Rightarrow> json \<Rightarrow> ('w \<times> json) option" where
  "forward_query_request post w url payload =
     do {
       (w', res) \<leftarrow> post w url payload [];
       Some (w',
         case res of
           Inl e \<Rightarrow> fail_env ''Query forwarding failed'' (JStr (exc_str e))
         | Inr resp \<Rightarrow>
             if status resp = 200
             then (case resp_json resp of
                     Inr j \<Rightarrow> j
                   | Inl e \<Rightarrow> fail_env ''Query forwarding failed'' (JStr (exc_str e)))
             else fail_env ''Query execution failed'' (JStr (resp_text resp)))
     }"

text \<open>The mode dispatch of \<open>process_query\<close>: the URL of the chosen node.\<close>

definition route_url :: "(json \<Rightarrow> 'l::linorder option) \<Rightarrow> nat \<Rightarrow> json \<Rightarrow> json \<Rightarrow> py_exc + string" where
  "route_url ping r mode insts =
     (if mode = JStr ''DIRECT'' then
        (case fetch_master_node insts of Inl e \<Rightarrow> Inl e | Inr (_, ip) \<Rightarrow> Inr (node_url ip ''/write''))
      else if mode = JStr ''RANDOM'' then
        (case select_random_read_node r insts of Inl e \<Rightarrow> Inl e | Inr (_, ip) \<Rightarrow> Inr (node_url ip ''/read''))
      else
        (case find_lowest_latency_instance ping insts of
           Inl e \<Rightarrow> Inl e | Inr (_, ip) \<Rightarrow> Inr (node_url ip ''/read'')))"

text \<open>
  \<open>process_query\<close>. \<open>data.get\<close> on a body that is not a dict raises outside the
  \<open>try\<close>, which Flask answers with its 500 page; inside the \<open>try\<close> every exception
  becomes \<open>{"error": str(e)}\<close> with status 500.
\<close>

definition pm_process_query ::
    "(json \<Rightarrow> 'l::linorder option) \<Rightarrow> nat \<Rightarrow> cfg_file \<Rightarrow> 'w post \<Rightarrow> json \<Rightarrow> 'w \<Rightarrow> ('w \<times> http_resp) option" where
  "pm_process_query ping r f post data w =
     (case py_get data ''query'' of
        Inl _ \<Rightarrow> Some (w, flask_500)
      | Inr query \<Rightarrow>
     (case py_get data ''mode'' of
        Inl _ \<Rightarrow> Some (w, flask_500)
      | Inr mode \<Rightarrow>
     if \<not> py_truthy query \<or> \<not> py_truthy mode
     then Some (w, jsonify (error_obj ''Missing query or mode'') 400)
     else
       (case load_instance_details f of
          Inl e \<Rightarrow> Some (w, jsonify (error_obj (exc_str e)) 500)
        | Inr insts \<Rightarrow>
            (case route_url ping r mode insts of
               Inl e \<Rightarrow> Some (w, jsonify (error_obj (exc_str e)) 500)
             | Inr url \<Rightarrow>
                 do {
                   (w', j) \<leftarrow> forward_query_request post w url (JObj [(''query'', query)]);
                   Some (w', jsonify j 200)
                 }))))"

definition pm_health_check :: http_resp where
  "pm_health_check = jsonify (JObj [(''status'', JStr ''healthy'')]) 200"

section \<open>Node selection on well-formed membership\<close>

lemma id_and_ip_wf: "wf_desc d \<Longrightarrow> id_and_ip d = Inr (desc_fields d)"
  by (simp add: id_and_ip_def desc_fields_def wf_desc_subscript)

lemmas route_eval = desc_eval id_and_ip_wf

lemma Min_fst_facts:
  assumes "rs \<noteq> []"
  shows "\<forall>p\<in>set rs. Min (fst ` set rs) \<le> fst p" and "\<exists>p\<in>set rs. fst p = Min (fst ` set rs)"
proof -
  show "\<forall>p\<in>set rs. Min (fst ` set rs) \<le> fst p" by simp
  have "Min (fst ` set rs) \<in> fst ` set rs" using assms by simp
  then show "\<exists>p\<in>set rs. fst p = Min (fst ` set rs)" by force
qed

lemma le_Min_fst: "t \<le> Min (fst ` set rs) \<Longrightarrow> p \<in> set rs \<Longrightarrow> t \<le> fst p"
  by (erule order_trans) (rule Min_le, auto)

lemma first_min_Cons:
  "first_min ((t, d) # rs) = (if \<forall>p\<in>set rs. t \<le> fst p then Some (t, d) else first_min rs)"
proof (cases "rs = []")
  case True
  then show ?thesis by (simp add: first_min_def)
next
  case False
  note M = Min_fst_facts [OF False]
  have Min_ins: "Min (insert t (fst ` set rs)) = min t (Min (fst ` set rs))"
    using False by simp
  show ?thesis
  proof (cases "\<forall>p\<in>set rs. t \<le> fst p")
    case True
    with M have "t \<le> Min (fst ` set rs)" by auto
    then have "Min (insert t (fst ` set rs)) = t" by (simp add: Min_ins)
    with True show ?thesis by (simp add: first_min_def)
  next
    case False
    then have nle: "\<not> t \<le> Min (fst ` set rs)" using le_Min_fst by blast
    then have "t \<noteq> Min (fst ` set rs)" by auto
    with nle False \<open>rs \<noteq> []\<close> show ?thesis by (auto simp: first_min_def Min_ins min_def)
  qed
qed

lemma first_min_time:
  assumes "rs \<noteq> []"
  shows "\<exists>x. first_min rs = Some (Min (fst ` set rs), x)"
proof -
  let ?P = "\<lambda>p. fst p = Min (fst ` set rs)"
  from Min_fst_facts(2) [OF assms] obtain p where "p \<in> set rs" "?P p" by blast
  then have "find ?P rs \<noteq> None" by (auto simp only: find_None_iff)
  then obtain q where q: "find ?P rs = Some q" by blast
  then have "?P q" by (auto simp: find_Some_iff)
  with q assms show ?thesis by (cases q) (simp add: first_min_def)
qed

lemma first_min_shape:
  "(rs = [] \<and> first_min rs = None) \<or>
   (\<exists>m e. first_min rs = Some (m, e) \<and> ((\<forall>p\<in>set rs. t \<le> fst p) \<longleftrightarrow> t \<le> m))"
proof (cases "rs = []")
  case True
  then show ?thesis by (simp add: first_min_def)
next
  case False
  obtain e where F: "first_min rs = Some (Min (fst ` set rs), e)"
    using first_min_time [OF False] by blast
  note M = Min_fst_facts [OF False]
  have "(\<forall>p\<in>set rs. t \<le> fst p) \<longleftrightarrow> t \<le> Min (fst ` set rs)"
  proof
    assume "\<forall>p\<in>set rs. t \<le> fst p"
    with M(2) show "t \<le> Min (fst ` set rs)" by force
  next
    assume "t \<le> Min (fst ` set rs)"
    then show "\<forall>p\<in>set rs. t \<le> fst p" using le_Min_fst by blast
  qed
  with F show ?thesis by blast
qed

text \<open>One step of the loop on a replica that answered in time \<open>t\<close>, by the three
  states of the accumulator, read from right to left.\<close>

lemma keep_lower_first_min:
  shows "first_min ((t, d) # rs) = keep_lower (Some (t, d)) (first_min rs)"
    and "t < l \<Longrightarrow> keep_lower (Some (l, b)) (first_min ((t, d) # rs)) = keep_lower (Some (t, d)) (first_min rs)"
    and "\<not> t < l \<Longrightarrow> keep_lower (Some (l, b)) (first_min ((t, d) # rs)) = keep_lower (Some (l, b)) (first_min rs)"
  using first_min_shape [of rs t] by (auto simp: first_min_Cons not_less)

text \<open>The loop of \<open>find_lowest_latency_instance\<close> computes the reference choice.\<close>

lemma lowest_loop_first_min:
  "list_all wf_desc ds \<Longrightarrow>
   lowest_loop ping ds best = Inr (keep_lower best (first_min (respondents ping ds)))"
proof (induction ds arbitrary: best)
  case Nil
  then show ?case by (cases best) (auto simp: first_min_def)
next
  case (Cons d ds)
  then have d: "wf_desc d" and ds: "list_all wf_desc ds" by auto
  show ?case
  proof (cases "\<not> is_master_desc d \<and> ping (desc_field d ''PublicIP'') \<noteq> None")
    case False
    with d ds Cons.IH show ?thesis by (auto simp: route_eval)
  next
    case True
    then obtain t where t: "\<not> is_master_desc d" "ping (desc_field d ''PublicIP'') = Some t" by auto
    show ?thesis
    proof (cases best)
      case None
      with t d ds Cons.IH show ?thesis by (simp add: route_eval keep_lower_first_min(1))
    next
      case (Some p)
      then obtain l b where p: "best = Some (l, b)" by (cases p) auto
      show ?thesis
      proof (cases "t < l")
        case True
        with t p d ds Cons.IH show ?thesis by (simp add: route_eval keep_lower_first_min(2))
      next
        case False
        with t p d ds Cons.IH show ?thesis by (simp add: route_eval keep_lower_first_min(3))
      qed
    qed
  qed
qed

text \<open>The reference choice read back as a statement about positions.\<close>

lemma first_min_None_iff: "first_min rs = None \<longleftrightarrow> rs = []"
proof
  assume "first_min rs = None"
  then show "rs = []" using first_min_time [of rs] by auto
qed (simp add: first_min_def)

lemma first_min_SomeD:
  assumes "first_min rs = Some p"
  shows "\<exists>i<length rs. rs ! i = p \<and> (\<forall>j<length rs. fst p \<le> fst (rs ! j)) \<and> (\<forall>j<i. fst p < fst (rs ! j))"
proof -
  let ?M = "Min (fst ` set rs)"
  have ne: "rs \<noteq> []" using assms by (auto simp: first_min_def)
  with assms have "find (\<lambda>p. fst p = ?M) rs = Some p" by (simp add: first_min_def)
  then obtain i where i: "i < length rs" "fst (rs ! i) = ?M" "p = rs ! i" "\<forall>j<i. fst (rs ! j) \<noteq> ?M"
    by (auto simp: find_Some_iff)
  have le: "?M \<le> fst (rs ! j)" if "j < length rs" for j
    using that by (intro Min_le) auto
  from i le have "\<forall>j<i. fst p < fst (rs ! j)" by (auto simp: order_less_le)
  with i le show ?thesis by auto
qed

lemma respondents_mem:
  "(t, d) \<in> set (respondents ping ds) \<longleftrightarrow>
     d \<in> set ds \<and> \<not> is_master_desc d \<and> ping (desc_field d ''PublicIP'') = Some t"
  by (induction ds) (auto split: option.splits)

section \<open>The three routing policies\<close>

lemma fetch_master_node_eval:
  assumes "list_all wf_desc ds"
  shows "fetch_master_node (JArr ds) =
           (case filter is_master_desc ds of
              [] \<Rightarrow> Inl (ValueError ''No master node found'')
            | m # _ \<Rightarrow> Inr (desc_fields m))"
proof -
  have "py_find is_master ds = Inr (find is_master_desc ds)"
    using assms by (intro py_find_total) (auto simp: list_all_iff route_eval)
  moreover have "py_truthy m \<and> id_and_ip m = Inr (desc_fields m)"
    if "filter is_master_desc ds = m # ms" for m ms
  proof -
    from that have "m \<in> set ds" by (metis filter_is_subset list.set_intros(1) subsetD)
    with assms show ?thesis by (auto simp: list_all_iff route_eval)
  qed
  ultimately show ?thesis
    by (auto simp: fetch_master_node_def find_conv_filter split: list.splits)
qed

lemma select_random_read_node_eval:
  assumes "list_all wf_desc ds"
  shows "select_random_read_node r (JArr ds) =
           (let rn = filter (\<lambda>d. \<not> is_master_desc d) ds in
            if rn = [] then Inl (ValueError ''No read nodes found'')
            else Inr (desc_fields (rn ! (r mod length rn))))"
proof -
  let ?rn = "filter (\<lambda>d. \<not> is_master_desc d) ds"
  have "py_comp not_master Inr ds = Inr (map id ?rn)"
    using assms by (intro py_comp_total) (auto simp: list_all_iff route_eval)
  moreover have "?rn \<noteq> [] \<Longrightarrow> ?rn ! (r mod length ?rn) \<in> set ds"
    using nth_mod_length_in_set [of ?rn r] by auto
  ultimately show ?thesis
    using assms by (auto simp: select_random_read_node_def Let_def list_all_iff route_eval)
qed

lemma find_lowest_latency_instance_eval:
  assumes "list_all wf_desc ds"
  shows "find_lowest_latency_instance ping (JArr ds) =
           (case first_min (respondents ping ds) of
              None \<Rightarrow> Inl (ValueError ''No instance with a valid ping found'')
            | Some (_, d) \<Rightarrow> Inr (desc_fields d))"
proof (cases "first_min (respondents ping ds)")
  case None
  with assms show ?thesis
    by (simp add: find_lowest_latency_instance_def lowest_loop_first_min)
next
  case (Some p)
  obtain t d where p: "p = (t, d)" by (cases p)
  from Some p obtain i where "i < length (respondents ping ds)" "respondents ping ds ! i = (t, d)"
    by (auto dest!: first_min_SomeD)
  then have "(t, d) \<in> set (respondents ping ds)" by (metis nth_mem)
  with assms have "wf_desc d" by (auto simp: respondents_mem list_all_iff)
  with Some p assms show ?thesis
    by (simp add: find_lowest_latency_instance_def lowest_loop_first_min route_eval)
qed

section \<open>Routing claims\<close>

text \<open>
  C1. DIRECT mode: on a well-formed membership list the Proxy Manager targets the
  unique primary-tagged node, and fails with ``No master node found'' when no node
  carries the primary tag.
\<close>

theorem direct_mode_targets_primary:
  assumes "list_all wf_desc ds"
  shows "(\<forall>m. filter is_master_desc ds = [m] \<longrightarrow> fetch_master_node (JArr ds) = Inr (desc_fields m))
       \<and> ((\<forall>d\<in>set ds. \<not> is_master_desc d) \<longrightarrow>
            fetch_master_node (JArr ds) = Inl (ValueError ''No master node found''))"
proof -
  have "(\<forall>d\<in>set ds. \<not> is_master_desc d) \<longleftrightarrow> filter is_master_desc ds = []"
    by (simp add: filter_empty_conv)
  with fetch_master_node_eval [OF assms] show ?thesis by auto
qed

theorem direct_mode_targets_primary_witness:
  "list_all wf_desc example_members \<and>
   filter is_master_desc example_members = [hd example_members] \<and>
   fetch_master_node (JArr example_members) = Inr (JStr ''i-a'', JStr ''A'')"
proof -
  have wf: "list_all wf_desc example_members" by (rule example_members_wf)
  have f: "filter is_master_desc example_members = [hd example_members]"
    by (simp add: example_members_eval is_master_desc_def desc_field_def SLAVE_NAME_def MASTER_NAME_def)
  from direct_mode_targets_primary [OF wf] f have
    "fetch_master_node (JArr example_members) = Inr (desc_fields (hd example_members))" by blast
  with wf f show ?thesis by (simp add: example_members_eval desc_fields_def desc_field_def)
qed

text \<open>
  C2. CUSTOMIZED mode: among the non-primary nodes whose probe answered, the Proxy
  Manager selects one whose round-trip time is the minimum, the first such in
  membership order (every earlier respondent is strictly slower); when no probe
  answers, routing fails with ``No instance with a valid ping found''.
\<close>

theorem customized_selects_lowest_latency:
  assumes "list_all wf_desc ds"
  shows "(respondents ping ds = [] \<longrightarrow>
            find_lowest_latency_instance ping (JArr ds) = Inl (ValueError ''No instance with a valid ping found''))
       \<and> (respondents ping ds \<noteq> [] \<longrightarrow>
            (\<exists>i<length (respondents ping ds).
               find_lowest_latency_instance ping (JArr ds) = Inr (desc_fields (snd (respondents ping ds ! i)))
             \<and> (\<forall>j<length (respondents ping ds). fst (respondents ping ds ! i) \<le> fst (respondents ping ds ! j))
             \<and> (\<forall>j<i. fst (respondents ping ds ! i) < fst (respondents ping ds ! j))))"
proof (cases "first_min (respondents ping ds)")
  case None
  then have "find_lowest_latency_instance ping (JArr ds) = Inl (ValueError ''No instance with a valid ping found'')"
    using find_lowest_latency_instance_eval [OF assms, of ping] by simp
  moreover from None have "respondents ping ds = []" by (simp add: first_min_None_iff)
  ultimately show ?thesis by simp
next
  case (Some p)
  then have ne: "respondents ping ds \<noteq> []" by (auto simp: first_min_def)
  from first_min_SomeD [OF Some] obtain i where i: "i < length (respondents ping ds)"
    "respondents ping ds ! i = p" "\<forall>j<length (respondents ping ds). fst p \<le> fst (respondents ping ds ! j)"
    "\<forall>j<i. fst p < fst (respondents ping ds ! j)" by blast
  obtain t d where p: "p = (t, d)" by (cases p)
  have "find_lowest_latency_instance ping (JArr ds) = Inr (desc_fields d)"
    using find_lowest_latency_instance_eval [OF assms, of ping] Some p by simp
  then have "find_lowest_latency_instance ping (JArr ds) = Inr (desc_fields (snd p))"
    by (simp add: p)
  with i ne show ?thesis by auto
qed

theorem customized_selects_lowest_latency_witness:
  "list_all wf_desc example_members \<and>
   respondents example_ping example_members \<noteq> [] \<and>
   find_lowest_latency_instance example_ping (JArr example_members) = Inr (JStr ''i-c'', JStr ''C'')"
proof -
  have wf: "list_all wf_desc example_members" by (rule example_members_wf)
  define R where "R = respondents example_ping example_members"
  have rs: "R = [(12, example_members ! 1), (7, example_members ! 2)]"
    by (simp add: R_def example_members_eval example_ping_def is_master_desc_def desc_field_def
        SLAVE_NAME_def MASTER_NAME_def)
  have R: "R \<noteq> []" "length R = 2" "fst (R ! 0) = 12" "fst (R ! 1) = 7" "snd (R ! 1) = example_members ! 2"
    by (simp_all add: rs)
  from customized_selects_lowest_latency [OF wf, of example_ping, folded R_def] R(1)
  obtain i where i: "i < length R" and e: "find_lowest_latency_instance example_ping (JArr example_members)
      = Inr (desc_fields (snd (R ! i)))" and le: "\<forall>j<length R. fst (R ! i) \<le> fst (R ! j)"
    by blast
  have "i = 1"
  proof (rule ccontr)
    assume "i \<noteq> 1"
    with i R(2) have "i = 0" by auto
    moreover from le R(2) have "fst (R ! i) \<le> fst (R ! 1)" by auto
    ultimately show False using R by simp
  qed
  with e R wf show ?thesis
    by (simp add: R_def example_members_eval desc_fields_def desc_field_def)
qed

text \<open>
  C3. RANDOM mode: every draw selects a non-primary node when there is one, every
  non-primary node is selected by some draw (none is permanently excluded), and with no
  non-primary node routing fails with ``No read nodes found''.
\<close>

theorem random_mode_covers_replicas:
  assumes "list_all wf_desc ds"
  shows "(\<forall>r. (\<exists>d\<in>set ds. \<not> is_master_desc d) \<longrightarrow>
              (\<exists>d\<in>set ds. \<not> is_master_desc d \<and> select_random_read_node r (JArr ds) = Inr (desc_fields d)))
       \<and> (\<forall>d\<in>set ds. \<not> is_master_desc d \<longrightarrow> (\<exists>r. select_random_read_node r (JArr ds) = Inr (desc_fields d)))
       \<and> ((\<forall>d\<in>set ds. is_master_desc d) \<longrightarrow>
            (\<forall>r. select_random_read_node r (JArr ds) = Inl (ValueError ''No read nodes found'')))"
proof -
  let ?rn = "filter (\<lambda>d. \<not> is_master_desc d) ds"
  have sel: "select_random_read_node r (JArr ds) =
      (if ?rn = [] then Inl (ValueError ''No read nodes found'') else Inr (desc_fields (?rn ! (r mod length ?rn))))"
    for r using select_random_read_node_eval [OF assms] by (simp add: Let_def)
  have each: "\<exists>d\<in>set ds. \<not> is_master_desc d \<and> select_random_read_node r (JArr ds) = Inr (desc_fields d)"
    if "?rn \<noteq> []" for r
  proof -
    let ?d = "?rn ! (r mod length ?rn)"
    have "?d \<in> set ?rn" using that by (rule nth_mod_length_in_set)
    then have "?d \<in> set ds" "\<not> is_master_desc ?d" by simp_all
    moreover have "select_random_read_node r (JArr ds) = Inr (desc_fields ?d)"
      using that by (simp add: sel)
    ultimately show ?thesis by blast
  qed
  have all: "\<exists>r. select_random_read_node r (JArr ds) = Inr (desc_fields d)"
    if "d \<in> set ds" "\<not> is_master_desc d" for d
  proof -
    from that have "d \<in> set ?rn" by simp
    then obtain k where "?rn ! (k mod length ?rn) = d" using nth_mod_length_surj [of d ?rn] by blast
    moreover from \<open>d \<in> set ?rn\<close> have "?rn \<noteq> []" by (metis empty_iff empty_set)
    ultimately have "select_random_read_node k (JArr ds) = Inr (desc_fields d)"
      by (simp add: sel)
    then show ?thesis by blast
  qed
  show ?thesis
  proof (intro conjI allI impI ballI)
    fix r
    assume "\<exists>d\<in>set ds. \<not> is_master_desc d"
    then have "?rn \<noteq> []" by (simp only: filter_nonempty_iff)
    then show "\<exists>d\<in>set ds. \<not> is_master_desc d \<and> select_random_read_node r (JArr ds) = Inr (desc_fields d)"
      by (rule each)
  next
    fix d
    assume "d \<in> set ds" "\<not> is_master_desc d"
    then show "\<exists>r. select_random_read_node r (JArr ds) = Inr (desc_fields d)" by (rule all)
  next
    fix r
    assume "\<forall>d\<in>set ds. is_master_desc d"
    then have "?rn = []" by (simp add: filter_empty_conv)
    then show "select_random_read_node r (JArr ds) = Inl (ValueError ''No read nodes found'')"
      by (simp add: sel)
  qed
qed

theorem random_mode_covers_replicas_witness:
  "list_all wf_desc example_members \<and>
   (\<exists>r. select_random_read_node r (JArr example_members) = Inr (JStr ''i-b'', JStr ''B'')) \<and>
   (\<exists>r. select_random_read_node r (JArr example_members) = Inr (JStr ''i-c'', JStr ''C''))"
proof -
  have wf: "list_all wf_desc example_members" by (rule example_members_wf)
  have B: "example_members ! 1 \<in> set example_members" "\<not> is_master_desc (example_members ! 1)"
   and C: "example_members ! 2 \<in> set example_members" "\<not> is_master_desc (example_members ! 2)"
    by (simp_all add: example_members_eval is_master_desc_def desc_field_def SLAVE_NAME_def MASTER_NAME_def)
  from random_mode_covers_replicas [OF wf] B C
  have "\<exists>r. select_random_read_node r (JArr example_members) = Inr (desc_fields (example_members ! 1))"
    "\<exists>r. select_random_read_node r (JArr example_members) = Inr (desc_fields (example_members ! 2))"
    by blast+
  with wf show ?thesis by (simp add: example_members_eval desc_fields_def desc_field_def)
qed

section \<open>Handler claims\<close>

lemma forward_query_request_returns:
  assumes "\<And>w u p h. post w u p h \<noteq> None"
  shows "forward_query_request post w url payload \<noteq> None"
  using assms [of w url payload "[]"] by (auto simp: forward_query_request_def split: prod.splits)

text \<open>
  C4. The Proxy Manager never lets a transport or dependency failure escape: for every
  dict body, every membership file and every downstream call that returns, its answer
  is a JSON body with status 200, 400 or 500, never Flask's HTML error page.
\<close>

theorem proxy_answers_json:
  assumes "\<And>w u p h. post w u p h \<noteq> None"
  shows "\<exists>w' j c. pm_process_query ping r f post (JObj kvs) w = Some (w', jsonify j c) \<and> c \<in> {200, 400, 500}"
proof -
  let ?q = "dict_get kvs ''query''" and ?m = "dict_get kvs ''mode''"
  consider "\<not> (py_truthy ?q \<and> py_truthy ?m)"
    | e where "py_truthy ?q \<and> py_truthy ?m" "load_instance_details f = Inl e"
    | insts e where "py_truthy ?q \<and> py_truthy ?m" "load_instance_details f = Inr insts"
        "route_url ping r ?m insts = Inl e"
    | insts url where "py_truthy ?q \<and> py_truthy ?m" "load_instance_details f = Inr insts"
        "route_url ping r ?m insts = Inr url"
    by (metis sumE)
  then show ?thesis
  proof cases
    case (4 insts url)
    have "forward_query_request post w url (JObj [(''query'', ?q)]) \<noteq> None"
      by (rule forward_query_request_returns) (rule assms)
    then obtain w' j where "forward_query_request post w url (JObj [(''query'', ?q)]) = Some (w', j)" by auto
    with 4 show ?thesis by (auto simp: pm_process_query_def)
  qed (auto simp: pm_process_query_def)
qed

theorem proxy_answers_json_witness:
  "(\<forall>w u p h. (\<lambda>w u p h. Some (w, Inl (RequestException ''connection refused''))) w u p h \<noteq> (None :: (unit \<times> (py_exc + http_resp)) option)) \<and>
   (\<exists>w' j c. pm_process_query example_ping 0 (JsonFile (JArr example_members))
       (\<lambda>w u p h. Some (w, Inl (RequestException ''connection refused'')))
       (JObj [(''query'', JStr ''SELECT 1''), (''mode'', JStr ''DIRECT'')]) () = Some (w', jsonify j c)
     \<and> c \<in> {200, 400, 500})"
  using proxy_answers_json [of "\<lambda>w u p h. Some (w, Inl (RequestException ''connection refused''))"
      example_ping 0 "JsonFile (JArr example_members)" "[(''query'', JStr ''SELECT 1''), (''mode'', JStr ''DIRECT'')]" "()"]
  by simp

text \<open>
  C5. A body whose \<open>query\<close> or \<open>mode\<close> is missing or empty is answered 400
  ``Missing query or mode'' whatever the membership file and the downstream nodes: no
  file is read and no downstream call is made, the world is unchanged.
\<close>

theorem proxy_rejects_missing_fields:
  assumes "\<not> py_truthy (dict_get kvs ''query'') \<or> \<not> py_truthy (dict_get kvs ''mode'')"
  shows "pm_process_query ping r f post (JObj kvs) w = Some (w, jsonify (error_obj ''Missing query or mode'') 400)"
  using assms by (auto simp: pm_process_query_def)

theorem proxy_rejects_missing_fields_witness:
  "dict_get [(''query'', JStr ''SELECT 1'')] ''mode'' = JNull
   \<and> pm_process_query example_ping 0 NoFile (\<lambda>w u p h. None) (JObj [(''query'', JStr ''SELECT 1'')]) ()
       = Some ((), jsonify (error_obj ''Missing query or mode'') 400)"
  using proxy_rejects_missing_fields [of "[(''query'', JStr ''SELECT 1'')]" example_ping 0 NoFile "\<lambda>w u p h. None" "()"]
  by simp

text \<open>
  C6. The Proxy Manager compares the mode case-sensitively and has no rejection branch:
  any non-empty mode string other than exactly DIRECT or RANDOM, such as \<open>direct\<close>, is
  handled exactly as CUSTOMIZED, i.e. sent to the read endpoint of the lowest-latency
  replica.
\<close>

theorem proxy_other_modes_are_customized:
  assumes "m \<noteq> ''DIRECT''" and "m \<noteq> ''RANDOM''" and "m \<noteq> []"
  shows "pm_process_query ping r f post (JObj [(''query'', q), (''mode'', JStr m)]) w =
         pm_process_query ping r f post (JObj [(''query'', q), (''mode'', JStr ''CUSTOMIZED'')]) w"
proof -
  have "route_url ping r (JStr m) insts = route_url ping r (JStr ''CUSTOMIZED'') insts" for insts
    using assms by (simp add: route_url_def)
  with assms show ?thesis by (simp add: pm_process_query_def cong: sum.case_cong)
qed

theorem proxy_other_modes_are_customized_witness:
  "''direct'' \<noteq> ''DIRECT'' \<and> ''direct'' \<noteq> ''RANDOM'' \<and> ''direct'' \<noteq> [] \<and>
   pm_process_query example_ping 0 (JsonFile (JArr example_members)) (\<lambda>w u p h. None)
     (JObj [(''query'', JStr ''INSERT INTO t VALUES (1)''), (''mode'', JStr ''direct'')]) () =
   pm_process_query example_ping 0 (JsonFile (JArr example_members)) (\<lambda>w u p h. None)
     (JObj [(''query'', JStr ''INSERT INTO t VALUES (1)''), (''mode'', JStr ''CUSTOMIZED'')]) ()"
  using proxy_other_modes_are_customized [of "''direct''"] by simp

end
