(* ===== verification/Ping.thy ===== *)
theory Ping
  imports Complex_Main ProxyManager
begin

text \<open>
  The latency probe of the Proxy Manager, \<open>ping_address\<close> in
  \<^verbatim>\<open>src/mysql/proxy_manager/proxy_manager_app.py\<close>: it runs \<open>ping -c 1 ip\<close> with a
  timeout of five seconds, takes the first output line that contains \<open>time=\<close>, and
  reads the number after it with \<open>float\<close>. Every failure (the command raises or times
  out, a non-zero exit status, no such line, no number) becomes \<open>None\<close>. The command
  itself is the environment: \<open>ping_run ip\<close> is \<open>Some (returncode, stdout)\<close>, or
  \<open>None\<close> when \<open>subprocess.run\<close> raises. Times are rationals, the values a decimal
  literal denotes. With \<open>ping_address run\<close> as its probe, the Proxy Manager's CUSTOMIZED
  mode is the one of \<open>ProxyManager\<close> over the rationals.
\<close>

section \<open>String operations\<close>

text \<open>The line boundaries of \<open>str.splitlines\<close> within Latin-1.\<close>

definition py_linebreak :: "char \<Rightarrow> bool" where
  "py_linebreak c = ((of_char c :: nat) \<in> {10, 11, 12, 13, 28, 29, 30, 133})"

fun splitlines_aux :: "string \<Rightarrow> string \<Rightarrow> string list" where
  "splitlines_aux cur [] = (if cur = [] then [] else [rev cur])"
| "splitlines_aux cur (c # s) =
     (if c = CHR 0x0D \<and> s \<noteq> [] \<and> hd s = CHR 0x0A then rev cur # splitlines_aux [] (tl s)
      else if py_linebreak c then rev cur # splitlines_aux [] s
      else splitlines_aux (c # cur) s)"

definition py_splitlines :: "string \<Rightarrow> string list" where
  "py_splitlines s = splitlines_aux [] s"

text \<open>\<open>s.split(sep)\<close> for a non-empty separator: the pieces between its occurrences.\<close>

function split_aux :: "string \<Rightarrow> string \<Rightarrow> string \<Rightarrow> string list" where
  "split_aux sep cur [] = [rev cur]"
| "split_aux sep cur (c # s) =
     (if sep \<noteq> [] \<and> take (length sep) (c # s) = sep
      then rev cur # split_aux sep [] (drop (length sep) (c # s))
      else split_aux sep (c # cur) s)"
  by pat_completeness auto
termination
  by (relation "measure (\<lambda>(_, _, s). length s)") auto

definition py_split :: "string \<Rightarrow> string \<Rightarrow> string list" where
  "py_split sep s = split_aux sep [] s"

text \<open>\<open>s.split()\<close>: the maximal runs of non-white-space characters.\<close>

function py_words :: "string \<Rightarrow> string list" where
  "py_words s =
     (if dropWhile py_isspace s = [] then []
      else takeWhile (\<lambda>c. \<not> py_isspace c) (dropWhile py_isspace s)
           # py_words (dropWhile (\<lambda>c. \<not> py_isspace c) (dropWhile py_isspace s)))"
  by auto
termination
proof (relation "measure length")
  fix s :: string
  assume ne: "dropWhile py_isspace s \<noteq> []"
  then have "\<not> py_isspace (hd (dropWhile py_isspace s))" by (rule hd_dropWhile)
  with ne have "length (dropWhile (\<lambda>c. \<not> py_isspace c) (dropWhile py_isspace s)) < length (dropWhile py_isspace s)"
    by (cases "dropWhile py_isspace s") (auto simp: le_imp_less_Suc length_dropWhile_le)
  then show "(dropWhile (\<lambda>c. \<not> py_isspace c) (dropWhile py_isspace s), s) \<in> measure length"
    using length_dropWhile_le [of py_isspace s] by simp
qed simp

text \<open>
  \<open>float(s)\<close> on a token without white space: an optional sign, decimal digits and an
  optional fraction. The other spellings \<open>float\<close> accepts (exponents, \<open>inf\<close>, \<open>nan\<close>,
  underscores) do not occur in ping's output and are refused here like any other
  non-number.
\<close>

definition is_digit :: "char \<Rightarrow> bool" where
  "is_digit c = (48 \<le> (of_char c :: nat) \<and> (of_char c :: nat) \<le> 57)"

definition digits_val :: "string \<Rightarrow> nat" where
  "digits_val ds = foldl (\<lambda>n c. 10 * n + (of_char c - 48)) 0 ds"

definition py_float :: "string \<Rightarrow> py_exc + rat" where
  "py_float s =
     (let err = Inl (ValueError (''could not convert string to float: '' @ quoted s));
          (sgn, body) = (case s of
                           c # t \<Rightarrow> if c = CHR ''-'' then (-1, t) else if c = CHR ''+'' then (1, t) else (1, s)
                         | [] \<Rightarrow> (1, []));
          ip = takeWhile is_digit body;
          rest = dropWhile is_digit body
      in if rest = [] then (if ip = [] then err else Inr (sgn * of_nat (digits_val ip)))
         else if hd rest = CHR ''.'' \<and> list_all is_digit (tl rest) \<and> (ip \<noteq> [] \<or> tl rest \<noteq> [])
         then Inr (sgn * (of_nat (digits_val ip) + of_nat (digits_val (tl rest)) / 10 ^ length (tl rest)))
         else err)"

section \<open>The probe\<close>

type_synonym ping_run = "json \<Rightarrow> (int \<times> string) option"

text \<open>
  \<open>next(line for line in output.splitlines() if "time=" in line)\<close>, then
  \<open>float(time_line.split("time=")[1].split()[0])\<close>.
\<close>

definition ping_time :: "string \<Rightarrow> py_exc + rat" where
  "ping_time output =
     (case find (\<lambda>line. is_substring ''time='' line) (py_splitlines output) of
        None \<Rightarrow> Inl StopIteration
      | Some time_line \<Rightarrow>
          (case drop 1 (py_split ''time='' time_line) of
             [] \<Rightarrow> Inl (IndexError ''list index out of range'')
           | part # _ \<Rightarrow>
               (case py_words part of
                  [] \<Rightarrow> Inl (IndexError ''list index out of range'')
                | tok # _ \<Rightarrow> py_float tok)))"

definition ping_address :: "ping_run \<Rightarrow> json \<Rightarrow> rat option" where
  "ping_address run ip =
     (case run ip of
        None \<Rightarrow> None
      | Some (returncode, output) \<Rightarrow>
          if returncode = 0 then (case ping_time output of Inl _ \<Rightarrow> None | Inr t \<Rightarrow> Some t) else None)"

section \<open>The output of ping\<close>

text \<open>
  The reply of Linux' \<open>ping -c 1\<close> to an answering host: a header line, the echo line
  with the round-trip time, then the statistics (any text \<open>rest\<close>). \<open>ms_text t k\<close>
  prints \<open>t / 10^k\<close> with \<open>k\<close> decimals, as ping prints times.
\<close>

definition ms_text :: "nat \<Rightarrow> nat \<Rightarrow> string" where
  "ms_text t k =
     nat_text (t div 10 ^ k)
     @ (if k = 0 then []
        else CHR ''.'' # replicate (k - length (nat_text (t mod 10 ^ k))) CHR ''0'' @ nat_text (t mod 10 ^ k))"

definition ping_header :: "string \<Rightarrow> string" where
  "ping_header ip = ''PING '' @ ip @ '' ('' @ ip @ '') 56(84) bytes of data.''"

definition ping_echo_line :: "string \<Rightarrow> string \<Rightarrow> string" where
  "ping_echo_line ip tt = ''64 bytes from '' @ ip @ '': icmp_seq=1 ttl=64 time='' @ tt @ '' ms''"

definition ping_reply :: "string \<Rightarrow> string \<Rightarrow> string \<Rightarrow> string" where
  "ping_reply ip tt rest = ping_header ip @ CHR 0x0A # ping_echo_line ip tt @ CHR 0x0A # rest"

section \<open>Parsing lemmas\<close>

lemma nat_text_digits: "list_all is_digit (nat_text n)"
proof (induction n rule: nat_text.induct)
  case (1 n)
  have "n mod 10 < 10" by simp
  with 1 show ?case by (auto simp: nat_text.simps [of n] is_digit_def)
qed

lemma nat_text_nonempty: "nat_text n \<noteq> []"
  by (simp add: nat_text.simps [of n])

lemma digits_val_append: "digits_val (xs @ ys) = digits_val xs * 10 ^ length ys + digits_val ys"
proof -
  have h: "foldl (\<lambda>n c. 10 * n + (of_char c - 48)) a ys = a * 10 ^ length ys + foldl (\<lambda>n c. 10 * n + (of_char c - 48)) 0 ys"
    for a :: nat
    by (induction ys rule: rev_induct) (simp_all add: algebra_simps)
  show ?thesis unfolding digits_val_def foldl_append by (rule h)
qed

lemma digits_val_zeros: "digits_val (replicate m CHR ''0'') = 0"
  by (induction m) (simp_all add: digits_val_def)

lemma digits_val_nat_text: "digits_val (nat_text n) = n"
proof (induction n rule: nat_text.induct)
  case (1 n)
  show ?case
  proof (cases "n < 10")
    case True
    then show ?thesis by (simp add: nat_text.simps [of n] digits_val_def)
  next
    case False
    with 1 show ?thesis by (simp add: nat_text.simps [of n] digits_val_append digits_val_def)
  qed
qed


lemma length_nat_text_le: "n < 10 ^ k \<Longrightarrow> 0 < k \<Longrightarrow> length (nat_text n) \<le> k"
proof (induction n arbitrary: k rule: nat_text.induct)
  case (1 n)
  show ?case
  proof (cases "n < 10")
    case True
    with 1 show ?thesis by (simp add: nat_text.simps [of n])
  next
    case False
    then have k: "2 \<le> k" using 1(2) by (metis le_eq_less_or_eq less_2_cases not_less power_0 power_one_right
      Suc_1 less_one nat_less_le numeral_One one_le_numeral order_less_le_trans)
    have "n div 10 < 10 ^ (k - 1)"
      using 1(2) k by (metis Suc_diff_1 div_less_iff_less_mult gr0I not_numeral_le_zero power_Suc2 zero_less_numeral)
    with 1(1) False k have "length (nat_text (n div 10)) \<le> k - 1" by simp
    with False k show ?thesis by (simp add: nat_text.simps [of n])
  qed
qed

lemma digit_not_sign: "is_digit c \<Longrightarrow> c \<noteq> CHR ''-'' \<and> c \<noteq> CHR ''+'' \<and> c \<noteq> CHR ''.''"
  by (auto simp: is_digit_def)

lemma takeWhile_all: "\<forall>x\<in>set xs. P x \<Longrightarrow> takeWhile P xs = xs"
  by simp

lemma dropWhile_all: "\<forall>x\<in>set xs. P x \<Longrightarrow> dropWhile P xs = []"
  by simp

lemma py_float_int:
  assumes "ds \<noteq> []" and "list_all is_digit ds"
  shows "py_float ds = Inr (of_nat (digits_val ds))"
proof -
  obtain c ds' where c: "ds = c # ds'" using assms(1) by (cases ds) auto
  with assms(2) show ?thesis
    by (simp add: py_float_def Let_def digit_not_sign list_all_iff takeWhile_all dropWhile_all)
qed

lemma py_float_frac:
  assumes "ds \<noteq> []" and "list_all is_digit ds" and "list_all is_digit fs"
  shows "py_float (ds @ CHR ''.'' # fs) = Inr (of_nat (digits_val ds) + of_nat (digits_val fs) / 10 ^ length fs)"
proof -
  obtain c ds' where c: "ds = c # ds'" using assms(1) by (cases ds) auto
  have dot: "\<not> is_digit CHR ''.''" by (simp add: is_digit_def)
  have "takeWhile is_digit (ds @ CHR ''.'' # fs) = ds" "dropWhile is_digit (ds @ CHR ''.'' # fs) = CHR ''.'' # fs"
    using assms(2) dot by (simp_all add: takeWhile_append2 dropWhile_append2 list_all_iff)
  with c assms(2,3) dot show ?thesis
    by (simp add: py_float_def Let_def digit_not_sign del: takeWhile.simps dropWhile.simps)
qed


lemma py_float_ms_text: "py_float (ms_text t k) = Inr (of_nat t / 10 ^ k)"
proof (cases "k = 0")
  case True
  then show ?thesis by (simp add: ms_text_def py_float_int nat_text_digits nat_text_nonempty digits_val_nat_text)
next
  case False
  let ?p = "10 ^ k :: nat" and ?r = "t mod 10 ^ k"
  let ?fs = "replicate (k - length (nat_text ?r)) CHR ''0'' @ nat_text ?r"
  have len: "length (nat_text ?r) \<le> k" using False by (intro length_nat_text_le) simp_all
  have z: "list_all is_digit (replicate m CHR ''0'')" for m by (induction m) (simp_all add: is_digit_def)
  have fs: "list_all is_digit ?fs" "length ?fs = k" "digits_val ?fs = ?r"
    using len z by (simp_all add: nat_text_digits digits_val_append digits_val_zeros digits_val_nat_text)
  have "(of_nat (t div ?p) + of_nat ?r / 10 ^ k :: rat) = of_nat t / 10 ^ k"
  proof -
    have "(of_nat t :: rat) = of_nat (t div ?p) * 10 ^ k + of_nat ?r"
      by (metis (mono_tags) div_mult_mod_eq of_nat_add of_nat_mult of_nat_numeral of_nat_power)
    then show ?thesis by (simp add: field_simps)
  qed
  with False fs show ?thesis
    by (simp add: ms_text_def py_float_frac nat_text_digits nat_text_nonempty digits_val_nat_text)
qed


lemma splitlines_aux_line:
  "list_all (\<lambda>c. \<not> py_linebreak c) u \<Longrightarrow>
   splitlines_aux cur (u @ CHR 0x0A # s) = (rev cur @ u) # splitlines_aux [] s"
proof (induction u arbitrary: cur)
  case Nil
  then show ?case by (simp add: py_linebreak_def)
next
  case (Cons c u)
  then have "c \<noteq> CHR 0x0D" by (auto simp: py_linebreak_def)
  with Cons show ?case by simp
qed

lemma is_substring_skip:
  "p \<noteq> [] \<Longrightarrow> list_all (\<lambda>c. c \<noteq> hd p) u \<Longrightarrow> is_substring p (u @ s) = is_substring p s"
proof (induction u)
  case (Cons c u)
  then have "take (length p) (c # u @ s) \<noteq> p" by (cases p) auto
  with Cons show ?case by simp
qed simp

lemma split_aux_skip:
  "sep \<noteq> [] \<Longrightarrow> list_all (\<lambda>c. c \<noteq> hd sep) u \<Longrightarrow> split_aux sep cur (u @ s) = split_aux sep (rev u @ cur) s"
proof (induction u arbitrary: cur)
  case (Cons c u)
  then have "take (length sep) (c # u @ s) \<noteq> sep" by (cases sep) auto
  with Cons show ?case by simp
qed simp

lemma py_words_space: "py_isspace c \<Longrightarrow> py_words (c # v) = py_words v"
  by (simp add: py_words.simps [of "c # v"] py_words.simps [of v])

lemma py_words_word:
  assumes "u \<noteq> []" and "list_all (\<lambda>c. \<not> py_isspace c) u" and "py_isspace c"
  shows "py_words (u @ c # v) = u # py_words v"
proof -
  obtain a u' where u: "u = a # u'" using assms(1) by (cases u) auto
  have "dropWhile py_isspace (u @ c # v) = u @ c # v" using assms(2) u by simp
  moreover have "takeWhile (\<lambda>c. \<not> py_isspace c) (u @ c # v) = u"
    "dropWhile (\<lambda>c. \<not> py_isspace c) (u @ c # v) = c # v"
    using assms(2,3) by (simp_all add: takeWhile_append2 dropWhile_append2 list_all_iff)
  ultimately show ?thesis using u assms(3) by (simp add: py_words.simps [of "u @ c # v"] py_words_space)
qed


lemma ms_text_chars: "ms_text t k \<noteq> [] \<and> list_all (\<lambda>c. is_digit c \<or> c = CHR ''.'') (ms_text t k)"
proof -
  have z: "list_all is_digit (replicate m CHR ''0'')" for m by (induction m) (simp_all add: is_digit_def)
  have "list_all (\<lambda>c. is_digit c \<or> c = CHR ''.'') (nat_text n)" for n
    using nat_text_digits [of n] by (auto simp: list_all_iff)
  moreover have "list_all (\<lambda>c. is_digit c \<or> c = CHR ''.'') (replicate m CHR ''0'')" for m
    using z [of m] by (auto simp: list_all_iff)
  ultimately show ?thesis by (simp add: ms_text_def nat_text_nonempty)
qed


lemma digit_dot_char:
  "is_digit c \<or> c = CHR ''.'' \<Longrightarrow> \<not> py_linebreak c \<and> c \<noteq> CHR ''t'' \<and> \<not> py_isspace c"
  by (auto simp: is_digit_def py_linebreak_def py_isspace_def)

text \<open>
  C22. Round trip of the probe: for a dotted-decimal address, whatever time ping prints
  (with any number of decimals) and whatever statistics follow, \<open>ping_address\<close> returns
  exactly the printed time.
\<close>

theorem ping_address_reads_reply:
  assumes "list_all (\<lambda>c. is_digit c \<or> c = CHR ''.'') ip"
  shows "ping_address (\<lambda>_. Some (0, ping_reply ip (ms_text t k) rest)) (JStr ip) = Some (of_nat t / 10 ^ k)"
proof -
  let ?tt = "ms_text t k"
  have tt: "?tt \<noteq> []" "list_all (\<lambda>c. is_digit c \<or> c = CHR ''.'') ?tt" using ms_text_chars by blast+
  have ip_nl: "list_all (\<lambda>c. \<not> py_linebreak c) ip" and ip_t: "list_all (\<lambda>c. c \<noteq> CHR ''t'') ip"
    using assms digit_dot_char by (auto simp: list_all_iff)
  have tt_nl: "list_all (\<lambda>c. \<not> py_linebreak c) ?tt" and tt_t: "list_all (\<lambda>c. c \<noteq> CHR ''t'') ?tt"
    and tt_sp: "list_all (\<lambda>c. \<not> py_isspace c) ?tt"
    using tt(2) digit_dot_char by (auto simp: list_all_iff)
  have h1: "list_all (\<lambda>c. \<not> py_linebreak c) (ping_header ip)"
    using ip_nl by (simp add: ping_header_def py_linebreak_def)
  have h2: "list_all (\<lambda>c. \<not> py_linebreak c) (ping_echo_line ip ?tt)"
    using ip_nl tt_nl by (simp add: ping_echo_line_def py_linebreak_def)
  have sl: "py_splitlines (ping_reply ip ?tt rest) = ping_header ip # ping_echo_line ip ?tt # splitlines_aux [] rest"
    using h1 h2 by (simp add: py_splitlines_def ping_reply_def splitlines_aux_line)
  have n1: "\<not> is_substring ''time='' (ping_header ip)"
    using ip_t by (simp add: ping_header_def is_substring_skip)
  have y2: "is_substring ''time='' (ping_echo_line ip ?tt)"
    using ip_t by (simp add: ping_echo_line_def is_substring_skip)
  have sp: "drop 1 (py_split ''time='' (ping_echo_line ip ?tt)) = [?tt @ '' ms'']"
    using ip_t tt_t by (simp add: py_split_def ping_echo_line_def split_aux_skip)
  have ms: "py_words ''ms'' = [''ms'']"
    by (simp add: py_words.simps [of "''ms''"] py_words.simps [of "[]"] py_isspace_def)
  have w: "py_words (?tt @ '' ms'') = [?tt, ''ms'']"
    using py_words_word [OF tt(1) tt_sp, of "CHR '' ''" "''ms''"] ms by (simp add: py_isspace_def)
  show ?thesis
    using sl n1 y2 sp w by (simp add: ping_address_def ping_time_def py_float_ms_text)
qed

theorem ping_address_reads_reply_witness:
  "list_all (\<lambda>c. is_digit c \<or> c = CHR ''.'') ''10.0.0.5'' \<and>
   ping_address (\<lambda>_. Some (0, ping_reply ''10.0.0.5'' (ms_text 45 3) [])) (JStr ''10.0.0.5'') = Some (45 / 1000)"
proof -
  have d: "list_all (\<lambda>c. is_digit c \<or> c = CHR ''.'') ''10.0.0.5''" by (simp add: is_digit_def)
  show ?thesis using ping_address_reads_reply [OF d, of 45 3 "[]"] d by simp
qed

text \<open>
  C23. A failed probe is \<open>None\<close>, so the host is left out of the CUSTOMIZED choice: when
  the command raises (among others the five-second timeout), when it exits with a
  non-zero status, and when no output line contains \<open>time=\<close>.
\<close>

theorem ping_address_failures:
  "(run ip = None \<longrightarrow> ping_address run ip = None)
   \<and> (run ip = Some (rc, out) \<and> rc \<noteq> 0 \<longrightarrow> ping_address run ip = None)
   \<and> (run ip = Some (0, out) \<and> (\<forall>l\<in>set (py_splitlines out). \<not> is_substring ''time='' l) \<longrightarrow>
        ping_address run ip = None)"
proof (intro conjI impI)
  assume "run ip = Some (0, out) \<and> (\<forall>l\<in>set (py_splitlines out). \<not> is_substring ''time='' l)"
  moreover from this have "find (\<lambda>l. is_substring ''time='' l) (py_splitlines out) = None"
    by (simp add: find_None_iff)
  ultimately show "ping_address run ip = None" by (simp add: ping_address_def ping_time_def)
qed (simp_all add: ping_address_def)

theorem ping_address_failures_witness:
  "ping_address (\<lambda>_. Some (1, ''PING 10.0.0.9 (10.0.0.9) 56(84) bytes of data.'')) (JStr ''10.0.0.9'') = None \<and>
   ping_address (\<lambda>_. Some (0, ''PING 10.0.0.9 (10.0.0.9) 56(84) bytes of data.'')) (JStr ''10.0.0.9'') = None"
proof -
  have "\<forall>l\<in>set (py_splitlines ''PING 10.0.0.9 (10.0.0.9) 56(84) bytes of data.''). \<not> is_substring ''time='' l"
    by (simp add: py_splitlines_def py_linebreak_def)
  then show ?thesis
    using ping_address_failures [of "\<lambda>_. Some (1, ''PING 10.0.0.9 (10.0.0.9) 56(84) bytes of data.'')"
        "JStr ''10.0.0.9''" 1 "''PING 10.0.0.9 (10.0.0.9) 56(84) bytes of data.''"]
      ping_address_failures [of "\<lambda>_. Some (0, ''PING 10.0.0.9 (10.0.0.9) 56(84) bytes of data.'')"
        "JStr ''10.0.0.9''" 1 "''PING 10.0.0.9 (10.0.0.9) 56(84) bytes of data.''"]
    by simp
qed

end
