(* ===== verification/Deployment.thy ===== *)
theory Deployment
  imports Ping
begin

text \<open>
  Deployment, \<^verbatim>\<open>src/infrastructure/aws_remote_app_deployment.py\<close>: \<open>deploy_instance\<close>
  reads a membership file and, for every descriptor whose \<open>Name\<close> matches the filter (or
  every descriptor, for the filter \<open>all\<close>), runs \<open>setup_deployment\<close> on its address,
  which installs the packages, uploads a directory and starts
  \<open>gunicorn <module>:app --bind 0.0.0.0:80\<close> in the background. What the cluster sees of
  this is which application answers on port 80 of each host and which files lie in its
  home directory, where the services open their configuration files. A second gunicorn
  on a host whose port 80 is taken fails to bind and exits, so the first application
  deployed on a host keeps the port; the upload before it still copies the files of the
  second application's directory. The state of the remote hosts is the record
  \<open>remote\<close>: the table \<open>rapps\<close> from a host's address to the module served on its port 80,
  and the files \<open>rfiles\<close> of each host. The SSH connection is the environment: \<open>reach ip\<close>
  says whether it succeeds (a failure is caught and printed, the host is left as it was);
  the local files are the map \<open>files\<close> from paths to their contents and \<open>ls\<close> lists each
  local directory.
\<close>

type_synonym hosts = "string \<Rightarrow> string option"

record remote =
  rapps :: hosts
  rfiles :: "string \<Rightarrow> string \<Rightarrow> cfg_file"

section \<open>Deploying one application\<close>

text \<open>\<open>app_name.split('/')[-1].split('.')[0]\<close>: the module gunicorn imports.\<close>

definition gunicorn_module :: "string \<Rightarrow> string" where
  "gunicorn_module app_name = hd (py_split ''.'' (last (py_split ''/'' app_name)))"

text \<open>
  \<open>upload_directory\<close>: the local directory of a deployment path (the gatekeeper's for an
  unknown one), each of its entries put under the same name in the host's home directory.
\<close>

definition directory_map :: "(string \<times> string) list" where
  "directory_map =
     [(''master'', ''../mysql/master''), (''slave'', ''../mysql/slave''),
      (''proxy_manager'', ''../mysql/proxy_manager''), (''trusted_host'', ''../mysql/trusted_host''),
      (''gatekeeper'', ''../mysql/gatekeeper'')]"

definition local_dir :: "string \<Rightarrow> string" where
  "local_dir path = (case map_of directory_map path of Some d \<Rightarrow> d | None \<Rightarrow> ''../mysql/gatekeeper'')"

definition upload_directory ::
    "(string \<Rightarrow> cfg_file) \<Rightarrow> (string \<Rightarrow> string list) \<Rightarrow> string \<Rightarrow> string
      \<Rightarrow> (string \<Rightarrow> string \<Rightarrow> cfg_file) \<Rightarrow> string \<Rightarrow> string \<Rightarrow> cfg_file" where
  "upload_directory files ls path ip rf =
     fold (\<lambda>item rf. rf(ip := (rf ip)(item := files (local_dir path @ ''/'' @ item)))) (ls (local_dir path)) rf"

text \<open>
  The effect of \<open>setup_deployment\<close>: \<open>ssh.connect\<close> needs a string address that answers;
  then the directory is uploaded and the background gunicorn takes port 80 if it is free.
\<close>

definition setup_deployment ::
    "(string \<Rightarrow> bool) \<Rightarrow> (string \<Rightarrow> cfg_file) \<Rightarrow> (string \<Rightarrow> string list) \<Rightarrow> string \<Rightarrow> string \<Rightarrow> json
      \<Rightarrow> remote \<Rightarrow> remote" where
  "setup_deployment reach files ls path app_name public_ip st =
     (case public_ip of
        JStr ip \<Rightarrow>
          if reach ip then
            st\<lparr>rfiles := upload_directory files ls path ip (rfiles st),
               rapps := (if rapps st ip = None then (rapps st)(ip \<mapsto> gunicorn_module app_name) else rapps st)\<rparr>
          else st
      | _ \<Rightarrow> st)"

text \<open>
  The loop of \<open>deploy_instance\<close>: \<open>instance['Name']\<close> is read before the filter is
  compared, then the arguments \<open>PublicIP\<close> and \<open>InstanceID\<close>; a missing key raises
  and ends the script.
\<close>

fun deploy_loop ::
    "(string \<Rightarrow> bool) \<Rightarrow> (string \<Rightarrow> cfg_file) \<Rightarrow> (string \<Rightarrow> string list) \<Rightarrow> string \<Rightarrow> string \<Rightarrow> string
      \<Rightarrow> json list \<Rightarrow> remote \<Rightarrow> py_exc + remote" where
  "deploy_loop reach files ls name_filter path app_name [] st = Inr st"
| "deploy_loop reach files ls name_filter path app_name (i # is) st =
     (case py_subscript i ''Name'' of
        Inl e \<Rightarrow> Inl e
      | Inr nm \<Rightarrow>
          if nm = JStr name_filter \<or> name_filter = ''all'' then
            (case py_subscript i ''PublicIP'' of
               Inl e \<Rightarrow> Inl e
             | Inr ip \<Rightarrow>
                 (case py_subscript i ''InstanceID'' of
                    Inl e \<Rightarrow> Inl e
                  | Inr _ \<Rightarrow> deploy_loop reach files ls name_filter path app_name is
                              (setup_deployment reach files ls path app_name ip st)))
          else deploy_loop reach files ls name_filter path app_name is st)"

definition deploy_instance ::
    "(string \<Rightarrow> bool) \<Rightarrow> (string \<Rightarrow> cfg_file) \<Rightarrow> (string \<Rightarrow> string list) \<Rightarrow> string \<Rightarrow> string \<Rightarrow> string
      \<Rightarrow> string \<Rightarrow> remote \<Rightarrow> py_exc + remote" where
  "deploy_instance reach files ls instance_file name_filter path app_name st =
     (case files instance_file of
        NoFile \<Rightarrow> Inl (FileNotFoundError (''[Errno 2] No such file or directory: '' @ quoted instance_file))
      | BadJson \<Rightarrow> Inl (ValueError ''Expecting value: line 1 column 1 (char 0)'')
      | JsonFile instance_details \<Rightarrow>
          (case py_iter instance_details of
             Inl e \<Rightarrow> Inl e
           | Inr xs \<Rightarrow> deploy_loop reach files ls name_filter path app_name xs st))"

section \<open>The five entry points\<close>

definition MASTER_INFO :: string where
  "MASTER_INFO = ''../mysql/master/instance_info.json''"

type_synonym deployer = "(string \<Rightarrow> bool) \<Rightarrow> (string \<Rightarrow> cfg_file) \<Rightarrow> (string \<Rightarrow> string list) \<Rightarrow> remote \<Rightarrow> py_exc + remote"

definition deploy_master :: deployer where
  "deploy_master reach files ls =
     deploy_instance reach files ls MASTER_INFO ''mysql_master_node'' ''master'' ''master_app.py''"

definition deploy_slave :: deployer where
  "deploy_slave reach files ls = deploy_instance reach files ls MASTER_INFO ''all'' ''slave'' ''slave_app.py''"

definition deploy_proxy_manager :: deployer where
  "deploy_proxy_manager reach files ls =
     deploy_instance reach files ls ''../mysql/trusted_host/proxy_info.json'' ''all'' ''proxy_manager''
       ''proxy_manager_app.py''"

definition deploy_trusted_host :: deployer where
  "deploy_trusted_host reach files ls =
     deploy_instance reach files ls ''../mysql/gatekeeper/trustedhost_info.json'' ''all'' ''trusted_host''
       ''trusted_host_app.py''"

definition deploy_gatekeeper :: deployer where
  "deploy_gatekeeper reach files ls =
     deploy_instance reach files ls ''../benchmark/gatekeeper_info.json'' ''all'' ''gatekeeper'' ''gatekeeper_app.py''"

section \<open>Deployment order\<close>

lemma gunicorn_modules:
  "gunicorn_module ''master_app.py'' = ''master_app''" "gunicorn_module ''slave_app.py'' = ''slave_app''"
  "gunicorn_module ''proxy_manager_app.py'' = ''proxy_manager_app''"
  "gunicorn_module ''trusted_host_app.py'' = ''trusted_host_app''"
  "gunicorn_module ''gatekeeper_app.py'' = ''gatekeeper_app''"
  by (simp_all add: gunicorn_module_def py_split_def)

lemma upload_directory_closed:
  "upload_directory files ls path ip rf =
     (\<lambda>h n. if h = ip \<and> n \<in> set (ls (local_dir path)) then files (local_dir path @ ''/'' @ n) else rf h n)"
proof -
  have "fold (\<lambda>item rf. rf(ip := (rf ip)(item := F item))) items rf =
          (\<lambda>h n. if h = ip \<and> n \<in> set items then F n else rf h n)" for F items rf
    by (induction items arbitrary: rf) (auto simp: fun_eq_iff)
  from this [of "\<lambda>item. files (local_dir path @ ''/'' @ item)" "ls (local_dir path)" rf]
  show ?thesis by (simp add: upload_directory_def)
qed

lemma local_dirs:
  "local_dir ''master'' = ''../mysql/master''" "local_dir ''slave'' = ''../mysql/slave''"
  "local_dir ''proxy_manager'' = ''../mysql/proxy_manager''" "local_dir ''trusted_host'' = ''../mysql/trusted_host''"
  "local_dir ''gatekeeper'' = ''../mysql/gatekeeper''"
  by (simp_all add: local_dir_def directory_map_def)

text \<open>
  A pass over a membership list sets up every reachable address of a selected descriptor:
  its port 80 goes to the application if it was free, its home directory receives the
  files of the application's directory. Setting up the same host twice changes nothing more.
\<close>

lemma fold_setup:
  "rapps (fold (\<lambda>d st. if P d then setup_deployment reach files ls path app (desc_field d ''PublicIP'') st else st) ds st) =
     (\<lambda>ip. if rapps st ip = None \<and> reach ip \<and> (\<exists>d\<in>set ds. P d \<and> desc_field d ''PublicIP'' = JStr ip)
           then Some (gunicorn_module app) else rapps st ip)"
  "rfiles (fold (\<lambda>d st. if P d then setup_deployment reach files ls path app (desc_field d ''PublicIP'') st else st) ds st) =
     (\<lambda>ip n. if reach ip \<and> (\<exists>d\<in>set ds. P d \<and> desc_field d ''PublicIP'' = JStr ip) \<and> n \<in> set (ls (local_dir path))
             then files (local_dir path @ ''/'' @ n) else rfiles st ip n)"
proof (induction ds arbitrary: st)
  case Nil
  case 1 show ?case by simp
  case 2 show ?case by simp
next
  case (Cons d ds)
  case 1 show ?case
    by (simp add: Cons.IH) (auto simp: fun_eq_iff setup_deployment_def split: json.splits)
  case 2 show ?case
    by (simp add: Cons.IH) (auto simp: fun_eq_iff setup_deployment_def upload_directory_closed split: json.splits)
qed

lemma deploy_loop_wf:
  "list_all wf_desc xs \<Longrightarrow>
   deploy_loop reach files ls nf path app xs st =
     Inr (fold (\<lambda>d st. if desc_field d ''Name'' = JStr nf \<or> nf = ''all''
                      then setup_deployment reach files ls path app (desc_field d ''PublicIP'') st else st) xs st)"
  by (induction xs arbitrary: st) (simp_all add: wf_desc_subscript)

lemma deploy_instance_wf:
  "files f = JsonFile (JArr xs) \<Longrightarrow> list_all wf_desc xs \<Longrightarrow>
   deploy_instance reach files ls f nf path app st =
     Inr (fold (\<lambda>d st. if desc_field d ''Name'' = JStr nf \<or> nf = ''all''
                      then setup_deployment reach files ls path app (desc_field d ''PublicIP'') st else st) xs st)"
  by (simp add: deploy_instance_def deploy_loop_wf)

lemma deploy_instance_effect:
  assumes "files f = JsonFile (JArr xs)" and "list_all wf_desc xs"
  obtains s where "deploy_instance reach files ls f nf path app st = Inr s"
    "rapps s = (\<lambda>ip. if rapps st ip = None \<and> reach ip \<and>
        (\<exists>d\<in>set xs. (desc_field d ''Name'' = JStr nf \<or> nf = ''all'') \<and> desc_field d ''PublicIP'' = JStr ip)
        then Some (gunicorn_module app) else rapps st ip)"
    "rfiles s = (\<lambda>ip n. if reach ip \<and>
        (\<exists>d\<in>set xs. (desc_field d ''Name'' = JStr nf \<or> nf = ''all'') \<and> desc_field d ''PublicIP'' = JStr ip)
        \<and> n \<in> set (ls (local_dir path)) then files (local_dir path @ ''/'' @ n) else rfiles st ip n)"
  by (rule that [OF deploy_instance_wf [where files = files and f = f and xs = xs, OF assms]]) (simp_all only: fold_setup)

lemma deploy_wf:
  assumes "list_all wf_desc ds" and "files MASTER_INFO = JsonFile (JArr ds)"
  shows "map_sum id rapps (deploy_master reach files ls st) = Inr (\<lambda>ip. if rapps st ip = None \<and> reach ip \<and>
             (\<exists>d\<in>set ds. is_master_desc d \<and> desc_field d ''PublicIP'' = JStr ip) then Some ''master_app'' else rapps st ip)"
    and "map_sum id rapps (deploy_slave reach files ls st) = Inr (\<lambda>ip. if rapps st ip = None \<and> reach ip \<and>
             (\<exists>d\<in>set ds. desc_field d ''PublicIP'' = JStr ip) then Some ''slave_app'' else rapps st ip)"
  using assms
  using fold_setup [where P = "\<lambda>_. True", simplified]
  by (simp_all add: deploy_master_def deploy_slave_def deploy_instance_wf fold_setup
      gunicorn_modules is_master_desc_def MASTER_NAME_def cong: if_cong)

text \<open>
  C24. Which application serves a database host depends on the order of the entry
  points: \<open>deploy_slave\<close> deploys the replica application on every member of the
  membership file, the primary included. Run after \<open>deploy_master\<close>, every reachable
  member ends up with the right application; run before it, the primary's port 80 is
  taken by the replica application, and no node replays writes.
\<close>

theorem deploy_order_decides_primary:
  assumes "one_master ds" and "distinct (map (\<lambda>d. desc_field d ''PublicIP'') ds)"
    and "files MASTER_INFO = JsonFile (JArr ds)" and "rapps st = Map.empty"
  shows "(\<exists>s1 s2. deploy_master reach files ls st = Inr s1 \<and> deploy_slave reach files ls s1 = Inr s2
            \<and> (\<forall>d\<in>set ds. \<forall>ip. desc_field d ''PublicIP'' = JStr ip \<and> reach ip \<longrightarrow>
                  rapps s2 ip = Some (if is_master_desc d then ''master_app'' else ''slave_app'')))
       \<and> (\<exists>s1 s2. deploy_slave reach files ls st = Inr s1 \<and> deploy_master reach files ls s1 = Inr s2
            \<and> (\<forall>d\<in>set ds. \<forall>ip. desc_field d ''PublicIP'' = JStr ip \<and> reach ip \<longrightarrow> rapps s2 ip = Some ''slave_app''))"
proof -
  have wf: "list_all wf_desc ds" using assms(1) by (simp add: one_master_def)
  have uniq: "d' = d" if "d \<in> set ds" "d' \<in> set ds" "desc_field d' ''PublicIP'' = desc_field d ''PublicIP''" for d d'
    using assms(2) that by (metis distinct_map inj_on_eq_iff)
  have ok: "\<exists>s. f reach files ls st' = Inr s \<and> rapps s = g" if "map_sum id rapps (f reach files ls st') = Inr g"
    for f :: deployer and st' g using that by (cases "f reach files ls st'") auto
  note dw = deploy_wf [where files = files and ds = ds and reach = reach and ls = ls, OF wf assms(3)]
  obtain s1 where s1: "deploy_master reach files ls st = Inr s1"
    "rapps s1 = (\<lambda>ip. if rapps st ip = None \<and> reach ip \<and>
             (\<exists>d\<in>set ds. is_master_desc d \<and> desc_field d ''PublicIP'' = JStr ip) then Some ''master_app'' else rapps st ip)"
    using ok [where f = deploy_master, OF dw(1) [where st = st]] by blast
  obtain s2 where s2: "deploy_slave reach files ls s1 = Inr s2"
    "rapps s2 = (\<lambda>ip. if rapps s1 ip = None \<and> reach ip \<and>
             (\<exists>d\<in>set ds. desc_field d ''PublicIP'' = JStr ip) then Some ''slave_app'' else rapps s1 ip)"
    using ok [where f = deploy_slave, OF dw(2) [where st = s1]] by blast
  obtain t1 where t1: "deploy_slave reach files ls st = Inr t1"
    "rapps t1 = (\<lambda>ip. if rapps st ip = None \<and> reach ip \<and>
             (\<exists>d\<in>set ds. desc_field d ''PublicIP'' = JStr ip) then Some ''slave_app'' else rapps st ip)"
    using ok [where f = deploy_slave, OF dw(2) [where st = st]] by blast
  obtain t2 where t2: "deploy_master reach files ls t1 = Inr t2"
    "rapps t2 = (\<lambda>ip. if rapps t1 ip = None \<and> reach ip \<and>
             (\<exists>d\<in>set ds. is_master_desc d \<and> desc_field d ''PublicIP'' = JStr ip) then Some ''master_app'' else rapps t1 ip)"
    using ok [where f = deploy_master, OF dw(1) [where st = t1]] by blast
  have "\<forall>d\<in>set ds. \<forall>ip. desc_field d ''PublicIP'' = JStr ip \<and> reach ip \<longrightarrow>
                  rapps s2 ip = Some (if is_master_desc d then ''master_app'' else ''slave_app'')"
    using s1(2) s2(2) assms(4) by (auto dest: uniq)
  moreover have "\<forall>d\<in>set ds. \<forall>ip. desc_field d ''PublicIP'' = JStr ip \<and> reach ip \<longrightarrow> rapps t2 ip = Some ''slave_app''"
    using t1(2) t2(2) assms(4) by auto
  ultimately show ?thesis using s1(1) s2(1) t1(1) t2(1) by blast
qed

theorem deploy_order_decides_primary_witness:
  "one_master example_members \<and> distinct (map (\<lambda>d. desc_field d ''PublicIP'') example_members) \<and>
   (\<lambda>_. JsonFile (JArr example_members)) MASTER_INFO = JsonFile (JArr example_members) \<and>
   rapps \<lparr>rapps = Map.empty, rfiles = (\<lambda>_ _. NoFile)\<rparr> = Map.empty \<and>
   (\<exists>s1 s2. deploy_slave (\<lambda>_. True) (\<lambda>_. JsonFile (JArr example_members)) (\<lambda>_. []) \<lparr>rapps = Map.empty, rfiles = (\<lambda>_ _. NoFile)\<rparr> = Inr s1
      \<and> deploy_master (\<lambda>_. True) (\<lambda>_. JsonFile (JArr example_members)) (\<lambda>_. []) s1 = Inr s2 \<and> rapps s2 ''A'' = Some ''slave_app'')"
proof -
  have dist: "distinct (map (\<lambda>d. desc_field d ''PublicIP'') example_members)"
    by (simp add: example_members_eval desc_field_def)
  have a: "example_members ! 0 \<in> set example_members" "desc_field (example_members ! 0) ''PublicIP'' = JStr ''A''"
    by (simp_all add: example_members_eval desc_field_def)
  have e: "rapps \<lparr>rapps = Map.empty, rfiles = (\<lambda>_ _. NoFile)\<rparr> = Map.empty" by simp
  from deploy_order_decides_primary [OF example_members_one_master dist, of "\<lambda>_. JsonFile (JArr example_members)"
      "\<lparr>rapps = Map.empty, rfiles = (\<lambda>_ _. NoFile)\<rparr>" "\<lambda>_. True" "\<lambda>_. []"] a
  have "\<exists>s1 s2. deploy_slave (\<lambda>_. True) (\<lambda>_. JsonFile (JArr example_members)) (\<lambda>_. []) \<lparr>rapps = Map.empty, rfiles = (\<lambda>_ _. NoFile)\<rparr> = Inr s1
      \<and> deploy_master (\<lambda>_. True) (\<lambda>_. JsonFile (JArr example_members)) (\<lambda>_. []) s1 = Inr s2 \<and> rapps s2 ''A'' = Some ''slave_app''"
    by fastforce
  with example_members_one_master dist show ?thesis by simp
qed

end
