(* ===== verification/ReplicaNode.thy ===== *)
theory ReplicaNode
  imports Membership
begin

text \<open>
  A replica, \<^verbatim>\<open>src/mysql/slave/slave_app.py\<close>: \<open>/read\<close> and \<open>/write\<close> each run one
  statement on the local MySQL database, \<open>/health\<close> opens and closes a connection.
  MySQL itself is outside the repository; it is the engine interface below, over any type
  \<open>'db\<close> of database states. A statement is passed to the engine as the JSON value the
  request carried (\<open>cursor.execute(query)\<close> receives whatever \<open>data.get("query")\<close>
  returned).
\<close>

section \<open>The database engine\<close>

text \<open>
  The outcome of one statement: a result, a \<open>mysql.connector.Error\<close> with its message,
  or another exception (for instance a \<open>TypeError\<close> for a query that is not a string),
  which no handler catches.
\<close>

datatype 'a db_result = DbOk 'a | DbError string | DbCrash py_exc

text \<open>
  \<open>connect_err\<close>: the error of \<open>mysql.connector.connect\<close>, \<open>None\<close> when it connects;
  \<open>conn_alive\<close>: \<open>connection.is_connected()\<close> on the fresh connection;
  \<open>run_read\<close>: \<open>execute\<close> then \<open>fetchall\<close> on a dictionary cursor (a read is not
  committed and leaves the database as it was); \<open>run_write\<close>: \<open>execute\<close>, \<open>commit\<close>
  and \<open>rowcount\<close>.
\<close>

record 'db engine =
  connect_err :: "'db \<Rightarrow> string option"
  conn_alive :: "'db \<Rightarrow> bool"
  run_read :: "'db \<Rightarrow> json \<Rightarrow> json list db_result"
  run_write :: "'db \<Rightarrow> json \<Rightarrow> ('db \<times> int) db_result"

text \<open>\<open>get_db_connection\<close>: a connector error becomes the builtin \<open>ConnectionError\<close>.\<close>

definition get_db_connection :: "'db engine \<Rightarrow> 'db \<Rightarrow> py_exc + unit" where
  "get_db_connection eng d =
     (case connect_err eng d of
        Some err \<Rightarrow> Inl (ConnectionError (''Database connection failed: '' @ err))
      | None \<Rightarrow> Inr ())"

section \<open>Handlers\<close>

definition replica_health_check :: "'db engine \<Rightarrow> 'db \<Rightarrow> http_resp" where
  "replica_health_check eng d =
     (case get_db_connection eng d of
        Inl e \<Rightarrow> jsonify (JObj [(''status'', JStr ''unhealthy''), (''error'', JStr (exc_str e))]) 500
      | Inr _ \<Rightarrow>
          if conn_alive eng d then jsonify (JObj [(''status'', JStr ''healthy'')]) 200
          else flask_500)"

text \<open>
  The read endpoint. \<open>data.get\<close> on a body that is not a dict raises, and Flask answers
  with its 500 page; both caught exception classes give \<open>{"error": str(err)}\<close>.
\<close>

definition replica_read_data :: "'db engine \<Rightarrow> json \<Rightarrow> 'db \<Rightarrow> http_resp" where
  "replica_read_data eng data d =
     (case py_get data ''query'' of
        Inl _ \<Rightarrow> flask_500
      | Inr query \<Rightarrow>
          if \<not> py_truthy query then jsonify (error_obj ''Query is missing'') 400
          else
            (case get_db_connection eng d of
               Inl e \<Rightarrow> jsonify (error_obj (exc_str e)) 500
             | Inr _ \<Rightarrow>
                 (case run_read eng d query of
                    DbOk rows \<Rightarrow> jsonify (JObj [(''data'', JArr rows)]) 200
                  | DbError m \<Rightarrow> jsonify (error_obj m) 500
                  | DbCrash _ \<Rightarrow> flask_500)))"

definition replica_write_data :: "'db engine \<Rightarrow> json \<Rightarrow> 'db \<Rightarrow> 'db \<times> http_resp" where
  "replica_write_data eng data d =
     (case py_get data ''query'' of
        Inl _ \<Rightarrow> (d, flask_500)
      | Inr query \<Rightarrow>
          if \<not> py_truthy query then (d, jsonify (error_obj ''Query is missing'') 400)
          else
            (case get_db_connection eng d of
               Inl e \<Rightarrow> (d, jsonify (error_obj (exc_str e)) 500)
             | Inr _ \<Rightarrow>
                 (case run_write eng d query of
                    DbOk (d', n) \<Rightarrow>
                      (d', jsonify (JObj [(''message'', JStr ''Query executed successfully''),
                                          (''affected_rows'', JInt n)]) 200)
                  | DbError m \<Rightarrow> (d, jsonify (error_obj m) 500)
                  | DbCrash _ \<Rightarrow> (d, flask_500))))"

section \<open>Properties\<close>

text \<open>
  C9. A replica's write surfaces a connection failure and a database error alike as a
  structured 500 answer \<open>{"error": ...}\<close> and leaves the database unchanged; a
  successful write answers 200 with the affected-row count and the new state.
\<close>

theorem replica_write_outcomes:
  assumes "py_truthy (dict_get kvs ''query'')"
  shows "(connect_err eng d = Some err \<longrightarrow>
            replica_write_data eng (JObj kvs) d = (d, jsonify (error_obj (''Database connection failed: '' @ err)) 500))
       \<and> (connect_err eng d = None \<and> run_write eng d (dict_get kvs ''query'') = DbError m \<longrightarrow>
            replica_write_data eng (JObj kvs) d = (d, jsonify (error_obj m) 500))
       \<and> (connect_err eng d = None \<and> run_write eng d (dict_get kvs ''query'') = DbOk (d', n) \<longrightarrow>
            replica_write_data eng (JObj kvs) d =
              (d', jsonify (JObj [(''message'', JStr ''Query executed successfully''), (''affected_rows'', JInt n)]) 200))"
  using assms by (simp add: replica_write_data_def get_db_connection_def)

theorem replica_write_outcomes_witness:
  "py_truthy (dict_get [(''query'', JStr ''DELETE FROM t'')] ''query'') \<and>
   replica_write_data \<lparr>connect_err = (\<lambda>_. Some ''refused''), conn_alive = (\<lambda>_. False),
       run_read = (\<lambda>_ _. DbOk []), run_write = (\<lambda>d _. DbOk (d, 0))\<rparr> (JObj [(''query'', JStr ''DELETE FROM t'')]) (0::nat)
     = (0, jsonify (error_obj ''Database connection failed: refused'') 500)"
  using replica_write_outcomes [of "[(''query'', JStr ''DELETE FROM t'')]"
      "\<lparr>connect_err = (\<lambda>_. Some ''refused''), conn_alive = (\<lambda>_. False),
        run_read = (\<lambda>_ _. DbOk []), run_write = (\<lambda>d _. DbOk (d, 0))\<rparr>" "0::nat" "''refused''"]
  by simp

end
