(* ===== verification/PrimaryNode.thy ===== *)
theory PrimaryNode
  imports ReplicaNode
begin

text \<open>
  The primary, \<^verbatim>\<open>src/mysql/master/master_app.py\<close>. \<open>/read\<close> runs one statement
  locally, as a replica does. \<open>/write\<close> loads the membership file, runs the statement
  locally and commits it, then replays it, one \<open>requests.post\<close> after the other, to the
  \<open>/write\<close> endpoint of every descriptor not tagged primary, and answers 200 with the
  list of outcomes, its own first. The primary's database lives in the world \<open>'w\<close>
  the transport acts on, read with \<open>getdb\<close> and written with \<open>putdb\<close>: a replayed
  write that reaches the primary again would see the committed local write.
\<close>

section \<open>Definitions\<close>

definition get_instance_details :: "cfg_file \<Rightarrow> py_exc + json" where
  "get_instance_details f =
     (case f of
        NoFile \<Rightarrow> Inl (FileNotFoundError ''Instance details file not found'')
      | BadJson \<Rightarrow> Inl (ValueError ''Error decoding JSON from instance details file'')
      | JsonFile j \<Rightarrow> Inr j)"

definition primary_health_check :: "'db engine \<Rightarrow> 'db \<Rightarrow> http_resp" where
  "primary_health_check eng d =
     (case get_db_connection eng d of
        Inl e \<Rightarrow> jsonify (JObj [(''status'', JStr ''unhealthy''), (''error'', JStr (exc_str e))]) 500
      | Inr _ \<Rightarrow>
          if conn_alive eng d then jsonify (JObj [(''status'', JStr ''healthy'')]) 200
          else flask_500)"

definition primary_read_data :: "'db engine \<Rightarrow> json \<Rightarrow> 'db \<Rightarrow> http_resp" where
  "primary_read_data eng data d =
     (case py_get data ''query'' of
        Inl _ \<Rightarrow> flask_500
      | Inr query \<Rightarrow>
          if \<not> py_truthy query then jsonify (error_obj ''Query is missing'') 400
          else
            (case get_db_connection eng d of
               Inl e \<Rightarrow> jsonify (error_obj (exc_str e)) 500
             | Inr _ \<Rightarrow>
                 (case run_read eng d query of
                    DbOk rows \<Rightarrow> jsonify (JObj [(''data'', JArr rows)]) 200
                  | DbError m \<Rightarrow> jsonify (error_obj m) 500
                  | DbCrash _ \<Rightarrow> flask_500)))"

text \<open>
  The two comprehensions that build \<open>instance_ids\<close> and then \<open>public_ips\<close> from the
  descriptors not tagged primary; only the addresses are used afterwards, but a
  descriptor without \<open>InstanceID\<close> raises already in the first.
\<close>

definition replica_ips :: "json \<Rightarrow> py_exc + json list" where
  "replica_ips insts =
     (case py_iter insts of
        Inl e \<Rightarrow> Inl e
      | Inr xs \<Rightarrow>
          (case py_comp not_master (\<lambda>i. py_subscript i ''InstanceID'') xs of
             Inl e \<Rightarrow> Inl e
           | Inr _ \<Rightarrow> py_comp not_master (\<lambda>i. py_subscript i ''PublicIP'') xs))"

text \<open>The local execution, \<open>local_response\<close>: both caught error classes give ``Query failed''.\<close>

definition master_local_write :: "'db engine \<Rightarrow> json \<Rightarrow> 'db \<Rightarrow> 'db \<times> (py_exc + json)" where
  "master_local_write eng query d =
     (case get_db_connection eng d of
        Inl e \<Rightarrow> (d, Inr (fail_env ''Query failed'' (JStr (exc_str e))))
      | Inr _ \<Rightarrow>
          (case run_write eng d query of
             DbOk (d', n) \<Rightarrow>
               (d', Inr (JObj [(''message'', JStr ''Query executed successfully''), (''affected_rows'', JInt n)]))
           | DbError m \<Rightarrow> (d, Inr (fail_env ''Query failed'' (JStr m)))
           | DbCrash e \<Rightarrow> (d, Inl e)))"

text \<open>
  The outcome recorded for one replayed write. \<open>response.json()\<close> on a body that is not
  JSON raises \<open>JSONDecodeError\<close>, a \<open>RequestException\<close>, caught like a transport
  failure; \<open>json_response.get\<close> on a JSON value that is not a dict raises
  \<open>AttributeError\<close>, which nothing catches (\<open>Inl\<close>).
\<close>

definition replica_outcome :: "py_exc + http_resp \<Rightarrow> py_exc + json" where
  "replica_outcome res =
     (case res of
        Inl e \<Rightarrow> Inr (fail_env ''Query forwarding failed'' (JStr (exc_str e)))
      | Inr resp \<Rightarrow>
          if status resp = 200 then
            (case resp_json resp of
               Inl e \<Rightarrow> Inr (fail_env ''Query forwarding failed'' (JStr (exc_str e)))
             | Inr j \<Rightarrow>
                 (case py_get_default j ''message'' (JStr ''No message provided'') of
                    Inl e \<Rightarrow> Inl e
                  | Inr msg \<Rightarrow>
                      (case py_get_default j ''affected_rows'' (JInt 0) of
                         Inl e \<Rightarrow> Inl e
                       | Inr n \<Rightarrow> Inr (JObj [(''message'', msg), (''affected_rows'', n)]))))
          else
            (case resp_json resp of
               Inl e \<Rightarrow> Inr (fail_env ''Query forwarding failed'' (JStr (exc_str e)))
             | Inr j \<Rightarrow> Inr (fail_env ''Query forwarding failed'' j)))"

text \<open>The loop \<open>for ip in public_ips\<close>: sequential, in membership order, no abort.\<close>

fun forward_writes :: "'w post \<Rightarrow> json \<Rightarrow> json list \<Rightarrow> 'w \<Rightarrow> ('w \<times> (py_exc + json list)) option" where
  "forward_writes post query [] w = Some (w, Inr [])"
| "forward_writes post query (ip # ips) w =
     do {
       (w1, res) \<leftarrow> post w (node_url ip ''/write'') (JObj [(''query'', query)]) [];
       (case replica_outcome res of
          Inl e \<Rightarrow> Some (w1, Inl e)
        | Inr out \<Rightarrow>
            do {
              (w2, rest) \<leftarrow> forward_writes post query ips w1;
              Some (w2, case rest of Inl e \<Rightarrow> Inl e | Inr outs \<Rightarrow> Inr (out # outs))
            })
     }"

definition primary_write_data ::
    "'db engine \<Rightarrow> ('w \<Rightarrow> 'db) \<Rightarrow> ('w \<Rightarrow> 'db \<Rightarrow> 'w) \<Rightarrow> cfg_file \<Rightarrow> 'w post \<Rightarrow> json \<Rightarrow> 'w
      \<Rightarrow> ('w \<times> http_resp) option" where
  "primary_write_data eng getdb putdb f post data w =
     (case py_get data ''query'' of
        Inl _ \<Rightarrow> Some (w, flask_500)
      | Inr query \<Rightarrow>
     if \<not> py_truthy query then Some (w, jsonify (error_obj ''Query is missing'') 400)
     else
       (case get_instance_details f of
          Inl e \<Rightarrow> Some (w, jsonify (error_obj (exc_str e)) 500)
        | Inr insts \<Rightarrow>
            (case replica_ips insts of
               Inl _ \<Rightarrow> Some (w, flask_500)
             | Inr ips \<Rightarrow>
                 (case master_local_write eng query (getdb w) of
                    (_, Inl _) \<Rightarrow> Some (w, flask_500)
                  | (d', Inr local_response) \<Rightarrow>
                      do {
                        (w2, res) \<leftarrow> forward_writes post query ips (putdb w d');
                        Some (w2, case res of
                                    Inl _ \<Rightarrow> flask_500
                                  | Inr outs \<Rightarrow> jsonify (JArr (local_response # outs)) 200)
                      }))))"

text \<open>
  The spec's replication example: a primary and replicas B and C, replica B unreachable.
  The database state is a counter of committed writes, each write affects one row, and
  the world is the primary's database alone (the replays leave it unchanged).
\<close>

definition example_engine :: "nat engine" where
  "example_engine =
     \<lparr>connect_err = (\<lambda>_. None), conn_alive = (\<lambda>_. True), run_read = (\<lambda>_ _. DbOk []),
      run_write = (\<lambda>d _. DbOk (Suc d, 1))\<rparr>"

definition example_reply :: "string \<Rightarrow> py_exc + http_resp" where
  "example_reply url =
     (if url = node_url (JStr ''B'') ''/write'' then Inl (RequestException ''Connection refused'')
      else Inr (jsonify (JObj [(''message'', JStr ''Query executed successfully''), (''affected_rows'', JInt 1)]) 200))"

definition example_post :: "nat post" where
  "example_post w url payload hdrs = Some (w, example_reply url)"

section \<open>Replication\<close>

lemma replica_ips_wf:
  assumes "list_all wf_desc ds"
  shows "replica_ips (JArr ds) = Inr (map (\<lambda>d. desc_field d ''PublicIP'') (filter (\<lambda>d. \<not> is_master_desc d) ds))"
proof -
  have "py_comp not_master (\<lambda>i. py_subscript i k) ds =
          Inr (map (\<lambda>d. desc_field d k) (filter (\<lambda>d. \<not> is_master_desc d) ds))"
    if "k \<in> {''InstanceID'', ''PublicIP''}" for k
    using assms that by (intro py_comp_total) (auto simp: list_all_iff desc_eval)
  then show ?thesis by (simp add: replica_ips_def)
qed

text \<open>
  When each replayed call answers independently of the ones before (the reply depends
  on the URL only) the sequential loop computes the outcomes of all replicas, in order,
  as a parallel fan-out would; the world goes through one step per replica.
\<close>

lemma forward_writes_independent:
  assumes post: "\<And>w u p h. post w u p h = Some (step w u, reply u)"
    and ok: "\<forall>ip\<in>set ips. \<exists>out. replica_outcome (reply (node_url ip ''/write'')) = Inr out"
  shows "forward_writes post q ips w =
           Some (fold (\<lambda>ip w. step w (node_url ip ''/write'')) ips w,
                 Inr (map (\<lambda>ip. projr (replica_outcome (reply (node_url ip ''/write'')))) ips))"
  using ok by (induction ips arbitrary: w) (auto simp: post)

text \<open>Replays that never touch the primary's database leave it as the local write left it.\<close>

lemma forward_writes_frame:
  assumes "\<And>w u p h. post w u p h \<noteq> None"
    and "\<And>w u p h w' r. post w u p h = Some (w', r) \<Longrightarrow> getdb w' = getdb w"
  shows "\<exists>w' res. forward_writes post q ips w = Some (w', res) \<and> getdb w' = getdb w"
proof (induction ips arbitrary: w)
  case Nil
  then show ?case by simp
next
  case (Cons ip ips)
  obtain w1 r where p: "post w (node_url ip ''/write'') (JObj [(''query'', q)]) [] = Some (w1, r)"
    using assms(1) by fastforce
  with assms(2) have g1: "getdb w1 = getdb w" by blast
  show ?case
  proof (cases "replica_outcome r")
    case (Inl e)
    with p g1 show ?thesis by simp
  next
    case (Inr out)
    from Cons.IH [of w1] obtain w2 res where "forward_writes post q ips w1 = Some (w2, res)" "getdb w2 = getdb w1"
      by blast
    with p g1 Inr show ?thesis by simp
  qed
qed

lemma one_master_replicas:
  "one_master ds \<Longrightarrow> Suc (length (filter (\<lambda>d. \<not> is_master_desc d) ds)) = length ds"
  using sum_length_filter_compl [of is_master_desc ds] by (simp add: one_master_def)

text \<open>
  C7. Best-effort replication: on a membership list with one primary, once the local
  write has produced its outcome, the primary answers 200 with one outcome per node of
  the membership, its own first, then the outcome of every replica's reply in membership
  order; a failing replica (transport error, error status) contributes a failure entry
  and neither aborts the remaining replays nor changes the primary's entry.
\<close>

theorem primary_write_replicates:
  assumes "one_master ds" and "py_truthy q"
    and "master_local_write eng q (getdb w) = (d', Inr local)"
    and "\<And>w u p h. post w u p h = Some (step w u, reply u)"
    and "\<forall>u. \<exists>out. replica_outcome (reply u) = Inr out"
  shows "\<exists>w' outs. primary_write_data eng getdb putdb (JsonFile (JArr ds)) post (JObj [(''query'', q)]) w
                   = Some (w', jsonify (JArr (local # outs)) 200)
               \<and> length (local # outs) = length ds
               \<and> outs = map (\<lambda>d. projr (replica_outcome (reply (node_url (desc_field d ''PublicIP'') ''/write''))))
                           (filter (\<lambda>d. \<not> is_master_desc d) ds)"
proof -
  let ?ips = "map (\<lambda>d. desc_field d ''PublicIP'') (filter (\<lambda>d. \<not> is_master_desc d) ds)"
  have wf: "list_all wf_desc ds" using assms(1) by (simp add: one_master_def)
  have fw: "forward_writes post q ?ips (putdb w d') =
      Some (fold (\<lambda>ip w. step w (node_url ip ''/write'')) ?ips (putdb w d'),
            Inr (map (\<lambda>ip. projr (replica_outcome (reply (node_url ip ''/write'')))) ?ips))"
    using assms(4,5) by (intro forward_writes_independent) auto
  show ?thesis
    using assms(2,3) fw one_master_replicas [OF assms(1)]
    by (simp add: primary_write_data_def get_instance_details_def replica_ips_wf [OF wf] comp_def)
qed

theorem primary_write_replicates_witness:
  "one_master example_members \<and> py_truthy (JStr ''INSERT INTO t VALUES (1)'') \<and>
   primary_write_data example_engine id (\<lambda>w d. d) (JsonFile (JArr example_members)) example_post
       (JObj [(''query'', JStr ''INSERT INTO t VALUES (1)'')]) 0
     = Some (1, jsonify (JArr [
         JObj [(''message'', JStr ''Query executed successfully''), (''affected_rows'', JInt 1)],
         fail_env ''Query forwarding failed'' (JStr ''Connection refused''),
         JObj [(''message'', JStr ''Query executed successfully''), (''affected_rows'', JInt 1)]]) 200)"
proof -
  have om: "one_master example_members"
    by (simp add: one_master_def example_members_eval is_master_desc_def desc_field_def
        SLAVE_NAME_def MASTER_NAME_def)
  have lw: "master_local_write example_engine (JStr ''INSERT INTO t VALUES (1)'') (id 0) =
      (1, Inr (JObj [(''message'', JStr ''Query executed successfully''), (''affected_rows'', JInt 1)]))"
    by (simp add: master_local_write_def example_engine_def get_db_connection_def)
  have ok: "\<forall>u. \<exists>out. replica_outcome (example_reply u) = Inr out"
    by (simp add: example_reply_def replica_outcome_def jsonify_def resp_json_def)
  from primary_write_replicates [where ds = example_members and q = "JStr ''INSERT INTO t VALUES (1)''"
      and eng = example_engine and getdb = id and w = 0 and d' = 1 and step = "\<lambda>w u. w"
      and reply = example_reply and post = example_post and putdb = "\<lambda>w d. d"] om lw
  obtain w' outs where r:
    "primary_write_data example_engine id (\<lambda>w d. d) (JsonFile (JArr example_members)) example_post
       (JObj [(''query'', JStr ''INSERT INTO t VALUES (1)'')]) 0 = Some (w', jsonify (JArr (JObj [(''message'', JStr ''Query executed successfully''), (''affected_rows'', JInt 1)] # outs)) 200)"
    "outs = map (\<lambda>d. projr (replica_outcome (example_reply (node_url (desc_field d ''PublicIP'') ''/write''))))
                (filter (\<lambda>d. \<not> is_master_desc d) example_members)"
    using ok by (auto simp: example_post_def)
  have outs: "outs = [fail_env ''Query forwarding failed'' (JStr ''Connection refused''),
      JObj [(''message'', JStr ''Query executed successfully''), (''affected_rows'', JInt 1)]]"
    by (simp add: r(2) example_members_eval is_master_desc_def desc_field_def SLAVE_NAME_def
        MASTER_NAME_def example_reply_def replica_outcome_def node_url_def jsonify_def resp_json_def)
  have "w' = 1"
    using r(1) by (simp add: primary_write_data_def get_instance_details_def replica_ips_def
        example_members_eval not_master_def is_master_desc_def SLAVE_NAME_def MASTER_NAME_def
        master_local_write_def example_engine_def get_db_connection_def example_post_def
        example_reply_def replica_outcome_def node_url_def jsonify_def resp_json_def)
  with om r(1) outs show ?thesis by simp
qed

text \<open>
  C8. The primary's local write is committed before any replay and never undone: when
  the replays return and leave the primary's database alone, the primary ends in the
  state its local write produced, and answers either the outcome list with its own
  result first or, if a replica's reply makes it raise, Flask's 500 page, the local
  write being kept in both cases.
\<close>

theorem primary_keeps_local_write:
  assumes "list_all wf_desc ds" and "py_truthy q"
    and "master_local_write eng q (getdb w) = (d', Inr local)"
    and "getdb (putdb w d') = d'"
    and "\<And>w u p h. post w u p h \<noteq> None"
    and "\<And>w u p h w' r. post w u p h = Some (w', r) \<Longrightarrow> getdb w' = getdb w"
  shows "\<exists>w' r. primary_write_data eng getdb putdb (JsonFile (JArr ds)) post (JObj [(''query'', q)]) w = Some (w', r)
              \<and> getdb w' = d' \<and> (r = flask_500 \<or> (\<exists>outs. r = jsonify (JArr (local # outs)) 200))"
proof -
  let ?ips = "map (\<lambda>d. desc_field d ''PublicIP'') (filter (\<lambda>d. \<not> is_master_desc d) ds)"
  obtain w2 res where fw: "forward_writes post q ?ips (putdb w d') = Some (w2, res)"
      and g: "getdb w2 = getdb (putdb w d')"
    using forward_writes_frame [of post getdb q ?ips "putdb w d'"] assms(5,6) by blast
  show ?thesis
    using assms(2,3,4) fw g
    by (cases res) (auto simp: primary_write_data_def get_instance_details_def replica_ips_wf [OF assms(1)])
qed

theorem primary_keeps_local_write_witness:
  "list_all wf_desc example_members \<and> py_truthy (JStr ''INSERT INTO t VALUES (1)'') \<and>
   master_local_write example_engine (JStr ''INSERT INTO t VALUES (1)'') (id 0) =
     (1, Inr (JObj [(''message'', JStr ''Query executed successfully''), (''affected_rows'', JInt 1)])) \<and>
   (\<exists>w' r. primary_write_data example_engine id (\<lambda>w d. d) (JsonFile (JArr example_members)) example_post
       (JObj [(''query'', JStr ''INSERT INTO t VALUES (1)'')]) 0 = Some (w', r) \<and> id w' = 1)"
proof -
  have lw: "master_local_write example_engine (JStr ''INSERT INTO t VALUES (1)'') (id 0) =
      (1, Inr (JObj [(''message'', JStr ''Query executed successfully''), (''affected_rows'', JInt 1)]))"
    by (simp add: master_local_write_def example_engine_def get_db_connection_def)
  have "\<exists>w' r. primary_write_data example_engine id (\<lambda>w d. d) (JsonFile (JArr example_members)) example_post
       (JObj [(''query'', JStr ''INSERT INTO t VALUES (1)'')]) 0 = Some (w', r) \<and> id w' = 1
       \<and> (r = flask_500 \<or> (\<exists>outs. r = jsonify (JArr (JObj [(''message'', JStr ''Query executed successfully''), (''affected_rows'', JInt 1)] # outs)) 200))"
    using primary_keeps_local_write [where ds = example_members and q = "JStr ''INSERT INTO t VALUES (1)''"
        and eng = example_engine and getdb = id and w = 0 and d' = 1 and putdb = "\<lambda>w d. d"
        and post = example_post] example_members_wf lw
    by (simp add: example_post_def)
  with lw example_members_wf show ?thesis by auto
qed

section \<open>Reads\<close>


end
