(* ===== verification/Gatekeeper.thy ===== *)
theory Gatekeeper
  imports PyRuntime
begin

text \<open>
  The Gatekeeper, \<^verbatim>\<open>src/mysql/gatekeeper/gatekeeper_app.py\<close>: the internet-facing
  hop. \<open>handle_query_request\<close> strips the statement, matches it against
  \<open>SQL_SANITIZATION_REGEX\<close>, rejects a non-matching statement with 400, and otherwise
  relays the whole body and the request headers to the first host of
  \<^verbatim>\<open>trustedhost_info.json\<close>. The regular expression is data: a pattern is a sequence
  of quantified atoms, matched by a backtracking matcher with the meaning of Python's
  \<open>re.match\<close> (a match of a prefix of the subject, \<open>^\<close> at the start, \<open>$\<close> at the end or
  before a final newline); the theory proves the language the code's pattern accepts.
\<close>

section \<open>Regular expressions\<close>

text \<open>
  A class item: a range \<open>a-z\<close>, the class \<open>\s\<close> of a \<open>str\<close> pattern (the characters of
  \<open>str.isspace\<close>), or one character.
\<close>

datatype cls_item = CRange char char | CSpace | CChar char

datatype atom = ABol | AEol | ASet "cls_item list" | ALit char

datatype quant = QOne | QOpt | QStar | QPlus

type_synonym pattern = "(atom \<times> quant) list"

fun item_match :: "cls_item \<Rightarrow> char \<Rightarrow> bool" where
  "item_match (CRange a b) c = ((of_char a :: nat) \<le> of_char c \<and> (of_char c :: nat) \<le> of_char b)"
| "item_match CSpace c = py_isspace c"
| "item_match (CChar a) c = (c = a)"

fun atom_char :: "atom \<Rightarrow> char \<Rightarrow> bool" where
  "atom_char (ASet items) c = list_ex (\<lambda>i. item_match i c) items"
| "atom_char (ALit a) c = (c = a)"
| "atom_char _ c = False"

text \<open>
  \<open>rx ps st s\<close>: the pattern \<open>ps\<close> matches a prefix of the rest \<open>s\<close> of the subject;
  \<open>st\<close> says that \<open>s\<close> is the whole subject (where \<open>^\<close> matches). The anchors are
  zero-width and take no quantifier; \<open>+\<close> is one occurrence followed by \<open>*\<close>.
\<close>

fun rx :: "pattern \<Rightarrow> bool \<Rightarrow> string \<Rightarrow> bool" where
  "rx [] st s = True"
| "rx ((ABol, _) # ps) st s = (st \<and> rx ps st s)"
| "rx ((AEol, _) # ps) st s = ((s = [] \<or> s = [CHR 0x0A]) \<and> rx ps st s)"
| "rx ((a, QOne) # ps) st s = (case s of [] \<Rightarrow> False | c # s' \<Rightarrow> atom_char a c \<and> rx ps False s')"
| "rx ((a, QOpt) # ps) st s =
     ((case s of [] \<Rightarrow> False | c # s' \<Rightarrow> atom_char a c \<and> rx ps False s') \<or> rx ps st s)"
| "rx ((a, QStar) # ps) st s =
     ((case s of [] \<Rightarrow> False | c # s' \<Rightarrow> atom_char a c \<and> rx ((a, QStar) # ps) False s') \<or> rx ps st s)"
| "rx ((a, QPlus) # ps) st s =
     (case s of [] \<Rightarrow> False | c # s' \<Rightarrow> atom_char a c \<and> rx ((a, QStar) # ps) False s')"

text \<open>\<open>pattern.match(s) is not None\<close>.\<close>

definition re_match :: "pattern \<Rightarrow> string \<Rightarrow> bool" where
  "re_match ps s = rx ps True s"

text \<open>\<open>SQL_SANITIZATION_REGEX = re.compile(r"^[a-zA-Z0-9\s,.*_=<>@'\"()-]+;?$")\<close>.\<close>

definition sql_class :: "cls_item list" where
  "sql_class =
     [CRange CHR ''a'' CHR ''z'', CRange CHR ''A'' CHR ''Z'', CRange CHR ''0'' CHR ''9'', CSpace,
      CChar CHR '','', CChar CHR ''.'', CChar CHR ''*'', CChar CHR ''_'', CChar CHR ''='',
      CChar CHR ''<'', CChar CHR ''>'', CChar CHR ''@'', CChar (CHR 0x27), CChar (CHR 0x22),
      CChar CHR ''('', CChar CHR '')'', CChar CHR ''-'']"

definition SQL_SANITIZATION_REGEX :: pattern where
  "SQL_SANITIZATION_REGEX = [(ABol, QOne), (ASet sql_class, QPlus), (ALit CHR '';'', QOpt), (AEol, QOne)]"

text \<open>
  The language in the words of the specification: a non-empty run of allowed characters
  (ASCII letters and digits, white space, and \<open>,.*_=<>@'"()-\<close>), then an optional
  semicolon; \<open>$\<close> also lets a newline follow the semicolon.
\<close>

definition sql_allowed :: "char \<Rightarrow> bool" where
  "sql_allowed c =
     (let n = of_char c :: nat in
        (65 \<le> n \<and> n \<le> 90) \<or> (97 \<le> n \<and> n \<le> 122) \<or> (48 \<le> n \<and> n \<le> 57) \<or> py_isspace c
      \<or> c \<in> set '',.*_=<>@()-'' \<or> c = CHR 0x27 \<or> c = CHR 0x22)"

definition sql_sanitized :: "string \<Rightarrow> bool" where
  "sql_sanitized s =
     (\<exists>u. u \<noteq> [] \<and> list_all sql_allowed u \<and> (s = u \<or> s = u @ '';'' \<or> s = u @ [CHR '';'', CHR 0x0A]))"

section \<open>The handler\<close>

definition get_trusted_host_config :: "cfg_file \<Rightarrow> py_exc + json" where
  "get_trusted_host_config f =
     (case f of
        NoFile \<Rightarrow> Inl (FileNotFoundError ''trustedhost_info.json not found'')
      | BadJson \<Rightarrow> Inl (ValueError ''Error decoding JSON from trustedhost_info.json'')
      | JsonFile j \<Rightarrow> Inr j)"

definition gk_health_check :: http_resp where
  "gk_health_check = jsonify (JObj [(''status'', JStr ''healthy'')]) 200"

text \<open>
  The body of the \<open>try\<close> block of \<open>handle_query_request\<close>: an exception it raises is
  returned as \<open>Inl\<close>. \<open>next((instance["PublicIP"] for instance in instance_details),
  None)\<close> reads the first host only. A 200 answer is returned as \<open>resp.json(), 200\<close>,
  which Flask converts after the view has returned (\<open>flask_return\<close>).
\<close>

definition gk_forward :: "'w post \<Rightarrow> cfg_file \<Rightarrow> json \<Rightarrow> headers \<Rightarrow> 'w \<Rightarrow> ('w \<times> (py_exc + http_resp)) option" where
  "gk_forward post f data hdrs w =
     (case get_trusted_host_config f of
        Inl e \<Rightarrow> Some (w, Inl e)
      | Inr instance_details \<Rightarrow>
     (case py_iter instance_details of
        Inl e \<Rightarrow> Some (w, Inl e)
      | Inr xs \<Rightarrow>
     (case py_next_map (\<lambda>i. py_subscript i ''PublicIP'') xs of
        Inl e \<Rightarrow> Some (w, Inl e)
      | Inr ip_opt \<Rightarrow>
          (let ip = (case ip_opt of None \<Rightarrow> JNull | Some v \<Rightarrow> v) in
           if \<not> py_truthy ip then Some (w, Inr (jsonify (error_obj ''No trusted host found'') 500))
           else do {
             (w', res) \<leftarrow> post w (node_url ip ''/process'') data hdrs;
             Some (w',
               case res of
                 Inl e \<Rightarrow> Inl e
               | Inr resp \<Rightarrow>
                   if status resp = 200
                   then (case resp_json resp of Inl e \<Rightarrow> Inl e | Inr j \<Rightarrow> Inr (flask_return j 200))
                   else Inr (jsonify (fail_env ''Query execution failed'' (JStr (resp_text resp))) (status resp)))
           }))))"

text \<open>
  The \<open>except\<close> clauses in their order: \<open>FileNotFoundError\<close>, then \<open>ValueError\<close> (which
  catches the \<open>JSONDecodeError\<close> of \<open>resp.json()\<close> before the \<open>RequestException\<close>
  clause can), then \<open>RequestException\<close>; anything else reaches Flask.
\<close>

definition gk_except :: "py_exc \<Rightarrow> http_resp" where
  "gk_except e =
     (case e of
        FileNotFoundError _ \<Rightarrow> jsonify (error_obj (exc_str e)) 500
      | _ \<Rightarrow>
          if is_value_error e then jsonify (error_obj (exc_str e)) 500
          else if is_request_exc e then jsonify (fail_env ''Query forwarding failed'' (JStr (exc_str e))) 500
          else flask_500)"

definition gk_reject :: http_resp where
  "gk_reject = jsonify (error_obj ''Query contains potentially dangerous characters or is not sanitized.'') 400"

definition handle_query_request :: "'w post \<Rightarrow> cfg_file \<Rightarrow> json \<Rightarrow> headers \<Rightarrow> 'w \<Rightarrow> ('w \<times> http_resp) option" where
  "handle_query_request post f data hdrs w =
     (case py_get data ''query'' of
        Inl _ \<Rightarrow> Some (w, flask_500)
      | Inr query \<Rightarrow>
          if \<not> py_truthy query then Some (w, gk_reject)
          else
            (case py_strip_val query of
               Inl _ \<Rightarrow> Some (w, flask_500)
             | Inr stripped \<Rightarrow>
                 if \<not> re_match SQL_SANITIZATION_REGEX stripped then Some (w, gk_reject)
                 else
                   map_option (\<lambda>(w', r). (w', case r of Inl e \<Rightarrow> gk_except e | Inr resp \<Rightarrow> resp))
                     (gk_forward post f data hdrs w)))"

text \<open>A trusted host that answers every call with 200 and an empty result set.\<close>

definition example_th_post :: "nat post" where
  "example_th_post w url payload hdrs = Some (Suc w, Inr (jsonify (JObj [(''data'', JArr [])]) 200))"

section \<open>The pattern's language\<close>

lemma rx_star_set:
  "rx ((ASet items, QStar) # ps) st s \<longleftrightarrow>
     (\<exists>n\<le>length s. list_all (atom_char (ASet items)) (take n s) \<and> rx ps (st \<and> n = 0) (drop n s))"
proof (induction s arbitrary: st)
  case Nil
  then show ?case by simp
next
  case (Cons c s)
  have "(\<exists>n\<le>length (c # s). list_all (atom_char (ASet items)) (take n (c # s)) \<and> rx ps (st \<and> n = 0) (drop n (c # s)))
      \<longleftrightarrow> rx ps st (c # s) \<or> (\<exists>m\<le>length s. atom_char (ASet items) c \<and> list_all (atom_char (ASet items)) (take m s) \<and> rx ps False (drop m s))"
    (is "?L \<longleftrightarrow> ?R")
  proof
    assume ?L
    then obtain n where "n \<le> length (c # s)" "list_all (atom_char (ASet items)) (take n (c # s))"
      "rx ps (st \<and> n = 0) (drop n (c # s))" by blast
    then show ?R by (cases n) auto
  next
    assume ?R
    then show ?L
    proof
      assume "rx ps st (c # s)"
      then show ?L by (intro exI [of _ 0]) simp
    next
      assume "\<exists>m\<le>length s. atom_char (ASet items) c \<and> list_all (atom_char (ASet items)) (take m s) \<and> rx ps False (drop m s)"
      then obtain m where "m \<le> length s" "atom_char (ASet items) c" "list_all (atom_char (ASet items)) (take m s)" "rx ps False (drop m s)"
        by blast
      then show ?L by (intro exI [of _ "Suc m"]) simp
    qed
  qed
  with Cons.IH [of False] show ?case by (simp del: atom_char.simps) blast
qed

lemma rx_bol: "rx ((ABol, q) # ps) st s = (st \<and> rx ps st s)"
  by simp

lemma rx_plus:
  "rx ((ASet items, QPlus) # ps) st s =
     (case s of [] \<Rightarrow> False | c # s' \<Rightarrow> atom_char (ASet items) c \<and> rx ((ASet items, QStar) # ps) False s')"
  by simp

lemma sql_class_match: "atom_char (ASet sql_class) c = sql_allowed c"
  by (auto simp: sql_class_def sql_allowed_def Let_def)

lemma rx_tail: "rx [(ALit CHR '';'', QOpt), (AEol, QOne)] st t \<longleftrightarrow> t \<in> {[], [CHR 0x0A], '';'', [CHR '';'', CHR 0x0A]}"
  by (cases t) auto


lemma newline_allowed: "sql_allowed (CHR 0x0A)"
  by (simp add: sql_allowed_def py_isspace_def)

lemma sql_regex_split:
  "re_match SQL_SANITIZATION_REGEX s \<longleftrightarrow>
     (\<exists>u r. s = u @ r \<and> u \<noteq> [] \<and> list_all sql_allowed u \<and> r \<in> {[], [CHR 0x0A], '';'', [CHR '';'', CHR 0x0A]})"
proof (cases s)
  case Nil
  then show ?thesis by (simp add: re_match_def SQL_SANITIZATION_REGEX_def)
next
  case (Cons c s')
  have "re_match SQL_SANITIZATION_REGEX s \<longleftrightarrow>
      sql_allowed c \<and> (\<exists>n\<le>length s'. list_all sql_allowed (take n s') \<and>
                         drop n s' \<in> {[], [CHR 0x0A], '';'', [CHR '';'', CHR 0x0A]})"
    unfolding Cons re_match_def SQL_SANITIZATION_REGEX_def rx_bol rx_plus list.case rx_star_set rx_tail
      sql_class_match
    by simp
  also have "\<dots> \<longleftrightarrow> (\<exists>u r. s = u @ r \<and> u \<noteq> [] \<and> list_all sql_allowed u \<and> r \<in> {[], [CHR 0x0A], '';'', [CHR '';'', CHR 0x0A]})"
    (is "?L \<longleftrightarrow> ?R")
  proof
    assume ?L
    then obtain n where "sql_allowed c" "list_all sql_allowed (take n s')"
        "drop n s' \<in> {[], [CHR 0x0A], '';'', [CHR '';'', CHR 0x0A]}" by blast
    then show ?R using Cons by (intro exI [of _ "c # take n s'"] exI [of _ "drop n s'"]) simp
  next
    assume ?R
    then obtain u r where ur: "s = u @ r" "u \<noteq> []" "list_all sql_allowed u"
        "r \<in> {[], [CHR 0x0A], '';'', [CHR '';'', CHR 0x0A]}" by blast
    then obtain u' where u: "u = c # u'" "s' = u' @ r" using Cons by (cases u) auto
    with ur show ?L by (intro conjI exI [of _ "length u'"]) auto
  qed
  finally show ?thesis .
qed

lemma split_sanitized:
  "(\<exists>u r. s = u @ r \<and> u \<noteq> [] \<and> list_all sql_allowed u \<and> r \<in> {[], [CHR 0x0A], '';'', [CHR '';'', CHR 0x0A]})
     \<longleftrightarrow> sql_sanitized s" (is "?L \<longleftrightarrow> _")
proof
  assume ?L
  then obtain u r where "s = u @ r" "u \<noteq> []" "list_all sql_allowed u"
      "r \<in> {[], [CHR 0x0A], '';'', [CHR '';'', CHR 0x0A]}" by blast
  then show "sql_sanitized s" unfolding sql_sanitized_def
  proof (elim conjE insertE)
    assume "s = u @ r" "r = [CHR 0x0A]" "list_all sql_allowed u"
    then show "\<exists>u. u \<noteq> [] \<and> list_all sql_allowed u \<and> (s = u \<or> s = u @ '';'' \<or> s = u @ [CHR '';'', CHR 0x0A])"
      by (intro exI [of _ "u @ [CHR 0x0A]"]) (simp add: newline_allowed)
  qed auto
qed (auto simp: sql_sanitized_def)

lemma semicolon_not_allowed: "\<not> sql_allowed CHR '';''"
  by (simp add: sql_allowed_def py_isspace_def)

lemma sanitized_chars: "sql_sanitized t \<Longrightarrow> c \<in> set t \<Longrightarrow> sql_allowed c \<or> c = CHR '';''"
  by (auto simp: sql_sanitized_def list_all_iff newline_allowed)

lemma sanitized_semicolon:
  assumes "sql_sanitized t" and "t = a @ CHR '';'' # b"
  shows "b = [] \<or> b = [CHR 0x0A]"
proof -
  from assms(1) obtain u where u: "list_all sql_allowed u" "t = u \<or> t = u @ '';'' \<or> t = u @ [CHR '';'', CHR 0x0A]"
    by (auto simp: sql_sanitized_def)
  have nu: "CHR '';'' \<notin> set u" using u(1) semicolon_not_allowed by (auto simp: list_all_iff)
  show ?thesis using u(2)
  proof (elim disjE)
    assume "t = u" with assms(2) nu show ?thesis by simp
  next
    assume "t = u @ '';''" with assms(2) nu show ?thesis
      by (auto simp: append_eq_append_conv2 Cons_eq_append_conv append_eq_Cons_conv)
  next
    assume "t = u @ [CHR '';'', CHR 0x0A]" with assms(2) nu show ?thesis
      by (auto simp: append_eq_append_conv2 Cons_eq_append_conv append_eq_Cons_conv)
  qed
qed

lemma py_strip_last: "py_strip s \<noteq> [] \<Longrightarrow> \<not> py_isspace (last (py_strip s))"
  by (simp add: py_strip_def last_rev hd_dropWhile)

lemma handle_query_request_str:
  assumes "dict_get kvs ''query'' = JStr s" and "s \<noteq> []"
  shows "handle_query_request post f (JObj kvs) hdrs w =
           (if \<not> sql_sanitized (py_strip s) then Some (w, gk_reject)
            else map_option (\<lambda>(w', r). (w', case r of Inl e \<Rightarrow> gk_except e | Inr resp \<Rightarrow> resp))
                   (gk_forward post f (JObj kvs) hdrs w))"
proof -
  have "re_match SQL_SANITIZATION_REGEX (py_strip s) \<longleftrightarrow> sql_sanitized (py_strip s)"
    by (simp only: sql_regex_split split_sanitized)
  with assms show ?thesis by (simp add: handle_query_request_def py_strip_val_def)
qed

lemma sanitized_nonempty: "sql_sanitized (py_strip s) \<Longrightarrow> s \<noteq> []"
  by (auto simp: sql_sanitized_def py_strip_def)

lemma gk_forward_first_host:
  assumes "py_subscript i ''PublicIP'' = Inr ip" and "py_truthy ip"
  shows "gk_forward post (JsonFile (JArr (i # is))) data hdrs w =
           map_option (\<lambda>(w', res). (w', case res of
                 Inl e \<Rightarrow> Inl e
               | Inr resp \<Rightarrow>
                   if status resp = 200
                   then (case resp_json resp of Inl e \<Rightarrow> Inl e | Inr j \<Rightarrow> Inr (flask_return j 200))
                   else Inr (jsonify (fail_env ''Query execution failed'' (JStr (resp_text resp))) (status resp))))
             (post w (node_url ip ''/process'') data hdrs)"
  using assms by (cases "post w (node_url ip ''/process'') data hdrs")
    (auto simp: gk_forward_def get_trusted_host_config_def py_next_map_def)

lemma select1_sanitized: "sql_sanitized (py_strip ''SELECT 1'')"
  unfolding sql_sanitized_def
  by (rule exI [of _ "''SELECT 1''"]) (simp add: py_strip_def py_isspace_def sql_allowed_def)

text \<open>
  C11. The sanitisation pattern accepts exactly the statements of the allow-list
  language: a non-empty run of ASCII letters and digits, white space and the characters
  \<open>,.*_=<>@'"()-\<close>, optionally followed by one semicolon (and, through \<open>$\<close>, a
  final newline after it).
\<close>

theorem sql_regex_language: "re_match SQL_SANITIZATION_REGEX s \<longleftrightarrow> sql_sanitized s"
  by (simp only: sql_regex_split split_sanitized)

text \<open>
  C12. A statement containing a character outside the allow-list (a character that is
  neither allowed nor the semicolon) is answered 400 before any downstream call: the
  configuration is not read, the world is unchanged, whatever the transport does.
\<close>

theorem gatekeeper_rejects_disallowed_char:
  assumes "dict_get kvs ''query'' = JStr s" and "c \<in> set s" and "\<not> sql_allowed c" and "c \<noteq> CHR '';''"
  shows "handle_query_request post f (JObj kvs) hdrs w = Some (w, gk_reject)"
proof -
  have "\<not> py_isspace c" using assms(3) by (auto simp: sql_allowed_def)
  with assms(2) have "c \<in> set (py_strip s)" by (rule mem_py_strip)
  with assms(3,4) have "\<not> sql_sanitized (py_strip s)" using sanitized_chars by blast
  moreover from assms(2) have "s \<noteq> []" by auto
  ultimately show ?thesis using assms(1) by (simp add: handle_query_request_str)
qed

theorem gatekeeper_rejects_disallowed_char_witness:
  "dict_get [(''query'', JStr ''SELECT * FROM t WHERE a = `b`'')] ''query'' = JStr ''SELECT * FROM t WHERE a = `b`'' \<and>
   CHR ''`'' \<in> set ''SELECT * FROM t WHERE a = `b`'' \<and> \<not> sql_allowed CHR ''`'' \<and> CHR ''`'' \<noteq> CHR '';'' \<and>
   handle_query_request (\<lambda>w u p h. None) NoFile (JObj [(''query'', JStr ''SELECT * FROM t WHERE a = `b`'')]) [] ()
     = Some ((), gk_reject)"
  using gatekeeper_rejects_disallowed_char [of "[(''query'', JStr ''SELECT * FROM t WHERE a = `b`'')]"
      "''SELECT * FROM t WHERE a = `b`''" "CHR ''`''" "\<lambda>w u p h. None" NoFile "[]" "()"]
  by (simp add: sql_allowed_def py_isspace_def)

text \<open>
  C13. No stacked statements: a statement whose stripped form has a semicolon followed by
  further text is rejected with 400 before any downstream call.
\<close>

theorem gatekeeper_rejects_stacked_statements:
  assumes "dict_get kvs ''query'' = JStr s" and "py_strip s = a @ CHR '';'' # b" and "b \<noteq> []"
  shows "handle_query_request post f (JObj kvs) hdrs w = Some (w, gk_reject)"
proof -
  have "\<not> sql_sanitized (py_strip s)"
  proof
    assume "sql_sanitized (py_strip s)"
    with assms(2,3) have "b = [CHR 0x0A]" using sanitized_semicolon by blast
    with assms(2) py_strip_last [of s] show False by (simp add: py_isspace_def)
  qed
  moreover from assms(2) have "s \<noteq> []" by (auto simp: py_strip_def)
  ultimately show ?thesis using assms(1) by (simp add: handle_query_request_str)
qed

theorem gatekeeper_rejects_stacked_statements_witness:
  "dict_get [(''query'', JStr ''SELECT 1; DROP TABLE t'')] ''query'' = JStr ''SELECT 1; DROP TABLE t'' \<and>
   py_strip ''SELECT 1; DROP TABLE t'' = ''SELECT 1'' @ CHR '';'' # '' DROP TABLE t'' \<and> '' DROP TABLE t'' \<noteq> [] \<and>
   handle_query_request (\<lambda>w u p h. None) NoFile (JObj [(''query'', JStr ''SELECT 1; DROP TABLE t'')]) [] ()
     = Some ((), gk_reject)"
proof -
  have st: "py_strip ''SELECT 1; DROP TABLE t'' = ''SELECT 1'' @ CHR '';'' # '' DROP TABLE t''"
    by (simp add: py_strip_def py_isspace_def)
  show ?thesis
    using gatekeeper_rejects_stacked_statements [OF _ st, of "[(''query'', JStr ''SELECT 1; DROP TABLE t'')]"
        "\<lambda>w u p h. None" NoFile "[]" "()"] st by simp
qed


text \<open>
  C14. On an accepted statement the Gatekeeper relays the body unchanged, with the
  request headers, to the \<open>/process\<close> endpoint of the first trusted host, and answers:
  a dict body of a 200 reply verbatim; a 200 reply that is not JSON as a 500
  \<open>{"error": ...}\<close> (the decode error is caught as a \<open>ValueError\<close>); any other status as
  a ``Query execution failed'' envelope with the same status; a transport failure as a
  ``Query forwarding failed'' envelope with status 500.
\<close>

theorem gatekeeper_relays:
  assumes "dict_get kvs ''query'' = JStr s" and "sql_sanitized (py_strip s)"
    and "py_subscript i ''PublicIP'' = Inr ip" and "py_truthy ip"
    and "post w (node_url ip ''/process'') (JObj kvs) hdrs = Some (w', res)"
  shows "\<exists>r. handle_query_request post (JsonFile (JArr (i # is))) (JObj kvs) hdrs w = Some (w', r)
           \<and> (\<forall>m. res = Inl (RequestException m) \<longrightarrow> r = jsonify (fail_env ''Query forwarding failed'' (JStr m)) 500)
           \<and> (\<forall>resp kv. res = Inr resp \<and> status resp = 200 \<and> rbody resp = BJson (JObj kv) \<longrightarrow> r = resp)
           \<and> (\<forall>resp t. res = Inr resp \<and> status resp = 200 \<and> rbody resp = BText t \<longrightarrow>
                r = jsonify (error_obj ''Expecting value: line 1 column 1 (char 0)'') 500)
           \<and> (\<forall>resp. res = Inr resp \<and> status resp \<noteq> 200 \<longrightarrow>
                r = jsonify (fail_env ''Query execution failed'' (JStr (resp_text resp))) (status resp))"
proof -
  have h: "handle_query_request post (JsonFile (JArr (i # is))) (JObj kvs) hdrs w =
      map_option (\<lambda>(w', r). (w', case r of Inl e \<Rightarrow> gk_except e | Inr resp \<Rightarrow> resp))
        (gk_forward post (JsonFile (JArr (i # is))) (JObj kvs) hdrs w)"
    using assms(1,2) sanitized_nonempty [OF assms(2)] by (simp add: handle_query_request_str)
  show ?thesis
    by (auto simp: h gk_forward_first_host [OF assms(3,4)] assms(5) gk_except_def resp_json_def
        jsonify_def http_resp.equality)
qed


theorem gatekeeper_relays_witness:
  "dict_get [(''query'', JStr ''SELECT 1''), (''mode'', JStr ''DIRECT'')] ''query'' = JStr ''SELECT 1'' \<and>
   sql_sanitized (py_strip ''SELECT 1'') \<and>
   handle_query_request example_th_post (JsonFile (JArr [JObj [(''PublicIP'', JStr ''T'')]]))
     (JObj [(''query'', JStr ''SELECT 1''), (''mode'', JStr ''DIRECT'')]) [] 0
     = Some (1, jsonify (JObj [(''data'', JArr [])]) 200)"
proof -
  have "\<exists>r. handle_query_request example_th_post (JsonFile (JArr [JObj [(''PublicIP'', JStr ''T'')]]))
      (JObj [(''query'', JStr ''SELECT 1''), (''mode'', JStr ''DIRECT'')]) [] 0 = Some (1, r)
      \<and> (\<forall>resp kv. Inr (jsonify (JObj [(''data'', JArr [])]) 200) = (Inr resp :: py_exc + http_resp)
           \<and> status resp = 200 \<and> rbody resp = BJson (JObj kv) \<longrightarrow> r = resp)"
    using gatekeeper_relays [of "[(''query'', JStr ''SELECT 1''), (''mode'', JStr ''DIRECT'')]" "''SELECT 1''"
        "JObj [(''PublicIP'', JStr ''T'')]" "JStr ''T''" example_th_post 0 "[]" 1
        "Inr (jsonify (JObj [(''data'', JArr [])]) 200)" "[]"] select1_sanitized
    by (simp add: example_th_post_def jsonify_def)
  then show ?thesis using select1_sanitized by (auto simp: jsonify_def)
qed

text \<open>
  C15. Dependency errors of an accepted statement: a missing or corrupt
  \<^verbatim>\<open>trustedhost_info.json\<close> and an empty host list are answered with a 500 JSON error and
  no downstream call; a first host entry without \<open>PublicIP\<close> raises a \<open>KeyError\<close> no
  clause catches, and Flask answers with its HTML 500 page.
\<close>

theorem gatekeeper_dependency_errors:
  assumes "dict_get kvs ''query'' = JStr s" and "sql_sanitized (py_strip s)"
  shows "handle_query_request post NoFile (JObj kvs) hdrs w =
           Some (w, jsonify (error_obj ''trustedhost_info.json not found'') 500)
       \<and> handle_query_request post BadJson (JObj kvs) hdrs w =
           Some (w, jsonify (error_obj ''Error decoding JSON from trustedhost_info.json'') 500)
       \<and> handle_query_request post (JsonFile (JArr [])) (JObj kvs) hdrs w =
           Some (w, jsonify (error_obj ''No trusted host found'') 500)
       \<and> (map_of hkvs ''PublicIP'' = None \<longrightarrow>
           handle_query_request post (JsonFile (JArr (JObj hkvs # is))) (JObj kvs) hdrs w = Some (w, flask_500))"
  using assms sanitized_nonempty [OF assms(2)]
  by (simp add: handle_query_request_str gk_forward_def get_trusted_host_config_def gk_except_def
      py_next_map_def)

theorem gatekeeper_dependency_errors_witness:
  "dict_get [(''query'', JStr ''SELECT 1'')] ''query'' = JStr ''SELECT 1'' \<and> sql_sanitized (py_strip ''SELECT 1'') \<and>
   handle_query_request example_th_post (JsonFile (JArr [JObj [(''IP'', JStr ''T'')]])) (JObj [(''query'', JStr ''SELECT 1'')]) [] 0
     = Some (0, flask_500)"
  using gatekeeper_dependency_errors [of "[(''query'', JStr ''SELECT 1'')]" "''SELECT 1''" example_th_post "[]" 0
      "[(''IP'', JStr ''T'')]" "[]"] select1_sanitized
  by simp

text \<open>
  C16. A truthy \<open>query\<close> that is not a string (a number, a list, a dict, \<open>true\<close>) makes
  \<open>query.strip()\<close> raise \<open>AttributeError\<close>: the Gatekeeper answers with Flask's HTML 500
  page, not with the 400 of malformed input.
\<close>

theorem gatekeeper_non_string_query:
  assumes "dict_get kvs ''query'' = v" and "py_truthy v" and "\<forall>s. v \<noteq> JStr s"
  shows "handle_query_request post f (JObj kvs) hdrs w = Some (w, flask_500)"
  using assms by (cases v) (auto simp: handle_query_request_def py_strip_val_def)

theorem gatekeeper_non_string_query_witness:
  "dict_get [(''query'', JInt 42)] ''query'' = JInt 42 \<and> py_truthy (JInt 42) \<and> (\<forall>s. JInt 42 \<noteq> JStr s) \<and>
   handle_query_request example_th_post NoFile (JObj [(''query'', JInt 42)]) [] 0 = Some (0, flask_500)"
  using gatekeeper_non_string_query [of "[(''query'', JInt 42)]" "JInt 42" example_th_post NoFile "[]" 0]
  by simp

end
