(* ===== verification/TrustedHost.thy ===== *)
theory TrustedHost
  imports PyRuntime
begin

text \<open>
  The Trusted Host, \<^verbatim>\<open>src/mysql/trusted_host/trusted_host_app.py\<close>: the authenticated
  hop. \<open>process_query\<close> checks that the body has both keys, that the upper-cased mode is
  one of \<open>ALLOWED_MODES\<close> (answering 400 otherwise), then the credential headers
  (answering 401), and relays the unchanged body to the first host of
  \<^verbatim>\<open>proxy_info.json\<close>. The iteration order of the set \<open>ALLOWED_MODES\<close>, which only shows
  in the text of the invalid-mode message, depends on Python's string hashing; it is the
  parameter \<open>mode_order\<close>.
\<close>

section \<open>Configuration and credentials\<close>

definition ALLOWED_MODES :: "string list" where
  "ALLOWED_MODES = [''DIRECT'', ''RANDOM'', ''CUSTOMIZED'']"

definition VALID_CREDENTIALS :: "(string \<times> string) list" where
  "VALID_CREDENTIALS = [(''admin_elaa'', ''admin_elaa_password123'')]"

text \<open>
  \<open>validate_user_credentials\<close>: the headers are looked up case-insensitively; a missing or
  empty header is reported first, then a user that is not configured or a wrong password.
\<close>

definition validate_user_credentials :: "headers \<Rightarrow> bool \<times> string option" where
  "validate_user_credentials hdrs =
     (case (hdr_get hdrs ''username'', hdr_get hdrs ''password'') of
        (Some username, Some password) \<Rightarrow>
          if username = [] \<or> password = [] then (False, Some ''Missing 'username' or 'password' in headers.'')
          else if map_of VALID_CREDENTIALS username \<noteq> Some password
          then (False, Some ''Invalid username or password.'')
          else (True, None)
      | _ \<Rightarrow> (False, Some ''Missing 'username' or 'password' in headers.''))"

definition load_proxy_manager_details :: "cfg_file \<Rightarrow> py_exc + json" where
  "load_proxy_manager_details f =
     (case f of
        NoFile \<Rightarrow> Inl (FileNotFoundError ''proxy_info.json not found'')
      | BadJson \<Rightarrow> Inl (ValueError ''Error decoding JSON from proxy_info.json'')
      | JsonFile j \<Rightarrow> Inr j)"

section \<open>Forwarding\<close>

text \<open>
  \<open>forward_query\<close> returns the pair \<open>(value, status)\<close> of the view, or raises. Its
  \<open>except requests.RequestException\<close> also catches the \<open>JSONDecodeError\<close> of
  \<open>response.json()\<close>. No headers are sent.
\<close>

definition th_catch :: "py_exc \<Rightarrow> py_exc + (json \<times> nat)" where
  "th_catch e =
     (if is_request_exc e then Inr (fail_env ''Query forwarding failed'' (JStr (exc_str e)), 500) else Inl e)"

definition forward_query :: "'w post \<Rightarrow> string \<Rightarrow> json \<Rightarrow> 'w \<Rightarrow> ('w \<times> (py_exc + (json \<times> nat))) option" where
  "forward_query post url data w =
     do {
       (w', res) \<leftarrow> post w url data [];
       Some (w',
         case res of
           Inl e \<Rightarrow> th_catch e
         | Inr response \<Rightarrow>
             if status response = 200
             then (case resp_json response of Inl e \<Rightarrow> th_catch e | Inr j \<Rightarrow> Inr (j, 200))
             else Inr (fail_env ''Query execution failed'' (JStr (resp_text response)), status response))
     }"

definition th_health_check :: http_resp where
  "th_health_check = jsonify (JObj [(''status'', JStr ''healthy'')]) 200"

section \<open>The handler\<close>

definition th_missing_keys :: http_resp where
  "th_missing_keys =
     jsonify (error_obj (''Missing required keys. Required keys: '' @ quoted ''query'' @ '', '' @ quoted ''mode'')) 400"

definition th_invalid_mode :: "string list \<Rightarrow> http_resp" where
  "th_invalid_mode mode_order =
     jsonify (error_obj (''Invalid mode. Allowed modes are: '' @ join_with '', '' mode_order)) 400"

text \<open>\<open>except (FileNotFoundError, ValueError)\<close>; anything else reaches Flask.\<close>

definition th_except :: "py_exc \<Rightarrow> http_resp" where
  "th_except e =
     (case e of
        FileNotFoundError _ \<Rightarrow> jsonify (error_obj (exc_str e)) 500
      | _ \<Rightarrow> if is_value_error e then jsonify (error_obj (exc_str e)) 500 else flask_500)"

text \<open>The forwarding part of \<open>process_query\<close>, after both checks have passed.\<close>

definition th_relay :: "'w post \<Rightarrow> cfg_file \<Rightarrow> json \<Rightarrow> 'w \<Rightarrow> ('w \<times> http_resp) option" where
  "th_relay post f data w =
     (case load_proxy_manager_details f of
        Inl e \<Rightarrow> Some (w, th_except e)
      | Inr instance_details \<Rightarrow>
     (case py_iter instance_details of
        Inl e \<Rightarrow> Some (w, th_except e)
      | Inr xs \<Rightarrow>
     (case py_next_map (\<lambda>i. py_subscript i ''PublicIP'') xs of
        Inl e \<Rightarrow> Some (w, th_except e)
      | Inr ip_opt \<Rightarrow>
          (let proxy_manager_ip = (case ip_opt of None \<Rightarrow> JNull | Some v \<Rightarrow> v) in
           if \<not> py_truthy proxy_manager_ip
           then Some (w, jsonify (error_obj ''No proxy manager IP found'') 500)
           else do {
             (w', r) \<leftarrow> forward_query post (node_url proxy_manager_ip ''/process'') data w;
             Some (w', case r of Inl e \<Rightarrow> th_except e | Inr (v, code) \<Rightarrow> flask_return v code)
           }))))"

definition th_process_query ::
    "string list \<Rightarrow> 'w post \<Rightarrow> cfg_file \<Rightarrow> json \<Rightarrow> headers \<Rightarrow> 'w \<Rightarrow> ('w \<times> http_resp) option" where
  "th_process_query mode_order post f data hdrs w =
     (case py_contains data ''query'' of
        Inl _ \<Rightarrow> Some (w, flask_500)
      | Inr False \<Rightarrow> Some (w, th_missing_keys)
      | Inr True \<Rightarrow>
     (case py_contains data ''mode'' of
        Inl _ \<Rightarrow> Some (w, flask_500)
      | Inr False \<Rightarrow> Some (w, th_missing_keys)
      | Inr True \<Rightarrow>
     (case py_get data ''mode'' of
        Inl _ \<Rightarrow> Some (w, flask_500)
      | Inr m \<Rightarrow>
     (case py_upper_val m of
        Inl _ \<Rightarrow> Some (w, flask_500)
      | Inr mode \<Rightarrow>
          if mode \<notin> set ALLOWED_MODES then Some (w, th_invalid_mode mode_order)
          else
            (case validate_user_credentials hdrs of
               (False, auth_error) \<Rightarrow>
                 Some (w, jsonify (JObj [(''error'', case auth_error of None \<Rightarrow> JNull | Some m \<Rightarrow> JStr m)]) 401)
             | (True, _) \<Rightarrow> th_relay post f data w)))))"

text \<open>A proxy manager that answers 200 with an empty result set, and the configured credentials.\<close>

definition example_pm_post :: "nat post" where
  "example_pm_post w url payload hdrs = Some (Suc w, Inr (jsonify (JObj [(''data'', JArr [])]) 200))"

definition admin_headers :: headers where
  "admin_headers = [(''Username'', ''admin_elaa''), (''Password'', ''admin_elaa_password123'')]"

section \<open>Check order and relaying\<close>

lemma th_process_query_keys:
  assumes "''query'' \<in> set (map fst kvs)" and "''mode'' \<in> set (map fst kvs)"
  shows "th_process_query ord post f (JObj kvs) hdrs w =
           (case py_upper_val (dict_get kvs ''mode'') of
              Inl _ \<Rightarrow> Some (w, flask_500)
            | Inr mode \<Rightarrow>
                if mode \<notin> set ALLOWED_MODES then Some (w, th_invalid_mode ord)
                else (case validate_user_credentials hdrs of
                        (False, auth_error) \<Rightarrow>
                          Some (w, jsonify (JObj [(''error'', case auth_error of None \<Rightarrow> JNull | Some m \<Rightarrow> JStr m)]) 401)
                      | (True, _) \<Rightarrow> th_relay post f (JObj kvs) w))"
  using assms by (simp add: th_process_query_def)

lemma validate_exact:
  "fst (validate_user_credentials hdrs) \<longleftrightarrow>
     hdr_get hdrs ''username'' = Some ''admin_elaa'' \<and> hdr_get hdrs ''password'' = Some ''admin_elaa_password123''"
  by (auto simp: validate_user_credentials_def VALID_CREDENTIALS_def split: option.splits if_splits)

lemma validate_false:
  "\<not> fst (validate_user_credentials hdrs) \<Longrightarrow>
     \<exists>msg. validate_user_credentials hdrs = (False, Some msg) \<and>
       msg \<in> {''Missing 'username' or 'password' in headers.'', ''Invalid username or password.''}"
  by (auto simp: validate_user_credentials_def split: option.splits if_splits)

lemma upper_char_of_variant:
  assumes "65 \<le> (of_char d :: nat)" and "(of_char d :: nat) \<le> 90" and "ascii_lower c = ascii_lower d"
  shows "py_upper_char c = [d]"
proof -
  have dl: "ascii_lower d = char_of (of_char d + 32 :: nat)" using assms(1,2) by (simp add: ascii_lower_def)
  show ?thesis
  proof (cases "65 \<le> (of_char c :: nat) \<and> (of_char c :: nat) \<le> 90")
    case True
    then have "char_of (of_char c + 32 :: nat) = (char_of (of_char d + 32 :: nat) :: char)"
      using assms(3) dl by (simp add: ascii_lower_def)
    then have "(of_char (char_of (of_char c + 32 :: nat) :: char) :: nat) = of_char (char_of (of_char d + 32 :: nat) :: char)"
      by simp
    with True assms(1,2) have "(of_char c :: nat) = of_char d" by simp
    then have "c = d" by (metis char_of_char)
    with True show ?thesis by (simp add: py_upper_char_def)
  next
    case False
    then have "c = char_of (of_char d + 32 :: nat)" using assms(3) dl by (auto simp: ascii_lower_def Let_def split: if_splits)
    then have "(of_char c :: nat) = of_char d + 32" using assms(2) by simp
    with assms(1,2) show ?thesis by (simp add: py_upper_char_def)
  qed
qed


lemma upper_of_variant:
  "list_all (\<lambda>d. 65 \<le> (of_char d :: nat) \<and> (of_char d :: nat) \<le> 90) m \<Longrightarrow>
   map ascii_lower s = map ascii_lower m \<Longrightarrow> py_upper s = m"
proof (induction s arbitrary: m)
  case Nil
  then show ?case by (simp add: py_upper_def)
next
  case (Cons c s)
  then obtain d m' where m: "m = d # m'" by (cases m) auto
  with Cons.prems have "py_upper_char c = [d]" by (intro upper_char_of_variant) auto
  with Cons m show ?case by (simp add: py_upper_def)
qed

lemma allowed_modes_upper: "m \<in> set ALLOWED_MODES \<Longrightarrow> list_all (\<lambda>d. 65 \<le> (of_char d :: nat) \<and> (of_char d :: nat) \<le> 90) m"
  by (auto simp: ALLOWED_MODES_def)

lemma th_relay_first_host:
  assumes "py_subscript i ''PublicIP'' = Inr ip" and "py_truthy ip"
  shows "th_relay post (JsonFile (JArr (i # is))) data w =
           map_option (\<lambda>(w', r). (w', case r of Inl e \<Rightarrow> th_except e | Inr (v, code) \<Rightarrow> flask_return v code))
             (forward_query post (node_url ip ''/process'') data w)"
  using assms by (cases "forward_query post (node_url ip ''/process'') data w")
    (auto simp: th_relay_def load_proxy_manager_details_def py_next_map_def)

text \<open>
  C17. Validation comes first (spec: 400 before 401): a body without \<open>query\<close> or \<open>mode\<close>, and a
  string mode whose upper case is not one of DIRECT, RANDOM, CUSTOMIZED, are answered 400
  whatever the credential headers, without any downstream call.
\<close>

theorem th_validates_before_auth:
  shows "(''query'' \<notin> set (map fst kvs) \<or> ''mode'' \<notin> set (map fst kvs) \<longrightarrow>
            th_process_query ord post f (JObj kvs) hdrs w = Some (w, th_missing_keys))
       \<and> (''query'' \<in> set (map fst kvs) \<and> dict_get kvs ''mode'' = JStr ms \<and> py_upper ms \<notin> set ALLOWED_MODES \<longrightarrow>
            th_process_query ord post f (JObj kvs) hdrs w = Some (w, th_invalid_mode ord))"
proof (intro conjI impI)
  assume "''query'' \<notin> set (map fst kvs) \<or> ''mode'' \<notin> set (map fst kvs)"
  then show "th_process_query ord post f (JObj kvs) hdrs w = Some (w, th_missing_keys)"
    by (cases "''query'' \<in> set (map fst kvs)") (auto simp: th_process_query_def)
next
  assume a: "''query'' \<in> set (map fst kvs) \<and> dict_get kvs ''mode'' = JStr ms \<and> py_upper ms \<notin> set ALLOWED_MODES"
  then have "''mode'' \<in> set (map fst kvs)" using dict_get_key [of kvs "''mode''"] by auto
  with a show "th_process_query ord post f (JObj kvs) hdrs w = Some (w, th_invalid_mode ord)"
    by (simp add: th_process_query_keys py_upper_val_def)
qed

theorem th_validates_before_auth_witness:
  "th_process_query [''RANDOM'', ''DIRECT'', ''CUSTOMIZED''] example_pm_post NoFile
      (JObj [(''query'', JStr ''SELECT 1''), (''mode'', JStr ''FASTEST'')]) admin_headers 0
     = Some (0, th_invalid_mode [''RANDOM'', ''DIRECT'', ''CUSTOMIZED''])
   \<and> th_process_query [''RANDOM'', ''DIRECT'', ''CUSTOMIZED''] example_pm_post NoFile
      (JObj [(''query'', JStr ''SELECT 1'')]) admin_headers 0 = Some (0, th_missing_keys)"
proof -
  have "py_upper ''FASTEST'' \<notin> set ALLOWED_MODES"
    by (simp add: py_upper_def py_upper_char_def ALLOWED_MODES_def)
  then show ?thesis
    using th_validates_before_auth [of "[(''query'', JStr ''SELECT 1''), (''mode'', JStr ''FASTEST'')]"
        "[''RANDOM'', ''DIRECT'', ''CUSTOMIZED'']" example_pm_post NoFile admin_headers 0 "''FASTEST''"]
      th_validates_before_auth [of "[(''query'', JStr ''SELECT 1'')]"
        "[''RANDOM'', ''DIRECT'', ''CUSTOMIZED'']" example_pm_post NoFile admin_headers 0 "''FASTEST''"]
    by simp
qed

text \<open>
  C18. Authentication: once the fields and the mode are valid, any request whose headers do
  not carry exactly the configured user and password is answered 401 with a missing- or
  invalid-credentials message, without any downstream call.
\<close>

theorem th_rejects_bad_credentials:
  assumes "''query'' \<in> set (map fst kvs)" and "dict_get kvs ''mode'' = JStr ms" and "py_upper ms \<in> set ALLOWED_MODES"
    and "(hdr_get hdrs ''username'', hdr_get hdrs ''password'') \<noteq> (Some ''admin_elaa'', Some ''admin_elaa_password123'')"
  shows "\<exists>msg. th_process_query ord post f (JObj kvs) hdrs w = Some (w, jsonify (error_obj msg) 401)
             \<and> msg \<in> {''Missing 'username' or 'password' in headers.'', ''Invalid username or password.''}"
proof -
  have m: "''mode'' \<in> set (map fst kvs)" using assms(2) dict_get_key [of kvs "''mode''"] by auto
  have "\<not> fst (validate_user_credentials hdrs)" using assms(4) by (simp add: validate_exact)
  then obtain msg where v: "validate_user_credentials hdrs = (False, Some msg)"
    and msg: "msg \<in> {''Missing 'username' or 'password' in headers.'', ''Invalid username or password.''}"
    using validate_false by blast
  show ?thesis
    using assms(1,2,3) m v msg by (intro exI [of _ msg]) (simp add: th_process_query_keys py_upper_val_def error_obj_def)
qed


theorem th_rejects_bad_credentials_witness:
  "''query'' \<in> set (map fst [(''query'', JStr ''SELECT 1''), (''mode'', JStr ''random'')]) \<and>
   dict_get [(''query'', JStr ''SELECT 1''), (''mode'', JStr ''random'')] ''mode'' = JStr ''random'' \<and>
   py_upper ''random'' \<in> set ALLOWED_MODES \<and>
   (\<exists>msg. th_process_query [] example_pm_post NoFile (JObj [(''query'', JStr ''SELECT 1''), (''mode'', JStr ''random'')])
       [(''username'', ''admin_elaa''), (''password'', ''letmein'')] 0 = Some (0, jsonify (error_obj msg) 401)
     \<and> msg \<in> {''Missing 'username' or 'password' in headers.'', ''Invalid username or password.''})"
proof -
  have u: "py_upper ''random'' = ''RANDOM''" by (simp add: py_upper_def py_upper_char_def char_of_eval)
  show ?thesis
    using th_rejects_bad_credentials [of "[(''query'', JStr ''SELECT 1''), (''mode'', JStr ''random'')]" "''random''"
        "[(''username'', ''admin_elaa''), (''password'', ''letmein'')]" "[]" example_pm_post NoFile 0]
    by (simp add: u ALLOWED_MODES_def ascii_lower_def char_of_eval)
qed

text \<open>
  C19. The mode check is case-insensitive: a mode that differs from an allowed mode only in
  the case of ASCII letters, such as \<open>direct\<close>, passes it, and an authenticated request
  with it is relayed, with the body (and the mode) unchanged.
\<close>

theorem th_mode_case_insensitive:
  assumes "''query'' \<in> set (map fst kvs)" and "dict_get kvs ''mode'' = JStr s"
    and "m \<in> set ALLOWED_MODES" and "map ascii_lower s = map ascii_lower m"
    and "fst (validate_user_credentials hdrs)"
  shows "th_process_query ord post f (JObj kvs) hdrs w = th_relay post f (JObj kvs) w"
proof -
  have "py_upper s = m" using assms(3,4) allowed_modes_upper upper_of_variant by blast
  moreover have "''mode'' \<in> set (map fst kvs)" using assms(2) dict_get_key [of kvs "''mode''"] by auto
  ultimately show ?thesis using assms(1,2,3,5)
    by (auto simp: th_process_query_keys py_upper_val_def split: prod.splits)
qed

theorem th_mode_case_insensitive_witness:
  "''query'' \<in> set (map fst [(''query'', JStr ''SELECT 1''), (''mode'', JStr ''direct'')]) \<and>
   dict_get [(''query'', JStr ''SELECT 1''), (''mode'', JStr ''direct'')] ''mode'' = JStr ''direct'' \<and>
   ''DIRECT'' \<in> set ALLOWED_MODES \<and> map ascii_lower ''direct'' = map ascii_lower ''DIRECT'' \<and>
   fst (validate_user_credentials admin_headers) \<and>
   th_process_query [] example_pm_post NoFile (JObj [(''query'', JStr ''SELECT 1''), (''mode'', JStr ''direct'')])
     admin_headers 0 = th_relay example_pm_post NoFile (JObj [(''query'', JStr ''SELECT 1''), (''mode'', JStr ''direct'')]) 0"
proof -
  have v: "fst (validate_user_credentials admin_headers)"
    by (simp add: validate_user_credentials_def admin_headers_def VALID_CREDENTIALS_def ascii_lower_def char_of_eval)
  have l: "map ascii_lower ''direct'' = map ascii_lower ''DIRECT''" by (simp add: ascii_lower_def char_of_eval)
  show ?thesis
    using th_mode_case_insensitive [of "[(''query'', JStr ''SELECT 1''), (''mode'', JStr ''direct'')]" "''direct''"
        "''DIRECT''" admin_headers "[]" example_pm_post NoFile 0] v l
    by (simp add: ALLOWED_MODES_def)
qed

text \<open>
  C20. An accepted request is posted, with the body unchanged and no headers, to the
  \<open>/process\<close> endpoint of the first proxy manager; a 200 dict reply is answered verbatim,
  a non-JSON 200 reply and a transport failure as a ``Query forwarding failed'' envelope with
  500, any other status as a ``Query execution failed'' envelope with that status.
\<close>

theorem th_relays:
  assumes "''query'' \<in> set (map fst kvs)" and "dict_get kvs ''mode'' = JStr ms" and "py_upper ms \<in> set ALLOWED_MODES"
    and "fst (validate_user_credentials hdrs)"
    and "py_subscript i ''PublicIP'' = Inr ip" and "py_truthy ip"
    and "post w (node_url ip ''/process'') (JObj kvs) [] = Some (w', res)"
  shows "\<exists>r. th_process_query ord post (JsonFile (JArr (i # is))) (JObj kvs) hdrs w = Some (w', r)
           \<and> (\<forall>m. res = Inl (RequestException m) \<longrightarrow> r = jsonify (fail_env ''Query forwarding failed'' (JStr m)) 500)
           \<and> (\<forall>resp kv. res = Inr resp \<and> status resp = 200 \<and> rbody resp = BJson (JObj kv) \<longrightarrow> r = resp)
           \<and> (\<forall>resp t. res = Inr resp \<and> status resp = 200 \<and> rbody resp = BText t \<longrightarrow>
                r = jsonify (fail_env ''Query forwarding failed'' (JStr ''Expecting value: line 1 column 1 (char 0)'')) 500)
           \<and> (\<forall>resp. res = Inr resp \<and> status resp \<noteq> 200 \<longrightarrow>
                r = jsonify (fail_env ''Query execution failed'' (JStr (resp_text resp))) (status resp))"
proof -
  have m: "''mode'' \<in> set (map fst kvs)" using assms(2) dict_get_key [of kvs "''mode''"] by auto
  have h: "th_process_query ord post (JsonFile (JArr (i # is))) (JObj kvs) hdrs w =
      th_relay post (JsonFile (JArr (i # is))) (JObj kvs) w"
    using assms(1-4) m by (auto simp: th_process_query_keys py_upper_val_def split: prod.splits)
  show ?thesis
    by (auto simp: h th_relay_first_host [OF assms(5,6)] forward_query_def assms(7) th_catch_def
        resp_json_def fail_env_def jsonify_def http_resp.equality)
qed


theorem th_relays_witness:
  "''query'' \<in> set (map fst [(''query'', JStr ''SELECT 1''), (''mode'', JStr ''DIRECT'')]) \<and>
   dict_get [(''query'', JStr ''SELECT 1''), (''mode'', JStr ''DIRECT'')] ''mode'' = JStr ''DIRECT'' \<and>
   py_upper ''DIRECT'' \<in> set ALLOWED_MODES \<and> fst (validate_user_credentials admin_headers) \<and>
   th_process_query [] example_pm_post (JsonFile (JArr [JObj [(''PublicIP'', JStr ''P'')]]))
     (JObj [(''query'', JStr ''SELECT 1''), (''mode'', JStr ''DIRECT'')]) admin_headers 0
     = Some (1, jsonify (JObj [(''data'', JArr [])]) 200)"
proof -
  have v: "fst (validate_user_credentials admin_headers)"
    by (simp add: validate_user_credentials_def admin_headers_def VALID_CREDENTIALS_def ascii_lower_def char_of_eval)
  have u: "py_upper ''DIRECT'' = ''DIRECT''" by (simp add: py_upper_def py_upper_char_def)
  have "\<exists>r. th_process_query [] example_pm_post (JsonFile (JArr [JObj [(''PublicIP'', JStr ''P'')]]))
      (JObj [(''query'', JStr ''SELECT 1''), (''mode'', JStr ''DIRECT'')]) admin_headers 0 = Some (1, r)
      \<and> (\<forall>resp kv. Inr (jsonify (JObj [(''data'', JArr [])]) 200) = (Inr resp :: py_exc + http_resp)
           \<and> status resp = 200 \<and> rbody resp = BJson (JObj kv) \<longrightarrow> r = resp)"
    using th_relays [of "[(''query'', JStr ''SELECT 1''), (''mode'', JStr ''DIRECT'')]" "''DIRECT''" admin_headers
        "JObj [(''PublicIP'', JStr ''P'')]" "JStr ''P''" example_pm_post 0 1
        "Inr (jsonify (JObj [(''data'', JArr [])]) 200)" "[]" "[]"] v u
    by (simp add: example_pm_post_def jsonify_def ALLOWED_MODES_def)
  then show ?thesis using v u by (auto simp: jsonify_def ALLOWED_MODES_def)
qed

text \<open>
  C21. A \<open>mode\<close> that is present but not a string (\<open>null\<close>, a number) makes
  \<open>data.get("mode").upper()\<close> raise \<open>AttributeError\<close>: the Trusted Host answers with
  Flask's HTML 500 page rather than a 400.
\<close>

theorem th_non_string_mode:
  assumes "''query'' \<in> set (map fst kvs)" and "''mode'' \<in> set (map fst kvs)" and "\<forall>s. dict_get kvs ''mode'' \<noteq> JStr s"
  shows "th_process_query ord post f (JObj kvs) hdrs w = Some (w, flask_500)"
  using assms by (cases "dict_get kvs ''mode''") (simp_all add: th_process_query_keys py_upper_val_def)

theorem th_non_string_mode_witness:
  "''query'' \<in> set (map fst [(''query'', JStr ''SELECT 1''), (''mode'', JNull)]) \<and>
   ''mode'' \<in> set (map fst [(''query'', JStr ''SELECT 1''), (''mode'', JNull)]) \<and>
   (\<forall>s. dict_get [(''query'', JStr ''SELECT 1''), (''mode'', JNull)] ''mode'' \<noteq> JStr s) \<and>
   th_process_query [] example_pm_post NoFile (JObj [(''query'', JStr ''SELECT 1''), (''mode'', JNull)]) admin_headers 0
     = Some (0, flask_500)"
  using th_non_string_mode [of "[(''query'', JStr ''SELECT 1''), (''mode'', JNull)]" "[]" example_pm_post NoFile
      admin_headers 0]
  by simp

end
