(* ===== verification/Cluster.thy ===== *)
theory Cluster
  imports Deployment PrimaryNode Gatekeeper TrustedHost
begin

text \<open>
  The cluster: every host runs on port 80 the application the deployment table names
  (\<open>Deployment\<close>), reads its configuration files from its own directory, and calls the
  others over HTTP. The world is the state of every host's MySQL database; the transport
  \<open>serve n\<close> delivers a request to the application of the host its URL names and returns
  that application's answer, with \<open>n\<close> bounding the depth of nested calls (\<open>None\<close>: the
  call has not returned within that depth; no service sets a timeout, so a call that
  never returns is a real behaviour). The random draw \<open>r\<close> of the one Proxy Manager
  call a client request causes is an argument.
\<close>

type_synonym 'db world = "string \<Rightarrow> 'db"

record 'db deployment =
  apps :: hosts
  files :: "string \<Rightarrow> string \<Rightarrow> cfg_file"
  eng :: "'db engine"
  probe :: ping_run
  mode_order :: "string list"

section \<open>Addresses\<close>

text \<open>
  How the URL \<open>http://host:80path\<close> a service builds is resolved: the host part up to the
  port, then the path.
\<close>

definition parse_url :: "string \<Rightarrow> (string \<times> string) option" where
  "parse_url u =
     (if take 7 u = ''http://'' then
        (let rest = drop 7 u;
             host = takeWhile (\<lambda>c. c \<noteq> CHR '':'') rest;
             tail = dropWhile (\<lambda>c. c \<noteq> CHR '':'') rest
         in if take 3 tail = '':80'' then Some (host, drop 3 tail) else None)
      else None)"

section \<open>The routes of each application\<close>

text \<open>Flask's answers to a POST on an unknown path and on the GET-only \<open>/health\<close>.\<close>

definition flask_404 :: http_resp where
  "flask_404 = \<lparr>status = 404, rbody = BText ''<!doctype html><title>404 Not Found</title><h1>Not Found</h1>''\<rparr>"

definition flask_405 :: http_resp where
  "flask_405 = \<lparr>status = 405, rbody = BText ''<!doctype html><title>405 Method Not Allowed</title><h1>Method Not Allowed</h1>''\<rparr>"

definition gatekeeper_routes ::
    "'db world post \<Rightarrow> 'db deployment \<Rightarrow> string \<Rightarrow> string \<Rightarrow> json \<Rightarrow> headers \<Rightarrow> 'db world \<Rightarrow> ('db world \<times> http_resp) option" where
  "gatekeeper_routes post D host path data hdrs w =
     (if path = ''/process'' then handle_query_request post (files D host ''trustedhost_info.json'') data hdrs w
      else if path = ''/health'' then Some (w, flask_405) else Some (w, flask_404))"

definition trusted_host_routes ::
    "'db world post \<Rightarrow> 'db deployment \<Rightarrow> string \<Rightarrow> string \<Rightarrow> json \<Rightarrow> headers \<Rightarrow> 'db world \<Rightarrow> ('db world \<times> http_resp) option" where
  "trusted_host_routes post D host path data hdrs w =
     (if path = ''/process'' then th_process_query (mode_order D) post (files D host ''proxy_info.json'') data hdrs w
      else if path = ''/health'' then Some (w, flask_405) else Some (w, flask_404))"

definition proxy_manager_routes ::
    "'db world post \<Rightarrow> 'db deployment \<Rightarrow> nat \<Rightarrow> string \<Rightarrow> string \<Rightarrow> json \<Rightarrow> 'db world \<Rightarrow> ('db world \<times> http_resp) option" where
  "proxy_manager_routes post D r host path data w =
     (if path = ''/process'' then pm_process_query (ping_address (probe D)) r (files D host ''instance_info.json'') post data w
      else if path = ''/health'' then Some (w, flask_405) else Some (w, flask_404))"

definition master_routes ::
    "'db world post \<Rightarrow> 'db deployment \<Rightarrow> string \<Rightarrow> string \<Rightarrow> json \<Rightarrow> 'db world \<Rightarrow> ('db world \<times> http_resp) option" where
  "master_routes post D host path data w =
     (if path = ''/write'' then
        primary_write_data (eng D) (\<lambda>w. w host) (\<lambda>w d. w(host := d)) (files D host ''instance_info.json'') post data w
      else if path = ''/read'' then Some (w, primary_read_data (eng D) data (w host))
      else if path = ''/health'' then Some (w, flask_405) else Some (w, flask_404))"

definition slave_routes :: "'db deployment \<Rightarrow> string \<Rightarrow> string \<Rightarrow> json \<Rightarrow> 'db world \<Rightarrow> 'db world \<times> http_resp" where
  "slave_routes D host path data w =
     (if path = ''/write'' then (case replica_write_data (eng D) data (w host) of (d', resp) \<Rightarrow> (w(host := d'), resp))
      else if path = ''/read'' then (w, replica_read_data (eng D) data (w host))
      else if path = ''/health'' then (w, flask_405) else (w, flask_404))"

definition app_routes ::
    "'db world post \<Rightarrow> 'db deployment \<Rightarrow> nat \<Rightarrow> string \<Rightarrow> string \<Rightarrow> string \<Rightarrow> json \<Rightarrow> headers \<Rightarrow> 'db world
      \<Rightarrow> ('db world \<times> http_resp) option" where
  "app_routes post D r host m path data hdrs w =
     (if m = ''gatekeeper_app'' then gatekeeper_routes post D host path data hdrs w
      else if m = ''trusted_host_app'' then trusted_host_routes post D host path data hdrs w
      else if m = ''proxy_manager_app'' then proxy_manager_routes post D r host path data w
      else if m = ''master_app'' then master_routes post D host path data w
      else if m = ''slave_app'' then Some (slave_routes D host path data w)
      else Some (w, flask_404))"

section \<open>The transport\<close>

primrec serve :: "nat \<Rightarrow> 'db deployment \<Rightarrow> nat \<Rightarrow> 'db world post" where
  "serve 0 D r = (\<lambda>w url data hdrs. None)"
| "serve (Suc n) D r = (\<lambda>w url data hdrs.
     (case parse_url url of
        None \<Rightarrow> Some (w, Inl (RequestException (''Invalid URL '' @ quoted url)))
      | Some (host, path) \<Rightarrow>
          (case apps D host of
             None \<Rightarrow> Some (w, Inl (RequestException (''Connection refused: '' @ host)))
           | Some m \<Rightarrow>
               map_option (\<lambda>(w', resp). (w', Inr resp)) (app_routes (serve n D r) D r host m path data hdrs w))))"

section \<open>Well-formed deployments and the answers they give\<close>

text \<open>
  A JSON container is what \<open>jsonify\<close> of a dict or a list gives: every answer with status
  200 carries one (\<open>ok_body\<close>), whatever the path taken through the services.
\<close>

fun json_container :: "json \<Rightarrow> bool" where
  "json_container (JObj _) = True"
| "json_container (JArr _) = True"
| "json_container _ = False"

definition ok_body :: "http_resp \<Rightarrow> bool" where
  "ok_body resp = (status resp = 200 \<longrightarrow> (case rbody resp of BJson j \<Rightarrow> json_container j | BText _ \<Rightarrow> False))"

definition points_to :: "cfg_file \<Rightarrow> string \<Rightarrow> bool" where
  "points_to f h = (case f of JsonFile (JArr (t # _)) \<Rightarrow> py_subscript t ''PublicIP'' = Inr (JStr h) | _ \<Rightarrow> False)"

definition url_host :: "string \<Rightarrow> bool" where
  "url_host h = (h \<noteq> [] \<and> CHR '':'' \<notin> set h)"

definition db_host_ok :: "'db deployment \<Rightarrow> json list \<Rightarrow> json \<Rightarrow> bool" where
  "db_host_ok D ds d =
     (case desc_field d ''PublicIP'' of
        JStr h \<Rightarrow> url_host h \<and> apps D h = Some (if is_master_desc d then ''master_app'' else ''slave_app'')
                  \<and> (is_master_desc d \<longrightarrow> files D h ''instance_info.json'' = JsonFile (JArr ds))
      | _ \<Rightarrow> False)"

definition wf_deployment :: "'db deployment \<Rightarrow> string \<Rightarrow> string \<Rightarrow> string \<Rightarrow> json list \<Rightarrow> bool" where
  "wf_deployment D gk th pm ds \<longleftrightarrow>
     url_host gk \<and> url_host th \<and> url_host pm
     \<and> apps D gk = Some ''gatekeeper_app'' \<and> points_to (files D gk ''trustedhost_info.json'') th
     \<and> apps D th = Some ''trusted_host_app'' \<and> points_to (files D th ''proxy_info.json'') pm
     \<and> apps D pm = Some ''proxy_manager_app'' \<and> files D pm ''instance_info.json'' = JsonFile (JArr ds)
     \<and> one_master ds \<and> distinct (map (\<lambda>d. desc_field d ''PublicIP'') ds) \<and> list_all (db_host_ok D ds) ds"

text \<open>
  The routing contract of the specification: \<open>DIRECT\<close> goes to the primary's \<open>/write\<close>,
  \<open>RANDOM\<close> to the replica drawn by \<open>r\<close>, any other mode to the fastest respondent's \<open>/read\<close>.
\<close>

definition spec_target :: "(json \<Rightarrow> 'l::linorder option) \<Rightarrow> nat \<Rightarrow> string \<Rightarrow> json list \<Rightarrow> string option" where
  "spec_target ping r mode ds =
     (if mode = ''DIRECT'' then
        (case filter is_master_desc ds of [] \<Rightarrow> None | d # _ \<Rightarrow> Some (node_url (desc_field d ''PublicIP'') ''/write''))
      else if mode = ''RANDOM'' then
        (let rn = filter (\<lambda>d. \<not> is_master_desc d) ds in
         if rn = [] then None else Some (node_url (desc_field (rn ! (r mod length rn)) ''PublicIP'') ''/read''))
      else
        (case first_min (respondents ping ds) of
           None \<Rightarrow> None
         | Some (_, d) \<Rightarrow> Some (node_url (desc_field d ''PublicIP'') ''/read'')))"

definition post_ok :: "'w post \<Rightarrow> bool" where
  "post_ok post = (\<forall>w u p h w' resp. post w u p h = Some (w', Inr resp) \<longrightarrow> ok_body resp)"


section \<open>An example cluster\<close>

text \<open>
  Hosts \<open>G\<close>, \<open>T\<close>, \<open>P\<close> run the gatekeeper, the trusted host and the proxy manager; the
  members of \<open>example_members\<close> run the primary (\<open>A\<close>) and the replicas (\<open>B\<close>, \<open>C\<close>).
\<close>

definition example_files :: "string \<Rightarrow> string \<Rightarrow> cfg_file" where
  "example_files host name =
     (if host = ''G'' \<and> name = ''trustedhost_info.json'' then JsonFile (JArr [JObj [(''PublicIP'', JStr ''T'')]])
      else if host = ''T'' \<and> name = ''proxy_info.json'' then JsonFile (JArr [JObj [(''PublicIP'', JStr ''P'')]])
      else if (host = ''P'' \<or> host = ''A'') \<and> name = ''instance_info.json'' then JsonFile (JArr example_members)
      else NoFile)"

definition example_apps :: hosts where
  "example_apps = [''G'' \<mapsto> ''gatekeeper_app'', ''T'' \<mapsto> ''trusted_host_app'', ''P'' \<mapsto> ''proxy_manager_app'',
     ''A'' \<mapsto> ''master_app'', ''B'' \<mapsto> ''slave_app'', ''C'' \<mapsto> ''slave_app'']"

definition example_cluster :: "nat deployment" where
  "example_cluster = \<lparr>apps = example_apps, files = example_files, eng = example_engine,
     probe = (\<lambda>_. None), mode_order = ALLOWED_MODES\<rparr>"

section \<open>Lemmas\<close>

lemma parse_node_url: "CHR '':'' \<notin> set h \<Longrightarrow> parse_url (node_url (JStr h) path) = Some (h, path)"
proof -
  assume h: "CHR '':'' \<notin> set h"
  then have a: "\<forall>x\<in>set h. x \<noteq> CHR '':''" by auto
  then have "takeWhile (\<lambda>c. c \<noteq> CHR '':'') (h @ '':80'' @ path) = h"
    "dropWhile (\<lambda>c. c \<noteq> CHR '':'') (h @ '':80'' @ path) = '':80'' @ path"
    by (simp_all add: takeWhile_append2 dropWhile_append2)
  then show ?thesis by (simp add: parse_url_def node_url_def Let_def)
qed

lemma serve_host:
  "CHR '':'' \<notin> set h \<Longrightarrow> apps D h = Some m \<Longrightarrow>
   serve (Suc n) D r w (node_url (JStr h) path) data hdrs =
     map_option (\<lambda>(w', resp). (w', Inr resp)) (app_routes (serve n D r) D r h m path data hdrs w)"
  by (simp add: parse_node_url)


lemma ok_body_simps [simp]:
  "ok_body (jsonify j c) \<longleftrightarrow> (c = 200 \<longrightarrow> json_container j)"
  "ok_body flask_500" "ok_body flask_404" "ok_body flask_405"
  by (simp_all add: ok_body_def jsonify_def flask_500_def flask_404_def flask_405_def)

lemma ok_flask_return: "c \<noteq> 200 \<or> json_container j \<Longrightarrow> ok_body (flask_return j c)"
  by (cases j) (auto simp: ok_body_def jsonify_def flask_500_def)

lemma ok_container_simps [simp]:
  "json_container (error_obj m)" "json_container (fail_env m e)"
  by (simp_all add: error_obj_def fail_env_def)

lemma ok_replica_read: "ok_body (replica_read_data e data d)"
  by (simp add: replica_read_data_def split: sum.splits db_result.splits)

lemma ok_primary_read: "ok_body (primary_read_data e data d)"
  by (simp add: primary_read_data_def split: sum.splits db_result.splits)

lemma ok_replica_write: "ok_body (snd (replica_write_data e data d))"
  by (simp add: replica_write_data_def split: sum.splits db_result.splits prod.splits)


lemma ok_primary_write:
  "primary_write_data e getdb putdb f post data w = Some (w', resp) \<Longrightarrow> ok_body resp"
  by (auto simp: primary_write_data_def split: sum.splits prod.splits if_splits option.splits bind_splits)

lemma resp_json_ok: "ok_body resp \<Longrightarrow> status resp = 200 \<Longrightarrow> resp_json resp = Inr j \<Longrightarrow> json_container j"
  by (cases "rbody resp") (auto simp: ok_body_def resp_json_def)

lemma forward_query_request_container:
  assumes ok: "post_ok post" and f: "forward_query_request post w u p = Some (w', j)"
  shows "json_container j"
proof -
  from f obtain w1 res where p: "post w u p [] = Some (w1, res)"
    by (auto simp: forward_query_request_def bind_eq_Some_conv)
  show ?thesis
  proof (cases res)
    case (Inl e)
    with f p show ?thesis by (auto simp: forward_query_request_def)
  next
    case (Inr resp)
    with ok p have "ok_body resp" by (auto simp: post_ok_def)
    with f p Inr show ?thesis
      by (auto simp: forward_query_request_def dest: resp_json_ok split: sum.splits if_splits)
  qed
qed

lemma ok_pm_process_query:
  "post_ok post \<Longrightarrow> pm_process_query ping r f post data w = Some (w', resp) \<Longrightarrow> ok_body resp"
  by (auto simp: pm_process_query_def dest: forward_query_request_container
      split: sum.splits option.splits prod.splits if_splits bind_splits)


lemma forward_query_container:
  assumes ok: "post_ok post" and f: "forward_query post u data w = Some (w', Inr (v, code))"
  shows "code \<noteq> 200 \<or> json_container v"
proof -
  from f obtain w1 res where p: "post w u data [] = Some (w1, res)"
    by (auto simp: forward_query_def bind_eq_Some_conv)
  show ?thesis
  proof (cases res)
    case (Inl e)
    with f p show ?thesis by (auto simp: forward_query_def th_catch_def split: if_splits)
  next
    case (Inr resp)
    with ok p have "ok_body resp" by (auto simp: post_ok_def)
    with f p Inr show ?thesis
      by (auto simp: forward_query_def th_catch_def dest: resp_json_ok split: sum.splits if_splits)
  qed
qed

lemma ok_th_except: "ok_body (th_except e)"
  by (simp add: th_except_def split: py_exc.splits)

lemma ok_gk_except: "ok_body (gk_except e)"
  by (simp add: gk_except_def split: py_exc.splits)

lemma ok_th_result:
  assumes ok: "post_ok post" and f: "forward_query post u data w = Some (w', r)"
  shows "ok_body (case r of Inl e \<Rightarrow> th_except e | Inr (v, code) \<Rightarrow> flask_return v code)"
proof (cases r)
  case (Inl e)
  then show ?thesis by (simp add: ok_th_except)
next
  case (Inr vc)
  obtain v code where "vc = (v, code)" by (cases vc)
  with Inr f forward_query_container [OF ok] show ?thesis by (simp add: ok_flask_return)
qed


lemma ok_th_relay:
  assumes ok: "post_ok post" and t: "th_relay post f data w = Some (w', resp)"
  shows "ok_body resp"
proof -
  have b: "ok_body resp" if "(forward_query post u data w \<bind>
      (\<lambda>(w', r). Some (w', case r of Inl e \<Rightarrow> th_except e | Inr (v, code) \<Rightarrow> flask_return v code))) = Some (w', resp)" for u
  proof -
    from that obtain r where "forward_query post u data w = Some (w', r)"
      and "resp = (case r of Inl e \<Rightarrow> th_except e | Inr (v, code) \<Rightarrow> flask_return v code)"
      by (auto simp: bind_eq_Some_conv)
    with ok_th_result [OF ok] show ?thesis by blast
  qed
  show ?thesis
    using t b by (auto simp: th_relay_def Let_def ok_th_except split: sum.splits option.splits if_splits)
qed

lemma ok_th_process_query:
  assumes ok: "post_ok post" and t: "th_process_query ord post f data hdrs w = Some (w', resp)"
  shows "ok_body resp"
  using t ok_th_relay [OF ok]
  by (auto simp: th_process_query_def th_missing_keys_def th_invalid_mode_def
      split: sum.splits bool.splits prod.splits if_splits)


lemma ok_gk_forward:
  assumes ok: "post_ok post" and g: "gk_forward post f data hdrs w = Some (w', r)"
  shows "ok_body (case r of Inl e \<Rightarrow> gk_except e | Inr resp \<Rightarrow> resp)"
proof -
  have b: "ok_body (case r of Inl e \<Rightarrow> gk_except e | Inr resp \<Rightarrow> resp)"
    if "(post w u data hdrs \<bind> (\<lambda>(w', res). Some (w', case res of
           Inl e \<Rightarrow> Inl e
         | Inr resp \<Rightarrow>
             if status resp = 200
             then (case resp_json resp of Inl e \<Rightarrow> Inl e | Inr j \<Rightarrow> Inr (flask_return j 200))
             else Inr (jsonify (fail_env ''Query execution failed'' (JStr (resp_text resp))) (status resp))))) = Some (w', r)"
    for u
  proof -
    from that obtain res where p: "post w u data hdrs = Some (w', res)"
      and r: "r = (case res of
           Inl e \<Rightarrow> Inl e
         | Inr resp \<Rightarrow>
             if status resp = 200
             then (case resp_json resp of Inl e \<Rightarrow> Inl e | Inr j \<Rightarrow> Inr (flask_return j 200))
             else Inr (jsonify (fail_env ''Query execution failed'' (JStr (resp_text resp))) (status resp)))"
      by (auto simp: bind_eq_Some_conv)
    show ?thesis
    proof (cases res)
      case (Inl e)
      with r show ?thesis by (simp add: ok_gk_except)
    next
      case (Inr resp)
      with ok p have "ok_body resp" by (auto simp: post_ok_def)
      with r Inr show ?thesis
        by (auto simp: ok_gk_except dest: resp_json_ok intro: ok_flask_return split: sum.splits)
    qed
  qed
  show ?thesis
    using g b by (auto simp: gk_forward_def Let_def ok_gk_except split: sum.splits option.splits if_splits)
qed

lemma ok_handle_query_request:
  assumes ok: "post_ok post" and g: "handle_query_request post f data hdrs w = Some (w', resp)"
  shows "ok_body resp"
proof -
  have m: "ok_body resp" if "map_option (\<lambda>(w', r). (w', case r of Inl e \<Rightarrow> gk_except e | Inr resp \<Rightarrow> resp))
      (gk_forward post f data hdrs w) = Some (w', resp)"
    using that ok_gk_forward [OF ok] by auto
  show ?thesis
    using g m by (auto simp: handle_query_request_def gk_reject_def split: sum.splits if_splits)
qed


lemma ok_app_routes:
  assumes ok: "post_ok post" and a: "app_routes post D r host m path data hdrs w = Some (w', resp)"
  shows "ok_body resp"
  using a ok_handle_query_request [OF ok] ok_th_process_query [OF ok] ok_pm_process_query [OF ok]
    ok_primary_write ok_primary_read ok_replica_read ok_replica_write [of "eng D" data "w host"]
  by (auto simp: app_routes_def gatekeeper_routes_def trusted_host_routes_def proxy_manager_routes_def
      master_routes_def slave_routes_def split: if_splits prod.splits)

lemma route_url_spec:
  "list_all wf_desc ds \<Longrightarrow> spec_target ping r m ds = Some u \<Longrightarrow> route_url ping r (JStr m) (JArr ds) = Inr u"
  by (auto simp: spec_target_def route_url_def fetch_master_node_eval select_random_read_node_eval
      find_lowest_latency_instance_eval desc_fields_def Let_def split: list.splits option.splits if_splits)

lemma serve_gatekeeper:
  "url_host gk \<Longrightarrow> apps D gk = Some ''gatekeeper_app'' \<Longrightarrow>
   serve (Suc n) D r w (node_url (JStr gk) ''/process'') data hdrs =
     map_option (\<lambda>(w', resp). (w', Inr resp))
       (handle_query_request (serve n D r) (files D gk ''trustedhost_info.json'') data hdrs w)"
  by (subst serve_host [where m = "''gatekeeper_app''"]) (simp_all add: url_host_def app_routes_def gatekeeper_routes_def)

lemma serve_trusted_host:
  "url_host th \<Longrightarrow> apps D th = Some ''trusted_host_app'' \<Longrightarrow>
   serve (Suc n) D r w (node_url (JStr th) ''/process'') data hdrs =
     map_option (\<lambda>(w', resp). (w', Inr resp))
       (th_process_query (mode_order D) (serve n D r) (files D th ''proxy_info.json'') data hdrs w)"
  by (subst serve_host [where m = "''trusted_host_app''"]) (simp_all add: url_host_def app_routes_def trusted_host_routes_def)

lemma serve_proxy_manager:
  "url_host pm \<Longrightarrow> apps D pm = Some ''proxy_manager_app'' \<Longrightarrow>
   serve (Suc n) D r w (node_url (JStr pm) ''/process'') data hdrs =
     map_option (\<lambda>(w', resp). (w', Inr resp))
       (pm_process_query (ping_address (probe D)) r (files D pm ''instance_info.json'') (serve n D r) data w)"
  by (subst serve_host [where m = "''proxy_manager_app''"]) (simp_all add: url_host_def app_routes_def proxy_manager_routes_def)


lemma allowed_mode_facts: "m \<in> set ALLOWED_MODES \<Longrightarrow> py_upper m = m \<and> m \<noteq> []"
  by (auto simp: ALLOWED_MODES_def py_upper_def py_upper_char_def char_of_eval)

lemma pm_forwards:
  assumes "list_all wf_desc ds" and "spec_target ping r m ds = Some u" and "q \<noteq> []" and "m \<noteq> []"
  shows "pm_process_query ping r (JsonFile (JArr ds)) post (JObj [(''query'', JStr q), (''mode'', JStr m)]) w =
           map_option (\<lambda>(w', j). (w', jsonify j 200)) (forward_query_request post w u (JObj [(''query'', JStr q)]))"
  using assms route_url_spec [OF assms(1,2)]
  by (cases "forward_query_request post w u (JObj [(''query'', JStr q)])")
    (auto simp: pm_process_query_def load_instance_details_def)

lemma points_toD: "points_to f h \<Longrightarrow> \<exists>t ts. f = JsonFile (JArr (t # ts)) \<and> py_subscript t ''PublicIP'' = Inr (JStr h)"
  by (auto simp: points_to_def split: cfg_file.splits json.splits list.splits)

lemma forward_query_json:
  "post w u data [] = Some (w', Inr (jsonify j 200)) \<Longrightarrow> forward_query post u data w = Some (w', Inr (j, 200))"
  by (simp add: forward_query_def jsonify_def resp_json_def)

lemma flask_return_container: "json_container j \<Longrightarrow> flask_return j c = jsonify j c"
  by (cases j) simp_all


lemma serve_post_ok: "post_ok (serve n D r)"
proof (induction n)
  case 0
  then show ?case by (simp add: post_ok_def)
next
  case (Suc n)
  show ?case
    using ok_app_routes [OF Suc.IH] by (auto simp: post_ok_def split: option.splits prod.splits)
qed

text \<open>
  C25. End to end, the deployed services implement the routing contract: for a
  well-formed deployment, a sanitised query, an allowed mode and valid credentials,
  a client's \<open>POST /process\<close> to the gatekeeper answers exactly what the target node named
  by \<open>spec_target\<close> answers to the proxy manager's forwarded query, as a 200 JSON reply,
  and the database states are those the node's call leaves. Three levels of fuel are
  the three hops gatekeeper, trusted host, proxy manager.
\<close>

theorem cluster_refines_routing:
  assumes wf: "wf_deployment D gk th pm ds" and q: "sql_sanitized (py_strip q)"
    and m: "m \<in> set ALLOWED_MODES" and cred: "fst (validate_user_credentials hdrs)"
    and t: "spec_target (ping_address (probe D)) r m ds = Some u"
  shows "serve (Suc (Suc (Suc n))) D r w (node_url (JStr gk) ''/process'') (JObj [(''query'', JStr q), (''mode'', JStr m)]) hdrs
           = map_option (\<lambda>(w', j). (w', Inr (jsonify j 200)))
               (forward_query_request (serve n D r) w u (JObj [(''query'', JStr q)]))"
proof -
  let ?body = "JObj [(''query'', JStr q), (''mode'', JStr m)]"
  let ?X = "forward_query_request (serve n D r) w u (JObj [(''query'', JStr q)])"
  have qn: "q \<noteq> []" using q by (rule sanitized_nonempty)
  obtain e where v: "validate_user_credentials hdrs = (True, e)"
    using cred by (cases "validate_user_credentials hdrs") auto
  have mf: "py_upper m = m" "m \<noteq> []" using allowed_mode_facts [OF m] by simp_all
  have ds: "list_all wf_desc ds" using wf by (simp add: wf_deployment_def one_master_def)
  from wf obtain t ts where gkf: "files D gk ''trustedhost_info.json'' = JsonFile (JArr (t # ts))"
      "py_subscript t ''PublicIP'' = Inr (JStr th)"
    by (auto simp: wf_deployment_def dest!: points_toD)
  from wf obtain t2 ts2 where thf: "files D th ''proxy_info.json'' = JsonFile (JArr (t2 # ts2))"
      "py_subscript t2 ''PublicIP'' = Inr (JStr pm)"
    by (auto simp: wf_deployment_def dest!: points_toD)
  have pmf: "url_host pm" "apps D pm = Some ''proxy_manager_app''" "files D pm ''instance_info.json'' = JsonFile (JArr ds)"
    using wf by (simp_all add: wf_deployment_def)
  have pm: "serve (Suc n) D r w (node_url (JStr pm) ''/process'') ?body [] =
      map_option (\<lambda>(w', j). (w', Inr (jsonify j 200))) ?X"
  proof -
    have "serve (Suc n) D r w (node_url (JStr pm) ''/process'') ?body [] =
        map_option (\<lambda>(w', resp). (w', Inr resp))
          (pm_process_query (ping_address (probe D)) r (files D pm ''instance_info.json'') (serve n D r) ?body w)"
      by (rule serve_proxy_manager [OF pmf(1,2)])
    also have "\<dots> = map_option (\<lambda>(w', j). (w', Inr (jsonify j 200))) ?X"
      by (cases ?X) (auto simp: pmf(3) pm_forwards [OF ds t qn mf(2)] split: prod.splits)
    finally show ?thesis .
  qed
  have cont: "json_container j" if "?X = Some (w', j)" for w' j
    using forward_query_request_container [OF serve_post_ok that] .
  have th: "serve (Suc (Suc n)) D r w (node_url (JStr th) ''/process'') ?body hdrs =
      map_option (\<lambda>(w', j). (w', Inr (jsonify j 200))) ?X"
  proof -
    have "th_process_query (mode_order D) (serve (Suc n) D r) (files D th ''proxy_info.json'') ?body hdrs w =
        map_option (\<lambda>(w', r). (w', case r of Inl e \<Rightarrow> th_except e | Inr (v, code) \<Rightarrow> flask_return v code))
          (forward_query (serve (Suc n) D r) (node_url (JStr pm) ''/process'') ?body w)"
    proof -
      have "py_truthy (JStr pm)" using pmf(1) by (simp add: url_host_def)
      with m mf thf v show ?thesis
        by (simp add: th_process_query_keys py_upper_val_def th_relay_first_host del: serve.simps)
    qed
    moreover have "url_host th" "apps D th = Some ''trusted_host_app''" using wf by (simp_all add: wf_deployment_def)
    ultimately have "serve (Suc (Suc n)) D r w (node_url (JStr th) ''/process'') ?body hdrs =
        map_option (\<lambda>(w', resp). (w', Inr resp))
          (map_option (\<lambda>(w', r). (w', case r of Inl e \<Rightarrow> th_except e | Inr (v, code) \<Rightarrow> flask_return v code))
            (forward_query (serve (Suc n) D r) (node_url (JStr pm) ''/process'') ?body w))"
      by (simp only: serve_trusted_host)
    also have "\<dots> = map_option (\<lambda>(w', j). (w', Inr (jsonify j 200))) ?X"
      using pm cont by (cases ?X) (auto simp: forward_query_def jsonify_def resp_json_def
          flask_return_container [unfolded jsonify_def])
    finally show ?thesis .
  qed
  have "handle_query_request (serve (Suc (Suc n)) D r) (files D gk ''trustedhost_info.json'') ?body hdrs w =
      map_option (\<lambda>(w', j). (w', jsonify j 200)) ?X"
    using q qn gkf th cont wf
    by (cases ?X) (auto simp: handle_query_request_str gk_forward_first_host jsonify_def resp_json_def
        flask_return_container [unfolded jsonify_def] wf_deployment_def url_host_def del: serve.simps)
  moreover have "url_host gk" "apps D gk = Some ''gatekeeper_app''" using wf by (simp_all add: wf_deployment_def)
  ultimately show ?thesis
    by (simp only: serve_gatekeeper) (cases ?X, auto split: prod.splits)
qed

lemma example_cluster_wf: "wf_deployment example_cluster ''G'' ''T'' ''P'' example_members"
  using example_members_one_master
  by (simp add: wf_deployment_def example_cluster_def example_apps_def example_files_def url_host_def
      points_to_def example_members_eval db_host_ok_def desc_field_def
      is_master_desc_def MASTER_NAME_def SLAVE_NAME_def)

text \<open>Everything a request through the example cluster unfolds, for evaluation by \<open>simp\<close>.\<close>

lemmas example_eval_defs = example_cluster_def example_apps_def example_files_def parse_url_def node_url_def
      app_routes_def gatekeeper_routes_def trusted_host_routes_def proxy_manager_routes_def master_routes_def
      slave_routes_def handle_query_request_def py_strip_val_def py_strip_def py_isspace_def re_match_def
      SQL_SANITIZATION_REGEX_def sql_class_def gk_forward_def get_trusted_host_config_def py_next_map_def
      th_process_query_def py_upper_val_def py_upper_def py_upper_char_def char_of_eval ALLOWED_MODES_def
      validate_user_credentials_def admin_headers_def VALID_CREDENTIALS_def ascii_lower_def th_relay_def
      load_proxy_manager_details_def forward_query_def pm_process_query_def load_instance_details_def
      route_url_def fetch_master_node_def example_members_eval is_master_def MASTER_NAME_def SLAVE_NAME_def
      id_and_ip_def forward_query_request_def primary_write_data_def get_instance_details_def replica_ips_def
      not_master_def master_local_write_def example_engine_def get_db_connection_def replica_write_data_def
      replica_outcome_def jsonify_def resp_json_def th_catch_def

lemma example_direct_eval:
  "serve (Suc (Suc (Suc (Suc (Suc 0))))) example_cluster 0 (\<lambda>_. 0) (node_url (JStr ''G'') ''/process'')
         (JObj [(''query'', JStr ''INSERT INTO t VALUES (1)''), (''mode'', JStr ''DIRECT'')]) admin_headers
       = Some ((\<lambda>_. 0)(''A'' := 1, ''B'' := 1, ''C'' := 1), Inr (jsonify (JArr [
           JObj [(''message'', JStr ''Query executed successfully''), (''affected_rows'', JInt 1)],
           JObj [(''message'', JStr ''Query executed successfully''), (''affected_rows'', JInt 1)],
           JObj [(''message'', JStr ''Query executed successfully''), (''affected_rows'', JInt 1)]]) 200))"
  by (simp add: example_eval_defs)

theorem cluster_refines_routing_witness:
  "wf_deployment example_cluster ''G'' ''T'' ''P'' example_members \<and> sql_sanitized (py_strip ''INSERT INTO t VALUES (1)'')
   \<and> ''DIRECT'' \<in> set ALLOWED_MODES \<and> fst (validate_user_credentials admin_headers)
   \<and> spec_target (ping_address (probe example_cluster)) 0 ''DIRECT'' example_members = Some (node_url (JStr ''A'') ''/write'')
   \<and> serve (Suc (Suc (Suc (Suc (Suc 0))))) example_cluster 0 (\<lambda>_. 0) (node_url (JStr ''G'') ''/process'')
         (JObj [(''query'', JStr ''INSERT INTO t VALUES (1)''), (''mode'', JStr ''DIRECT'')]) admin_headers
       = map_option (\<lambda>(w', j). (w', Inr (jsonify j 200)))
           (forward_query_request (serve (Suc (Suc 0)) example_cluster 0) (\<lambda>_. 0) (node_url (JStr ''A'') ''/write'')
              (JObj [(''query'', JStr ''INSERT INTO t VALUES (1)'')]))"
proof -
  have q: "sql_sanitized (py_strip ''INSERT INTO t VALUES (1)'')"
    unfolding sql_sanitized_def
    by (rule exI [of _ "''INSERT INTO t VALUES (1)''"]) (simp add: py_strip_def py_isspace_def sql_allowed_def)
  have m: "''DIRECT'' \<in> set ALLOWED_MODES" by (simp add: ALLOWED_MODES_def)
  have c: "fst (validate_user_credentials admin_headers)"
    by (simp add: validate_user_credentials_def admin_headers_def VALID_CREDENTIALS_def ascii_lower_def char_of_eval)
  have t: "spec_target (ping_address (probe example_cluster)) 0 ''DIRECT'' example_members = Some (node_url (JStr ''A'') ''/write'')"
    by (simp add: spec_target_def example_members_eval is_master_desc_def desc_field_def MASTER_NAME_def SLAVE_NAME_def)
  show ?thesis
    using example_cluster_wf q m c t cluster_refines_routing [OF example_cluster_wf q m c t, where n = "Suc (Suc 0)"]
    by simp
qed

text \<open>
  C26. The answer type of the whole cluster: whatever the deployment, the request and
  the depth, an HTTP answer with status 200 that any service gives carries a JSON
  object or array (a \<open>jsonify\<close> of a dict or a list), never a text body or a scalar.
\<close>

theorem serve_ok_answers_json:
  assumes "serve n D r w u p h = Some (w', Inr resp)" and "status resp = 200"
  shows "\<exists>j. rbody resp = BJson j \<and> json_container j"
proof -
  have "ok_body resp" using serve_post_ok [of n D r] assms(1) unfolding post_ok_def by blast
  with assms(2) show ?thesis by (cases "rbody resp") (simp_all add: ok_body_def)
qed

theorem serve_ok_answers_json_witness:
  "serve (Suc (Suc (Suc (Suc (Suc 0))))) example_cluster 0 (\<lambda>_. 0) (node_url (JStr ''G'') ''/process'')
      (JObj [(''query'', JStr ''INSERT INTO t VALUES (1)''), (''mode'', JStr ''DIRECT'')]) admin_headers
     = Some ((\<lambda>_. 0)(''A'' := 1, ''B'' := 1, ''C'' := 1), Inr (jsonify (JArr [
           JObj [(''message'', JStr ''Query executed successfully''), (''affected_rows'', JInt 1)],
           JObj [(''message'', JStr ''Query executed successfully''), (''affected_rows'', JInt 1)],
           JObj [(''message'', JStr ''Query executed successfully''), (''affected_rows'', JInt 1)]]) 200))
   \<and> status (jsonify (JArr [
           JObj [(''message'', JStr ''Query executed successfully''), (''affected_rows'', JInt 1)],
           JObj [(''message'', JStr ''Query executed successfully''), (''affected_rows'', JInt 1)],
           JObj [(''message'', JStr ''Query executed successfully''), (''affected_rows'', JInt 1)]]) 200) = 200
   \<and> (\<exists>j. rbody (jsonify (JArr [
           JObj [(''message'', JStr ''Query executed successfully''), (''affected_rows'', JInt 1)],
           JObj [(''message'', JStr ''Query executed successfully''), (''affected_rows'', JInt 1)],
           JObj [(''message'', JStr ''Query executed successfully''), (''affected_rows'', JInt 1)]]) 200) = BJson j \<and> json_container j)"
  using example_direct_eval serve_ok_answers_json [OF example_direct_eval] by (simp add: jsonify_def)

end
