(* ===== verification/ClusterLiveness.thy ===== *)
theory ClusterLiveness
  imports Cluster
begin

text \<open>
  Liveness of the cluster. For each handler, a lemma that it returns when the HTTP calls
  it makes return: the gatekeeper and the trusted host call the first host of their
  configuration file, the proxy manager an endpoint of a member (\<open>route_url_target\<close>),
  the primary the \<open>/write\<close> of every replica. Composed along a well-formed deployment,
  they show that five levels of nested calls are enough for every client request, and
  the example cluster shows that four are not.
\<close>

section \<open>Each handler returns when the calls it makes return\<close>

lemma forward_writes_returns:
  assumes "\<forall>ip\<in>set ips. \<forall>w x h. post w (node_url ip ''/write'') x h \<noteq> None"
  shows "forward_writes post q ips w \<noteq> None"
  using assms
proof (induction ips arbitrary: w)
  case Nil
  then show ?case by simp
next
  case (Cons ip ips)
  obtain w1 res where p: "post w (node_url ip ''/write'') (JObj [(''query'', q)]) [] = Some (w1, res)"
    using Cons.prems by fastforce
  from Cons obtain w2 rest where "forward_writes post q ips w1 = Some (w2, rest)" by fastforce
  with p show ?case by (simp split: sum.splits)
qed

lemma primary_write_returns:
  assumes "list_all wf_desc ds"
    and "\<forall>d\<in>set ds. \<not> is_master_desc d \<longrightarrow> (\<forall>w x h. post w (node_url (desc_field d ''PublicIP'') ''/write'') x h \<noteq> None)"
  shows "primary_write_data e getdb putdb (JsonFile (JArr ds)) post data w \<noteq> None"
proof -
  have "forward_writes post q (map (\<lambda>d. desc_field d ''PublicIP'') (filter (\<lambda>d. \<not> is_master_desc d) ds)) w' \<noteq> None"
    for q w' using assms(2) by (intro forward_writes_returns) auto
  then show ?thesis
    using assms(1) by (simp add: primary_write_data_def get_instance_details_def replica_ips_wf bind_Some_pair
        split: sum.splits prod.splits)
qed

text \<open>The proxy manager only ever calls an endpoint of a member of its membership list.\<close>

lemma route_url_target:
  assumes wf: "list_all wf_desc ds" and u: "route_url ping r mode (JArr ds) = Inr u"
  shows "\<exists>d\<in>set ds. \<exists>p. u = node_url (desc_field d ''PublicIP'') p \<and> (p = ''/read'' \<or> is_master_desc d)"
proof -
  let ?rn = "filter (\<lambda>d. \<not> is_master_desc d) ds"
  consider (direct) "mode = JStr ''DIRECT''" | (random) "mode \<noteq> JStr ''DIRECT''" "mode = JStr ''RANDOM''"
    | (other) "mode \<noteq> JStr ''DIRECT''" "mode \<noteq> JStr ''RANDOM''" by blast
  then show ?thesis
  proof cases
    case direct
    then obtain m ms where "filter is_master_desc ds = m # ms" "u = node_url (desc_field m ''PublicIP'') ''/write''"
      using u by (auto simp: route_url_def fetch_master_node_eval [OF wf] desc_fields_def split: list.splits)
    moreover from this(1) have "m \<in> set (filter is_master_desc ds)" by simp
    then have "m \<in> set ds" "is_master_desc m" by simp_all
    ultimately show ?thesis by blast
  next
    case random
    then have "?rn \<noteq> []" "u = node_url (desc_field (?rn ! (r mod length ?rn)) ''PublicIP'') ''/read''"
      using u by (simp_all add: route_url_def select_random_read_node_eval [OF wf] desc_fields_def Let_def
          split: if_splits)
    moreover from this(1) have "?rn ! (r mod length ?rn) \<in> set ds"
      using nth_mod_length_in_set [of ?rn r] by auto
    ultimately show ?thesis by blast
  next
    case other
    then obtain t d where fm: "first_min (respondents ping ds) = Some (t, d)"
      and "u = node_url (desc_field d ''PublicIP'') ''/read''"
      using u by (auto simp: route_url_def find_lowest_latency_instance_eval [OF wf] desc_fields_def
          split: option.splits)
    moreover have "d \<in> set ds"
    proof -
      from first_min_SomeD [OF fm] obtain i where "i < length (respondents ping ds)" "respondents ping ds ! i = (t, d)"
        by blast
      then have "(t, d) \<in> set (respondents ping ds)" by (metis nth_mem)
      then show ?thesis by (simp add: respondents_mem)
    qed
    ultimately show ?thesis by blast
  qed
qed

lemma pm_process_query_returns:
  assumes "list_all wf_desc ds"
    and "\<forall>d\<in>set ds. \<forall>p w x h. post w (node_url (desc_field d ''PublicIP'') p) x h \<noteq> None"
  shows "pm_process_query ping r (JsonFile (JArr ds)) post data w \<noteq> None"
proof -
  have [simp]: "forward_query_request post w u p \<noteq> None" if "route_url ping r mode (JArr ds) = Inr u" for mode u p
  proof -
    from route_url_target [OF assms(1) that] obtain d pth where "d \<in> set ds" "u = node_url (desc_field d ''PublicIP'') pth"
      by blast
    with assms(2) obtain w' res where "post w u p [] = Some (w', res)" by fastforce
    then show ?thesis by (simp add: forward_query_request_def)
  qed
  then show ?thesis
    by (simp add: pm_process_query_def load_instance_details_def bind_Some_pair del: not_None_eq split: sum.splits)
qed

lemma th_process_query_returns:
  assumes "points_to f pm" and "\<forall>w x. post w (node_url (JStr pm) ''/process'') x [] \<noteq> None"
  shows "th_process_query ord post f data hdrs w \<noteq> None"
proof -
  from points_toD [OF assms(1)] obtain t ts where f: "f = JsonFile (JArr (t # ts))"
    and ip: "py_subscript t ''PublicIP'' = Inr (JStr pm)" by blast
  have "th_relay post f data w \<noteq> None"
    using f ip assms(2)
    by (simp add: th_relay_def load_proxy_manager_details_def py_next_map_def forward_query_def bind_Some_pair
        del: not_None_eq)
  then show ?thesis
    by (simp add: th_process_query_def del: not_None_eq split: sum.splits bool.splits prod.splits)
qed

lemma handle_query_request_returns:
  assumes "points_to f th" and "\<forall>w x h. post w (node_url (JStr th) ''/process'') x h \<noteq> None"
  shows "handle_query_request post f data hdrs w \<noteq> None"
proof -
  from points_toD [OF assms(1)] obtain t ts where f: "f = JsonFile (JArr (t # ts))"
    and ip: "py_subscript t ''PublicIP'' = Inr (JStr th)" by blast
  have "gk_forward post f data hdrs w \<noteq> None"
    using f ip assms(2)
    by (simp add: gk_forward_def get_trusted_host_config_def py_next_map_def bind_Some_pair del: not_None_eq)
  then show ?thesis
    by (simp add: handle_query_request_def del: not_None_eq split: sum.splits)
qed

section \<open>The database nodes answer\<close>

lemma serve_slave_returns:
  assumes "url_host h" and "apps D h = Some ''slave_app''"
  shows "serve (Suc n) D r w (node_url (JStr h) p) x hs \<noteq> None"
  using assms
  by (subst serve_host [where m = "''slave_app''"]) (simp_all add: url_host_def app_routes_def split: prod.splits)

lemma db_host_facts:
  assumes "wf_deployment D gk th pm ds" and "d \<in> set ds"
  obtains h where "desc_field d ''PublicIP'' = JStr h" "url_host h"
    "apps D h = Some (if is_master_desc d then ''master_app'' else ''slave_app'')"
    "is_master_desc d \<Longrightarrow> files D h ''instance_info.json'' = JsonFile (JArr ds)"
proof -
  from assms have "db_host_ok D ds d" by (simp add: wf_deployment_def list_all_iff)
  then show ?thesis using that by (auto simp: db_host_ok_def split: json.splits)
qed

lemma wf_deployment_descs: "wf_deployment D gk th pm ds \<Longrightarrow> list_all wf_desc ds"
  by (simp add: wf_deployment_def one_master_def)

lemma serve_db_returns:
  assumes wf: "wf_deployment D gk th pm ds" and d: "d \<in> set ds"
  shows "serve (Suc (Suc n)) D r w (node_url (desc_field d ''PublicIP'') p) x hs \<noteq> None"
proof -
  obtain h where h: "desc_field d ''PublicIP'' = JStr h" "url_host h"
    "apps D h = Some (if is_master_desc d then ''master_app'' else ''slave_app'')"
    "is_master_desc d \<Longrightarrow> files D h ''instance_info.json'' = JsonFile (JArr ds)"
    using db_host_facts [OF wf d] by blast
  show ?thesis
  proof (cases "is_master_desc d")
    case False
    with h show ?thesis by (simp add: serve_slave_returns del: serve.simps)
  next
    case True
    have "\<forall>d'\<in>set ds. \<not> is_master_desc d' \<longrightarrow>
        (\<forall>w x h'. serve (Suc n) D r w (node_url (desc_field d' ''PublicIP'') ''/write'') x h' \<noteq> None)"
    proof (intro ballI impI allI)
      fix d' w x h' assume "d' \<in> set ds" "\<not> is_master_desc d'"
      with db_host_facts [OF wf \<open>d' \<in> set ds\<close>] show "serve (Suc n) D r w (node_url (desc_field d' ''PublicIP'') ''/write'') x h' \<noteq> None"
        by (metis serve_slave_returns)
    qed
    from primary_write_returns [OF wf_deployment_descs [OF wf] this]
    have "primary_write_data (eng D) (\<lambda>w. w h) (\<lambda>w d. w(h := d)) (JsonFile (JArr ds)) (serve (Suc n) D r) x w \<noteq> None" .
    with True h have "serve (Suc (Suc n)) D r w (node_url (JStr h) p) x hs \<noteq> None"
      by (subst serve_host [where m = "''master_app''"])
        (simp_all add: url_host_def app_routes_def master_routes_def del: serve.simps not_None_eq)
    with h(1) show ?thesis by (simp del: serve.simps not_None_eq)
  qed
qed

section \<open>Every request through a well-formed cluster is answered\<close>

lemma wf_cluster_answers:
  assumes wf: "wf_deployment D gk th pm ds"
  shows "\<exists>w' resp. serve (Suc (Suc (Suc (Suc (Suc n))))) D r w (node_url (JStr gk) ''/process'') data hdrs
           = Some (w', Inr resp)"
proof -
  have pmf: "url_host pm" "apps D pm = Some ''proxy_manager_app''" "files D pm ''instance_info.json'' = JsonFile (JArr ds)"
    and thf: "url_host th" "apps D th = Some ''trusted_host_app''" "points_to (files D th ''proxy_info.json'') pm"
    and gkf: "url_host gk" "apps D gk = Some ''gatekeeper_app''" "points_to (files D gk ''trustedhost_info.json'') th"
    using wf by (simp_all add: wf_deployment_def)
  have "pm_process_query (ping_address (probe D)) r (JsonFile (JArr ds)) (serve (Suc (Suc n)) D r) x w' \<noteq> None" for x w'
    using wf serve_db_returns [OF wf] by (intro pm_process_query_returns wf_deployment_descs) auto
  then have pm: "\<forall>w' x. serve (Suc (Suc (Suc n))) D r w' (node_url (JStr pm) ''/process'') x [] \<noteq> None"
    using pmf by (simp add: serve_proxy_manager del: serve.simps not_None_eq)
  have "th_process_query (mode_order D) (serve (Suc (Suc (Suc n))) D r) (files D th ''proxy_info.json'') x h w' \<noteq> None"
    for x h w' using thf(3) pm by (rule th_process_query_returns)
  then have th: "\<forall>w' x h. serve (Suc (Suc (Suc (Suc n)))) D r w' (node_url (JStr th) ''/process'') x h \<noteq> None"
    using thf by (simp add: serve_trusted_host del: serve.simps not_None_eq)
  have "handle_query_request (serve (Suc (Suc (Suc (Suc n)))) D r) (files D gk ''trustedhost_info.json'') data hdrs w \<noteq> None"
    using gkf(3) th by (rule handle_query_request_returns)
  then show ?thesis
    using gkf by (auto simp: serve_gatekeeper simp del: serve.simps)
qed

text \<open>
  C27. No service sets a timeout, so an answer needs every nested call to return. On a
  well-formed deployment it does: whatever the body, the headers, the draw and the
  world, a POST to the gatekeeper's \<open>/process\<close> is answered with an HTTP response
  (never a transport error) within five levels of nested calls.
\<close>

theorem cluster_answers_every_request:
  assumes wf: "wf_deployment D gk th pm ds"
  shows "\<exists>w' resp. serve (Suc (Suc (Suc (Suc (Suc n))))) D r w (node_url (JStr gk) ''/process'') data hdrs
           = Some (w', Inr resp)"
  using wf by (rule wf_cluster_answers)

theorem cluster_answers_every_request_witness:
  "wf_deployment example_cluster ''G'' ''T'' ''P'' example_members \<and>
   (\<exists>w' resp. serve (Suc (Suc (Suc (Suc (Suc 0))))) example_cluster 7 (\<lambda>_. 0) (node_url (JStr ''G'') ''/process'')
      (JObj [(''query'', JStr ''SELECT 1''), (''mode'', JStr ''RANDOM'')]) [] = Some (w', Inr resp))"
  using example_cluster_wf cluster_answers_every_request [OF example_cluster_wf] by blast


text \<open>
  C29. The calls carry no timeout, so a configuration cycle is never answered: if the
  gatekeeper's \<open>trustedhost_info.json\<close> names the gatekeeper itself, an accepted
  request is relayed to itself again and again and does not return at any depth.
\<close>

theorem self_relaying_gatekeeper_hangs:
  assumes g: "url_host g" "apps D g = Some ''gatekeeper_app''" "points_to (files D g ''trustedhost_info.json'') g"
    and q: "dict_get kvs ''query'' = JStr s" "sql_sanitized (py_strip s)"
  shows "serve n D r w (node_url (JStr g) ''/process'') (JObj kvs) hdrs = None"
proof (induction n arbitrary: w)
  case 0
  then show ?case by simp
next
  case (Suc n)
  from points_toD [OF g(3)] obtain t ts where f: "files D g ''trustedhost_info.json'' = JsonFile (JArr (t # ts))"
    and ip: "py_subscript t ''PublicIP'' = Inr (JStr g)" by blast
  have "py_truthy (JStr g)" using g(1) by (simp add: url_host_def)
  with f ip Suc.IH have "gk_forward (serve n D r) (files D g ''trustedhost_info.json'') (JObj kvs) hdrs w = None"
    by (simp add: gk_forward_first_host del: serve.simps)
  with q sanitized_nonempty [OF q(2)] g(1,2) show ?case
    by (simp add: serve_gatekeeper handle_query_request_str del: serve.simps)
qed

theorem self_relaying_gatekeeper_hangs_witness:
  "url_host ''G'' \<and> apps example_cluster ''G'' = Some ''gatekeeper_app''
   \<and> points_to (files (example_cluster\<lparr>files := example_files(''G'' := (\<lambda>_. JsonFile (JArr [JObj [(''PublicIP'', JStr ''G'')]])))\<rparr>) ''G'' ''trustedhost_info.json'') ''G''
   \<and> dict_get [(''query'', JStr ''SELECT 1''), (''mode'', JStr ''DIRECT'')] ''query'' = JStr ''SELECT 1''
   \<and> sql_sanitized (py_strip ''SELECT 1'')
   \<and> serve 10 (example_cluster\<lparr>files := example_files(''G'' := (\<lambda>_. JsonFile (JArr [JObj [(''PublicIP'', JStr ''G'')]])))\<rparr>) 0 (\<lambda>_. 0)
         (node_url (JStr ''G'') ''/process'') (JObj [(''query'', JStr ''SELECT 1''), (''mode'', JStr ''DIRECT'')]) admin_headers = None"
proof -
  let ?D = "example_cluster\<lparr>files := example_files(''G'' := (\<lambda>_. JsonFile (JArr [JObj [(''PublicIP'', JStr ''G'')]])))\<rparr>"
  have g: "url_host ''G''" "apps ?D ''G'' = Some ''gatekeeper_app''"
    "points_to (files ?D ''G'' ''trustedhost_info.json'') ''G''"
    by (simp_all add: url_host_def example_cluster_def example_apps_def points_to_def)
  have q: "dict_get [(''query'', JStr ''SELECT 1''), (''mode'', JStr ''DIRECT'')] ''query'' = JStr ''SELECT 1''"
    by (simp add: dict_get_def)
  from self_relaying_gatekeeper_hangs [OF g q select1_sanitized, of 10 0 "\<lambda>_. 0" admin_headers] g q select1_sanitized
  show ?thesis by (simp add: example_cluster_def del: serve.simps)
qed

end
