(* ===== verification/Replication.thy ===== *)
theory Replication
  imports ClusterLiveness
begin

text \<open>
  Replication. The world of the cluster is the state of every host's database; only the
  nodes change it. A client request through the gatekeeper changes it in one of two ways
  (\<open>db_effect\<close>): not at all (a rejection, an error, a read), or by one write statement
  applied by every database node to its own state (\<open>write_all\<close>): the primary commits it
  locally (\<open>master_local_write\<close>) and replays it to the \<open>/write\<close> of every replica of its
  membership file (\<open>forward_writes\<close>), and a replica's write has the same effect on its
  state as the primary's (\<open>write_state\<close>). Requests are sequential (\<open>cluster_reach\<close>):
  the model does not interleave two requests in flight.
\<close>


section \<open>The state after a write, the database hosts, and reachable worlds\<close>

text \<open>The state a node's database is in after it executes the write statement \<open>q\<close>.\<close>

definition write_state :: "'db engine \<Rightarrow> json \<Rightarrow> 'db \<Rightarrow> 'db" where
  "write_state e q d =
     (case get_db_connection e d of
        Inl _ \<Rightarrow> d
      | Inr _ \<Rightarrow> (case run_write e d q of DbOk (d', _) \<Rightarrow> d' | _ \<Rightarrow> d))"

definition db_hosts :: "json list \<Rightarrow> string set" where
  "db_hosts ds = {h. JStr h \<in> (\<lambda>d. desc_field d ''PublicIP'') ` set ds}"

text \<open>All database hosts hold the same state.\<close>

definition in_sync :: "json list \<Rightarrow> 'db world \<Rightarrow> bool" where
  "in_sync ds w \<longleftrightarrow> (\<exists>v. w ` db_hosts ds \<subseteq> {v})"

definition write_all :: "'db engine \<Rightarrow> json \<Rightarrow> string set \<Rightarrow> 'db world \<Rightarrow> 'db world" where
  "write_all e q hs w = (\<lambda>h. if h \<in> hs then write_state e q (w h) else w h)"

definition db_effect :: "'db deployment \<Rightarrow> json list \<Rightarrow> 'db world \<Rightarrow> 'db world \<Rightarrow> bool" where
  "db_effect D ds w w' \<longleftrightarrow> w' = w \<or> (\<exists>q. w' = write_all (eng D) q (db_hosts ds) w)"

text \<open>The worlds reached from \<open>w0\<close> by a sequence of client requests to the gatekeeper \<open>gk\<close>.\<close>

inductive cluster_reach :: "'db deployment \<Rightarrow> string \<Rightarrow> 'db world \<Rightarrow> 'db world \<Rightarrow> bool"
  for D gk w0 where
  reach_init: "cluster_reach D gk w0 w0"
| reach_step: "cluster_reach D gk w0 w \<Longrightarrow>
    serve n D r w (node_url (JStr gk) ''/process'') data hdrs = Some (w', res) \<Longrightarrow> cluster_reach D gk w0 w'"

section \<open>Lemmas\<close>

lemma replica_write_state:
  "py_truthy q \<Longrightarrow> fst (replica_write_data e (JObj [(''query'', q)]) d) = write_state e q d"
  by (simp add: replica_write_data_def write_state_def py_get_def dict_get_def
      split: sum.splits db_result.splits prod.splits)

lemma replica_write_outcome: "\<exists>out. replica_outcome (Inr (snd (replica_write_data e data d))) = Inr out"
  by (auto simp add: replica_write_data_def replica_outcome_def jsonify_def flask_500_def resp_json_def
      error_obj_def split: sum.splits db_result.splits prod.splits)

lemma master_write_state: "master_local_write e q d = (d', Inr j) \<Longrightarrow> d' = write_state e q d"
  by (auto simp: master_local_write_def write_state_def split: sum.splits db_result.splits prod.splits)

lemma serve_slave_write:
  assumes "url_host h" and "apps D h = Some ''slave_app''" and "py_truthy q"
    and "serve n D r w (node_url (JStr h) ''/write'') (JObj [(''query'', q)]) hs = Some (w1, res)"
  shows "w1 = w(h := write_state (eng D) q (w h)) \<and> (\<exists>out. replica_outcome res = Inr out)"
proof (cases n)
  case 0
  with assms(4) show ?thesis by simp
next
  case (Suc m)
  let ?rw = "replica_write_data (eng D) (JObj [(''query'', q)]) (w h)"
  from assms(4) Suc have s: "serve (Suc m) D r w (node_url (JStr h) ''/write'') (JObj [(''query'', q)]) hs = Some (w1, res)"
    by (simp del: serve.simps)
  from assms(1,2) s have "w1 = w(h := fst ?rw) \<and> res = Inr (snd ?rw)"
    by (subst (asm) serve_host [where m = "''slave_app''"])
      (auto simp: url_host_def app_routes_def slave_routes_def split: prod.splits)
  moreover have "fst ?rw = write_state (eng D) q (w h)" using assms(3) by (rule replica_write_state)
  ultimately show ?thesis using replica_write_outcome [of "eng D" _ "w h"] by auto
qed

lemma db_hosts_Nil [simp]: "db_hosts [] = {}"
  by (simp add: db_hosts_def)

lemma db_hosts_Cons: "desc_field d ''PublicIP'' = JStr h \<Longrightarrow> db_hosts (d # ds) = insert h (db_hosts ds)"
  by (auto simp: db_hosts_def image_iff)

lemma db_hosts_distinct:
  "desc_field d ''PublicIP'' = JStr h \<Longrightarrow> desc_field d ''PublicIP'' \<notin> (\<lambda>d. desc_field d ''PublicIP'') ` set ds
   \<Longrightarrow> h \<notin> db_hosts ds"
  by (auto simp: db_hosts_def image_iff)

lemma write_all_empty [simp]: "write_all e q {} w = w"
  by (simp add: write_all_def)

lemma write_all_insert:
  "h \<notin> hs \<Longrightarrow> write_all e q hs (w(h := write_state e q (w h))) = write_all e q (insert h hs) w"
  by (auto simp: write_all_def)

lemma forward_writes_effect:
  assumes "\<forall>d\<in>set rs. \<exists>h. desc_field d ''PublicIP'' = JStr h \<and> url_host h \<and> apps D h = Some ''slave_app''"
    and "distinct (map (\<lambda>d. desc_field d ''PublicIP'') rs)" and "py_truthy q"
    and "forward_writes (serve n D r) q (map (\<lambda>d. desc_field d ''PublicIP'') rs) w = Some (w', res)"
  shows "w' = write_all (eng D) q (db_hosts rs) w"
  using assms(1,2,4)
proof (induction rs arbitrary: w res)
  case Nil
  then show ?case by simp
next
  case (Cons d rs)
  from Cons.prems(1) obtain h where h: "desc_field d ''PublicIP'' = JStr h" "url_host h" "apps D h = Some ''slave_app''"
    by auto
  from Cons.prems(3) h obtain w1 r1 where
    p: "serve n D r w (node_url (JStr h) ''/write'') (JObj [(''query'', q)]) [] = Some (w1, r1)"
    by (auto simp: bind_eq_Some_conv simp del: serve.simps)
  from serve_slave_write [OF h(2,3) assms(3) p] obtain out
    where w1: "w1 = w(h := write_state (eng D) q (w h))" and o: "replica_outcome r1 = Inr out" by blast
  from Cons.prems(3) h p o obtain rest
    where f: "forward_writes (serve n D r) q (map (\<lambda>d. desc_field d ''PublicIP'') rs) w1 = Some (w', rest)"
    by (auto simp: bind_eq_Some_conv simp del: serve.simps)
  have "w' = write_all (eng D) q (db_hosts rs) w1"
    using Cons.IH [OF _ _ f] Cons.prems(1,2) by simp
  moreover have "h \<notin> db_hosts rs" using Cons.prems(2)
    by (intro db_hosts_distinct [OF h(1)]) simp
  ultimately show ?case using w1 h by (simp add: write_all_insert db_hosts_Cons)
qed

lemma fst_comp_pair_map: "fst \<circ> (\<lambda>(a, b). (a, f b)) = fst"
  by (auto simp: fun_eq_iff)

lemma primary_write_world:
  assumes "list_all wf_desc ds"
  shows "map_option fst (primary_write_data e getdb putdb (JsonFile (JArr ds)) post data w) =
     (case py_get data ''query'' of
        Inl _ \<Rightarrow> Some w
      | Inr q \<Rightarrow> if \<not> py_truthy q then Some w
          else (case master_local_write e q (getdb w) of
                  (_, Inl _) \<Rightarrow> Some w
                | (d', Inr _) \<Rightarrow> map_option fst (forward_writes post q
                    (map (\<lambda>d. desc_field d ''PublicIP'') (filter (\<lambda>d. \<not> is_master_desc d) ds)) (putdb w d'))))"
  using assms by (simp add: primary_write_data_def get_instance_details_def replica_ips_wf bind_Some_pair
      option.map_comp fst_comp_pair_map split: sum.split prod.split)

lemma primary_write_effect:
  assumes "list_all wf_desc ds" and "primary_write_data e getdb putdb (JsonFile (JArr ds)) post data w = Some (w', resp)"
  shows "w' = w \<or> (\<exists>q d' j. py_truthy q \<and> master_local_write e q (getdb w) = (d', Inr j)
           \<and> map_option fst (forward_writes post q (map (\<lambda>d. desc_field d ''PublicIP'') (filter (\<lambda>d. \<not> is_master_desc d) ds)) (putdb w d'))
              = Some w')"
proof -
  from assms(2) have "map_option fst (primary_write_data e getdb putdb (JsonFile (JArr ds)) post data w) = Some w'"
    by simp
  then show ?thesis
    unfolding primary_write_world [OF assms(1)] by (auto split: sum.splits prod.splits if_splits)
qed

lemma one_master_unique:
  assumes "one_master ds" "d \<in> set ds" "is_master_desc d" "d' \<in> set ds" "is_master_desc d'"
  shows "d' = d"
proof -
  from assms(1) obtain x where "filter is_master_desc ds = [x]"
    by (auto simp: one_master_def length_Suc_conv)
  moreover have "d \<in> set (filter is_master_desc ds)" "d' \<in> set (filter is_master_desc ds)"
    using assms(2-5) by simp_all
  ultimately show ?thesis by simp
qed

lemma master_hosts:
  assumes wf: "wf_deployment D gk th pm ds" and d: "d \<in> set ds" "is_master_desc d" "desc_field d ''PublicIP'' = JStr h"
  shows "db_hosts ds = insert h (db_hosts (filter (\<lambda>d. \<not> is_master_desc d) ds))"
    and "h \<notin> db_hosts (filter (\<lambda>d. \<not> is_master_desc d) ds)"
proof -
  have om: "one_master ds" and dist: "distinct (map (\<lambda>d. desc_field d ''PublicIP'') ds)"
    using wf by (simp_all add: wf_deployment_def)
  have same: "d' = d" if "d' \<in> set ds" "desc_field d' ''PublicIP'' = JStr h" for d'
    using dist that d by (metis distinct_map inj_on_eq_iff)
  show "h \<notin> db_hosts (filter (\<lambda>d. \<not> is_master_desc d) ds)"
  proof
    assume "h \<in> db_hosts (filter (\<lambda>d. \<not> is_master_desc d) ds)"
    then obtain d' where "d' \<in> set ds" "\<not> is_master_desc d'" "desc_field d' ''PublicIP'' = JStr h"
      by (auto simp: db_hosts_def image_iff)
    with same [of d'] d(2) show False by blast
  qed
  show "db_hosts ds = insert h (db_hosts (filter (\<lambda>d. \<not> is_master_desc d) ds))"
  proof (intro set_eqI iffI)
    fix x assume "x \<in> db_hosts ds"
    then obtain d' where d': "d' \<in> set ds" "desc_field d' ''PublicIP'' = JStr x" by (auto simp: db_hosts_def image_iff)
    show "x \<in> insert h (db_hosts (filter (\<lambda>d. \<not> is_master_desc d) ds))"
    proof (cases "is_master_desc d'")
      case True
      with one_master_unique [OF om d(1,2) d'(1)] d'(2) d(3) show ?thesis by simp
    next
      case False
      with d' show ?thesis by (auto simp: db_hosts_def image_iff)
    qed
  next
    fix x assume "x \<in> insert h (db_hosts (filter (\<lambda>d. \<not> is_master_desc d) ds))"
    with d show "x \<in> db_hosts ds" by (force simp: db_hosts_def image_iff)
  qed
qed

lemma replica_hosts:
  assumes wf: "wf_deployment D gk th pm ds"
  shows "\<forall>d\<in>set (filter (\<lambda>d. \<not> is_master_desc d) ds).
           \<exists>h. desc_field d ''PublicIP'' = JStr h \<and> url_host h \<and> apps D h = Some ''slave_app''"
    and "distinct (map (\<lambda>d. desc_field d ''PublicIP'') (filter (\<lambda>d. \<not> is_master_desc d) ds))"
proof -
  show "\<forall>d\<in>set (filter (\<lambda>d. \<not> is_master_desc d) ds).
           \<exists>h. desc_field d ''PublicIP'' = JStr h \<and> url_host h \<and> apps D h = Some ''slave_app''"
  proof
    fix d assume "d \<in> set (filter (\<lambda>d. \<not> is_master_desc d) ds)"
    then have "d \<in> set ds" "\<not> is_master_desc d" by simp_all
    obtain h where "desc_field d ''PublicIP'' = JStr h" "url_host h"
      "apps D h = Some (if is_master_desc d then ''master_app'' else ''slave_app'')"
      using db_host_facts [OF wf \<open>d \<in> set ds\<close>] by blast
    with \<open>\<not> is_master_desc d\<close> show "\<exists>h. desc_field d ''PublicIP'' = JStr h \<and> url_host h \<and> apps D h = Some ''slave_app''"
      by auto
  qed
  show "distinct (map (\<lambda>d. desc_field d ''PublicIP'') (filter (\<lambda>d. \<not> is_master_desc d) ds))"
    using wf by (simp add: wf_deployment_def distinct_map_filter)
qed

lemma serve_master_effect:
  assumes wf: "wf_deployment D gk th pm ds" and d: "d \<in> set ds" "is_master_desc d"
    and s: "serve n D r w (node_url (desc_field d ''PublicIP'') p) x hs = Some (w', res)"
  shows "db_effect D ds w w'"
proof -
  obtain h where h0: "desc_field d ''PublicIP'' = JStr h" "url_host h"
    "apps D h = Some (if is_master_desc d then ''master_app'' else ''slave_app'')"
    "is_master_desc d \<Longrightarrow> files D h ''instance_info.json'' = JsonFile (JArr ds)"
    using db_host_facts [OF wf d(1)] by blast
  with d(2) have h: "desc_field d ''PublicIP'' = JStr h" "url_host h" "apps D h = Some ''master_app''"
    "files D h ''instance_info.json'' = JsonFile (JArr ds)" by simp_all
  let ?rs = "filter (\<lambda>d. \<not> is_master_desc d) ds"
  from s have "n \<noteq> 0" by (cases n) (simp_all del: serve.simps(2))
  then obtain m where n: "n = Suc m" using not0_implies_Suc by blast
  from s h(1) n have "serve (Suc m) D r w (node_url (JStr h) p) x hs = Some (w', res)" by (simp del: serve.simps)
  then obtain resp where mr: "master_routes (serve m D r) D h p x w = Some (w', resp)"
    using h(2,3) by (subst (asm) serve_host [where m = "''master_app''"])
      (auto simp: url_host_def app_routes_def del: serve.simps)
  show ?thesis
  proof (cases "p = ''/write''")
    case False
    with mr show ?thesis by (auto simp: master_routes_def db_effect_def split: if_splits)
  next
    case True
    with mr h(4) have "primary_write_data (eng D) (\<lambda>w. w h) (\<lambda>w d. w(h := d)) (JsonFile (JArr ds)) (serve m D r) x w
        = Some (w', resp)" by (simp add: master_routes_def)
    from primary_write_effect [OF wf_deployment_descs [OF wf] this]
    show ?thesis
    proof
      assume "w' = w" then show ?thesis by (simp add: db_effect_def)
    next
      assume "\<exists>q d' j. py_truthy q \<and> master_local_write (eng D) q (w h) = (d', Inr j)
           \<and> map_option fst (forward_writes (serve m D r) q (map (\<lambda>d. desc_field d ''PublicIP'') ?rs) (w(h := d'))) = Some w'"
      then obtain q d' j fres where q: "py_truthy q" "master_local_write (eng D) q (w h) = (d', Inr j)"
        and f: "forward_writes (serve m D r) q (map (\<lambda>d. desc_field d ''PublicIP'') ?rs) (w(h := d')) = Some (w', fres)"
        by auto
      have "w' = write_all (eng D) q (db_hosts ?rs) (w(h := write_state (eng D) q (w h)))"
        using forward_writes_effect [OF replica_hosts [OF wf] q(1) f] master_write_state [OF q(2)] by simp
      also have "\<dots> = write_all (eng D) q (db_hosts ds) w"
        using master_hosts [OF wf d h(1)] by (simp add: write_all_insert)
      finally show ?thesis by (auto simp: db_effect_def)
    qed
  qed
qed

section \<open>The gateway hops change the world only through their downstream call\<close>

lemma forward_query_request_SomeD:
  "forward_query_request post w u p = Some (w', b) \<Longrightarrow> \<exists>res. post w u p [] = Some (w', res)"
  by (auto simp: forward_query_request_def bind_eq_Some_conv)

lemma forward_query_SomeD: "forward_query post u data w = Some (w', b) \<Longrightarrow> \<exists>res. post w u data [] = Some (w', res)"
  by (auto simp: forward_query_def bind_eq_Some_conv)

lemma pm_world:
  assumes "list_all wf_desc ds" and "pm_process_query ping r (JsonFile (JArr ds)) post data w = Some (w', resp)"
  shows "w' = w \<or> (\<exists>mode u x res. route_url ping r mode (JArr ds) = Inr u \<and> post w u x [] = Some (w', res))"
proof -
  from assms(2) have "map_option fst (pm_process_query ping r (JsonFile (JArr ds)) post data w) = Some w'" by simp
  then show ?thesis
    by (auto simp: pm_process_query_def load_instance_details_def bind_Some_pair map_option_fst_pair
        dest!: forward_query_request_SomeD split: sum.splits if_splits)
qed

lemma th_world:
  assumes "points_to f pm" and "th_process_query ord post f data hdrs w = Some (w', resp)"
  shows "w' = w \<or> (\<exists>x res. post w (node_url (JStr pm) ''/process'') x [] = Some (w', res))"
proof -
  from points_toD [OF assms(1)] obtain t ts where f: "f = JsonFile (JArr (t # ts))"
    and ip: "py_subscript t ''PublicIP'' = Inr (JStr pm)" by blast
  from assms(2) have "map_option fst (th_process_query ord post f data hdrs w) = Some w'" by simp
  then show ?thesis
    using f ip by (auto simp: th_process_query_def th_relay_def load_proxy_manager_details_def py_next_map_def
        bind_Some_pair map_option_fst_pair dest!: forward_query_SomeD split: sum.splits if_splits bool.splits prod.splits)
qed

lemma gk_world:
  assumes "points_to f th" and "handle_query_request post f data hdrs w = Some (w', resp)"
  shows "w' = w \<or> (\<exists>x h res. post w (node_url (JStr th) ''/process'') x h = Some (w', res))"
proof -
  from points_toD [OF assms(1)] obtain t ts where f: "f = JsonFile (JArr (t # ts))"
    and ip: "py_subscript t ''PublicIP'' = Inr (JStr th)" by blast
  from assms(2) have "map_option fst (handle_query_request post f data hdrs w) = Some w'" by simp
  then show ?thesis
    using f ip by (auto simp: handle_query_request_def gk_forward_def get_trusted_host_config_def py_next_map_def
        bind_Some_pair map_option_fst_pair split: sum.splits if_splits)
qed

section \<open>The effect of one client request\<close>

lemma serve_SucD: "serve n D r w u x h = Some y \<Longrightarrow> \<exists>m. n = Suc m"
  by (cases n) (simp_all del: serve.simps(2))

lemma serve_slave_other:
  assumes "url_host h" and "apps D h = Some ''slave_app''" and "p \<noteq> ''/write''"
    and "serve n D r w (node_url (JStr h) p) x hs = Some (w', res)"
  shows "w' = w"
proof -
  obtain m where n: "n = Suc m" using serve_SucD [OF assms(4)] by blast
  from assms(4) n have "serve (Suc m) D r w (node_url (JStr h) p) x hs = Some (w', res)" by (simp del: serve.simps)
  with assms(1-3) show ?thesis
    by (subst (asm) serve_host [where m = "''slave_app''"]) (auto simp: url_host_def app_routes_def slave_routes_def split: if_splits)
qed

lemma serve_node_effect:
  assumes wf: "wf_deployment D gk th pm ds" and d: "d \<in> set ds" and p: "p = ''/read'' \<or> is_master_desc d"
    and s: "serve n D r w (node_url (desc_field d ''PublicIP'') p) x hs = Some (w', res)"
  shows "db_effect D ds w w'"
proof (cases "is_master_desc d")
  case True
  show ?thesis by (rule serve_master_effect [OF wf d True s])
next
  case False
  obtain h where h: "desc_field d ''PublicIP'' = JStr h" "url_host h"
    "apps D h = Some (if is_master_desc d then ''master_app'' else ''slave_app'')"
    using db_host_facts [OF wf d] by blast
  with False p s have "w' = w" by (intro serve_slave_other [of h D p n r w x hs w' res]) simp_all
  then show ?thesis by (simp add: db_effect_def)
qed

lemma request_effect:
  assumes wf: "wf_deployment D gk th pm ds"
    and s: "serve n D r w (node_url (JStr gk) ''/process'') data hdrs = Some (w', res)"
  shows "db_effect D ds w w'"
proof -
  have pmf: "url_host pm" "apps D pm = Some ''proxy_manager_app''" "files D pm ''instance_info.json'' = JsonFile (JArr ds)"
    and thf: "url_host th" "apps D th = Some ''trusted_host_app''" "points_to (files D th ''proxy_info.json'') pm"
    and gkf: "url_host gk" "apps D gk = Some ''gatekeeper_app''" "points_to (files D gk ''trustedhost_info.json'') th"
    using wf by (simp_all add: wf_deployment_def)
  have pm_step: "db_effect D ds w w'" if s': "serve k D r w (node_url (JStr pm) ''/process'') y [] = Some (w', res')" for k y res'
  proof -
    obtain k' where k: "k = Suc k'" using serve_SucD [OF s'] by blast
    with s' pmf obtain resp where
      "pm_process_query (ping_address (probe D)) r (JsonFile (JArr ds)) (serve k' D r) y w = Some (w', resp)"
      by (auto simp: serve_proxy_manager simp del: serve.simps dest!: map_option_pair_SomeD)
    from pm_world [OF wf_deployment_descs [OF wf] this] show ?thesis
    proof
      assume "w' = w" then show ?thesis by (simp add: db_effect_def)
    next
      assume "\<exists>mode u x res. route_url (ping_address (probe D)) r mode (JArr ds) = Inr u \<and> serve k' D r w u x [] = Some (w', res)"
      then obtain mode u x res where u: "route_url (ping_address (probe D)) r mode (JArr ds) = Inr u"
        and c: "serve k' D r w u x [] = Some (w', res)" by blast
      from route_url_target [OF wf_deployment_descs [OF wf] u] obtain d p where
        "d \<in> set ds" "u = node_url (desc_field d ''PublicIP'') p" "p = ''/read'' \<or> is_master_desc d" by blast
      with c show ?thesis by (metis serve_node_effect [OF wf])
    qed
  qed
  have th_step: "db_effect D ds w w'" if s': "serve k D r w (node_url (JStr th) ''/process'') y h = Some (w', res')" for k y h res'
  proof -
    obtain k' where k: "k = Suc k'" using serve_SucD [OF s'] by blast
    with s' thf obtain resp where "th_process_query (mode_order D) (serve k' D r) (files D th ''proxy_info.json'') y h w = Some (w', resp)"
      by (auto simp: serve_trusted_host simp del: serve.simps dest!: map_option_pair_SomeD)
    from th_world [OF thf(3) this] pm_step show ?thesis by (auto simp: db_effect_def)
  qed
  obtain k' where k: "n = Suc k'" using serve_SucD [OF s] by blast
  with s gkf obtain resp where "handle_query_request (serve k' D r) (files D gk ''trustedhost_info.json'') data hdrs w = Some (w', resp)"
    by (auto simp: serve_gatekeeper simp del: serve.simps dest!: map_option_pair_SomeD)
  from gk_world [OF gkf(3) this] th_step show ?thesis by (auto simp: db_effect_def)
qed

section \<open>Replication invariant\<close>

lemma db_effect_sync: "db_effect D ds w w' \<Longrightarrow> in_sync ds w \<Longrightarrow> in_sync ds w'"
  by (auto simp: db_effect_def in_sync_def write_all_def image_subset_iff)

lemma db_effect_frame: "db_effect D ds w w' \<Longrightarrow> w' h = w h \<or> h \<in> db_hosts ds"
  by (auto simp: db_effect_def write_all_def)

inductive_cases cluster_reach_stepE: "cluster_reach D gk w0 w'"

lemma reach_keeps_sync:
  assumes wf: "wf_deployment D gk th pm ds" and init: "in_sync ds w0" and reach: "cluster_reach D gk w0 w"
  shows "in_sync ds w \<and> (\<forall>h. w h = w0 h \<or> h \<in> db_hosts ds)"
  using reach
proof (induction rule: cluster_reach.induct)
  case reach_init
  from init show ?case by simp
next
  case (reach_step w n r data hdrs w' res)
  have "db_effect D ds w w'" using request_effect [OF wf reach_step.hyps(2)] .
  with reach_step.IH show ?case by (metis db_effect_sync db_effect_frame)
qed



end
