(* ===== verification/Credentials.thy ===== *)
theory Credentials
  imports PyRuntime
begin

text \<open>
  \<open>get_aws_credentials\<close> of \<^verbatim>\<open>src/infrastructure/aws_infrastructure_utilities.py\<close>:
  the reader of the INI-style file \<^verbatim>\<open>~/.aws/credentials\<close>. It walks the lines of the
  file, skips blank lines and comments, remembers the last section header
  \<open>[profile]\<close>, and in the requested profile stores \<open>key = value\<close> lines, split at the
  first \<open>=\<close> and stripped, into a dict. A missing file raises \<open>FileNotFoundError\<close>, a
  profile without any entry \<open>ValueError\<close>. The file system is the map \<open>fs\<close> from paths
  to contents; \<open>home\<close> is what \<open>~\<close> expands to.
\<close>

section \<open>The reader\<close>

text \<open>
  Iterating over a file opened in text mode: universal newlines make \<open>\n\<close>, \<open>\r\<close> and
  \<open>\r\n\<close> line ends. Splitting at \<open>\n\<close> and at \<open>\r\<close> separately yields one extra empty
  line for each \<open>\r\n\<close>, which the loop skips like any blank line.
\<close>

fun file_lines_aux :: "string \<Rightarrow> string \<Rightarrow> string list" where
  "file_lines_aux acc [] = [rev acc]"
| "file_lines_aux acc (c # cs) =
     (if c = CHR 0x0A \<or> c = CHR 0x0D then rev acc # file_lines_aux [] cs else file_lines_aux (c # acc) cs)"

definition file_lines :: "string \<Rightarrow> string list" where
  "file_lines s = file_lines_aux [] s"

text \<open>\<open>credentials[key] = value\<close>: a dict keeps the position of a key it already has.\<close>

fun dict_set :: "(string \<times> string) list \<Rightarrow> string \<Rightarrow> string \<Rightarrow> (string \<times> string) list" where
  "dict_set [] k v = [(k, v)]"
| "dict_set ((k', v') # kvs) k v = (if k' = k then (k, v) # kvs else (k', v') # dict_set kvs k v)"

text \<open>\<open>line.split('=', 1)\<close>.\<close>

definition split_first :: "char \<Rightarrow> string \<Rightarrow> string list" where
  "split_first c s =
     (if c \<in> set s then [takeWhile (\<lambda>x. x \<noteq> c) s, tl (dropWhile (\<lambda>x. x \<noteq> c) s)] else [s])"

text \<open>
  One iteration of the loop over the state \<open>(current_profile, credentials)\<close>;
  \<open>None\<close> is the initial \<open>current_profile = None\<close>.
\<close>

definition cred_line ::
    "string \<Rightarrow> string option \<times> (string \<times> string) list \<Rightarrow> string \<Rightarrow> string option \<times> (string \<times> string) list" where
  "cred_line profile st raw =
     (let line = py_strip raw; (cur, creds) = st in
      if line = [] \<or> hd line = CHR ''#'' \<or> hd line = CHR '';'' then st
      else if hd line = CHR ''['' \<and> last line = CHR '']'' then (Some (py_strip (butlast (tl line))), creds)
      else if cur = Some profile then
        (case split_first (CHR ''='') line of
           [k, v] \<Rightarrow> (cur, dict_set creds (py_strip k) (py_strip v))
         | _ \<Rightarrow> st)
      else st)"

definition get_aws_credentials ::
    "string \<Rightarrow> (string \<Rightarrow> string option) \<Rightarrow> string \<Rightarrow> py_exc + (string \<times> string) list" where
  "get_aws_credentials home fs profile =
     (let credentials_path = home @ ''/.aws/credentials'' in
      case fs credentials_path of
        None \<Rightarrow> Inl (FileNotFoundError (''Credentials file not found at '' @ credentials_path))
      | Some content \<Rightarrow>
          (let creds = snd (fold (\<lambda>l st. cred_line profile st l) (file_lines content) (None, [])) in
           if creds = [] then Inl (ValueError (''No credentials found for profile: '' @ profile))
           else Inr creds))"

section \<open>Writing a credentials file\<close>

text \<open>
  A file of sections, each a header line and \<open>key=value\<close> lines. The texts are stripped
  and hold no line end; a key is non-empty, holds no \<open>=\<close> and does not start like a
  comment or a header.
\<close>

definition cred_text :: "string \<Rightarrow> bool" where
  "cred_text s \<longleftrightarrow> py_strip s = s \<and> CHR 0x0A \<notin> set s \<and> CHR 0x0D \<notin> set s"

definition cred_key :: "string \<Rightarrow> bool" where
  "cred_key k \<longleftrightarrow> cred_text k \<and> k \<noteq> [] \<and> CHR ''='' \<notin> set k \<and> hd k \<notin> set ''#;[''"

definition wf_section :: "string \<times> (string \<times> string) list \<Rightarrow> bool" where
  "wf_section s \<longleftrightarrow> cred_text (fst s) \<and> list_all (\<lambda>(k, v). cred_key k \<and> cred_text v) (snd s)
                     \<and> distinct (map fst (snd s))"

definition render_section :: "string \<times> (string \<times> string) list \<Rightarrow> string list" where
  "render_section s = (''['' @ fst s @ '']'') # map (\<lambda>(k, v). k @ ''='' @ v) (snd s)"

definition render_credentials :: "(string \<times> (string \<times> string) list) list \<Rightarrow> string" where
  "render_credentials secs = concat (map (\<lambda>l. l @ [CHR 0x0A]) (concat (map render_section secs)))"

text \<open>A credentials file with a default profile, whose secret contains \<open>=\<close>, and a second profile.\<close>

definition example_credentials :: "(string \<times> (string \<times> string) list) list" where
  "example_credentials =
     [(''default'', [(''aws_access_key_id'', ''AKIAEXAMPLE''), (''aws_secret_access_key'', ''wJalr/K7=='')]),
      (''ci'', [(''aws_access_key_id'', ''AKIACI''), (''region'', ''us-east-1'')])]"

section \<open>Reading back what was written\<close>

lemma py_strip_fixed:
  assumes "s \<noteq> []" and "\<not> py_isspace (hd s)" and "\<not> py_isspace (last s)"
  shows "py_strip s = s"
proof -
  have d: "dropWhile py_isspace s = s" using assms(1,2) by (cases s) simp_all
  have "dropWhile py_isspace (rev s) = rev s" using assms(1,3) by (cases "rev s") (simp_all add: hd_rev [symmetric])
  with d show ?thesis by (simp add: py_strip_def)
qed

lemma length_py_strip: "length (py_strip s) \<le> length (dropWhile py_isspace s)"
  using length_dropWhile_le [of py_isspace "rev (dropWhile py_isspace s)"] by (simp add: py_strip_def)

lemma py_strip_ends:
  assumes fx: "py_strip s = s" and ne: "s \<noteq> []"
  shows "\<not> py_isspace (hd s) \<and> \<not> py_isspace (last s)"
proof
  show "\<not> py_isspace (hd s)"
  proof
    assume sp: "py_isspace (hd s)"
    from ne obtain c t where s: "s = c # t" by (cases s) auto
    have "length (py_strip s) \<le> length t"
      using length_py_strip [of s] length_dropWhile_le [of py_isspace t] sp s by simp
    with fx s show False by simp
  qed
  show "\<not> py_isspace (last s)"
  proof
    assume sp: "py_isspace (last s)"
    let ?X = "dropWhile py_isspace s"
    show False
    proof (cases "?X = []")
      case True
      with fx ne show False by (simp add: py_strip_def)
    next
      case False
      have "last ?X = last s"
        using False takeWhile_dropWhile_id [of py_isspace s] by (metis last_appendR)
      then obtain c t where r: "rev ?X = c # t" "py_isspace c"
        using False sp by (cases "rev ?X") (auto simp: last_rev [symmetric] simp del: last_rev)
      have "length (py_strip s) = length (dropWhile py_isspace (rev ?X))" by (simp add: py_strip_def)
      also have "\<dots> \<le> length t" using r length_dropWhile_le [of py_isspace t] by simp
      also have "\<dots> < length ?X" using r by (metis impossible_Cons length_rev linorder_not_less)
      also have "\<dots> \<le> length s" by (rule length_dropWhile_le)
      finally show False using fx by simp
    qed
  qed
qed

lemma file_lines_aux_line:
  "CHR 0x0A \<notin> set l \<Longrightarrow> CHR 0x0D \<notin> set l \<Longrightarrow>
   file_lines_aux acc (l @ CHR 0x0A # rest) = (rev acc @ l) # file_lines_aux [] rest"
  by (induction l arbitrary: acc) auto

lemma file_lines_render:
  assumes "\<forall>l\<in>set ls. CHR 0x0A \<notin> set l \<and> CHR 0x0D \<notin> set l"
  shows "file_lines (concat (map (\<lambda>l. l @ [CHR 0x0A]) ls)) = ls @ [[]]"
proof -
  have "file_lines_aux [] (concat (map (\<lambda>l. l @ [CHR 0x0A]) ls)) = ls @ [[]]"
    using assms by (induction ls) (simp_all add: file_lines_aux_line)
  then show ?thesis by (simp add: file_lines_def)
qed

lemma cred_text_stripped: "cred_text s \<Longrightarrow> s \<noteq> [] \<Longrightarrow> \<not> py_isspace (hd s) \<and> \<not> py_isspace (last s)"
  by (simp add: cred_text_def py_strip_ends)

lemma bracket_chars: "\<not> py_isspace CHR ''['' \<and> \<not> py_isspace CHR '']'' \<and> \<not> py_isspace CHR ''=''"
  by (simp add: py_isspace_def)

lemma cred_line_header:
  assumes "cred_text p"
  shows "cred_line profile st (CHR ''['' # p @ '']'') = (Some p, snd st)"
proof -
  have "py_strip (CHR ''['' # p @ '']'') = CHR ''['' # p @ '']''"
    by (rule py_strip_fixed) (simp_all add: bracket_chars)
  with assms show ?thesis by (simp add: cred_line_def cred_text_def split: prod.splits)
qed

lemma split_first_key: "CHR ''='' \<notin> set k \<Longrightarrow> split_first (CHR ''='') (k @ CHR ''='' # v) = [k, v]"
proof -
  assume "CHR ''='' \<notin> set k"
  then have "\<forall>x\<in>set k. x \<noteq> CHR ''=''" by auto
  then show ?thesis by (simp add: split_first_def takeWhile_append2 dropWhile_append2)
qed

lemma cred_line_entry:
  assumes k: "cred_key k" and v: "cred_text v"
  shows "cred_line profile (cur, creds) (k @ CHR ''='' # v) = (cur, if cur = Some profile then dict_set creds k v else creds)"
proof -
  have kk: "k \<noteq> []" "\<not> py_isspace (hd k)" "CHR ''='' \<notin> set k" "hd k \<notin> set ''#;[''" "py_strip k = k"
    using k cred_text_stripped [of k] by (simp_all add: cred_key_def cred_text_def)
  have "\<not> py_isspace (last (k @ CHR ''='' # v))"
    using v cred_text_stripped [of v] by (cases "v = []") (simp_all add: bracket_chars)
  then have "py_strip (k @ CHR ''='' # v) = k @ CHR ''='' # v"
    using kk by (intro py_strip_fixed) simp_all
  with kk v show ?thesis
    by (auto simp: cred_line_def split_first_key cred_text_def)
qed

lemma cred_line_blank: "cred_line profile st [] = st"
  by (simp add: cred_line_def py_strip_def split: prod.splits)

abbreviation store_all :: "(string \<times> string) list \<Rightarrow> (string \<times> string) list \<Rightarrow> (string \<times> string) list" where
  "store_all kvs creds \<equiv> fold (\<lambda>(k, v) c. dict_set c k v) kvs creds"

lemma cred_lines_entries:
  assumes "list_all (\<lambda>(k, v). cred_key k \<and> cred_text v) kvs"
  shows "fold (\<lambda>l st. cred_line profile st l) (map (\<lambda>(k, v). k @ CHR ''='' # v) kvs) (Some p, creds)
           = (Some p, if p = profile then store_all kvs creds else creds)"
  using assms by (induction kvs arbitrary: creds) (auto simp: cred_line_entry)

lemma cred_lines_section:
  assumes "wf_section s"
  shows "fold (\<lambda>l st. cred_line profile st l) (render_section s) st
           = (Some (fst s), if fst s = profile then store_all (snd s) (snd st) else snd st)"
  using assms by (simp add: render_section_def wf_section_def cred_line_header cred_lines_entries)

lemma cred_lines_sections:
  assumes "list_all wf_section secs"
  shows "snd (fold (\<lambda>l st. cred_line profile st l) (concat (map render_section secs)) st)
           = store_all (concat (map snd (filter (\<lambda>s. fst s = profile) secs))) (snd st)"
  using assms
proof (induction secs arbitrary: st)
  case Nil
  then show ?case by simp
next
  case (Cons s secs)
  then show ?case by (simp add: cred_lines_section)
qed

lemma dict_set_fresh: "k \<notin> fst ` set c \<Longrightarrow> dict_set c k v = c @ [(k, v)]"
  by (induction c) auto

lemma store_all_fresh:
  "distinct (map fst kvs) \<Longrightarrow> fst ` set kvs \<inter> fst ` set c = {} \<Longrightarrow> store_all kvs c = c @ kvs"
proof (induction kvs arbitrary: c)
  case Nil
  then show ?case by simp
next
  case (Cons kv kvs)
  obtain k v where kv: "kv = (k, v)" by (cases kv)
  with Cons.prems have "dict_set c k v = c @ [(k, v)]" by (intro dict_set_fresh) auto
  moreover have "store_all kvs (c @ [(k, v)]) = c @ [(k, v)] @ kvs"
    using Cons.prems kv by (subst Cons.IH) auto
  ultimately show ?case using kv by simp
qed

lemma sections_of_profile:
  "distinct (map fst secs) \<Longrightarrow>
   concat (map snd (filter (\<lambda>s. fst s = p) secs)) = (case map_of secs p of None \<Rightarrow> [] | Some kvs \<Rightarrow> kvs)"
proof (induction secs)
  case Nil
  then show ?case by simp
next
  case (Cons s secs)
  then show ?case
  proof (cases "fst s = p")
    case True
    from Cons.prems True have "p \<notin> fst ` set secs" by simp
    then have "filter (\<lambda>s. fst s = p) secs = []"
      by (simp add: filter_empty_conv) blast
    with True show ?thesis by (cases s) simp
  qed (cases s; simp)
qed

text \<open>
  C31. Reading a credentials file gives back what was written: for a file of sections
  with distinct names, well-formed keys and values and distinct keys per section, the
  reader returns the entries of the requested profile in file order, values split only
  at the first \<open>=\<close>, and raises \<open>ValueError\<close> for a profile that is absent or empty.
\<close>

theorem credentials_roundtrip:
  assumes wf: "list_all wf_section secs" and names: "distinct (map fst secs)"
    and fl: "fs (home @ ''/.aws/credentials'') = Some (render_credentials secs)"
  shows "get_aws_credentials home fs profile =
           (let kvs = (case map_of secs profile of None \<Rightarrow> [] | Some kvs \<Rightarrow> kvs) in
            if kvs = [] then Inl (ValueError (''No credentials found for profile: '' @ profile)) else Inr kvs)"
proof -
  let ?kvs = "case map_of secs profile of None \<Rightarrow> [] | Some kvs \<Rightarrow> kvs"
  have lines: "\<forall>l\<in>set (concat (map render_section secs)). CHR 0x0A \<notin> set l \<and> CHR 0x0D \<notin> set l"
    using wf by (auto simp: list_all_iff wf_section_def render_section_def cred_text_def cred_key_def)
  have kvs_wf: "distinct (map fst ?kvs)"
    using wf by (cases "map_of secs profile") (fastforce simp: list_all_iff wf_section_def dest: map_of_SomeD)+
  have "snd (fold (\<lambda>l st. cred_line profile st l) (file_lines (render_credentials secs)) (None, [])) = ?kvs"
    using cred_lines_sections [OF wf, of profile "(None, [])"] store_all_fresh [OF kvs_wf, of "[]"]
    by (simp add: render_credentials_def file_lines_render [OF lines] cred_line_blank sections_of_profile [OF names])
  with fl show ?thesis by (simp add: get_aws_credentials_def Let_def)
qed

theorem credentials_roundtrip_witness:
  "list_all wf_section example_credentials \<and> distinct (map fst example_credentials)
   \<and> (\<lambda>_. Some (render_credentials example_credentials)) (''/home/ubuntu'' @ ''/.aws/credentials'')
       = Some (render_credentials example_credentials)
   \<and> get_aws_credentials ''/home/ubuntu'' (\<lambda>_. Some (render_credentials example_credentials)) ''default''
       = Inr [(''aws_access_key_id'', ''AKIAEXAMPLE''), (''aws_secret_access_key'', ''wJalr/K7=='')]
   \<and> get_aws_credentials ''/home/ubuntu'' (\<lambda>_. Some (render_credentials example_credentials)) ''prod''
       = Inl (ValueError ''No credentials found for profile: prod'')"
proof -
  have wf: "list_all wf_section example_credentials"
    by (simp add: example_credentials_def wf_section_def cred_key_def cred_text_def py_strip_def py_isspace_def)
  have d: "distinct (map fst example_credentials)" by (simp add: example_credentials_def)
  have f: "(\<lambda>_. Some (render_credentials example_credentials)) (''/home/ubuntu'' @ ''/.aws/credentials'')
       = Some (render_credentials example_credentials)" by simp
  from credentials_roundtrip [where profile = "''default''", OF wf d f]
    credentials_roundtrip [where profile = "''prod''", OF wf d f] wf d
  show ?thesis by (simp add: example_credentials_def)
qed

end
