(* ===== verification/SecurityGroups.thy ===== *)
theory SecurityGroups
  imports PyRuntime "HOL-Library.AList"
begin

text \<open>
  \<open>create_security_groups\<close> of \<^verbatim>\<open>src/infrastructure/aws_infrastructure_utilities.py\<close>:
  it creates one EC2 security group per role in the VPC and authorises, for every group,
  the ingress rules of its table. The EC2 service is the state \<open>ec2_net\<close>: the groups
  with their \<open>GroupId\<close>, name and VPC, the authorised \<open>(GroupId, rule)\<close> pairs, and a
  counter that numbers the identifiers it issues. A call EC2 refuses is an error string
  (\<open>Inl\<close>); the function catches every exception and returns \<open>None\<close>, leaving what it
  created so far in place.
\<close>

section \<open>The EC2 calls\<close>

record sg_rule =
  ip_protocol :: string
  from_port :: int
  to_port :: int
  cidr_ips :: "string list"

record ec2_net =
  sec_groups :: "(string \<times> string \<times> string) list"
  ingress :: "(string \<times> sg_rule) list"
  issued :: nat

text \<open>\<open>create_security_group(GroupName, Description, VpcId)\<close>: a name is unique in a VPC.\<close>

definition create_security_group :: "string \<Rightarrow> string \<Rightarrow> string \<Rightarrow> ec2_net \<Rightarrow> string + string \<times> ec2_net" where
  "create_security_group name descr vpc st =
     (if list_ex (\<lambda>(g, n, v). n = name \<and> v = vpc) (sec_groups st) then Inl ''InvalidGroup.Duplicate''
      else (let gid = ''sg-'' @ nat_text (issued st) in
            Inr (gid, st\<lparr>sec_groups := sec_groups st @ [(gid, name, vpc)], issued := Suc (issued st)\<rparr>)))"

text \<open>\<open>authorize_security_group_ingress(GroupId, IpPermissions=[rule])\<close>.\<close>

definition authorize_ingress :: "string \<Rightarrow> sg_rule \<Rightarrow> ec2_net \<Rightarrow> string + ec2_net" where
  "authorize_ingress gid rule st =
     (if \<not> list_ex (\<lambda>(g, _). g = gid) (sec_groups st) then Inl ''InvalidGroupId.NotFound''
      else if (gid, rule) \<in> set (ingress st) then Inl ''InvalidPermission.Duplicate''
      else Inr (st\<lparr>ingress := ingress st @ [(gid, rule)]\<rparr>))"

section \<open>The groups and their rules\<close>

definition groups_to_create :: "(string \<times> string) list" where
  "groups_to_create =
     [(''gatekeeper'', ''Internet-facing security group''),
      (''trusted_host'', ''Trusted host security group''),
      (''proxy_manager'', ''Proxy manager security group''),
      (''mysql_nodes'', ''MySQL nodes security group'')]"

definition sg_rules :: "string \<Rightarrow> (string \<times> sg_rule list) list" where
  "sg_rules ssh_allowed_ip =
     [(''gatekeeper'',
        [\<lparr>ip_protocol = ''tcp'', from_port = 22, to_port = 22, cidr_ips = [ssh_allowed_ip]\<rparr>,
         \<lparr>ip_protocol = ''tcp'', from_port = 80, to_port = 80, cidr_ips = [''0.0.0.0/0'']\<rparr>,
         \<lparr>ip_protocol = ''tcp'', from_port = 443, to_port = 443, cidr_ips = [''0.0.0.0/0'']\<rparr>,
         \<lparr>ip_protocol = ''icmp'', from_port = -1, to_port = -1, cidr_ips = [''0.0.0.0/0'']\<rparr>]),
      (''trusted_host'',
        [\<lparr>ip_protocol = ''tcp'', from_port = 22, to_port = 22, cidr_ips = [ssh_allowed_ip]\<rparr>,
         \<lparr>ip_protocol = ''tcp'', from_port = 80, to_port = 80, cidr_ips = [''0.0.0.0/0'']\<rparr>,
         \<lparr>ip_protocol = ''tcp'', from_port = 443, to_port = 443, cidr_ips = [''0.0.0.0/0'']\<rparr>,
         \<lparr>ip_protocol = ''icmp'', from_port = -1, to_port = -1, cidr_ips = [''0.0.0.0/0'']\<rparr>]),
      (''proxy_manager'',
        [\<lparr>ip_protocol = ''tcp'', from_port = 22, to_port = 22, cidr_ips = [ssh_allowed_ip]\<rparr>,
         \<lparr>ip_protocol = ''tcp'', from_port = 80, to_port = 80, cidr_ips = [''0.0.0.0/0'']\<rparr>,
         \<lparr>ip_protocol = ''tcp'', from_port = 443, to_port = 443, cidr_ips = [''0.0.0.0/0'']\<rparr>,
         \<lparr>ip_protocol = ''icmp'', from_port = -1, to_port = -1, cidr_ips = [''0.0.0.0/0'']\<rparr>]),
      (''mysql_nodes'',
        [\<lparr>ip_protocol = ''tcp'', from_port = 22, to_port = 22, cidr_ips = [ssh_allowed_ip]\<rparr>,
         \<lparr>ip_protocol = ''tcp'', from_port = 80, to_port = 80, cidr_ips = [''0.0.0.0/0'']\<rparr>,
         \<lparr>ip_protocol = ''tcp'', from_port = 443, to_port = 443, cidr_ips = [''0.0.0.0/0'']\<rparr>,
         \<lparr>ip_protocol = ''icmp'', from_port = -1, to_port = -1, cidr_ips = [''0.0.0.0/0'']\<rparr>])]"

section \<open>\<open>create_security_groups\<close>\<close>

text \<open>
  The loop \<open>for name, description in groups_to_create\<close>, filling the dict
  \<open>security_groups\<close> from role name to \<open>GroupId\<close>.
\<close>

fun create_loop ::
    "string \<Rightarrow> (string \<times> string) list \<Rightarrow> (string \<times> string) list \<Rightarrow> ec2_net
      \<Rightarrow> ec2_net \<times> (string + (string \<times> string) list)" where
  "create_loop vpc [] sgs st = (st, Inr sgs)"
| "create_loop vpc ((name, descr) # gs) sgs st =
     (case create_security_group (py_upper name @ ''_SG'') descr vpc st of
        Inl e \<Rightarrow> (st, Inl e)
      | Inr (gid, st') \<Rightarrow> create_loop vpc gs (AList.update name gid sgs) st')"

text \<open>The inner loop \<open>for rule in rules\<close>.\<close>

fun authorize_rules :: "string \<Rightarrow> sg_rule list \<Rightarrow> ec2_net \<Rightarrow> ec2_net \<times> (string + unit)" where
  "authorize_rules gid [] st = (st, Inr ())"
| "authorize_rules gid (rule # rules) st =
     (case authorize_ingress gid rule st of
        Inl e \<Rightarrow> (st, Inl e)
      | Inr st' \<Rightarrow> authorize_rules gid rules st')"

text \<open>The outer loop \<open>for sg_name, rules in sg_rules.items()\<close>; \<open>security_groups[sg_name]\<close>.\<close>

fun authorize_loop ::
    "(string \<times> string) list \<Rightarrow> (string \<times> sg_rule list) list \<Rightarrow> ec2_net \<Rightarrow> ec2_net \<times> (string + unit)" where
  "authorize_loop sgs [] st = (st, Inr ())"
| "authorize_loop sgs ((name, rules) # rest) st =
     (case map_of sgs name of
        None \<Rightarrow> (st, Inl (''KeyError: '' @ quoted name))
      | Some gid \<Rightarrow>
          (case authorize_rules gid rules st of
             (st', Inl e) \<Rightarrow> (st', Inl e)
           | (st', Inr _) \<Rightarrow> authorize_loop sgs rest st'))"

definition create_security_groups ::
    "string \<Rightarrow> string \<Rightarrow> ec2_net \<Rightarrow> ec2_net \<times> (string \<times> string \<times> string \<times> string) option" where
  "create_security_groups vpc_id ssh_allowed_ip st =
     (case create_loop vpc_id groups_to_create [] st of
        (st1, Inl _) \<Rightarrow> (st1, None)
      | (st1, Inr sgs) \<Rightarrow>
          (case authorize_loop sgs (sg_rules ssh_allowed_ip) st1 of
             (st2, Inl _) \<Rightarrow> (st2, None)
           | (st2, Inr _) \<Rightarrow>
               (case (map_of sgs ''gatekeeper'', map_of sgs ''trusted_host'', map_of sgs ''proxy_manager'',
                      map_of sgs ''mysql_nodes'') of
                  (Some g, Some t, Some p, Some m) \<Rightarrow> (st2, Some (g, t, p, m))
                | _ \<Rightarrow> (st2, None))))"

section \<open>What the groups admit\<close>

text \<open>Whether a group lets in traffic of a protocol on a port from an address range.\<close>

definition admits :: "ec2_net \<Rightarrow> string \<Rightarrow> string \<Rightarrow> int \<Rightarrow> string \<Rightarrow> bool" where
  "admits st gid proto port cidr \<longleftrightarrow>
     list_ex (\<lambda>(g, r). g = gid \<and> ip_protocol r = proto \<and> from_port r \<le> port \<and> port \<le> to_port r
                     \<and> cidr \<in> set (cidr_ips r)) (ingress st)"

definition empty_net :: ec2_net where
  "empty_net = \<lparr>sec_groups = [], ingress = [], issued = 0\<rparr>"

lemma create_security_groups_fresh:
  "create_security_groups vpc ssh empty_net =
     (\<lparr>sec_groups = [(''sg-0'', ''GATEKEEPER_SG'', vpc), (''sg-1'', ''TRUSTED_HOST_SG'', vpc),
                     (''sg-2'', ''PROXY_MANAGER_SG'', vpc), (''sg-3'', ''MYSQL_NODES_SG'', vpc)],
       ingress = concat (map (\<lambda>(g, (_, rs)). map (Pair g) rs) (zip [''sg-0'', ''sg-1'', ''sg-2'', ''sg-3''] (sg_rules ssh))),
       issued = 4\<rparr>,
      Some (''sg-0'', ''sg-1'', ''sg-2'', ''sg-3''))"
  by (simp add: create_security_groups_def empty_net_def groups_to_create_def create_security_group_def
      py_upper_def py_upper_char_def char_of_eval sg_rules_def authorize_ingress_def Let_def nat_text_digit)


end
