(* ===== verification/Provisioning.thy ===== *)
theory Provisioning
  imports Cluster
begin

text \<open>
  Provisioning, \<open>main\<close> of \<^verbatim>\<open>src/infrastructure/aws_infrastructure.py\<close> from step 6 on,
  with \<open>save_instance_details\<close> of \<^verbatim>\<open>aws_infrastructure_utilities.py\<close>: the instances
  EC2 launched for the four roles are turned into membership lists, saved as the JSON
  files the services and the deployment read, and the five applications are deployed
  in the order master, slave, proxy manager, gatekeeper, trusted host. Steps 1 to 5
  (key pair, VPC, security groups, AMI, launching the instances) are AWS calls; their
  result is the instance lists, which are arguments here.
\<close>

section \<open>Saving the membership files\<close>

text \<open>\<open>save_json\<close>: \<open>json.dump\<close> of a list of dicts, read back by \<open>json.load\<close> as the same value.\<close>

definition save_json :: "json list \<Rightarrow> string \<Rightarrow> (string \<Rightarrow> cfg_file) \<Rightarrow> string \<Rightarrow> cfg_file" where
  "save_json data filename fs = fs(filename := JsonFile (JArr data))"

definition save_instance_details ::
    "json list \<Rightarrow> json list \<Rightarrow> json list \<Rightarrow> json list \<Rightarrow> (string \<Rightarrow> cfg_file) \<Rightarrow> string \<Rightarrow> cfg_file" where
  "save_instance_details mysql_data proxy_manager_data gatekeeper_data trusted_host_data fs =
     save_json gatekeeper_data ''../benchmark/gatekeeper_info.json''
      (save_json trusted_host_data ''../mysql/gatekeeper/trustedhost_info.json''
        (save_json proxy_manager_data ''../mysql/trusted_host/proxy_info.json''
          (save_json mysql_data ''../mysql/proxy_manager/instance_info.json''
            (save_json mysql_data ''../mysql/master/instance_info.json'' fs))))"

section \<open>Steps 6 to 8 of \<open>main\<close>\<close>

text \<open>Steps 6 and 7: the membership lists of the four roles, saved to the local files.\<close>

definition collect_and_save ::
    "ec2_instance list \<Rightarrow> ec2_instance list \<Rightarrow> ec2_instance list \<Rightarrow> ec2_instance list
      \<Rightarrow> (string \<Rightarrow> cfg_file) \<Rightarrow> string \<Rightarrow> cfg_file" where
  "collect_and_save mysql_instances proxy_manager_instances trusted_host_instances gatekeeper_instances fs =
     (let mysql_instance_data = collect_instance_data mysql_instances MASTER_NAME (Some SLAVE_NAME);
          proxy_manager_data = collect_instance_data proxy_manager_instances ''proxy_manager_node'' None;
          gatekeeper_data = collect_instance_data gatekeeper_instances ''gatekeeper_node'' None;
          trusted_host_data = collect_instance_data trusted_host_instances ''trusted_host_node'' None
      in save_instance_details mysql_instance_data proxy_manager_data gatekeeper_data trusted_host_data fs)"

text \<open>Step 8: the five deployments in order; an exception ends the script.\<close>

definition deploy_all ::
    "(string \<Rightarrow> bool) \<Rightarrow> (string \<Rightarrow> cfg_file) \<Rightarrow> (string \<Rightarrow> string list) \<Rightarrow> remote \<Rightarrow> py_exc + remote" where
  "deploy_all reach fs ls st =
     (case deploy_master reach fs ls st of
        Inl e \<Rightarrow> Inl e
      | Inr s1 \<Rightarrow> (case deploy_slave reach fs ls s1 of
        Inl e \<Rightarrow> Inl e
      | Inr s2 \<Rightarrow> (case deploy_proxy_manager reach fs ls s2 of
        Inl e \<Rightarrow> Inl e
      | Inr s3 \<Rightarrow> (case deploy_gatekeeper reach fs ls s3 of
        Inl e \<Rightarrow> Inl e
      | Inr s4 \<Rightarrow> deploy_trusted_host reach fs ls s4))))"

definition provision ::
    "(string \<Rightarrow> bool) \<Rightarrow> (string \<Rightarrow> cfg_file) \<Rightarrow> (string \<Rightarrow> string list)
      \<Rightarrow> ec2_instance list \<Rightarrow> ec2_instance list \<Rightarrow> ec2_instance list \<Rightarrow> ec2_instance list
      \<Rightarrow> remote \<Rightarrow> py_exc + remote" where
  "provision reach fs ls mysql_instances proxy_manager_instances trusted_host_instances gatekeeper_instances st =
     deploy_all reach
       (collect_and_save mysql_instances proxy_manager_instances trusted_host_instances gatekeeper_instances fs) ls st"

text \<open>The address of an instance, and the deployment the provisioned hosts make up.\<close>

definition ip_of :: "ec2_instance \<Rightarrow> string" where
  "ip_of x = (case ec2_ip x of Some ip \<Rightarrow> ip | None \<Rightarrow> [])"

definition as_deployment :: "remote \<Rightarrow> 'db engine \<Rightarrow> ping_run \<Rightarrow> string list \<Rightarrow> 'db deployment" where
  "as_deployment st e p ord = \<lparr>apps = rapps st, files = rfiles st, eng = e, probe = p, mode_order = ord\<rparr>"

text \<open>
  The example of the witnesses: the three database instances of \<open>example_instances\<close> and
  one instance per other role, and a listing of the local application directories in
  which the replica's directory holds no membership file.
\<close>

definition example_listing :: "string \<Rightarrow> string list" where
  "example_listing d = (if d = ''../mysql/slave'' then [''slave_app.py'']
     else [''instance_info.json'', ''proxy_info.json'', ''trustedhost_info.json''])"

definition example_role_instance :: "string \<Rightarrow> ec2_instance" where
  "example_role_instance ip = \<lparr>ec2_id = ''i-'' @ ip, ec2_dns = ip @ ''.compute'', ec2_ip = Some ip\<rparr>"

section \<open>Membership lists of launched instances\<close>

lemma ip_of_Some: "ec2_ip x \<noteq> None \<Longrightarrow> ec2_ip x = Some (ip_of x)"
  by (auto simp: ip_of_def)

lemma collect_loop_wf: "list_all wf_desc (collect_loop i m s xs)"
  by (induction xs arbitrary: i) (simp_all add: instance_info_def)

lemma collect_loop_ips:
  "map (\<lambda>d. desc_field d ''PublicIP'') (collect_loop i m s xs) =
     map (\<lambda>x. case ec2_ip x of None \<Rightarrow> JNull | Some ip \<Rightarrow> JStr ip) xs"
  by (induction xs arbitrary: i) (simp_all add: instance_info_def desc_field_def)

lemma collect_loop_later:
  "2 \<le> i \<Longrightarrow> n \<noteq> [] \<Longrightarrow> d \<in> set (collect_loop i m (Some n) xs) \<Longrightarrow> desc_field d ''Name'' = JStr n"
proof (induction xs arbitrary: i)
  case (Cons x xs)
  then show ?case using Cons.IH [of "Suc i"] by (auto simp: instance_info_def desc_field_def)
qed simp

lemma collect_data_Cons: "collect_instance_data (x # xs) m s = instance_info m x # collect_loop 2 m s xs"
  by (simp add: collect_instance_data_def numeral_2_eq_2)

lemma collect_loop_member: "d \<in> set (collect_loop i m s xs) \<Longrightarrow> \<exists>x\<in>set xs. \<exists>n. d = instance_info n x"
  by (induction xs arbitrary: i) auto

lemma collect_loop_has_ip:
  "(\<exists>d\<in>set (collect_loop i m s xs). desc_field d ''PublicIP'' = JStr ip) \<longleftrightarrow> (\<exists>x\<in>set xs. ec2_ip x = Some ip)"
  by (induction xs arbitrary: i) (auto simp: instance_info_def desc_field_def split: option.splits)

lemma collect_data_has_ip:
  "(\<exists>d\<in>set (collect_instance_data xs m s). desc_field d ''PublicIP'' = JStr ip) \<longleftrightarrow> (\<exists>x\<in>set xs. ec2_ip x = Some ip)"
  by (simp add: collect_instance_data_def collect_loop_has_ip)

lemma collect_master_ip:
  assumes "ms \<noteq> []"
  shows "(\<exists>d\<in>set (collect_instance_data ms MASTER_NAME (Some SLAVE_NAME)).
            desc_field d ''Name'' = JStr ''mysql_master_node'' \<and> desc_field d ''PublicIP'' = JStr ip)
         \<longleftrightarrow> ec2_ip (hd ms) = Some ip"
proof -
  obtain x xs where ms: "ms = x # xs" using assms by (cases ms) auto
  have "desc_field d ''Name'' \<noteq> JStr ''mysql_master_node''"
    if "d \<in> set (collect_loop 2 MASTER_NAME (Some SLAVE_NAME) xs)" for d
    using collect_loop_later [OF _ _ that] by (simp add: SLAVE_NAME_def)
  then show ?thesis
    by (auto simp: ms collect_data_Cons instance_info_def desc_field_def MASTER_NAME_def split: option.splits)
qed

lemma collect_one_master: "one_master (collect_instance_data (x # xs) MASTER_NAME (Some SLAVE_NAME))"
proof -
  have "\<not> is_master_desc d" if "d \<in> set (collect_loop 2 MASTER_NAME (Some SLAVE_NAME) xs)" for d
    using collect_loop_later [OF _ _ that] by (simp add: is_master_desc_def MASTER_NAME_def SLAVE_NAME_def)
  then have "filter is_master_desc (collect_loop 2 MASTER_NAME (Some SLAVE_NAME) xs) = []"
    by (simp add: filter_empty_conv)
  then show ?thesis
    using collect_loop_wf [of 2 MASTER_NAME "Some SLAVE_NAME" xs]
    by (simp add: one_master_def collect_data_Cons is_master_desc_def instance_info_def desc_field_def
        collect_instance_data_def [symmetric])
qed

lemma collect_one_master_ne: "ms \<noteq> [] \<Longrightarrow> one_master (collect_instance_data ms MASTER_NAME (Some SLAVE_NAME))"
  using collect_one_master [of "hd ms" "tl ms"] by simp

lemma collect_points_to:
  "xs \<noteq> [] \<Longrightarrow> ec2_ip (hd xs) = Some ip \<Longrightarrow> points_to (JsonFile (JArr (collect_instance_data xs m s))) ip"
  by (cases xs) (simp_all add: collect_data_Cons points_to_def instance_info_def)

lemma collect_distinct_ips:
  assumes "distinct (map ec2_ip xs)" and "None \<notin> ec2_ip ` set xs"
  shows "distinct (map (\<lambda>d. desc_field d ''PublicIP'') (collect_instance_data xs m s))"
proof -
  have "inj_on (\<lambda>x. case ec2_ip x of None \<Rightarrow> JNull | Some ip \<Rightarrow> JStr ip) (set xs)"
    using assms by (auto simp: distinct_map inj_on_def split: option.splits)
  then show ?thesis using assms(1)
    by (simp add: collect_instance_data_def collect_loop_ips distinct_map)
qed

lemma collect_member_cases:
  assumes "ms \<noteq> []" and "d \<in> set (collect_instance_data ms MASTER_NAME (Some SLAVE_NAME))"
  shows "d = instance_info MASTER_NAME (hd ms) \<or> (\<exists>y\<in>set (tl ms). d = instance_info SLAVE_NAME y)"
proof -
  obtain x xs where ms: "ms = x # xs" using assms(1) by (cases ms) auto
  show ?thesis
  proof (cases "d = instance_info MASTER_NAME x")
    case False
    then have d: "d \<in> set (collect_loop 2 MASTER_NAME (Some SLAVE_NAME) xs)"
      using assms(2) by (simp add: ms collect_data_Cons)
    then obtain y n where y: "y \<in> set xs" "d = instance_info n y" using collect_loop_member by blast
    have "desc_field d ''Name'' = JStr SLAVE_NAME"
      using collect_loop_later [OF _ _ d] by (simp add: SLAVE_NAME_def)
    then have "n = SLAVE_NAME" using y(2) by (simp add: instance_info_def desc_field_def)
    then show ?thesis using y ms by auto
  qed (simp add: ms)
qed

section \<open>The provisioned cluster\<close>

text \<open>
  Provisioning builds the cluster the routing and replication theorems assume, when every
  launched instance has a distinct public address that answers SSH, every role has an
  instance and the local directories hold the files \<open>save_instance_details\<close> wrote.
\<close>

lemma provision_wf:
  fixes e :: "'db engine"
  assumes ips: "\<forall>x\<in>set (ms @ pms @ ths @ gks). ec2_ip x \<noteq> None \<and> url_host (ip_of x) \<and> reach (ip_of x)"
    and dist: "distinct (map ec2_ip (ms @ pms @ ths @ gks))"
    and ne: "ms \<noteq> []" "pms \<noteq> []" "ths \<noteq> []" "gks \<noteq> []"
    and ls: "''instance_info.json'' \<in> set (ls ''../mysql/master'')"
      "''instance_info.json'' \<in> set (ls ''../mysql/proxy_manager'')"
      "''proxy_info.json'' \<in> set (ls ''../mysql/trusted_host'')"
      "''trustedhost_info.json'' \<in> set (ls ''../mysql/gatekeeper'')"
      "''instance_info.json'' \<notin> set (ls ''../mysql/slave'')"
    and st: "rapps st = Map.empty"
  shows "\<exists>s. provision reach fs ls ms pms ths gks st = Inr s
           \<and> wf_deployment (as_deployment s e p ord) (ip_of (hd gks)) (ip_of (hd ths)) (ip_of (hd pms))
                (collect_instance_data ms MASTER_NAME (Some SLAVE_NAME))"
proof -
  define all where "all = ms @ pms @ ths @ gks"
  define md where "md = collect_instance_data ms MASTER_NAME (Some SLAVE_NAME)"
  define pmd where "pmd = collect_instance_data pms ''proxy_manager_node'' None"
  define gkd where "gkd = collect_instance_data gks ''gatekeeper_node'' None"
  define thd where "thd = collect_instance_data ths ''trusted_host_node'' None"
  define fs' where "fs' = save_instance_details md pmd gkd thd fs"
  have dm: "distinct (map ec2_ip all)" using dist unfolding all_def .
  then have inj: "inj_on ec2_ip (set all)" and dall: "distinct all"
    by (simp_all only: distinct_map)
  have some: "ec2_ip x = Some (ip_of x)" if "x \<in> set all" for x
    using ips that ip_of_Some unfolding all_def by blast
  have hr: "url_host (ip_of x)" "reach (ip_of x)" if "x \<in> set all" for x
    using ips that unfolding all_def by blast+
  have grp: "(\<exists>y\<in>set G. ec2_ip y = Some (ip_of x)) \<longleftrightarrow> x \<in> set G"
    if x: "x \<in> set all" and G: "set G \<subseteq> set all" for x G
  proof
    assume "\<exists>y\<in>set G. ec2_ip y = Some (ip_of x)"
    then obtain y where y: "y \<in> set G" "ec2_ip y = ec2_ip x" using some [OF x] by auto
    then show "x \<in> set G" using inj_onD [OF inj y(2) _ x] G by auto
  qed (use some [OF x] in blast)
  have hdm: "ec2_ip (hd ms) = Some (ip_of x) \<longleftrightarrow> x = hd ms" if "x \<in> set all" for x
  proof -
    have m: "hd ms \<in> set all" using ne(1) by (simp add: all_def)
    show ?thesis
    proof
      assume "ec2_ip (hd ms) = Some (ip_of x)"
      then have "ec2_ip (hd ms) = ec2_ip x" using some [OF that] by simp
      then show "x = hd ms" using inj_onD [OF inj _ m that] by simp
    qed (use some [OF m] in simp)
  qed
  have sub: "set ms \<subseteq> set all" "set pms \<subseteq> set all" "set ths \<subseteq> set all" "set gks \<subseteq> set all"
    by (auto simp: all_def)
  have hds: "hd ms \<in> set ms" "hd pms \<in> set pms" "hd ths \<in> set ths" "hd gks \<in> set gks"
    using ne by simp_all
  have hda: "hd ms \<in> set all" "hd pms \<in> set all" "hd ths \<in> set all" "hd gks \<in> set all"
    using hds sub by blast+
  have disj: "set ms \<inter> set pms = {}" "set ms \<inter> set ths = {}" "set ms \<inter> set gks = {}"
    "set pms \<inter> set ths = {}" "set pms \<inter> set gks = {}" "set ths \<inter> set gks = {}"
    using dall by (auto simp: all_def)
  have o1: "hd ms \<notin> set pms" using disj(1) hds(1) by blast
  have o2: "hd ms \<notin> set ths" using disj(2) hds(1) by blast
  have o3: "hd ms \<notin> set gks" using disj(3) hds(1) by blast
  have o4: "hd pms \<notin> set ms" using disj(1) hds(2) by blast
  have o5: "hd pms \<notin> set ths" using disj(4) hds(2) by blast
  have o6: "hd pms \<notin> set gks" using disj(5) hds(2) by blast
  have o7: "hd ths \<notin> set ms" using disj(2) hds(3) by blast
  have o8: "hd ths \<notin> set pms" using disj(4) hds(3) by blast
  have o9: "hd ths \<notin> set gks" using disj(6) hds(3) by blast
  have o10: "hd gks \<notin> set ms" using disj(3) hds(4) by blast
  have o11: "hd gks \<notin> set pms" using disj(5) hds(4) by blast
  have o12: "hd gks \<notin> set ths" using disj(6) hds(4) by blast
  note out = o1 o2 o3 o4 o5 o6 o7 o8 o9 o10 o11 o12
  have neq: "hd pms \<noteq> hd ms" "hd ths \<noteq> hd ms" "hd gks \<noteq> hd ms"
    using out(4,7,10) hds(1) by auto
  have wf: "list_all wf_desc md" "list_all wf_desc pmd" "list_all wf_desc gkd" "list_all wf_desc thd"
    by (simp_all add: md_def pmd_def gkd_def thd_def collect_instance_data_def collect_loop_wf)
  have fl: "fs' MASTER_INFO = JsonFile (JArr md)"
    "fs' ''../mysql/trusted_host/proxy_info.json'' = JsonFile (JArr pmd)"
    "fs' ''../benchmark/gatekeeper_info.json'' = JsonFile (JArr gkd)"
    "fs' ''../mysql/gatekeeper/trustedhost_info.json'' = JsonFile (JArr thd)"
    "fs' ''../mysql/proxy_manager/instance_info.json'' = JsonFile (JArr md)"
    "fs' ''../mysql/master/instance_info.json'' = JsonFile (JArr md)"
    by (simp_all add: fs'_def save_instance_details_def save_json_def MASTER_INFO_def)
  note eff = deploy_instance_effect [where reach = reach and ls = ls and files = fs']
  obtain s1 where s1: "deploy_master reach fs' ls st = Inr s1"
    "rapps s1 = (\<lambda>ip. if rapps st ip = None \<and> reach ip \<and>
        (\<exists>d\<in>set md. (desc_field d ''Name'' = JStr ''mysql_master_node'' \<or> ''mysql_master_node'' = ''all'') \<and> desc_field d ''PublicIP'' = JStr ip)
        then Some (gunicorn_module ''master_app.py'') else rapps st ip)"
    "rfiles s1 = (\<lambda>ip n. if reach ip \<and>
        (\<exists>d\<in>set md. (desc_field d ''Name'' = JStr ''mysql_master_node'' \<or> ''mysql_master_node'' = ''all'') \<and> desc_field d ''PublicIP'' = JStr ip)
        \<and> n \<in> set (ls (local_dir ''master'')) then fs' (local_dir ''master'' @ ''/'' @ n) else rfiles st ip n)"
    unfolding deploy_master_def by (rule eff [OF fl(1) wf(1)])
  obtain s2 where s2: "deploy_slave reach fs' ls s1 = Inr s2"
    "rapps s2 = (\<lambda>ip. if rapps s1 ip = None \<and> reach ip \<and>
        (\<exists>d\<in>set md. (desc_field d ''Name'' = JStr ''all'' \<or> ''all'' = ''all'') \<and> desc_field d ''PublicIP'' = JStr ip)
        then Some (gunicorn_module ''slave_app.py'') else rapps s1 ip)"
    "rfiles s2 = (\<lambda>ip n. if reach ip \<and>
        (\<exists>d\<in>set md. (desc_field d ''Name'' = JStr ''all'' \<or> ''all'' = ''all'') \<and> desc_field d ''PublicIP'' = JStr ip)
        \<and> n \<in> set (ls (local_dir ''slave'')) then fs' (local_dir ''slave'' @ ''/'' @ n) else rfiles s1 ip n)"
    unfolding deploy_slave_def by (rule eff [OF fl(1) wf(1)])
  obtain s3 where s3: "deploy_proxy_manager reach fs' ls s2 = Inr s3"
    "rapps s3 = (\<lambda>ip. if rapps s2 ip = None \<and> reach ip \<and>
        (\<exists>d\<in>set pmd. (desc_field d ''Name'' = JStr ''all'' \<or> ''all'' = ''all'') \<and> desc_field d ''PublicIP'' = JStr ip)
        then Some (gunicorn_module ''proxy_manager_app.py'') else rapps s2 ip)"
    "rfiles s3 = (\<lambda>ip n. if reach ip \<and>
        (\<exists>d\<in>set pmd. (desc_field d ''Name'' = JStr ''all'' \<or> ''all'' = ''all'') \<and> desc_field d ''PublicIP'' = JStr ip)
        \<and> n \<in> set (ls (local_dir ''proxy_manager'')) then fs' (local_dir ''proxy_manager'' @ ''/'' @ n) else rfiles s2 ip n)"
    unfolding deploy_proxy_manager_def by (rule eff [OF fl(2) wf(2)])
  obtain s4 where s4: "deploy_gatekeeper reach fs' ls s3 = Inr s4"
    "rapps s4 = (\<lambda>ip. if rapps s3 ip = None \<and> reach ip \<and>
        (\<exists>d\<in>set gkd. (desc_field d ''Name'' = JStr ''all'' \<or> ''all'' = ''all'') \<and> desc_field d ''PublicIP'' = JStr ip)
        then Some (gunicorn_module ''gatekeeper_app.py'') else rapps s3 ip)"
    "rfiles s4 = (\<lambda>ip n. if reach ip \<and>
        (\<exists>d\<in>set gkd. (desc_field d ''Name'' = JStr ''all'' \<or> ''all'' = ''all'') \<and> desc_field d ''PublicIP'' = JStr ip)
        \<and> n \<in> set (ls (local_dir ''gatekeeper'')) then fs' (local_dir ''gatekeeper'' @ ''/'' @ n) else rfiles s3 ip n)"
    unfolding deploy_gatekeeper_def by (rule eff [OF fl(3) wf(3)])
  obtain s5 where s5: "deploy_trusted_host reach fs' ls s4 = Inr s5"
    "rapps s5 = (\<lambda>ip. if rapps s4 ip = None \<and> reach ip \<and>
        (\<exists>d\<in>set thd. (desc_field d ''Name'' = JStr ''all'' \<or> ''all'' = ''all'') \<and> desc_field d ''PublicIP'' = JStr ip)
        then Some (gunicorn_module ''trusted_host_app.py'') else rapps s4 ip)"
    "rfiles s5 = (\<lambda>ip n. if reach ip \<and>
        (\<exists>d\<in>set thd. (desc_field d ''Name'' = JStr ''all'' \<or> ''all'' = ''all'') \<and> desc_field d ''PublicIP'' = JStr ip)
        \<and> n \<in> set (ls (local_dir ''trusted_host'')) then fs' (local_dir ''trusted_host'' @ ''/'' @ n) else rfiles s4 ip n)"
    unfolding deploy_trusted_host_def by (rule eff [OF fl(4) wf(4)])
  have prov: "provision reach fs ls ms pms ths gks st = Inr s5"
    unfolding provision_def deploy_all_def collect_and_save_def Let_def md_def [symmetric] pmd_def [symmetric] gkd_def [symmetric]
      thd_def [symmetric] fs'_def [symmetric]
    by (simp add: s1(1) s2(1) s3(1) s4(1) s5(1))
  note step_simps = s1(2,3) s2(2,3) s3(2,3) s4(2,3) s5(2,3) st md_def pmd_def gkd_def thd_def
    collect_data_has_ip collect_master_ip ne grp hdm sub hda out neq hr gunicorn_modules local_dirs
  have ag: "rapps s5 (ip_of (hd gks)) = Some ''gatekeeper_app''"
    by (simp add: step_simps)
  have at: "rapps s5 (ip_of (hd ths)) = Some ''trusted_host_app''"
    by (simp add: step_simps)
  have ap: "rapps s5 (ip_of (hd pms)) = Some ''proxy_manager_app''"
    by (simp add: step_simps)
  have am: "rapps s5 (ip_of (hd ms)) = Some ''master_app''"
    by (simp add: step_simps)
  have fg: "rfiles s5 (ip_of (hd gks)) ''trustedhost_info.json'' = JsonFile (JArr thd)"
    using ls(4) by (simp add: step_simps fl)
  have ft: "rfiles s5 (ip_of (hd ths)) ''proxy_info.json'' = JsonFile (JArr pmd)"
    using ls(3) by (simp add: step_simps fl)
  have fp: "rfiles s5 (ip_of (hd pms)) ''instance_info.json'' = JsonFile (JArr md)"
    using ls(2) by (simp add: step_simps fl)
  have fm: "rfiles s5 (ip_of (hd ms)) ''instance_info.json'' = JsonFile (JArr md)"
    using ls(1,5) by (simp add: step_simps fl)
  have dms: "distinct ms" using dall by (simp add: all_def)
  have db: "list_all (db_host_ok (as_deployment s5 e p ord) md) md"
    unfolding list_all_iff
  proof
    fix d assume d: "d \<in> set md"
    from collect_member_cases [OF ne(1) d [unfolded md_def]]
    show "db_host_ok (as_deployment s5 e p ord) md d"
    proof
      assume "d = instance_info MASTER_NAME (hd ms)"
      then show ?thesis using am fm some [OF hda(1)] hr [OF hda(1)]
        by (simp add: db_host_ok_def as_deployment_def instance_info_def desc_field_def is_master_desc_def)
    next
      assume "\<exists>y\<in>set (tl ms). d = instance_info SLAVE_NAME y"
      then obtain y where y: "y \<in> set (tl ms)" "d = instance_info SLAVE_NAME y" by blast
      have ym: "y \<in> set ms" and yh: "y \<noteq> hd ms" using y(1) ne(1) dms by (cases ms; auto)+
      have ya: "y \<in> set all" using ym sub(1) by blast
      have yn: "y \<notin> set pms" "y \<notin> set ths" "y \<notin> set gks" using ym disj(1-3) by blast+
      have "rapps s5 (ip_of y) = Some ''slave_app''"
        using ym ya yh yn by (simp add: step_simps)
      then show ?thesis using some [OF ya] hr [OF ya] y(2)
        by (simp add: db_host_ok_def as_deployment_def instance_info_def desc_field_def is_master_desc_def
            MASTER_NAME_def SLAVE_NAME_def)
    qed
  qed
  have om: "one_master md" using collect_one_master_ne [OF ne(1)] by (simp add: md_def)
  have dip: "distinct (map (\<lambda>d. desc_field d ''PublicIP'') md)"
  proof -
    have "distinct (map ec2_ip ms)" using dist by simp
    moreover have "None \<notin> ec2_ip ` set ms" using some sub(1) by force
    ultimately show ?thesis unfolding md_def by (rule collect_distinct_ips)
  qed
  have pt: "points_to (rfiles s5 (ip_of (hd gks)) ''trustedhost_info.json'') (ip_of (hd ths))"
    "points_to (rfiles s5 (ip_of (hd ths)) ''proxy_info.json'') (ip_of (hd pms))"
    unfolding fg ft thd_def pmd_def
    by (rule collect_points_to [OF ne(3) some [OF hda(3)]], rule collect_points_to [OF ne(2) some [OF hda(2)]])
  have "wf_deployment (as_deployment s5 e p ord) (ip_of (hd gks)) (ip_of (hd ths)) (ip_of (hd pms)) md"
    unfolding wf_deployment_def
    using hr [OF hda(4)] hr [OF hda(3)] hr [OF hda(2)] ag at ap fp pt om dip db
    by (simp add: as_deployment_def)
  then show ?thesis using prov by (auto simp: md_def)
qed

end
