(* ===== verification/Benchmark.thy ===== *)
theory Benchmark
  imports ClusterLiveness
begin

text \<open>
  The load-test client \<^verbatim>\<open>src/benchmark/benchmark.py\<close>. \<open>generate_sakila_queries\<close> builds
  one hundred INSERT, UPDATE and SELECT statements; \<open>send_requests_to_api\<close> reads the
  gatekeeper's address from \<^verbatim>\<open>gatekeeper_info.json\<close>, posts every statement
  \<open>repetitions\<close> times to its \<open>/process\<close> with the credential headers, records the time of
  every request that did not raise a \<open>RequestException\<close> and computes mean, minimum, maximum
  and standard deviation. The requests go through the transport \<open>'w post\<close>; the clock is
  the environment \<open>dt\<close>, giving the time measured around the \<open>k\<close>-th request. The printed and
  appended text of the statistics is not modelled; its numbers are the record \<open>bm_stats\<close>.
\<close>

section \<open>The generated statements\<close>

definition USERNAME :: string where
  "USERNAME = ''admin_elaa''"

definition PASSWORD :: string where
  "PASSWORD = ''admin_elaa_password123''"

text \<open>The three f-strings of \<open>generate_sakila_queries\<close>; \<open>quoted\<close> writes the SQL quotes.\<close>

definition insert_query :: "nat \<Rightarrow> string" where
  "insert_query i =
     ''INSERT INTO customer (store_id, first_name, last_name, email, address_id, create_date, last_update) VALUES (1, ''
     @ quoted (''Customer'' @ nat_text i) @ '', '' @ quoted (''Lastname'' @ nat_text i) @ '', ''
     @ quoted (''customer'' @ nat_text i @ ''@example.com'') @ '', '' @ nat_text (i mod 10 + 1) @ '', NOW(), NOW());''"

definition update_query :: "nat \<Rightarrow> string" where
  "update_query i =
     ''UPDATE customer SET last_name = '' @ quoted (''UpdatedLastname'' @ nat_text i)
     @ '' WHERE first_name = '' @ quoted (''Customer'' @ nat_text i) @ '';''"

definition select_query :: "nat \<Rightarrow> string" where
  "select_query i = ''SELECT * FROM customer WHERE customer_id = '' @ nat_text (i + 1) @ '';''"

record sakila_queries =
  q_insert :: "string list"
  q_update :: "string list"
  q_select :: "string list"

definition generate_sakila_queries :: sakila_queries where
  "generate_sakila_queries =
     \<lparr>q_insert = map insert_query [0..<100], q_update = map update_query [0..<100],
      q_select = map select_query [0..<100]\<rparr>"

section \<open>Sending the requests\<close>

definition bm_headers :: headers where
  "bm_headers = [(''username'', USERNAME), (''password'', PASSWORD)]"

definition bm_payload :: "string \<Rightarrow> string \<Rightarrow> json" where
  "bm_payload query mode = JObj [(''query'', JStr query), (''mode'', JStr mode)]"

text \<open>
  The inner loop \<open>for query in queries\<close>: the \<open>k\<close>-th request is timed when \<open>requests.post\<close>
  returns a response; a \<open>RequestException\<close> is printed and not timed. Reading
  \<open>response.json()\<close> for the printout raises at most requests' \<open>JSONDecodeError\<close>, also a
  \<open>RequestException\<close>, after the time is recorded. \<open>None\<close>: a post that never returns.
\<close>

fun query_loop ::
    "'w post \<Rightarrow> string \<Rightarrow> string \<Rightarrow> (nat \<Rightarrow> real) \<Rightarrow> string list \<Rightarrow> nat \<Rightarrow> 'w \<Rightarrow> real list
      \<Rightarrow> ('w \<times> nat \<times> real list) option" where
  "query_loop post base_url mode dt [] k w ts = Some (w, k, ts)"
| "query_loop post base_url mode dt (q # qs) k w ts =
     (case post w base_url (bm_payload q mode) bm_headers of
        None \<Rightarrow> None
      | Some (w', Inl _) \<Rightarrow> query_loop post base_url mode dt qs (Suc k) w' ts
      | Some (w', Inr _) \<Rightarrow> query_loop post base_url mode dt qs (Suc k) w' (ts @ [dt k]))"

text \<open>The outer loop \<open>for _ in range(repetitions)\<close>.\<close>

primrec rep_loop ::
    "'w post \<Rightarrow> string \<Rightarrow> string \<Rightarrow> (nat \<Rightarrow> real) \<Rightarrow> string list \<Rightarrow> nat \<Rightarrow> nat \<Rightarrow> 'w \<Rightarrow> real list
      \<Rightarrow> ('w \<times> nat \<times> real list) option" where
  "rep_loop post base_url mode dt queries 0 k w ts = Some (w, k, ts)"
| "rep_loop post base_url mode dt queries (Suc n) k w ts =
     (case query_loop post base_url mode dt queries k w ts of
        None \<Rightarrow> None
      | Some (w', k', ts') \<Rightarrow> rep_loop post base_url mode dt queries n k' w' ts')"

text \<open>
  The statistics: \<open>mean\<close> raises \<open>StatisticsError\<close>, a \<open>ValueError\<close>, on no data;
  \<open>stdev\<close> is the sample standard deviation, taken only of two or more times.
\<close>

record bm_stats =
  st_total :: nat
  st_avg :: real
  st_min :: real
  st_max :: real
  st_sd :: real

definition py_mean :: "real list \<Rightarrow> py_exc + real" where
  "py_mean xs = (if xs = [] then Inl (ValueError ''mean requires at least one data point'')
                 else Inr (sum_list xs / real (length xs)))"

definition py_stdev :: "real list \<Rightarrow> real" where
  "py_stdev xs =
     (let m = sum_list xs / real (length xs) in
      sqrt (sum_list (map (\<lambda>x. (x - m)\<^sup>2) xs) / real (length xs - 1)))"

definition bm_statistics :: "nat \<Rightarrow> real list \<Rightarrow> py_exc + bm_stats" where
  "bm_statistics n ts =
     (case py_mean ts of
        Inl e \<Rightarrow> Inl e
      | Inr avg \<Rightarrow> Inr \<lparr>st_total = n, st_avg = avg, st_min = Min (set ts), st_max = Max (set ts),
                       st_sd = (if 1 < length ts then py_stdev ts else 0)\<rparr>)"

text \<open>
  \<open>send_requests_to_api\<close>: reading the file, the \<open>PublicIP\<close> comprehension and
  \<open>public_ips[0]\<close> raise before any request; then the loops and the statistics.
\<close>

definition send_requests_to_api ::
    "(string \<Rightarrow> cfg_file) \<Rightarrow> 'w post \<Rightarrow> (nat \<Rightarrow> real) \<Rightarrow> string list \<Rightarrow> string \<Rightarrow> nat \<Rightarrow> 'w
      \<Rightarrow> ('w \<times> (py_exc + bm_stats)) option" where
  "send_requests_to_api fs post dt queries mode repetitions w =
     (case fs ''gatekeeper_info.json'' of
        NoFile \<Rightarrow> Some (w, Inl (FileNotFoundError (''[Errno 2] No such file or directory: '' @ quoted ''gatekeeper_info.json'')))
      | BadJson \<Rightarrow> Some (w, Inl (ValueError ''Expecting value: line 1 column 1 (char 0)''))
      | JsonFile instance_details \<Rightarrow>
          (case py_iter instance_details of
             Inl e \<Rightarrow> Some (w, Inl e)
           | Inr xs \<Rightarrow>
               (case py_comp (\<lambda>_. Inr True) (\<lambda>i. py_subscript i ''PublicIP'') xs of
                  Inl e \<Rightarrow> Some (w, Inl e)
                | Inr [] \<Rightarrow> Some (w, Inl (IndexError ''list index out of range''))
                | Inr (ip # _) \<Rightarrow>
                    (case rep_loop post (node_url ip ''/process'') mode dt queries repetitions 0 w [] of
                       None \<Rightarrow> None
                     | Some (w', _, ts) \<Rightarrow> Some (w', bm_statistics (length queries * repetitions) ts)))))"

text \<open>
  The script: DIRECT with the INSERT and UPDATE statements, then RANDOM and CUSTOMIZED with
  the SELECT statements, ten repetitions each; an exception ends the script. The clock of
  the \<open>j\<close>-th run is \<open>dt j\<close>.
\<close>

definition benchmark_main ::
    "(string \<Rightarrow> cfg_file) \<Rightarrow> 'w post \<Rightarrow> (nat \<Rightarrow> nat \<Rightarrow> real) \<Rightarrow> 'w \<Rightarrow> ('w \<times> (py_exc + bm_stats list)) option" where
  "benchmark_main fs post dt w =
     (let repetitions = 10; queries = generate_sakila_queries in
      case send_requests_to_api fs post (dt 0) (q_insert queries @ q_update queries) ''DIRECT'' repetitions w of
        None \<Rightarrow> None
      | Some (w1, Inl e) \<Rightarrow> Some (w1, Inl e)
      | Some (w1, Inr s1) \<Rightarrow>
          (case send_requests_to_api fs post (dt 1) (q_select queries) ''RANDOM'' repetitions w1 of
             None \<Rightarrow> None
           | Some (w2, Inl e) \<Rightarrow> Some (w2, Inl e)
           | Some (w2, Inr s2) \<Rightarrow>
               (case send_requests_to_api fs post (dt 2) (q_select queries) ''CUSTOMIZED'' repetitions w2 of
                  None \<Rightarrow> None
                | Some (w3, Inl e) \<Rightarrow> Some (w3, Inl e)
                | Some (w3, Inr s3) \<Rightarrow> Some (w3, Inr [s1, s2, s3]))))"

text \<open>The gatekeeper file of the witnesses: one gatekeeper at address \<open>G\<close>.\<close>

definition example_gatekeeper_info :: "string \<Rightarrow> cfg_file" where
  "example_gatekeeper_info =
     (\<lambda>_. JsonFile (JArr [JObj [(''Name'', JStr ''gatekeeper_node''), (''InstanceID'', JStr ''i-g''), (''PublicIP'', JStr ''G'')]]))"

section \<open>The loops\<close>

lemma query_loop_returns:
  assumes "\<forall>w p. post w u p bm_headers \<noteq> None"
  shows "\<exists>w' ts'. query_loop post u mode dt qs k w ts = Some (w', k + length qs, ts')"
proof (induction qs arbitrary: k w ts)
  case (Cons q qs)
  obtain w1 r where "post w u (bm_payload q mode) bm_headers = Some (w1, r)" using assms by fastforce
  with Cons.IH [of "Suc k" w1] show ?case by (cases r) auto
qed simp

lemma rep_loop_returns:
  assumes "\<forall>w p. post w u p bm_headers \<noteq> None"
  shows "\<exists>w' ts'. rep_loop post u mode dt qs n k w ts = Some (w', k + n * length qs, ts')"
proof (induction n arbitrary: k w ts)
  case (Suc n)
  obtain w1 ts1 where "query_loop post u mode dt qs k w ts = Some (w1, k + length qs, ts1)"
    using query_loop_returns [where post = post and u = u, OF assms] by blast
  with Suc.IH [of "k + length qs" w1 ts1] show ?case by (auto simp: algebra_simps)
qed simp

lemma query_loop_answered:
  assumes "\<forall>w p. \<exists>w' resp. post w u p bm_headers = Some (w', Inr resp)"
  shows "\<exists>w'. query_loop post u mode dt qs k w ts = Some (w', k + length qs, ts @ map dt [k..<k + length qs])"
proof (induction qs arbitrary: k w ts)
  case (Cons q qs)
  obtain w1 r where "post w u (bm_payload q mode) bm_headers = Some (w1, Inr r)" using assms by blast
  with Cons.IH [of "Suc k" w1 "ts @ [dt k]"] show ?case by (simp add: upt_conv_Cons del: upt_Suc)
qed simp

lemma rep_loop_answered:
  assumes "\<forall>w p. \<exists>w' resp. post w u p bm_headers = Some (w', Inr resp)"
  shows "\<exists>w'. rep_loop post u mode dt qs n k w ts = Some (w', k + n * length qs, ts @ map dt [k..<k + n * length qs])"
proof (induction n arbitrary: k w ts)
  case (Suc n)
  obtain w1 where ql: "query_loop post u mode dt qs k w ts = Some (w1, k + length qs, ts @ map dt [k..<k + length qs])"
    using query_loop_answered [where post = post and u = u, OF assms] by blast
  obtain w2 where r: "rep_loop post u mode dt qs n (k + length qs) w1 (ts @ map dt [k..<k + length qs]) =
      Some (w2, k + length qs + n * length qs,
            (ts @ map dt [k..<k + length qs]) @ map dt [k + length qs..<k + length qs + n * length qs])"
    using Suc.IH by blast
  have m: "map dt [k..<k + (length qs + n * length qs)] =
      map dt [k..<k + length qs] @ map dt [k + length qs..<k + length qs + n * length qs]"
    using upt_add_eq_append [of k "k + length qs" "n * length qs"] by (simp add: add.assoc)
  show ?case by (rule exI [of _ w2]) (simp add: ql r m add.assoc)
qed simp

lemma query_loop_failing:
  assumes "\<forall>w p. \<exists>w' e. post w u p bm_headers = Some (w', Inl e)"
  shows "\<exists>w'. query_loop post u mode dt qs k w ts = Some (w', k + length qs, ts)"
proof (induction qs arbitrary: k w)
  case (Cons q qs)
  obtain w1 e where "post w u (bm_payload q mode) bm_headers = Some (w1, Inl e)" using assms by blast
  with Cons.IH [of "Suc k" w1] show ?case by simp
qed simp

lemma rep_loop_failing:
  assumes "\<forall>w p. \<exists>w' e. post w u p bm_headers = Some (w', Inl e)"
  shows "\<exists>w' k'. rep_loop post u mode dt qs n k w ts = Some (w', k', ts)"
proof (induction n arbitrary: k w)
  case (Suc n)
  obtain w1 where "query_loop post u mode dt qs k w ts = Some (w1, k + length qs, ts)"
    using query_loop_failing [where post = post and u = u, OF assms] by blast
  with Suc.IH [of "k + length qs" w1] show ?case by auto
qed simp

lemma rep_loop_no_queries: "rep_loop post u mode dt [] n k w ts = Some (w, k, ts)"
  by (induction n) simp_all

text \<open>With a readable list of well-formed descriptors, the requests go to the first address.\<close>

lemma send_requests_wf:
  assumes "fs ''gatekeeper_info.json'' = JsonFile (JArr gds)" and "list_all wf_desc gds" and "gds \<noteq> []"
  shows "send_requests_to_api fs post dt qs mode reps w =
           map_option (\<lambda>(w', _, ts). (w', bm_statistics (length qs * reps) ts))
             (rep_loop post (node_url (desc_field (hd gds) ''PublicIP'') ''/process'') mode dt qs reps 0 w [])"
proof -
  have "py_comp (\<lambda>_. Inr True) (\<lambda>i. py_subscript i ''PublicIP'') gds = Inr (map (\<lambda>d. desc_field d ''PublicIP'') gds)"
    using assms(2) by (subst py_comp_total [where P = "\<lambda>_. True"]) (auto simp: list_all_iff wf_desc_subscript)
  with assms show ?thesis
    by (cases gds) (auto simp: send_requests_to_api_def split: option.splits)
qed

section \<open>The generated statements pass the gatekeeper\<close>

lemma nat_text_allowed: "list_all sql_allowed (nat_text n)"
  using nat_text_digits [of n] by (auto simp: list_all_iff is_digit_def sql_allowed_def Let_def)

lemma sanitized_stmt:
  "u \<noteq> [] \<Longrightarrow> list_all sql_allowed u \<Longrightarrow> \<not> py_isspace (hd u) \<Longrightarrow> sql_sanitized (py_strip (u @ '';''))"
proof -
  assume u: "u \<noteq> []" "list_all sql_allowed u" "\<not> py_isspace (hd u)"
  have "py_strip (u @ '';'') = u @ '';''"
    using u(1,3) by (cases u) (simp_all add: py_strip_def py_isspace_def)
  then show ?thesis using u(1,2) by (auto simp: sql_sanitized_def)
qed

lemma generated_sanitized:
  "sql_sanitized (py_strip (insert_query i))" "sql_sanitized (py_strip (update_query i))"
  "sql_sanitized (py_strip (select_query i))"
proof -
  have "insert_query i =
     (''INSERT INTO customer (store_id, first_name, last_name, email, address_id, create_date, last_update) VALUES (1, ''
     @ quoted (''Customer'' @ nat_text i) @ '', '' @ quoted (''Lastname'' @ nat_text i) @ '', ''
     @ quoted (''customer'' @ nat_text i @ ''@example.com'') @ '', '' @ nat_text (i mod 10 + 1) @ '', NOW(), NOW())'') @ '';''"
    by (simp add: insert_query_def)
  then show "sql_sanitized (py_strip (insert_query i))"
    by (simp only:) (rule sanitized_stmt,
        simp_all add: nat_text_allowed quoted_def sql_allowed_def py_isspace_def)
  have "update_query i =
     (''UPDATE customer SET last_name = '' @ quoted (''UpdatedLastname'' @ nat_text i)
     @ '' WHERE first_name = '' @ quoted (''Customer'' @ nat_text i)) @ '';''"
    by (simp add: update_query_def)
  then show "sql_sanitized (py_strip (update_query i))"
    by (simp only:) (rule sanitized_stmt,
        simp_all add: nat_text_allowed quoted_def sql_allowed_def py_isspace_def)
  have "select_query i = (''SELECT * FROM customer WHERE customer_id = '' @ nat_text (i + 1)) @ '';''"
    by (simp add: select_query_def)
  then show "sql_sanitized (py_strip (select_query i))"
    by (simp only:) (rule sanitized_stmt,
        simp_all add: nat_text_allowed quoted_def sql_allowed_def py_isspace_def)
qed

lemma sum_list_map_upt: "sum_list (map f [0..<n]) = (\<Sum>k<n. f k)"
  by (induction n) simp_all

section \<open>Properties of the client\<close>

text \<open>
  C35. Every request the benchmark sends passes the gatekeeper and the trusted host: each
  of the three hundred generated statements, stripped, is in the language of
  \<open>SQL_SANITIZATION_REGEX\<close> (C11: letters, digits, spaces, quotes, parentheses, commas,
  \<open>@\<close>, \<open>*\<close>, \<open>=\<close> and \<open>.\<close>, then the one trailing semicolon the pattern allows), the
  credential headers are the configured pair, and the three modes are allowed ones.
\<close>

theorem benchmark_requests_accepted:
  "(\<forall>q\<in>set (q_insert generate_sakila_queries @ q_update generate_sakila_queries @ q_select generate_sakila_queries).
      sql_sanitized (py_strip q))
   \<and> fst (validate_user_credentials bm_headers)
   \<and> (\<forall>m\<in>set [''DIRECT'', ''RANDOM'', ''CUSTOMIZED'']. py_upper m \<in> set ALLOWED_MODES)"
proof (intro conjI)
  show "\<forall>q\<in>set (q_insert generate_sakila_queries @ q_update generate_sakila_queries @ q_select generate_sakila_queries).
      sql_sanitized (py_strip q)"
    by (auto simp: generate_sakila_queries_def generated_sanitized)
  show "fst (validate_user_credentials bm_headers)"
    by (simp add: validate_user_credentials_def bm_headers_def USERNAME_def PASSWORD_def VALID_CREDENTIALS_def
        ascii_lower_def char_of_eval)
  show "\<forall>m\<in>set [''DIRECT'', ''RANDOM'', ''CUSTOMIZED'']. py_upper m \<in> set ALLOWED_MODES"
    by (simp add: py_upper_def py_upper_char_def ALLOWED_MODES_def)
qed

theorem benchmark_requests_accepted_witness:
  "insert_query 41 \<in> set (q_insert generate_sakila_queries) \<and> sql_sanitized (py_strip (insert_query 41))"
proof -
  have "insert_query 41 \<in> set (q_insert generate_sakila_queries)" by (simp add: generate_sakila_queries_def)
  with benchmark_requests_accepted show ?thesis by simp
qed



text \<open>
  C37. Against a well-formed cluster whose gatekeeper is the first address of
  \<^verbatim>\<open>gatekeeper_info.json\<close>, the benchmark completes: every one of the
  \<open>len(queries) * repetitions\<close> requests is answered (C27) and timed, and the statistics are
  those of all the measured times.
\<close>

theorem benchmark_on_cluster:
  assumes wf: "wf_deployment D gk th pm ds"
    and f: "fs ''gatekeeper_info.json'' = JsonFile (JArr gds)" "list_all wf_desc gds" "gds \<noteq> []"
      "desc_field (hd gds) ''PublicIP'' = JStr gk"
    and q: "qs \<noteq> []" "0 < reps"
  shows "\<exists>w'. send_requests_to_api fs (serve (Suc (Suc (Suc (Suc (Suc n))))) D r) dt qs mode reps w
           = Some (w', Inr \<lparr>st_total = length qs * reps,
                     st_avg = (\<Sum>k<length qs * reps. dt k) / real (length qs * reps),
                     st_min = Min (dt ` {..<length qs * reps}), st_max = Max (dt ` {..<length qs * reps}),
                     st_sd = (if 1 < length qs * reps then py_stdev (map dt [0..<length qs * reps]) else 0)\<rparr>)"
proof -
  have "\<forall>w p. \<exists>w' resp. serve (Suc (Suc (Suc (Suc (Suc n))))) D r w (node_url (JStr gk) ''/process'') p bm_headers
          = Some (w', Inr resp)"
    using wf_cluster_answers [OF wf] by blast
  from rep_loop_answered [where post = "serve (Suc (Suc (Suc (Suc (Suc n))))) D r" and u = "node_url (JStr gk) ''/process''",
      OF this, of mode dt qs reps 0 w "[]"]
  obtain w' where "rep_loop (serve (Suc (Suc (Suc (Suc (Suc n))))) D r) (node_url (JStr gk) ''/process'') mode dt qs reps 0 w []
      = Some (w', reps * length qs, map dt [0..<reps * length qs])" by auto
  moreover have "0 < length qs * reps" using q by simp
  ultimately show ?thesis
    by (simp add: send_requests_wf [where fs = fs and gds = gds, OF f(1-3)] f(4) bm_statistics_def py_mean_def sum_list_map_upt
        atLeast0LessThan mult.commute)
qed

theorem benchmark_on_cluster_witness:
  "\<exists>w'. send_requests_to_api example_gatekeeper_info (serve (Suc (Suc (Suc (Suc (Suc 0))))) example_cluster 0)
          (\<lambda>_. 1) [''SELECT 1''] ''RANDOM'' 2 (\<lambda>_. 0)
        = Some (w', Inr \<lparr>st_total = 2, st_avg = 1, st_min = 1, st_max = 1, st_sd = 0\<rparr>)"
proof -
  have f: "example_gatekeeper_info ''gatekeeper_info.json'' = JsonFile (JArr [JObj [(''Name'', JStr ''gatekeeper_node''),
      (''InstanceID'', JStr ''i-g''), (''PublicIP'', JStr ''G'')]])"
    "list_all wf_desc [JObj [(''Name'', JStr ''gatekeeper_node''), (''InstanceID'', JStr ''i-g''), (''PublicIP'', JStr ''G'')]]"
    "[JObj [(''Name'', JStr ''gatekeeper_node''), (''InstanceID'', JStr ''i-g''), (''PublicIP'', JStr ''G'')]] \<noteq> []"
    "desc_field (hd [JObj [(''Name'', JStr ''gatekeeper_node''), (''InstanceID'', JStr ''i-g''), (''PublicIP'', JStr ''G'')]]) ''PublicIP''
       = JStr ''G''"
    by (simp_all add: example_gatekeeper_info_def desc_field_def)
  have q: "[''SELECT 1''] \<noteq> []" "0 < (2::nat)" by simp_all
  from benchmark_on_cluster [where fs = example_gatekeeper_info and qs = "[''SELECT 1'']" and reps = 2,
      OF example_cluster_wf f q, of 0 0 "\<lambda>_. 1" "''RANDOM''" "\<lambda>_. 0"]
  show ?thesis by (simp add: py_stdev_def image_constant_conv lessThan_empty_iff numeral_2_eq_2 del: serve.simps)
qed

text \<open>
  C38. Without answers the client crashes: if every request raises a
  \<open>RequestException\<close> (the gatekeeper is unreachable), or there are no statements or no
  repetitions, no time is recorded and \<open>statistics.mean\<close> raises
  \<open>StatisticsError\<close> (a \<open>ValueError\<close>), which ends the script instead of reporting the
  failed requests.
\<close>

theorem benchmark_without_answers_raises:
  assumes f: "fs ''gatekeeper_info.json'' = JsonFile (JArr gds)" "list_all wf_desc gds" "gds \<noteq> []"
    and none: "(\<forall>w u p h. \<exists>w' e. post w u p h = Some (w', Inl e)) \<or> qs = [] \<or> reps = 0"
  shows "\<exists>w'. send_requests_to_api fs post dt qs mode reps w
           = Some (w', Inl (ValueError ''mean requires at least one data point''))"
proof -
  let ?u = "node_url (desc_field (hd gds) ''PublicIP'') ''/process''"
  have "\<exists>w' k. rep_loop post ?u mode dt qs reps 0 w [] = Some (w', k, [])"
    using none
  proof (elim disjE)
    assume "\<forall>w u p h. \<exists>w' e. post w u p h = Some (w', Inl e)"
    then have "\<forall>w p. \<exists>w' e. post w ?u p bm_headers = Some (w', Inl e)" by blast
    then show ?thesis by (rule rep_loop_failing)
  qed (simp_all add: rep_loop_no_queries)
  then show ?thesis
    by (auto simp: send_requests_wf [where fs = fs and gds = gds, OF f] bm_statistics_def py_mean_def)
qed

theorem benchmark_without_answers_raises_witness:
  "\<exists>w'. send_requests_to_api example_gatekeeper_info
          (\<lambda>(w::nat) u p h. Some (w, Inl (RequestException ''Connection refused''))) (\<lambda>_. 1)
          [''SELECT 1''] ''RANDOM'' 10 0
        = Some (w', Inl (ValueError ''mean requires at least one data point''))"
proof -
  have f: "example_gatekeeper_info ''gatekeeper_info.json'' = JsonFile (JArr [JObj [(''Name'', JStr ''gatekeeper_node''),
      (''InstanceID'', JStr ''i-g''), (''PublicIP'', JStr ''G'')]])"
    "list_all wf_desc [JObj [(''Name'', JStr ''gatekeeper_node''), (''InstanceID'', JStr ''i-g''), (''PublicIP'', JStr ''G'')]]"
    "[JObj [(''Name'', JStr ''gatekeeper_node''), (''InstanceID'', JStr ''i-g''), (''PublicIP'', JStr ''G'')]] \<noteq> []"
    by (simp_all add: example_gatekeeper_info_def)
  show ?thesis
    by (rule benchmark_without_answers_raises [where fs = example_gatekeeper_info, OF f]) simp
qed

end
