(* ===== verification/LocalCidr.thy ===== *)
theory LocalCidr
  imports Ping "HOL-Library.Word"
begin

unbundle bit_operations_syntax

text \<open>
  \<open>get_local_ip_cidr\<close> of \<^verbatim>\<open>src/infrastructure/aws_infrastructure_utilities.py\<close>: the
  operator's public address, as the text \<^verbatim>\<open>https://api.ipify.org\<close> answers, is turned into
  the /24 network the security groups admit SSH from, by
  \<open>ipaddress.ip_network(f"{public_ip}/255.255.255.0", strict=False)\<close>. The parts of the
  standard library's \<open>ipaddress\<close> this uses are modelled from its source: an IPv4 address
  is a \<open>32 word\<close> (\<open>_ip_int_from_string\<close>, \<open>_parse_octet\<close>, \<open>str\<close>), a netmask is given
  as a prefix length or as a dotted netmask or host mask (\<open>_make_netmask\<close>), and with
  \<open>strict=False\<close> the host bits are cleared with \<open>AND\<close>. With the mask text
  \<open>/255.255.255.0\<close> no IPv6 network can be parsed either, so every failure of the IPv4
  parse is the \<open>ValueError\<close> \<open>ip_network\<close> raises after trying both versions.
\<close>

type_synonym ipv4 = "32 word"

section \<open>Addresses\<close>

text \<open>\<open>_parse_octet\<close>: ASCII digits, at most three, no leading zero, at most 255.\<close>

definition parse_octet :: "string \<Rightarrow> py_exc + nat" where
  "parse_octet s =
     (if s = [] then Inl (ValueError ''Empty octet not permitted'')
      else if \<not> list_all is_digit s then Inl (ValueError (''Only decimal digits permitted in '' @ quoted s))
      else if 3 < length s then Inl (ValueError (''At most 3 characters permitted in '' @ quoted s))
      else if s \<noteq> ''0'' \<and> hd s = CHR ''0'' then Inl (ValueError (''Leading zeros are not permitted in '' @ quoted s))
      else if 255 < digits_val s
      then Inl (ValueError (''Octet '' @ nat_text (digits_val s) @ '' (> 255) not permitted in '' @ quoted s))
      else Inr (digits_val s))"

text \<open>\<open>map(cls._parse_octet, octets)\<close>, consumed by \<open>int.from_bytes\<close>: the first error raises.\<close>

fun parse_octets :: "string list \<Rightarrow> py_exc + nat list" where
  "parse_octets [] = Inr []"
| "parse_octets (s # ss) =
     (case parse_octet s of
        Inl e \<Rightarrow> Inl e
      | Inr n \<Rightarrow> (case parse_octets ss of Inl e \<Rightarrow> Inl e | Inr ns \<Rightarrow> Inr (n # ns)))"

definition from_bytes_big :: "nat list \<Rightarrow> nat" where
  "from_bytes_big bs = foldl (\<lambda>acc b. acc * 256 + b) 0 bs"

text \<open>\<open>_ip_int_from_string\<close>; its \<open>AddressValueError\<close> is a \<open>ValueError\<close>.\<close>

definition ip_int_from_string :: "string \<Rightarrow> py_exc + ipv4" where
  "ip_int_from_string s =
     (if s = [] then Inl (ValueError ''Address cannot be empty'')
      else
        (let octets = py_split ''.'' s in
         if length octets \<noteq> 4 then Inl (ValueError (''Expected 4 octets in '' @ quoted s))
         else
           (case parse_octets octets of
              Inl e \<Rightarrow> Inl (ValueError (exc_str e @ '' in '' @ quoted s))
            | Inr ns \<Rightarrow> Inr (of_nat (from_bytes_big ns)))))"

text \<open>\<open>str(IPv4Address)\<close>: the four bytes, most significant first, in decimal.\<close>

definition ipv4_text :: "ipv4 \<Rightarrow> string" where
  "ipv4_text a = join_with ''.'' (map (\<lambda>k. nat_text (unat (drop_bit (8 * k) a AND 255))) [3, 2, 1, 0])"

section \<open>Netmasks\<close>

text \<open>\<open>_ip_int_from_prefix\<close>: \<open>ALL_ONES ^ (ALL_ONES >> prefixlen)\<close>.\<close>

definition ip_int_from_prefix :: "nat \<Rightarrow> ipv4" where
  "ip_int_from_prefix p = (- 1) XOR drop_bit p (- 1)"

text \<open>\<open>_count_righthand_zero_bits(number, 32)\<close>.\<close>

definition count_righthand_zero_bits :: "ipv4 \<Rightarrow> nat" where
  "count_righthand_zero_bits w = (if w = 0 then 32 else length (takeWhile (\<lambda>i. \<not> bit w i) [0..<32]))"

text \<open>\<open>_prefix_from_ip_int\<close>: the ones must be a prefix.\<close>

definition prefix_from_ip_int :: "ipv4 \<Rightarrow> py_exc + nat" where
  "prefix_from_ip_int w =
     (let tz = count_righthand_zero_bits w; prefixlen = 32 - tz in
      if drop_bit tz w \<noteq> mask prefixlen
      then Inl (ValueError (''Netmask pattern '' @ quoted (ipv4_text w) @ '' mixes zeroes & ones''))
      else Inr prefixlen)"

definition netmask_invalid :: "string \<Rightarrow> py_exc" where
  "netmask_invalid s = ValueError (quoted s @ '' is not a valid netmask'')"

text \<open>\<open>_prefix_from_prefix_string\<close>: a decimal prefix length up to 32.\<close>

definition prefix_from_prefix_string :: "string \<Rightarrow> py_exc + nat" where
  "prefix_from_prefix_string s =
     (if s = [] \<or> \<not> list_all is_digit s \<or> 32 < digits_val s then Inl (netmask_invalid s)
      else Inr (digits_val s))"

text \<open>\<open>_prefix_from_ip_string\<close>: a dotted netmask, or else a dotted host mask.\<close>

definition prefix_from_ip_string :: "string \<Rightarrow> py_exc + nat" where
  "prefix_from_ip_string s =
     (case ip_int_from_string s of
        Inl _ \<Rightarrow> Inl (netmask_invalid s)
      | Inr w \<Rightarrow>
          (case prefix_from_ip_int w of
             Inr p \<Rightarrow> Inr p
           | Inl _ \<Rightarrow> (case prefix_from_ip_int (NOT w) of Inr p \<Rightarrow> Inr p | Inl _ \<Rightarrow> Inl (netmask_invalid s))))"

definition make_netmask :: "string \<Rightarrow> py_exc + ipv4 \<times> nat" where
  "make_netmask s =
     (case (case prefix_from_prefix_string s of Inr p \<Rightarrow> Inr p | Inl _ \<Rightarrow> prefix_from_ip_string s) of
        Inl e \<Rightarrow> Inl e
      | Inr p \<Rightarrow> Inr (ip_int_from_prefix p, p))"

section \<open>Networks\<close>

text \<open>
  \<open>IPv4Network(address, strict=False)\<close>: split at \<open>/\<close>, parse the address, then the
  mask (32 without one), and clear the host bits. The result is the network address
  and the prefix length.
\<close>

definition ipv4_network :: "string \<Rightarrow> py_exc + ipv4 \<times> nat" where
  "ipv4_network address =
     (let parts = py_split ''/'' address in
      if 2 < length parts then Inl (ValueError (''Only one '' @ quoted ''/'' @ '' permitted in '' @ quoted address))
      else
        (case ip_int_from_string (hd parts) of
           Inl e \<Rightarrow> Inl e
         | Inr a \<Rightarrow>
             (case (if length parts = 2 then make_netmask (parts ! 1) else Inr (ip_int_from_prefix 32, 32)) of
                Inl e \<Rightarrow> Inl e
              | Inr (m, p) \<Rightarrow> Inr (a AND m, p))))"

definition ip_network :: "string \<Rightarrow> py_exc + ipv4 \<times> nat" where
  "ip_network address =
     (case ipv4_network address of
        Inr n \<Rightarrow> Inr n
      | Inl _ \<Rightarrow> Inl (ValueError (quoted address @ '' does not appear to be an IPv4 or IPv6 network'')))"

text \<open>\<open>str(network)\<close>: \<open>address/prefixlen\<close>.\<close>

definition network_text :: "ipv4 \<times> nat \<Rightarrow> string" where
  "network_text n = ipv4_text (fst n) @ ''/'' @ nat_text (snd n)"

text \<open>
  \<open>get_local_ip_cidr\<close>: \<open>requests.get('https://api.ipify.org').text\<close> is the argument (a
  \<open>RequestException\<close> propagates), stripped and combined with the fixed mask.
\<close>

definition get_local_ip_cidr :: "py_exc + string \<Rightarrow> py_exc + string" where
  "get_local_ip_cidr response =
     (case response of
        Inl e \<Rightarrow> Inl e
      | Inr text \<Rightarrow>
          (let public_ip = py_strip text; subnet_mask = ''255.255.255.0'' in
           case ip_network (public_ip @ ''/'' @ subnet_mask) of
             Inl e \<Rightarrow> Inl e
           | Inr cidr_network \<Rightarrow> Inr (network_text cidr_network)))"

section \<open>Splitting and joining\<close>

lemma split_aux_sep:
  "c \<notin> set x \<Longrightarrow> split_aux [c] cur (x @ c # rest) = (rev cur @ x) # split_aux [c] [] rest"
  by (induction x arbitrary: cur) auto

lemma split_aux_nosep: "c \<notin> set x \<Longrightarrow> split_aux [c] cur x = [rev cur @ x]"
  by (induction x arbitrary: cur) auto

lemma py_split_join:
  "xs \<noteq> [] \<Longrightarrow> \<forall>x\<in>set xs. c \<notin> set x \<Longrightarrow> py_split [c] (join_with [c] xs) = xs"
proof (induction "[c]" xs rule: join_with.induct)
  case (2 x)
  then show ?case by (simp add: py_split_def split_aux_nosep)
next
  case (3 x y xs)
  then show ?case by (simp add: py_split_def split_aux_sep)
qed simp

lemma set_join_with: "set (join_with sep xs) \<subseteq> set sep \<union> \<Union> (set ` set xs)"
  by (induction sep xs rule: join_with.induct) auto

section \<open>Octets\<close>

lemma nat_text_zero: "nat_text 0 = ''0''"
  by (simp add: nat_text_digit char_of_eval)

lemma nat_text_hd: "n \<noteq> 0 \<Longrightarrow> hd (nat_text n) \<noteq> CHR ''0''"
proof (induction n rule: nat_text.induct)
  case (1 n)
  show ?case
  proof (cases "n < 10")
    case True
    then show ?thesis using 1(2) by (simp add: nat_text_digit char_of_eval)
  next
    case False
    then have "n div 10 \<noteq> 0" by simp
    with 1(1) False show ?thesis by (simp add: nat_text.simps [of n] nat_text_nonempty)
  qed
qed

lemma length_nat_text: "n < 10 ^ k \<Longrightarrow> length (nat_text n) \<le> max 1 k"
proof (induction n arbitrary: k rule: nat_text.induct)
  case (1 n)
  show ?case
  proof (cases "n < 10")
    case True
    then show ?thesis by (simp add: nat_text_digit)
  next
    case False
    then obtain k' where k: "k = Suc k'" using 1(2) by (cases k) auto
    then have "n div 10 < 10 ^ k'" using 1(2) by (simp add: div_less_iff_less_mult)
    moreover have "0 < k'" using calculation False by (cases k') auto
    ultimately have "length (nat_text (n div 10)) \<le> k'" using 1(1) [OF False, of k'] by simp
    then show ?thesis using False k by (simp add: nat_text.simps [of n])
  qed
qed

lemma parse_octet_nat_text: "n < 256 \<Longrightarrow> parse_octet (nat_text n) = Inr n"
proof -
  assume n: "n < 256"
  have "length (nat_text n) \<le> 3" using length_nat_text [of n 3] n by simp
  moreover have "\<not> (nat_text n \<noteq> ''0'' \<and> hd (nat_text n) = CHR ''0'')"
    using nat_text_hd [of n] nat_text_zero by (cases "n = 0") auto
  ultimately show ?thesis
    using n by (simp add: parse_octet_def nat_text_nonempty nat_text_digits digits_val_nat_text)
qed

section \<open>Round trip of an address\<close>

lemma mask8_eq: "(255 :: ipv4) = mask 8"
  by (simp add: mask_numeral)

lemma octet_unat: "unat (drop_bit (8 * k) a AND 255) = unat (a :: ipv4) div 2 ^ (8 * k) mod 256"
proof -
  have "unat (drop_bit (8 * k) a AND 255) = take_bit 8 (drop_bit (8 * k) (unat a))"
    unfolding mask8_eq take_bit_eq_mask [symmetric] unsigned_take_bit_eq unat_drop_bit_eq ..
  then show ?thesis by (simp add: take_bit_eq_mod drop_bit_eq_div)
qed

lemma from_bytes_octets:
  assumes "n < 2 ^ 32"
  shows "from_bytes_big (map (\<lambda>k. n div 2 ^ (8 * k) mod 256) [3, 2, 1, 0]) = n"
proof -
  have m: "map (\<lambda>k. n div 2 ^ (8 * k) mod 256) [3, 2, 1, 0] =
      [n div 256 div 256 div 256 mod 256, n div 256 div 256 mod 256, n div 256 mod 256, n mod 256]"
    by (simp add: div_mult2_eq [symmetric])
  have "n div 256 div 256 div 256 < 256"
    using assms by (simp add: div_mult2_eq [symmetric] div_less_iff_less_mult)
  then have x3: "n div 256 div 256 div 256 mod 256 = n div 256 div 256 div 256" by simp
  have a: "n div 256 div 256 div 256 * 256 + n div 256 div 256 mod 256 = n div 256 div 256"
    "n div 256 div 256 * 256 + n div 256 mod 256 = n div 256" "n div 256 * 256 + n mod 256 = n"
    by (rule div_mult_mod_eq)+
  show ?thesis unfolding m from_bytes_big_def by (simp only: foldl.simps mult_zero_left add_0 x3 a)
qed

lemma ipv4_text_chars: "c \<in> set (ipv4_text a) \<Longrightarrow> is_digit c \<or> c = CHR ''.''"
proof -
  assume "c \<in> set (ipv4_text a)"
  then have "c \<in> set ''.'' \<union> \<Union> (set ` set (map (\<lambda>k. nat_text (unat (drop_bit (8 * k) a AND 255))) [3, 2, 1, 0]))"
    using set_join_with unfolding ipv4_text_def by blast
  then show ?thesis using nat_text_digits by (auto simp: list_all_iff)
qed

lemma ipv4_text_nonempty: "ipv4_text a \<noteq> []"
  by (simp add: ipv4_text_def)

lemma ipv4_roundtrip: "ip_int_from_string (ipv4_text a) = Inr a"
proof -
  let ?o = "\<lambda>k. nat_text (unat (drop_bit (8 * k) a AND 255))"
  have "\<not> is_digit CHR ''.''" by (simp add: is_digit_def)
  then have noc: "\<forall>x\<in>set (map ?o [3, 2, 1, 0]). CHR ''.'' \<notin> set x"
    using nat_text_digits by (auto simp: list_all_iff)
  have sp: "py_split ''.'' (ipv4_text a) = map ?o [3, 2, 1, 0]"
    unfolding ipv4_text_def by (rule py_split_join) (use noc in simp_all)
  have oc: "parse_octets (map ?o [3, 2, 1, 0]) = Inr (map (\<lambda>k. unat a div 2 ^ (8 * k) mod 256) [3, 2, 1, 0])"
    by (simp only: list.map parse_octets.simps octet_unat parse_octet_nat_text mod_less_divisor zero_less_numeral
        sum.case)
  have fb: "from_bytes_big (map (\<lambda>k. unat a div 2 ^ (8 * k) mod 256) [3, 2, 1, 0]) = unat a"
    by (rule from_bytes_octets) (use unsigned_less [of a] in simp)
  show ?thesis
    unfolding ip_int_from_string_def Let_def sp oc sum.case fb using ipv4_text_nonempty by simp
qed

section \<open>The /24 network of an address\<close>

lemma mask24_eq: "(0xFFFFFF00 :: ipv4) = NOT (mask 8)"
  by (simp add: mask_numeral)

lemma netmask_255: "make_netmask ''255.255.255.0'' = Inr (0xFFFFFF00, 24)"
proof -
  have ip: "ip_int_from_string ''255.255.255.0'' = Inr 0xFFFFFF00"
    by (simp add: ip_int_from_string_def py_split_def parse_octet_def digits_val_def is_digit_def from_bytes_big_def)
  have tz: "count_righthand_zero_bits 0xFFFFFF00 = 8"
    by (simp add: count_righthand_zero_bits_def upt_rec)
  have "prefix_from_ip_int 0xFFFFFF00 = Inr 24"
    by (simp add: prefix_from_ip_int_def tz mask_numeral)
  moreover have "prefix_from_prefix_string ''255.255.255.0'' = Inl (netmask_invalid ''255.255.255.0'')"
    by (simp add: prefix_from_prefix_string_def is_digit_def)
  moreover have "ip_int_from_prefix 24 = 0xFFFFFF00"
    by (simp add: ip_int_from_prefix_def mask_numeral)
  ultimately show ?thesis by (simp add: make_netmask_def prefix_from_ip_string_def ip)
qed

lemma network_of_address: "ip_network (ipv4_text a @ CHR ''/'' # ''255.255.255.0'') = Inr (a AND 0xFFFFFF00, 24)"
proof -
  have "CHR ''/'' \<notin> set (ipv4_text a)"
    using ipv4_text_chars [of "CHR ''/''" a] by (auto simp: is_digit_def)
  then have "py_split ''/'' (ipv4_text a @ CHR ''/'' # ''255.255.255.0'') = [ipv4_text a, ''255.255.255.0'']"
    by (simp add: py_split_def split_aux_sep split_aux_nosep)
  then show ?thesis by (simp add: ip_network_def ipv4_network_def ipv4_roundtrip netmask_255)
qed

lemma network_octet:
  "drop_bit (8 * k) (a AND NOT (mask 8)) AND mask 8 = (if k = 0 then 0 else drop_bit (8 * k) (a :: ipv4) AND mask 8)"
  by (rule bit_eqI) (auto simp: bit_simps dest: bit_imp_le_length)

lemma host_part: "(a AND NOT (mask 8)) + (a AND mask 8) = (a :: ipv4)"
proof -
  have "(a AND NOT (mask 8)) + (a AND mask 8) = (a AND NOT (mask 8)) OR (a AND mask 8)"
    by (rule disjunctive_add) (auto simp: bit_simps)
  also have "\<dots> = a" by (rule bit_eqI) (auto simp: bit_simps)
  finally show ?thesis .
qed

section \<open>The SSH range\<close>

text \<open>
  C40. Whatever address \<^verbatim>\<open>api.ipify.org\<close> reports (a 32-bit address \<open>a\<close> in dotted
  decimal, with any white space around it), \<open>get_local_ip_cidr\<close> returns the /24 network
  containing it: the text of \<open>a AND 0xFFFFFF00\<close> followed by \<open>/24\<close>, which is the caller's
  first three octets followed by \<open>.0\<close>; \<open>a\<close> is that network address plus a host part of at
  most 255. So the security groups' SSH rule (C32) admits the operator's whole /24.
\<close>

theorem local_ip_cidr_is_callers_24:
  assumes "py_strip reply = ipv4_text a"
  shows "get_local_ip_cidr (Inr reply) = Inr (ipv4_text (a AND 0xFFFFFF00) @ ''/24'')
         \<and> ipv4_text (a AND 0xFFFFFF00) =
              join_with ''.'' [nat_text (unat (drop_bit 24 a AND 255)), nat_text (unat (drop_bit 16 a AND 255)),
                             nat_text (unat (drop_bit 8 a AND 255)), ''0'']
         \<and> a = (a AND 0xFFFFFF00) + (a AND 255) \<and> (a AND 255) \<le> 255"
proof (intro conjI)
  have "nat_text 24 = ''24''" by (simp add: nat_text.simps [of 24] nat_text_digit char_of_eval)
  then show "get_local_ip_cidr (Inr reply) = Inr (ipv4_text (a AND 0xFFFFFF00) @ ''/24'')"
    using assms by (simp add: get_local_ip_cidr_def network_of_address network_text_def)
  show "ipv4_text (a AND 0xFFFFFF00) =
      join_with ''.'' [nat_text (unat (drop_bit 24 a AND 255)), nat_text (unat (drop_bit 16 a AND 255)),
                     nat_text (unat (drop_bit 8 a AND 255)), ''0'']"
    using network_octet [of 3 a] network_octet [of 2 a] network_octet [of 1 a] network_octet [of 0 a]
    by (simp add: ipv4_text_def mask24_eq mask8_eq nat_text_zero)
  show "a = (a AND 0xFFFFFF00) + (a AND 255)"
    using host_part [of a] by (simp add: mask24_eq mask8_eq)
  show "(a AND 255) \<le> 255" by (rule word_and_le1)
qed

theorem local_ip_cidr_is_callers_24_witness:
  "py_strip (''203.0.113.77'' @ [CHR 0x0A]) = ipv4_text 0xCB00714D
   \<and> get_local_ip_cidr (Inr (''203.0.113.77'' @ [CHR 0x0A])) = Inr ''203.0.113.0/24''"
proof -
  have s: "py_strip (''203.0.113.77'' @ [CHR 0x0A]) = ''203.0.113.77''"
    by (simp add: py_strip_def py_isspace_def)
  have t: "ipv4_text 0xCB00714D = ''203.0.113.77''" "ipv4_text (0xCB00714D AND 0xFFFFFF00) = ''203.0.113.0''"
    by (simp_all add: ipv4_text_def nat_text.simps nat_text_digit char_of_eval)
  from local_ip_cidr_is_callers_24 [where reply = "''203.0.113.77'' @ [CHR 0x0A]" and a = "0xCB00714D"] s t
  show ?thesis by simp
qed

end
