(* ===== verification/AwsSetup.thy ===== *)
theory AwsSetup
  imports LocalCidr SecurityGroups Provisioning
begin

text \<open>
  Steps 1 to 5 of \<open>main\<close> in \<^verbatim>\<open>src/infrastructure/aws_infrastructure.py\<close> with the
  helpers of \<^verbatim>\<open>aws_infrastructure_utilities.py\<close> they call: \<open>create_keypair\<close>,
  \<open>create_vpc_and_subnet\<close>, \<open>get_latest_ubuntu_ami\<close> and \<open>create_instances\<close>;
  \<open>get_local_ip_cidr\<close> is in \<open>LocalCidr\<close> and \<open>create_security_groups\<close> in
  \<open>SecurityGroups\<close>. The EC2 API is the environment: each call answers with a result or
  raises. Its answers are typed by the API's response shapes (an image has string
  \<open>CreationDate\<close> and \<open>ImageId\<close>); the key pair calls return dicts.
\<close>

section \<open>Exceptions of the provisioning script\<close>

text \<open>
  \<open>botocore\<close>'s \<open>ClientError\<close> and \<open>ParamValidationError\<close>, \<open>OSError\<close> of the file
  system, \<open>SystemExit\<close> of \<open>exit(1)\<close>, and the Python exceptions of the model.
\<close>

datatype aws_exc =
    ClientError string
  | ParamValidationError string
  | OSError string
  | SystemExit nat
  | PyError py_exc

section \<open>The latest Ubuntu image\<close>

record ami_image =
  ami_creation :: string
  ami_id :: string

text \<open>
  \<open>sorted(images, key=lambda x: x['CreationDate'], reverse=True)\<close>: Python's sort is
  stable also in reverse, so images with the same date keep their order; sorting the
  reversed list ascending and reversing the result is the same. Dates compare as Python
  compares strings, by code points.
\<close>

definition sorted_desc :: "ami_image list \<Rightarrow> ami_image list" where
  "sorted_desc images = rev (sort_key ami_creation (rev images))"

definition get_latest_ubuntu_ami :: "ami_image list \<Rightarrow> aws_exc + string" where
  "get_latest_ubuntu_ami described =
     (let images = sorted_desc described;
          latest_ubuntu_ami = (if images \<noteq> [] then Some (ami_id (hd images)) else None) in
      case latest_ubuntu_ami of
        Some ami \<Rightarrow> if ami \<noteq> [] then Inr ami else Inl (SystemExit 1)
      | None \<Rightarrow> Inl (SystemExit 1))"

text \<open>The reference: the first image, in the order EC2 lists them, with the greatest date.\<close>

definition latest_image_ref :: "ami_image list \<Rightarrow> ami_image option" where
  "latest_image_ref images =
     (case filter (\<lambda>i. ami_creation i = Max (ami_creation ` set images)) images of
        [] \<Rightarrow> None
      | i # _ \<Rightarrow> Some i)"

section \<open>The key pair\<close>

text \<open>
  The private key file the script writes, with its permission bits. The script runs as an
  ordinary user: \<open>open(path, 'w')\<close> of an existing file needs the owner's write bit
  (\<open>0o200\<close>), and a new file gets \<open>0o644\<close> (the usual umask).
\<close>

record key_file =
  kf_content :: string
  kf_mode :: nat

type_synonym key_files = "string \<Rightarrow> key_file option"

definition owner_writable :: "nat \<Rightarrow> bool" where
  "owner_writable m = ((m div 128) mod 2 = 1)"

text \<open>\<open>v[i]\<close> with an integer index.\<close>

fun py_index :: "json \<Rightarrow> nat \<Rightarrow> py_exc + json" where
  "py_index (JArr xs) i = (if i < length xs then Inr (xs ! i) else Inl (IndexError ''list index out of range''))"
| "py_index (JObj _) i = Inl (KeyError (nat_text i))"
| "py_index v i = Inl (TypeError (quoted (py_type_name v) @ '' object is not subscriptable''))"

text \<open>
  The second \<open>try\<close> of \<open>create_keypair\<close>: \<open>create_key_pair\<close>, writing \<open>KeyMaterial\<close> to
  \<open>{key_name}.pem\<close> (\<open>file.write\<close> raises \<open>TypeError\<close> on a value that is not a string,
  after \<open>open\<close> has emptied the file), \<open>chmod 0o400\<close>, and the \<open>KeyName\<close> of the answer;
  \<open>except Exception\<close> turns every failure into \<open>None\<close>.
\<close>

definition create_new_key ::
    "(string \<Rightarrow> aws_exc + json) \<Rightarrow> string \<Rightarrow> key_files \<Rightarrow> key_files \<times> (aws_exc + json)" where
  "create_new_key create_key_pair key_name kf =
     (case create_key_pair key_name of
        Inl _ \<Rightarrow> (kf, Inr JNull)
      | Inr key_pair \<Rightarrow>
          (case py_get key_pair ''KeyMaterial'' of
             Inl _ \<Rightarrow> (kf, Inr JNull)
           | Inr private_key \<Rightarrow>
               (let key_file_path = key_name @ ''.pem'' in
                if (case kf key_file_path of Some f \<Rightarrow> \<not> owner_writable (kf_mode f) | None \<Rightarrow> False)
                then (kf, Inr JNull)
                else
                  (let mode = (case kf key_file_path of Some f \<Rightarrow> kf_mode f | None \<Rightarrow> 420) in
                   case private_key of
                     JStr pem \<Rightarrow>
                       (kf(key_file_path \<mapsto> \<lparr>kf_content = pem, kf_mode = 256\<rparr>),
                        case py_get key_pair ''KeyName'' of Inl _ \<Rightarrow> Inr JNull | Inr key_pair_id \<Rightarrow> Inr key_pair_id)
                   | _ \<Rightarrow> (kf(key_file_path \<mapsto> \<lparr>kf_content = [], kf_mode = mode\<rparr>), Inr JNull)))))"

text \<open>
  \<open>create_keypair\<close>: an existing key pair is returned by name; a \<open>ClientError\<close> saying
  \<open>InvalidKeyPair.NotFound\<close> leads to the creation, another \<open>ClientError\<close> to \<open>None\<close>.
  Other exceptions of the first \<open>try\<close>, a \<open>KeyError\<close> on the answer included, are not caught.
\<close>

definition create_keypair ::
    "(string \<Rightarrow> aws_exc + json) \<Rightarrow> (string \<Rightarrow> aws_exc + json) \<Rightarrow> string \<Rightarrow> key_files
      \<Rightarrow> key_files \<times> (aws_exc + json)" where
  "create_keypair describe_key_pairs create_key_pair key_name kf =
     (case describe_key_pairs key_name of
        Inl (ClientError msg) \<Rightarrow>
          if is_substring ''InvalidKeyPair.NotFound'' msg then create_new_key create_key_pair key_name kf
          else (kf, Inr JNull)
      | Inl e \<Rightarrow> (kf, Inl e)
      | Inr key_pairs \<Rightarrow>
          if \<not> py_truthy key_pairs then create_new_key create_key_pair key_name kf
          else
            (case py_get key_pairs ''KeyPairs'' of
               Inl e \<Rightarrow> (kf, Inl (PyError e))
             | Inr kps \<Rightarrow>
                 if \<not> py_truthy kps then create_new_key create_key_pair key_name kf
                 else
                   (case py_subscript key_pairs ''KeyPairs'' of
                      Inl e \<Rightarrow> (kf, Inl (PyError e))
                    | Inr l \<Rightarrow>
                        (case py_index l 0 of
                           Inl e \<Rightarrow> (kf, Inl (PyError e))
                         | Inr k0 \<Rightarrow>
                             (case py_subscript k0 ''KeyName'' of
                                Inl e \<Rightarrow> (kf, Inl (PyError e))
                              | Inr key_pair_id \<Rightarrow> (kf, Inr key_pair_id))))))"

section \<open>VPC and subnet\<close>

text \<open>
  \<open>create_vpc_and_subnet\<close>: the EC2 calls answer through \<open>call\<close>, by operation name. The
  VPC id is read from \<open>vpc_response['Vpc']['VpcId']\<close>; the subnet is the object
  \<open>create_subnet\<close> returns. Every exception is caught and answered with the tuple
  \<open>(None, None, None)\<close>; tuples are JSON lists here.
\<close>

definition vpc_fail :: json where
  "vpc_fail = JArr [JNull, JNull, JNull]"

definition call_succeeds :: "(string \<Rightarrow> aws_exc + json) \<Rightarrow> string \<Rightarrow> bool" where
  "call_succeeds call op = (case call op of Inr _ \<Rightarrow> True | Inl _ \<Rightarrow> False)"

definition create_vpc_and_subnet :: "(string \<Rightarrow> aws_exc + json) \<Rightarrow> json" where
  "create_vpc_and_subnet call =
     (case call ''create_vpc'' of
        Inl _ \<Rightarrow> vpc_fail
      | Inr vpc_response \<Rightarrow>
          (case py_subscript vpc_response ''Vpc'' of
             Inl _ \<Rightarrow> vpc_fail
           | Inr v \<Rightarrow>
               (case py_subscript v ''VpcId'' of
                  Inl _ \<Rightarrow> vpc_fail
                | Inr vpc_id \<Rightarrow>
                    if \<not> list_all (call_succeeds call)
                         [''create_tags'', ''modify_vpc_attribute'', ''wait_until_available''] then vpc_fail
                    else
                      (case call ''create_subnet'' of
                         Inl _ \<Rightarrow> vpc_fail
                       | Inr subnet \<Rightarrow>
                           if list_all (call_succeeds call)
                                [''create_internet_gateway'', ''attach_internet_gateway'', ''create_route_table'',
                                 ''create_route'', ''associate_with_subnet'']
                           then JArr [vpc_id, subnet] else vpc_fail))))"

text \<open>Tuple unpacking \<open>a, b = v\<close> with \<open>n\<close> targets.\<close>

definition py_unpack :: "nat \<Rightarrow> json \<Rightarrow> py_exc + json list" where
  "py_unpack n v =
     (case py_iter v of
        Inl _ \<Rightarrow> Inl (TypeError (''cannot unpack non-iterable '' @ py_type_name v @ '' object''))
      | Inr xs \<Rightarrow>
          if n < length xs then Inl (ValueError (''too many values to unpack (expected '' @ nat_text n @ '')''))
          else if length xs < n
          then Inl (ValueError (''not enough values to unpack (expected '' @ nat_text n @ '', got '' @ nat_text (length xs) @ '')''))
          else Inr xs)"

text \<open>The value \<open>create_security_groups\<close> returns: the four group ids, or \<open>None\<close>.\<close>

definition sg_tuple :: "(string \<times> string \<times> string \<times> string) option \<Rightarrow> json" where
  "sg_tuple r = (case r of None \<Rightarrow> JNull | Some (g, t, p, m) \<Rightarrow> JArr [JStr g, JStr t, JStr p, JStr m])"

section \<open>Launching instances\<close>

text \<open>
  \<open>create_instances\<close>: \<open>ec2.create_instances\<close> with \<open>MinCount = MaxCount = count\<close>, the
  subnet's id, the group and the tag \<open>Flask-{name_tag}\<close>. botocore checks the parameter
  types before sending: a \<open>KeyName\<close> that is not a string (\<open>None\<close> from
  \<open>create_keypair\<close>) raises \<open>ParamValidationError\<close>. \<open>launch\<close> is the EC2 answer.
\<close>

type_synonym launcher =
  "string \<Rightarrow> string \<Rightarrow> nat \<Rightarrow> json \<Rightarrow> string \<Rightarrow> string \<Rightarrow> string \<Rightarrow> aws_exc + ec2_instance list"

definition create_instances ::
    "launcher \<Rightarrow> string \<Rightarrow> string \<Rightarrow> nat \<Rightarrow> json \<Rightarrow> json \<Rightarrow> string \<Rightarrow> json \<Rightarrow> aws_exc + ec2_instance list" where
  "create_instances launch latest_ubuntu_ami instance_type count subnet sg_id name_tag keyname =
     (case keyname of
        JStr k \<Rightarrow>
          (case sg_id of
             JStr g \<Rightarrow> launch latest_ubuntu_ami instance_type count subnet g (''Flask-'' @ name_tag) k
           | v \<Rightarrow> Inl (ParamValidationError (''Invalid type for parameter NetworkInterfaces[0].Groups[0], value: ''
                      @ py_str v)))
      | v \<Rightarrow> Inl (ParamValidationError (''Invalid type for parameter KeyName, value: '' @ py_str v)))"

section \<open>Steps 1 to 8 of \<open>main\<close>\<close>

text \<open>
  The configuration (\<open>config.py\<close>, not part of the sources): the key name, and the
  instance type and count of each role.
\<close>

record aws_config =
  SECRET_KEY_NAME :: string
  MYSQL_NODE_TYPE :: string
  MYSQL_NODE_COUNT :: nat
  PROXY_MANAGER_NODE_TYPE :: string
  PROXY_MANAGER_NODE_COUNT :: nat
  TRUSTED_HOST_NODE_TYPE :: string
  TRUSTED_HOST_NODE_COUNT :: nat
  GATEKEEPER_NODE_TYPE :: string
  GATEKEEPER_NODE_COUNT :: nat

text \<open>The answers of AWS, ipify and SSH the script meets.\<close>

record aws_env =
  describe_key_pairs :: "string \<Rightarrow> aws_exc + json"
  create_key_pair :: "string \<Rightarrow> aws_exc + json"
  ipify :: "py_exc + string"
  vpc_call :: "string \<Rightarrow> aws_exc + json"
  describe_images :: "aws_exc + ami_image list"
  launch :: launcher
  ssh_reach :: "string \<Rightarrow> bool"
  listing :: "string \<Rightarrow> string list"

text \<open>What the script changes: key files, the EC2 security groups, local files and the hosts.\<close>

record aws_state =
  key_files_of :: key_files
  net_of :: ec2_net
  local_files :: "string \<Rightarrow> cfg_file"
  remote_of :: remote

definition aws_main :: "aws_config \<Rightarrow> aws_env \<Rightarrow> aws_state \<Rightarrow> aws_state \<times> (aws_exc + unit)" where
  "aws_main cfg env st =
     (case create_keypair (describe_key_pairs env) (create_key_pair env) (SECRET_KEY_NAME cfg) (key_files_of st) of
        (kf, Inl e) \<Rightarrow> (st\<lparr>key_files_of := kf\<rparr>, Inl e)
      | (kf, Inr key_pair) \<Rightarrow>
          let st1 = st\<lparr>key_files_of := kf\<rparr> in
          (case get_local_ip_cidr (ipify env) of
             Inl e \<Rightarrow> (st1, Inl (PyError e))
           | Inr local_ip_cidr \<Rightarrow>
               (case py_unpack 2 (create_vpc_and_subnet (vpc_call env)) of
                  Inl e \<Rightarrow> (st1, Inl (PyError e))
                | Inr vs \<Rightarrow>
                    (let vpc_id = vs ! 0; subnet = vs ! 1;
                         (net1, sgs) = create_security_groups (py_str vpc_id) local_ip_cidr (net_of st1);
                         st2 = st1\<lparr>net_of := net1\<rparr> in
                     case py_unpack 4 (sg_tuple sgs) of
                       Inl e \<Rightarrow> (st2, Inl (PyError e))
                     | Inr groups \<Rightarrow>
                         (let gatekeeper_sg = groups ! 0; trusted_host_sg = groups ! 1;
                              proxy_manager_sg = groups ! 2; mysql_sg = groups ! 3 in
                          case (case describe_images env of Inl e \<Rightarrow> Inl e | Inr imgs \<Rightarrow> get_latest_ubuntu_ami imgs) of
                            Inl e \<Rightarrow> (st2, Inl e)
                          | Inr ubuntu_ami_id \<Rightarrow>
                              (case create_instances (launch env) ubuntu_ami_id (MYSQL_NODE_TYPE cfg) (MYSQL_NODE_COUNT cfg)
                                      subnet mysql_sg ''MySQLNodes'' key_pair of
                                 Inl e \<Rightarrow> (st2, Inl e)
                               | Inr mysql_instances \<Rightarrow>
                                   (case create_instances (launch env) ubuntu_ami_id (PROXY_MANAGER_NODE_TYPE cfg)
                                           (PROXY_MANAGER_NODE_COUNT cfg) subnet proxy_manager_sg ''ProxyManagerNode'' key_pair of
                                      Inl e \<Rightarrow> (st2, Inl e)
                                    | Inr proxy_manager_instances \<Rightarrow>
                                        (case create_instances (launch env) ubuntu_ami_id (TRUSTED_HOST_NODE_TYPE cfg)
                                                (TRUSTED_HOST_NODE_COUNT cfg) subnet trusted_host_sg ''TrustedHostNode'' key_pair of
                                           Inl e \<Rightarrow> (st2, Inl e)
                                         | Inr trusted_host_instances \<Rightarrow>
                                             (case create_instances (launch env) ubuntu_ami_id (GATEKEEPER_NODE_TYPE cfg)
                                                     (GATEKEEPER_NODE_COUNT cfg) subnet gatekeeper_sg ''GateKeeperNode'' key_pair of
                                                Inl e \<Rightarrow> (st2, Inl e)
                                              | Inr gatekeeper_instances \<Rightarrow>
                                                  (let fs = collect_and_save mysql_instances proxy_manager_instances
                                                              trusted_host_instances gatekeeper_instances (local_files st2);
                                                       st3 = st2\<lparr>local_files := fs\<rparr> in
                                                   case deploy_all (ssh_reach env) fs (listing env) (remote_of st3) of
                                                     Inl e \<Rightarrow> (st3, Inl (PyError e))
                                                   | Inr r \<Rightarrow> (st3\<lparr>remote_of := r\<rparr>, Inr ())))))))))))"

section \<open>Lemmas on the image order\<close>

lemma last_filter_last: "xs \<noteq> [] \<Longrightarrow> P (last xs) \<Longrightarrow> last (filter P xs) = last xs"
  by (induction xs) (auto simp: filter_empty_conv)

lemma last_sorted_max:
  assumes "zs \<noteq> []" and "sorted (map f zs)"
  shows "f (last zs) = Max (f ` set zs)"
proof (rule antisym)
  show "f (last zs) \<le> Max (f ` set zs)" using assms(1) by simp
  have "\<forall>z\<in>set zs. f z \<le> f (last zs)"
    using assms by (induction zs rule: induct_list012) auto
  then show "Max (f ` set zs) \<le> f (last zs)" using assms(1) by simp
qed

lemma hd_sorted_desc:
  assumes "images \<noteq> []"
  shows "hd (sorted_desc images) = hd (filter (\<lambda>i. ami_creation i = Max (ami_creation ` set images)) images)"
proof -
  let ?zs = "sort_key ami_creation (rev images)"
  let ?P = "\<lambda>i. ami_creation i = Max (ami_creation ` set images)"
  have ne: "?zs \<noteq> []" using assms by (metis length_sort length_rev length_0_conv)
  have "ami_creation (last ?zs) = Max (ami_creation ` set ?zs)"
    by (rule last_sorted_max [OF ne]) simp
  then have pl: "?P (last ?zs)" by simp
  have "last ?zs = last (filter ?P ?zs)" using last_filter_last [OF ne, of ?P] pl by simp
  also have "filter ?P ?zs = filter ?P (rev images)" by (rule sort_key_stable)
  also have "last (filter ?P (rev images)) = hd (filter ?P images)" by (simp add: rev_filter [symmetric] last_rev)
  finally show ?thesis by (simp add: sorted_desc_def hd_rev)
qed

section \<open>Failure paths of \<open>main\<close>\<close>

text \<open>
  \<open>create_vpc_and_subnet\<close> answers a failure with three \<open>None\<close>s, but \<open>main\<close> unpacks two
  values: the script stops with \<open>ValueError\<close> instead of reporting the AWS error.
\<close>

lemma unpack_vpc_fail: "py_unpack 2 vpc_fail = Inl (ValueError ''too many values to unpack (expected 2)'')"
  by (simp add: py_unpack_def vpc_fail_def nat_text_digit char_of_eval)

lemma aws_main_vpc_failure:
  assumes "create_keypair (describe_key_pairs env) (create_key_pair env) (SECRET_KEY_NAME cfg) (key_files_of st) = (kf, Inr kp)"
    and "get_local_ip_cidr (ipify env) = Inr c"
    and "vpc_call env ''create_vpc'' = Inl e"
  shows "aws_main cfg env st =
           (st\<lparr>key_files_of := kf\<rparr>, Inl (PyError (ValueError ''too many values to unpack (expected 2)'')))"
  using assms by (simp add: aws_main_def create_vpc_and_subnet_def unpack_vpc_fail)

text \<open>
  A failed \<open>create_security_groups\<close> returns \<open>None\<close>, which \<open>main\<close> unpacks into four
  names: \<open>TypeError\<close>, after the groups created so far are kept in EC2.
\<close>

lemma aws_main_sg_failure:
  assumes "create_keypair (describe_key_pairs env) (create_key_pair env) (SECRET_KEY_NAME cfg) (key_files_of st) = (kf, Inr kp)"
    and "get_local_ip_cidr (ipify env) = Inr c"
    and "create_vpc_and_subnet (vpc_call env) = JArr [v, sn]"
    and "create_security_groups (py_str v) c (net_of st) = (net1, None)"
  shows "aws_main cfg env st =
           (st\<lparr>key_files_of := kf, net_of := net1\<rparr>,
            Inl (PyError (TypeError ''cannot unpack non-iterable NoneType object'')))"
  using assms by (simp add: aws_main_def py_unpack_def sg_tuple_def)

text \<open>
  A key file left read-only by an earlier run makes \<open>create_new_key\<close> answer \<open>None\<close>
  (\<open>open\<close> raises \<open>PermissionError\<close>), and the first launch fails parameter validation.
\<close>

lemma stale_key_file_none:
  assumes "ckp key_name = Inr kp" and "py_get kp ''KeyMaterial'' = Inr pem"
    and "kf (key_name @ ''.pem'') = Some f" and "\<not> owner_writable (kf_mode f)"
  shows "create_new_key ckp key_name kf = (kf, Inr JNull)"
  using assms by (simp add: create_new_key_def)

lemma launch_without_key: "create_instances lnch ami ty n sn sg tag JNull =
    Inl (ParamValidationError ''Invalid type for parameter KeyName, value: None'')"
  by (simp add: create_instances_def)

section \<open>Properties\<close>

text \<open>
  C39. \<open>get_latest_ubuntu_ami\<close> implements its specification: it returns the \<open>ImageId\<close> of
  the first image, in the order \<open>describe_images\<close> lists them, among those with the latest
  \<open>CreationDate\<close>, and ends the script with \<open>exit(1)\<close> when there is no image or that
  image's id is empty.
\<close>

theorem latest_ami_is_reference:
  "get_latest_ubuntu_ami images =
     (case latest_image_ref images of
        None \<Rightarrow> Inl (SystemExit 1)
      | Some i \<Rightarrow> if ami_id i = [] then Inl (SystemExit 1) else Inr (ami_id i))"
proof (cases "images = []")
  case True
  then show ?thesis by (simp add: get_latest_ubuntu_ami_def latest_image_ref_def sorted_desc_def)
next
  case False
  let ?P = "\<lambda>i. ami_creation i = Max (ami_creation ` set images)"
  have "Max (ami_creation ` set images) \<in> ami_creation ` set images" using False by simp
  then have fne: "filter ?P images \<noteq> []" by (auto simp: filter_empty_conv)
  have sne: "sorted_desc images \<noteq> []" using False unfolding sorted_desc_def
    by (metis length_sort length_rev length_0_conv)
  show ?thesis
    using hd_sorted_desc [OF False] fne sne
    by (cases "filter ?P images") (simp_all add: get_latest_ubuntu_ami_def latest_image_ref_def)
qed

end
