(* ===== verification/Spec2Isabelle.thy ===== *)
theory Spec2Isabelle
  imports Replication Credentials SecurityGroups Provisioning Benchmark AwsSetup
begin

text \<open>
  \<^bold>\<open>A verification model of the MySQL cluster with Gatekeeper, Trusted Host and Proxy
  Manager.\<close>

  \<^emph>\<open>The program.\<close> Five Flask services under \<^verbatim>\<open>src/mysql\<close> relay an SQL statement
  from an untrusted client to a replicated MySQL cluster: the Gatekeeper
  (\<^verbatim>\<open>gatekeeper/gatekeeper_app.py\<close>) checks the statement against a character
  allow-list and relays to the Trusted Host (\<^verbatim>\<open>trusted_host/trusted_host_app.py\<close>),
  which validates the fields and the mode, checks the credential headers and relays to
  the Proxy Manager (\<^verbatim>\<open>proxy_manager/proxy_manager_app.py\<close>), which picks a database
  node by the mode (for CUSTOMIZED by pinging every replica) and relays to its
  \<open>/read\<close> or \<open>/write\<close> endpoint. The primary (\<^verbatim>\<open>master/master_app.py\<close>) executes a
  write locally and replays it to every other node; replicas (\<^verbatim>\<open>slave/slave_app.py\<close>)
  execute a single statement. Every service reads its JSON membership file on each
  request; the provisioning script (\<^verbatim>\<open>src/infrastructure/aws_infrastructure*.py\<close>)
  writes those files and \<^verbatim>\<open>aws_remote_app_deployment.py\<close> starts each application
  with gunicorn on port 80 of its host.

  \<^emph>\<open>Theories and what they model.\<close>
  \<^item> \<open>Prelude\<close>: named theorem collections; generic facts on lists, options and sums.
  \<^item> \<open>PyRuntime\<close>: JSON values, the Python exceptions (a sum type, \<open>Inl\<close> = raised) and
    builtins the services use, Flask's responses and view-return conversion,
    \<open>requests\<close>' \<open>json()\<close> and \<open>text\<close>, and the transport type \<open>'w post\<close>: one HTTP call in
    a world \<open>'w\<close>, \<open>None\<close> when it never returns.
  \<^item> \<open>Membership\<close>: \<open>collect_instance_data\<close> of \<^verbatim>\<open>aws_infrastructure_utilities.py\<close>,
    role tags, well-formed descriptors, the one-primary invariant, an example cluster.
  \<^item> \<open>ProxyManager\<close>: \<open>fetch_master_node\<close>, \<open>select_random_read_node\<close> (the draw of
    \<open>random.choice\<close> is an argument), \<open>find_lowest_latency_instance\<close> over any probe,
    \<open>forward_query_request\<close> and \<open>process_query\<close>; a reference specification of
    CUSTOMIZED (\<open>respondents\<close>, \<open>first_min\<close>) and the proof that the loop computes it.
  \<^item> \<open>Ping\<close>: \<open>ping_address\<close>: \<open>str.splitlines\<close>, \<open>split\<close>, \<open>float\<close> over the rationals;
    the ping command is the environment \<open>ping_run\<close>.
  \<^item> \<open>ReplicaNode\<close>, \<open>PrimaryNode\<close>: the three endpoints of each node over an abstract
    MySQL engine (\<open>'db engine\<close>); the primary's replays go through the transport.
  \<^item> \<open>Gatekeeper\<close>: the sanitisation pattern as data, a matcher with \<open>re.match\<close>'s
    meaning proved equal to the allow-list language, and \<open>handle_query_request\<close>.
  \<^item> \<open>TrustedHost\<close>: credentials, mode check, \<open>forward_query\<close> and \<open>process_query\<close>.
  \<^item> \<open>Deployment\<close>: \<open>deploy_instance\<close>, \<open>setup_deployment\<close> and the five entry points, as
    their effect on the table from host to the module serving its port 80.
  \<^item> \<open>Cluster\<close>: the route table of each application, the transport \<open>serve n\<close> that
    delivers a POST to the application deployed on the URL's host over a world of
    per-host database states, well-formed deployments, the routing contract
    \<open>spec_target\<close>, and an example deployment evaluated end to end.

  \<^emph>\<open>Claims.\<close> C1-C6 the Proxy Manager's routing and handler; C7-C10 the nodes
  (replicated write, the primary keeps its local write, replica outcomes, read
  equivalence); C11-C16 the Gatekeeper (pattern language, rejections before any
  downstream call, relay, error answers); C17-C21 the Trusted Host (check order,
  credentials, case-insensitive mode, relay, non-string mode); C22-C23 the ping
  probe (round trip of the printed time, failures); C24 the deployment order; C25 the
  whole chain refines the routing contract; C26 every 200 answer of the cluster is a
  JSON container.

  \<^emph>\<open>Fuel.\<close> \<open>serve n\<close> allows \<open>n\<close> nested HTTP calls: a client request needs five
  (gatekeeper, trusted host, proxy manager, primary, replica); C25 is stated for any
  fuel above the three hops it unfolds, C26 for every fuel. Fuel stands for the
  absence of timeouts in the services: \<open>None\<close> is a call that has not returned.

  \<^emph>\<open>Not modelled.\<close> AWS provisioning calls (instances, VPC, security groups), the
  package installs, uploads and sysbench runs of the deployment script, the benchmark
  client (I/O around the core); SQL semantics (the database is an abstract engine);
  logging; spellings of floats other than decimal literals in ping's output.
\<close>

text \<open>
  C33. The database nodes answer anyone: a POST to a replica's \<open>/write\<close> (which the
  MySQL nodes' security group admits from any address, C32) is executed without passing
  the gatekeeper's sanitisation, the trusted host's credentials or the primary, and a
  write that changes the replica's state leaves the database hosts out of step, which
  no sequence of requests through the gatekeeper can do (C30).
\<close>

theorem direct_replica_write_breaks_sync:
  assumes wf: "wf_deployment D gk th pm ds" and d: "d \<in> set ds" "\<not> is_master_desc d"
    and h: "desc_field d ''PublicIP'' = JStr h"
    and sync: "in_sync ds w" and q: "py_truthy q" and ch: "write_state (eng D) q (w h) \<noteq> w h"
  shows "\<exists>res. serve (Suc n) D r w (node_url (JStr h) ''/write'') (JObj [(''query'', q)]) hs
            = Some (w(h := write_state (eng D) q (w h)), res)
         \<and> \<not> in_sync ds (w(h := write_state (eng D) q (w h)))"
proof -
  obtain h' where h': "desc_field d ''PublicIP'' = JStr h'" "url_host h'"
    "apps D h' = Some (if is_master_desc d then ''master_app'' else ''slave_app'')"
    using db_host_facts [OF wf d(1)] by blast
  with h d(2) have hs_: "url_host h" "apps D h = Some ''slave_app''" by simp_all
  obtain w1 res where s: "serve (Suc n) D r w (node_url (JStr h) ''/write'') (JObj [(''query'', q)]) hs = Some (w1, res)"
    using serve_slave_returns [OF hs_, of n r w "''/write''" "JObj [(''query'', q)]" hs] by auto
  have w1: "w1 = w(h := write_state (eng D) q (w h))"
    using serve_slave_write [OF hs_ q] s by blast
  have "filter is_master_desc ds \<noteq> []" using wf by (auto simp: wf_deployment_def one_master_def)
  then obtain m where m: "m \<in> set ds" "is_master_desc m" by (auto simp: filter_nonempty_iff)
  obtain hm where hm: "desc_field m ''PublicIP'' = JStr hm"
    using db_host_facts [OF wf m(1)] by blast
  have "m \<noteq> d" using m(2) d(2) by blast
  moreover have "distinct (map (\<lambda>d. desc_field d ''PublicIP'') ds)" using wf by (simp add: wf_deployment_def)
  ultimately have "hm \<noteq> h" using m(1) d(1) hm h by (metis distinct_map inj_on_eq_iff json.inject(4))
  have in_db: "h \<in> db_hosts ds" "hm \<in> db_hosts ds" using d(1) h m(1) hm by (force simp: db_hosts_def)+
  then have "w hm = w h" using sync by (auto simp: in_sync_def)
  then have "\<not> in_sync ds (w(h := write_state (eng D) q (w h)))"
    using in_db ch \<open>hm \<noteq> h\<close> by (auto simp: in_sync_def)
  with s w1 show ?thesis by blast
qed

theorem direct_replica_write_breaks_sync_witness:
  "wf_deployment example_cluster ''G'' ''T'' ''P'' example_members
   \<and> example_members ! 1 \<in> set example_members \<and> \<not> is_master_desc (example_members ! 1)
   \<and> desc_field (example_members ! 1) ''PublicIP'' = JStr ''B''
   \<and> in_sync example_members (\<lambda>_. 0::nat) \<and> py_truthy (JStr ''INSERT INTO t VALUES (1)'')
   \<and> write_state (eng example_cluster) (JStr ''INSERT INTO t VALUES (1)'') 0 = 1
   \<and> (\<exists>res. serve (Suc 0) example_cluster 0 (\<lambda>_. 0) (node_url (JStr ''B'') ''/write'')
          (JObj [(''query'', JStr ''INSERT INTO t VALUES (1)'')]) [] = Some ((\<lambda>_. 0)(''B'' := 1), res))
   \<and> \<not> in_sync example_members ((\<lambda>_. 0::nat)(''B'' := 1))"
proof -
  have d: "example_members ! 1 \<in> set example_members" "\<not> is_master_desc (example_members ! 1)"
    "desc_field (example_members ! 1) ''PublicIP'' = JStr ''B''"
    by (simp_all add: example_members_eval is_master_desc_def desc_field_def MASTER_NAME_def SLAVE_NAME_def)
  have s: "in_sync example_members (\<lambda>_. 0::nat)" by (auto simp: in_sync_def)
  have q: "py_truthy (JStr ''INSERT INTO t VALUES (1)'')" by simp
  have ws: "write_state (eng example_cluster) (JStr ''INSERT INTO t VALUES (1)'') 0 = 1"
    by (simp add: write_state_def example_cluster_def example_engine_def get_db_connection_def)
  from direct_replica_write_breaks_sync [OF example_cluster_wf d s q, where n = 0 and r = 0 and hs = "[]"] ws
  show ?thesis using example_cluster_wf d s q by simp
qed



end
